(* ===== verification/Prelude.thy ===== *)
theory Prelude
  imports Main "HOL-Library.Word" "HOL-Library.State_Monad" "HOL-Library.Multiset"
begin

text \<open>
  Shared vocabulary of the development: Go's fixed-width integers, its error values and
  their wrapping, decimal formatting and parsing (\<^verbatim>\<open>fmt.Sprint\<close>, \<^verbatim>\<open>strconv.Atoi\<close>), the
  effect type of code that talks to the outside world, and generic lemmas on lists.
\<close>

section \<open>Machine integers\<close>

type_synonym int32 = "32 word"
type_synonym int64 = "64 word"

text \<open>Go's \<^verbatim>\<open>int\<close> on the 64-bit platforms the images are built for.\<close>

type_synonym goint = "64 word"

text \<open>A point in time: nanoseconds since 0001-01-01T00:00:00 UTC, the epoch of Go's \<^verbatim>\<open>time.Time\<close>.\<close>

type_synonym instant = int

text \<open>A \<^verbatim>\<open>time.Duration\<close>: signed 64-bit nanoseconds.\<close>

type_synonym duration = int64

named_theorems go_int "evaluation of fixed-width Go arithmetic"
named_theorems go_eval "definitions to unfold when a concrete run is evaluated"

definition second :: duration where
  "second = 1000000000"

text \<open>Go integer division truncates toward zero (and panics on a zero divisor, excluded by callers).\<close>

definition go_div64 :: "int64 \<Rightarrow> int64 \<Rightarrow> int64" where
  "go_div64 a b = word_of_int (sgn (sint a) * sgn (sint b) * (\<bar>sint a\<bar> div \<bar>sint b\<bar>))"

text \<open>\<^verbatim>\<open>t.Sub(u)\<close> saturates at the ends of the duration range; \<^verbatim>\<open>t.Add(d)\<close> is exact.\<close>

definition time_sub :: "instant \<Rightarrow> instant \<Rightarrow> duration" where
  "time_sub t u = word_of_int (max (- (2 ^ 63)) (min (2 ^ 63 - 1) (t - u)))"

definition time_add :: "instant \<Rightarrow> duration \<Rightarrow> instant" where
  "time_add t d = t + sint d"

text \<open>\<^verbatim>\<open>IsZero\<close> of an optional timestamp: absent, or the zero instant.\<close>

definition time_is_zero :: "instant option \<Rightarrow> bool" where
  "time_is_zero t \<longleftrightarrow> t = None \<or> t = Some 0"

lemma sint64_small: "- (2 ^ 63) \<le> i \<Longrightarrow> i < 2 ^ 63 \<Longrightarrow> sint (word_of_int i :: 64 word) = i"
  by (simp add: sint_sbintrunc' signed_take_bit_int_eq_self)

lemma sint32_small: "- (2 ^ 31) \<le> i \<Longrightarrow> i < 2 ^ 31 \<Longrightarrow> sint (word_of_int i :: 32 word) = i"
  by (simp add: sint_sbintrunc' signed_take_bit_int_eq_self)

lemma sint64_range: "- (2 ^ 63) \<le> sint (a :: 64 word)" "sint (a :: 64 word) < 2 ^ 63"
  using sint_greater_eq [of a] sint_less [of a] by simp_all

lemma sint32_range: "- (2 ^ 31) \<le> sint (a :: 32 word)" "sint (a :: 32 word) < 2 ^ 31"
  using sint_greater_eq [of a] sint_less [of a] by simp_all

lemma sint_scast_32_64 [simp]: "sint (scast (a :: int32) :: int64) = sint a"
  using sint32_range [of a] sint64_small [of "sint a"] by simp

lemma sint64_wrap: "sint (word_of_int i :: 64 word) = (i + 2 ^ 63) mod 2 ^ 64 - 2 ^ 63"
  by (simp add: sint_sbintrunc' signed_take_bit_eq_take_bit_shift take_bit_eq_mod)

lemma sint_push_bit_64:
  "sint (push_bit n (word_of_int i :: 64 word)) = (i * 2 ^ n + 2 ^ 63) mod 2 ^ 64 - 2 ^ 63"
proof -
  have "push_bit n (word_of_int i :: 64 word) = word_of_int (i * 2 ^ n)"
    by (simp add: push_bit_eq_mult)
  then show ?thesis by (simp only: sint64_wrap)
qed

lemma push_bit_64_drop: "64 \<le> n \<Longrightarrow> push_bit n (a :: 64 word) = 0"
  by (rule bit_word_eqI) (auto simp: bit_push_bit_iff)

lemma sint_Suc32: "sint (a :: int32) < sint (b :: int32) \<Longrightarrow> sint (a + 1) = sint a + 1"
proof -
  assume "sint a < sint b"
  then have "sint (word_of_int (sint a + 1) :: 32 word) = sint a + 1"
    using sint32_range [of a] sint32_range [of b] by (intro sint32_small) auto
  then show ?thesis by simp
qed

lemma sint_time_sub: "sint (time_sub t u) = max (- (2 ^ 63)) (min (2 ^ 63 - 1) (t - u))"
  unfolding time_sub_def by (rule sint64_small) auto

lemma time_sub_pos [simp]: "0 < sint (time_sub t u) \<longleftrightarrow> u < t"
  by (auto simp: sint_time_sub)

section \<open>Errors\<close>

text \<open>
  Go error values. \<open>Wrapf pre e post\<close> is \<^verbatim>\<open>fmt.Errorf(pre + "%w" + post, e)\<close>; \<open>ApiNotFound\<close>
  and \<open>ApiAlreadyExists\<close> are the Kubernetes status errors the code distinguishes, \<open>ErrNoRows\<close>
  is pgx's, and \<open>Opaque\<close> is any other error of an external call, by its text. \<open>Panic\<close> is a Go
  run-time panic, which the frameworks around the code (controller-runtime, net/http) recover
  from and report as an error.
\<close>

datatype go_error =
    ErrNotFound
  | ErrValidation
  | ErrNoRows
  | ApiNotFound string
  | ApiAlreadyExists string
  | Opaque string
  | Panic string
  | Wrapf string go_error string

fun error_text :: "go_error \<Rightarrow> string" where
  "error_text ErrNotFound = ''job not found''"
| "error_text ErrValidation = ''validation failed''"
| "error_text ErrNoRows = ''no rows in result set''"
| "error_text (ApiNotFound s) = s"
| "error_text (ApiAlreadyExists s) = s"
| "error_text (Opaque s) = s"
| "error_text (Panic s) = s"
| "error_text (Wrapf pre e post) = pre @ error_text e @ post"

text \<open>\<^verbatim>\<open>errors.Is\<close>: the target is the error itself or something it wraps.\<close>

fun errors_is :: "go_error \<Rightarrow> go_error \<Rightarrow> bool" where
  "errors_is (Wrapf pre e post) target = (Wrapf pre e post = target \<or> errors_is e target)"
| "errors_is e target = (e = target)"

text \<open>\<^verbatim>\<open>apierrors.IsNotFound\<close> and \<^verbatim>\<open>apierrors.IsAlreadyExists\<close> look through wrapping as well.\<close>

fun IsNotFound :: "go_error \<Rightarrow> bool" where
  "IsNotFound (ApiNotFound s) = True"
| "IsNotFound (Wrapf pre e post) = IsNotFound e"
| "IsNotFound e = False"

fun IsAlreadyExists :: "go_error \<Rightarrow> bool" where
  "IsAlreadyExists (ApiAlreadyExists s) = True"
| "IsAlreadyExists (Wrapf pre e post) = IsAlreadyExists e"
| "IsAlreadyExists e = False"

text \<open>\<^verbatim>\<open>fmt.Errorf("ctx: %w", err)\<close>.\<close>

definition errorf :: "string \<Rightarrow> go_error \<Rightarrow> go_error" where
  "errorf ctx e = Wrapf (ctx @ '': '') e ''''"

lemma errors_is_errorf [simp]:
  "errors_is (errorf ctx e) ErrNotFound = errors_is e ErrNotFound"
  "errors_is (errorf ctx e) ErrValidation = errors_is e ErrValidation"
  by (simp_all add: errorf_def)

lemma api_errors_errorf [simp]:
  "IsNotFound (errorf ctx e) = IsNotFound e"
  "IsAlreadyExists (errorf ctx e) = IsAlreadyExists e"
  by (simp_all add: errorf_def)

section \<open>Effects\<close>

text \<open>
  A call that reads or changes the world \<open>'w\<close> and may fail. A Go function returning
  \<^verbatim>\<open>(T, error)\<close> is an \<open>('w, 'a) eff\<close>; \<^verbatim>\<open>if err != nil\<close> is the case split on the sum.
\<close>

type_synonym ('w, 'a) eff = "('w, go_error + 'a) state"

abbreviation ret :: "'a \<Rightarrow> ('w, 'a) state" where
  "ret \<equiv> State_Monad.return"

lemma run_state_State [simp]: "run_state (State f) w = f w"
  by simp

section \<open>Decimal formatting and parsing\<close>

definition digit_char :: "nat \<Rightarrow> char" where
  "digit_char d = char_of (48 + d)"

definition is_digit_char :: "char \<Rightarrow> bool" where
  "is_digit_char c \<longleftrightarrow> 48 \<le> (of_char c :: nat) \<and> (of_char c :: nat) \<le> 57"

definition digit_val :: "char \<Rightarrow> nat" where
  "digit_val c = of_char c - 48"

fun show_nat :: "nat \<Rightarrow> string" where
  "show_nat n = (if n < 10 then [digit_char n] else show_nat (n div 10) @ [digit_char (n mod 10)])"

declare show_nat.simps [simp del]
declare show_nat.simps [go_eval]

text \<open>\<^verbatim>\<open>%d\<close> and \<^verbatim>\<open>fmt.Sprint\<close> of a signed integer.\<close>

definition show_int :: "int \<Rightarrow> string" where
  "show_int i = (if i < 0 then ''-'' @ show_nat (nat (- i)) else show_nat (nat i))"

definition parse_digits :: "string \<Rightarrow> nat" where
  "parse_digits s = foldl (\<lambda>acc c. 10 * acc + digit_val c) 0 s"

text \<open>
  The digit loop of \<^verbatim>\<open>strconv\<close>: \<open>None\<close> for a character that is no digit, and the largest
  64-bit value as soon as the number leaves the range.
\<close>

fun uint_loop :: "nat \<Rightarrow> string \<Rightarrow> nat option" where
  "uint_loop n [] = Some n"
| "uint_loop n (c # cs) =
     (if \<not> is_digit_char c then None
      else if 2 ^ 64 \<le> 10 * n + digit_val c then Some (2 ^ 64 - 1)
      else uint_loop (10 * n + digit_val c) cs)"

text \<open>
  \<^verbatim>\<open>strconv.Atoi\<close>: the value and whether \<^verbatim>\<open>err\<close> is nil. A syntax error yields 0, a range error
  the nearest representable value.
\<close>

definition atoi :: "string \<Rightarrow> goint \<times> bool" where
  "atoi s =
     (let neg = (s \<noteq> [] \<and> hd s = CHR ''-'');
          body = (if s \<noteq> [] \<and> (hd s = CHR ''-'' \<or> hd s = CHR ''+'') then tl s else s)
      in if body = [] then (0, False)
         else case uint_loop 0 body of
           None \<Rightarrow> (0, False)
         | Some un \<Rightarrow>
             if \<not> neg \<and> 2 ^ 63 \<le> un then (word_of_int (2 ^ 63 - 1), False)
             else if neg \<and> 2 ^ 63 < un then (word_of_int (- (2 ^ 63)), False)
             else (word_of_int (if neg then - int un else int un), True))"

lemma digit_char_simps [simp]:
  "digit_char 0 = CHR ''0''" "digit_char 1 = CHR ''1''" "digit_char (Suc 0) = CHR ''1''"
  "digit_char 2 = CHR ''2''" "digit_char 3 = CHR ''3''" "digit_char 4 = CHR ''4''"
  "digit_char 5 = CHR ''5''" "digit_char 6 = CHR ''6''" "digit_char 7 = CHR ''7''"
  "digit_char 8 = CHR ''8''" "digit_char 9 = CHR ''9''"
  by (simp_all add: digit_char_def char_of_def bit_0 bit_Suc)

declare show_int_def [go_eval]

lemma unat_word_of_nat_32 [simp]: "i < 2 ^ 32 \<Longrightarrow> unat (word_of_nat i :: 32 word) = i"
  by (simp add: unat_of_nat)

lemma of_char_digit_char: "d < 10 \<Longrightarrow> of_char (digit_char d) = (48 + d :: nat)"
  by (simp add: digit_char_def)

lemma is_digit_digit_char [simp]: "d < 10 \<Longrightarrow> is_digit_char (digit_char d)"
  by (simp add: is_digit_char_def of_char_digit_char)

lemma digit_val_digit_char [simp]: "d < 10 \<Longrightarrow> digit_val (digit_char d) = d"
  by (simp add: digit_val_def of_char_digit_char)

lemma parse_digits_snoc: "parse_digits (s @ [c]) = 10 * parse_digits s + digit_val c"
  by (simp add: parse_digits_def)

lemma parse_digits_Nil [simp]: "parse_digits [] = 0"
  by (simp add: parse_digits_def)

lemma show_nat_nonempty [simp]: "show_nat n \<noteq> []"
  by (subst show_nat.simps) simp

lemma show_nat_digits: "list_all is_digit_char (show_nat n)"
proof (induction n rule: show_nat.induct)
  case (1 n)
  show ?case
  proof (cases "n < 10")
    case True
    then show ?thesis by (subst show_nat.simps) simp
  next
    case False
    with "1.IH" show ?thesis by (subst show_nat.simps) simp
  qed
qed

lemma parse_show_nat [simp]: "parse_digits (show_nat n) = n"
proof (induction n rule: show_nat.induct)
  case (1 n)
  show ?case
  proof (cases "n < 10")
    case True
    then show ?thesis by (subst show_nat.simps) (simp add: parse_digits_def)
  next
    case False
    with "1.IH" show ?thesis by (subst show_nat.simps) (simp add: parse_digits_snoc)
  qed
qed

lemma show_nat_inj: "show_nat m = show_nat n \<Longrightarrow> m = n"
  by (metis parse_show_nat)

lemma digit_not_sign:
  "is_digit_char c \<Longrightarrow> c \<noteq> CHR ''-''"
  "is_digit_char c \<Longrightarrow> c \<noteq> CHR ''+''"
  by (auto simp: is_digit_char_def)

lemma hd_show_nat_digit: "is_digit_char (hd (show_nat n))"
  using show_nat_digits [of n] by (cases "show_nat n") auto

lemma show_int_inj: "show_int i = show_int j \<Longrightarrow> i = j"
proof -
  assume eq: "show_int i = show_int j"
  have hd_int: "(hd (show_int k) = CHR ''-'') = (k < 0)" for k
    using hd_show_nat_digit [of "nat k"] by (auto simp: show_int_def dest: digit_not_sign)
  from eq have "(i < 0) = (j < 0)" by (metis hd_int)
  with eq show ?thesis
    by (auto simp: show_int_def split: if_splits dest: show_nat_inj)
qed

lemma foldl_digits_ge: "n \<le> foldl (\<lambda>acc c. 10 * acc + digit_val c) n s"
proof (induction s arbitrary: n)
  case (Cons c cs)
  have "n \<le> 10 * n + digit_val c" by simp
  with Cons [of "10 * n + digit_val c"] show ?case by (simp del: One_nat_def)
qed simp

lemma uint_loop_digits:
  "list_all is_digit_char s \<Longrightarrow> foldl (\<lambda>acc c. 10 * acc + digit_val c) n s < 2 ^ 64 \<Longrightarrow>
     uint_loop n s = Some (foldl (\<lambda>acc c. 10 * acc + digit_val c) n s)"
proof (induction s arbitrary: n)
  case (Cons c cs)
  with foldl_digits_ge [of "10 * n + digit_val c" cs] show ?case by simp
qed simp

lemma uint_loop_show_nat: "n < 2 ^ 64 \<Longrightarrow> uint_loop 0 (show_nat n) = Some n"
  using uint_loop_digits [of "show_nat n" 0] show_nat_digits [of n] parse_show_nat [of n]
  by (simp add: parse_digits_def)

text \<open>What \<^verbatim>\<open>fmt.Sprint\<close> writes, \<^verbatim>\<open>strconv.Atoi\<close> reads back.\<close>

lemma atoi_show_int:
  assumes "- (2 ^ 63) \<le> i" and "i < 2 ^ 63"
  shows "atoi (show_int i) = (word_of_int i, True)"
proof (cases "i < 0")
  case True
  with assms show ?thesis
    by (simp add: atoi_def show_int_def uint_loop_show_nat)
next
  case False
  then obtain "hd (show_nat (nat i)) \<noteq> CHR ''-''" and "hd (show_nat (nat i)) \<noteq> CHR ''+''"
    using hd_show_nat_digit digit_not_sign by blast
  with False assms show ?thesis
    by (simp add: atoi_def show_int_def uint_loop_show_nat)
qed

section \<open>HTTP replies\<close>

text \<open>
  What a handler answers: a JSON value with its status, an error text with its status, no body,
  or nothing at all when the handler panicked (\<^verbatim>\<open>net/http\<close> then drops the connection).
\<close>

datatype 'a http_reply =
    JsonReply nat 'a
  | ErrorReply nat string
  | EmptyReply nat
  | ConnectionDropped

section \<open>Lists\<close>

lemma filter_nil_iff_disjoint: "filter P xs = [] \<longleftrightarrow> (\<forall>x\<in>set xs. \<not> P x)"
  by (simp add: filter_empty_conv)

lemma sum_list_map_filter_le:
  fixes f :: "'a \<Rightarrow> nat"
  shows "sum_list (map f (filter P xs)) \<le> sum_list (map f xs)"
  by (induction xs) auto

end
