(* ===== verification/Api_Types.thy ===== *)
theory Api_Types
  imports Prelude
begin

text \<open>
  The custom resources of \<^verbatim>\<open>src/api/v1alpha1\<close> and the parts of the Kubernetes core types that
  the code reads or fills in. Every struct is a record with one field per Go field; \<^verbatim>\<open>TypeMeta\<close>
  and the list wrappers (\<^verbatim>\<open>AcceleratorJobList\<close> and so on) carry no data the code uses, so a
  list is an Isabelle list. A nil and an empty Go map read the same, and both are \<open>Map.empty\<close>.
\<close>

section \<open>Kubernetes core types\<close>

text \<open>A \<^verbatim>\<open>resource.Quantity\<close> holding a whole number: the number it denotes.\<close>

datatype quantity = Quantity int

text \<open>\<^verbatim>\<open>Quantity.Value()\<close>.\<close>

fun quantity_Value :: "quantity \<Rightarrow> int64" where
  "quantity_Value (Quantity n) = word_of_int n"

fun quantity_Add :: "quantity \<Rightarrow> quantity \<Rightarrow> quantity" where
  "quantity_Add (Quantity a) (Quantity b) = Quantity (a + b)"

type_synonym labels = "string \<rightharpoonup> string"
type_synonym resource_list = "string \<rightharpoonup> quantity"

record resource_requirements =
  rr_Requests :: resource_list
  rr_Limits :: resource_list

record object_meta =
  om_Name :: string
  om_Namespace :: string
  om_Labels :: labels
  om_Annotations :: labels
  om_Finalizers :: "string list"
  om_DeletionTimestamp :: "instant option"
  om_CreationTimestamp :: instant
  om_Controller :: "(string \<times> string) option"

text \<open>
  \<open>om_Controller\<close> is the controlling owner reference, by kind and name. \<open>meta_of ns n\<close> is the
  literal \<^verbatim>\<open>metav1.ObjectMeta{Name: n, Namespace: ns}\<close>, every other field zero.
\<close>

definition meta_of :: "string \<Rightarrow> string \<Rightarrow> object_meta" where
  "meta_of ns n = \<lparr>om_Name = n, om_Namespace = ns, om_Labels = Map.empty,
     om_Annotations = Map.empty, om_Finalizers = [], om_DeletionTimestamp = None,
     om_CreationTimestamp = 0, om_Controller = None\<rparr>"

datatype pod_phase = PodNoPhase | PodPending | PodRunning | PodSucceeded | PodFailed | PodUnknown

record container =
  c_Name :: string
  c_Image :: string
  c_Command :: "string list"
  c_Args :: "string list"
  c_Env :: "(string \<times> string) list"
  c_Resources :: resource_requirements
  c_VolumeMounts :: "(string \<times> string) list"
  c_Ports :: "int32 list"

record toleration =
  tol_Key :: string
  tol_Operator :: string
  tol_Value :: string
  tol_Effect :: string

text \<open>A volume backed by a claim: its name and the claim's name.\<close>

record volume =
  vol_Name :: string
  vol_ClaimName :: string

record pod_spec =
  ps_Containers :: "container list"
  ps_RestartPolicy :: string
  ps_PriorityClassName :: string
  ps_ActiveDeadlineSeconds :: "int64 option"
  ps_NodeSelector :: labels
  ps_Tolerations :: "toleration list"
  ps_Volumes :: "volume list"
  ps_NodeName :: string

record pod =
  pod_Meta :: object_meta
  pod_Spec :: pod_spec
  pod_Phase :: pod_phase
  pod_Message :: string

record node =
  node_Name :: string
  node_Capacity :: resource_list
  node_Allocatable :: resource_list

record pvc =
  pvc_Meta :: object_meta
  pvc_AccessModes :: "string list"
  pvc_Requests :: resource_list

section \<open>AcceleratorJob\<close>

text \<open>The phase is a Go string: the four constants, the empty string, or anything else.\<close>

datatype AcceleratorJobPhase =
    PhaseUnset
  | AcceleratorJobPending
  | AcceleratorJobRunning
  | AcceleratorJobSucceeded
  | AcceleratorJobFailed
  | PhaseOther string

fun phase_string :: "AcceleratorJobPhase \<Rightarrow> string" where
  "phase_string PhaseUnset = ''''"
| "phase_string AcceleratorJobPending = ''Pending''"
| "phase_string AcceleratorJobRunning = ''Running''"
| "phase_string AcceleratorJobSucceeded = ''Succeeded''"
| "phase_string AcceleratorJobFailed = ''Failed''"
| "phase_string (PhaseOther s) = s"

definition AcceleratorFinalizer :: string where
  "AcceleratorFinalizer = ''metalgrid.dev/finalizer''"

record AcceleratorJobSpec =
  spec_Image :: string
  spec_Command :: "string list"
  spec_Args :: "string list"
  spec_AcceleratorType :: string
  spec_AcceleratorCount :: int32
  spec_Priority :: int32
  spec_Team :: string
  spec_Pool :: string
  spec_GangSize :: int32
  spec_Resources :: resource_requirements
  spec_MaxRetries :: int32
  spec_Checkpoint :: bool
  spec_TimeoutSeconds :: "int64 option"

record AcceleratorJobStatus =
  st_Phase :: AcceleratorJobPhase
  st_PodName :: string
  st_Message :: string
  st_StartTime :: "instant option"
  st_CompletionTime :: "instant option"
  st_RetryCount :: int32
  st_NextRetryTime :: "instant option"

record AcceleratorJob =
  job_Meta :: object_meta
  job_Spec :: AcceleratorJobSpec
  job_Status :: AcceleratorJobStatus

abbreviation job_Name :: "AcceleratorJob \<Rightarrow> string" where
  "job_Name j \<equiv> om_Name (job_Meta j)"

abbreviation job_Namespace :: "AcceleratorJob \<Rightarrow> string" where
  "job_Namespace j \<equiv> om_Namespace (job_Meta j)"

abbreviation pod_Name :: "pod \<Rightarrow> string" where
  "pod_Name p \<equiv> om_Name (pod_Meta p)"

abbreviation pod_Namespace :: "pod \<Rightarrow> string" where
  "pod_Namespace p \<equiv> om_Namespace (pod_Meta p)"

definition zero_status :: AcceleratorJobStatus where
  "zero_status = \<lparr>st_Phase = PhaseUnset, st_PodName = '''', st_Message = '''', st_StartTime = None,
     st_CompletionTime = None, st_RetryCount = 0, st_NextRetryTime = None\<rparr>"

section \<open>AcceleratorPool, QuotaPolicy, InferenceService\<close>

text \<open>The placement strategy is a Go string with two constants.\<close>

definition PlacementBinPack :: string where
  "PlacementBinPack = ''BinPack''"

definition PlacementSpread :: string where
  "PlacementSpread = ''Spread''"

record AcceleratorPool =
  pool_Name :: string
  pool_AcceleratorType :: string
  pool_NodeSelector :: labels
  pool_Tolerations :: "toleration list"
  pool_PlacementStrategy :: string

record QuotaPolicy =
  qp_Name :: string
  qp_Team :: string
  qp_MaxAccelerators :: int32

record InferenceService =
  is_Meta :: object_meta
  is_Model :: string
  is_Image :: string
  is_Replicas :: int32
  is_Team :: string
  is_Phase :: string
  is_Endpoint :: string
  is_ReadyReplicas :: int32

lemmas api_defs [go_eval] = meta_of_def zero_status_def AcceleratorFinalizer_def
  PlacementBinPack_def PlacementSpread_def

end
