(* ===== verification/Kube_Client.thy ===== *)
theory Kube_Client
  imports Api_Types
begin

text \<open>
  The Kubernetes side of the program is not under \<^verbatim>\<open>src/\<close>: controller-runtime's client, its
  \<^verbatim>\<open>controllerutil\<close> helpers, the clock and the metrics sink are a parameter of the model, the
  record \<open>kube\<close> of operations on a world \<open>'w\<close>. Each operation may fail and may change the
  world in any way; what a theorem needs beyond that is a law of the locale
  \<open>kube_contract\<close>, which \<open>Mem_Cluster\<close> interprets.
\<close>

section \<open>The client as a parameter\<close>

record 'w kube =
  k_get_job :: "string \<Rightarrow> string \<Rightarrow> ('w, AcceleratorJob) eff"
  k_list_jobs :: "string option \<Rightarrow> ('w, AcceleratorJob list) eff"
  k_create_job :: "AcceleratorJob \<Rightarrow> ('w, unit) eff"
  k_update_job :: "AcceleratorJob \<Rightarrow> ('w, unit) eff"
  k_update_job_status :: "AcceleratorJob \<Rightarrow> ('w, unit) eff"
  k_delete_job :: "AcceleratorJob \<Rightarrow> ('w, unit) eff"
  k_get_pool :: "string \<Rightarrow> ('w, AcceleratorPool) eff"
  k_list_quotas :: "('w, QuotaPolicy list) eff"
  k_list_pods :: "string option \<Rightarrow> (string \<times> string) list \<Rightarrow> ('w, pod list) eff"
  k_create_pod :: "pod \<Rightarrow> ('w, unit) eff"
  k_delete_pod :: "pod \<Rightarrow> ('w, unit) eff"
  k_get_pvc :: "string \<Rightarrow> string \<Rightarrow> ('w, pvc) eff"
  k_create_pvc :: "pvc \<Rightarrow> ('w, unit) eff"
  k_list_nodes :: "('w, node list) eff"
  k_contains_finalizer :: "object_meta \<Rightarrow> string \<Rightarrow> bool"
  k_add_finalizer :: "object_meta \<Rightarrow> string \<Rightarrow> object_meta"
  k_remove_finalizer :: "object_meta \<Rightarrow> string \<Rightarrow> object_meta"
  k_set_controller_reference :: "string \<Rightarrow> object_meta \<Rightarrow> object_meta \<Rightarrow> go_error + object_meta"
  k_now :: "('w, instant) state"
  k_observe_scheduling_latency :: "int \<Rightarrow> ('w, unit) state"

text \<open>
  \<open>k_get_*\<close> take a namespace (except for the cluster-scoped pool) and a name; \<open>k_list_pods\<close> and
  \<open>k_list_jobs\<close> take the \<^verbatim>\<open>client.InNamespace\<close> option, \<open>k_list_pods\<close> also the
  \<^verbatim>\<open>client.MatchingLabels\<close> pairs. \<open>k_set_controller_reference kind owner meta\<close> is
  \<^verbatim>\<open>controllerutil.SetControllerReference\<close>.
\<close>

section \<open>What the code relies on\<close>

text \<open>
  The objects a well-behaved API server holds, as the code can observe them. A read returns
  stored objects and changes none; a write either fails and changes nothing or has the
  documented effect. Any call may fail at any time.
\<close>

record cluster =
  cl_jobs :: "string \<times> string \<rightharpoonup> AcceleratorJob"
  cl_pods :: "string \<times> string \<rightharpoonup> pod"
  cl_pvcs :: "string \<times> string \<rightharpoonup> pvc"

abbreviation job_key :: "AcceleratorJob \<Rightarrow> string \<times> string" where
  "job_key j \<equiv> (job_Namespace j, job_Name j)"

abbreviation pod_key :: "pod \<Rightarrow> string \<times> string" where
  "pod_key p \<equiv> (pod_Namespace p, pod_Name p)"

abbreviation pvc_key :: "pvc \<Rightarrow> string \<times> string" where
  "pvc_key v \<equiv> (om_Namespace (pvc_Meta v), om_Name (pvc_Meta v))"

text \<open>The objects a list call with a namespace option and label selectors selects.\<close>

definition pod_selected :: "string option \<Rightarrow> (string \<times> string) list \<Rightarrow> pod \<Rightarrow> bool" where
  "pod_selected ns sel p \<longleftrightarrow>
     (case ns of None \<Rightarrow> True | Some n \<Rightarrow> pod_Namespace p = n) \<and>
     list_all (\<lambda>(k, v). om_Labels (pod_Meta p) k = Some v) sel"

text \<open>
  Deleting a pod is graceful: the object is removed at once or stays for a while with its
  deletion timestamp set.
\<close>

definition pod_gone_or_terminating :: "(string \<times> string \<rightharpoonup> pod) \<Rightarrow> string \<times> string \<Rightarrow> bool" where
  "pod_gone_or_terminating pods key \<longleftrightarrow>
     (case pods key of None \<Rightarrow> True | Some q \<Rightarrow> om_DeletionTimestamp (pod_Meta q) \<noteq> None)"

locale kube_contract =
  fixes K :: "'w kube"
    and view :: "'w \<Rightarrow> cluster"
  assumes get_job_view: "view (snd (run_state (k_get_job K ns n) w)) = view w"
    and get_job_stored:
      "fst (run_state (k_get_job K ns n) w) = Inr j \<Longrightarrow> cl_jobs (view w) (ns, n) = Some j"
    and get_job_missing:
      "fst (run_state (k_get_job K ns n) w) = Inl e \<Longrightarrow> IsNotFound e \<Longrightarrow> cl_jobs (view w) (ns, n) = None"
    and jobs_keyed: "cl_jobs (view w) (ns, n) = Some j \<Longrightarrow> job_key j = (ns, n)"
    and update_job_pods: "cl_pods (view (snd (run_state (k_update_job K j) w))) = cl_pods (view w)"
    and update_job_pvcs: "cl_pvcs (view (snd (run_state (k_update_job K j) w))) = cl_pvcs (view w)"
    and status_pods: "cl_pods (view (snd (run_state (k_update_job_status K j) w))) = cl_pods (view w)"
    and status_pvcs: "cl_pvcs (view (snd (run_state (k_update_job_status K j) w))) = cl_pvcs (view w)"
    and get_pool_view: "view (snd (run_state (k_get_pool K n) w)) = view w"
    and list_pods_view: "view (snd (run_state (k_list_pods K nso sel) w)) = view w"
    and list_pods_stored:
      "fst (run_state (k_list_pods K nso sel) w) = Inr ps \<Longrightarrow>
         set ps = {p. \<exists>key. cl_pods (view w) key = Some p \<and> pod_selected nso sel p}"
    and pods_keyed: "cl_pods (view w) key = Some p \<Longrightarrow> pod_key p = key"
    and create_pod_fails:
      "fst (run_state (k_create_pod K p) w) = Inl e \<Longrightarrow>
         view (snd (run_state (k_create_pod K p) w)) = view w"
    and create_pod_ok:
      "fst (run_state (k_create_pod K p) w) = Inr u \<Longrightarrow>
         \<exists>q. pod_Meta q = pod_Meta p \<and> pod_Spec q = pod_Spec p \<and>
             cl_pods (view w) (pod_key p) = None \<and>
             view (snd (run_state (k_create_pod K p) w)) =
               (view w)\<lparr>cl_pods := (cl_pods (view w))(pod_key p \<mapsto> q)\<rparr>"
    and delete_pod_fails:
      "fst (run_state (k_delete_pod K p) w) = Inl e \<Longrightarrow>
         view (snd (run_state (k_delete_pod K p) w)) = view w"
    and delete_pod_ok:
      "fst (run_state (k_delete_pod K p) w) = Inr u \<Longrightarrow>
         pod_gone_or_terminating (cl_pods (view (snd (run_state (k_delete_pod K p) w)))) (pod_key p)"
    and delete_pod_others:
      "key \<noteq> pod_key p \<Longrightarrow>
         cl_pods (view (snd (run_state (k_delete_pod K p) w))) key = cl_pods (view w) key"
    and delete_pod_missing:
      "fst (run_state (k_delete_pod K p) w) = Inl e \<Longrightarrow> IsNotFound e \<Longrightarrow>
         cl_pods (view w) (pod_key p) = None"
    and delete_pod_pvcs: "cl_pvcs (view (snd (run_state (k_delete_pod K p) w))) = cl_pvcs (view w)"
    and get_pvc_view: "view (snd (run_state (k_get_pvc K ns n) w)) = view w"
    and get_pvc_stored:
      "fst (run_state (k_get_pvc K ns n) w) = Inr v \<Longrightarrow> cl_pvcs (view w) (ns, n) = Some v"
    and create_pvc_fails:
      "fst (run_state (k_create_pvc K v) w) = Inl e \<Longrightarrow>
         view (snd (run_state (k_create_pvc K v) w)) = view w"
    and create_pvc_ok:
      "fst (run_state (k_create_pvc K v) w) = Inr u \<Longrightarrow>
         view (snd (run_state (k_create_pvc K v) w)) =
           (view w)\<lparr>cl_pvcs := (cl_pvcs (view w))(pvc_key v \<mapsto> v)\<rparr>"
    and controller_reference_keeps:
      "k_set_controller_reference K kind owner m = Inr m' \<Longrightarrow>
         \<exists>c. m' = m\<lparr>om_Controller := c\<rparr>"
    and now_view: "view (snd (run_state (k_now K) w)) = view w"
    and observe_view: "view (snd (run_state (k_observe_scheduling_latency K x) w)) = view w"
begin

lemma create_pod_pvcs: "cl_pvcs (view (snd (run_state (k_create_pod K p) w))) = cl_pvcs (view w)"
proof (cases "fst (run_state (k_create_pod K p) w)")
  case (Inl e)
  then show ?thesis by (simp add: create_pod_fails)
next
  case (Inr u)
  from create_pod_ok [OF Inr] show ?thesis by auto
qed

lemma create_pod_grows:
  "cl_pods (view w) key = Some q \<Longrightarrow>
     cl_pods (view (snd (run_state (k_create_pod K p) w))) key = Some q"
proof (cases "fst (run_state (k_create_pod K p) w)")
  case (Inl e)
  assume "cl_pods (view w) key = Some q"
  with Inl show ?thesis by (simp add: create_pod_fails)
next
  case (Inr u)
  assume "cl_pods (view w) key = Some q"
  with create_pod_ok [OF Inr] show ?thesis by auto
qed

lemma create_pvc_grows:
  "cl_pvcs (view w) key \<noteq> None \<Longrightarrow>
     cl_pvcs (view (snd (run_state (k_create_pvc K v) w))) key \<noteq> None"
  by (cases "fst (run_state (k_create_pvc K v) w)")
    (auto simp: create_pvc_fails create_pvc_ok)

lemma create_pvc_pods: "cl_pods (view (snd (run_state (k_create_pvc K v) w))) = cl_pods (view w)"
  by (cases "fst (run_state (k_create_pvc K v) w)")
    (auto simp: create_pvc_fails create_pvc_ok)

end

section \<open>Recording the status writes\<close>

text \<open>
  A client that behaves as \<open>K\<close> and also records every job handed to \<^verbatim>\<open>Status().Update\<close>. Theorems
  about all status writes of a reconcile are stated with it, for any \<open>K\<close> at all.
\<close>

definition unlogged :: "('w, 'a) state \<Rightarrow> ('w \<times> 'l, 'a) state" where
  "unlogged m = State (\<lambda>(w, l). case run_state m w of (r, w') \<Rightarrow> (r, (w', l)))"

lemma run_unlogged [simp]:
  "run_state (unlogged m) (w, l) = (fst (run_state m w), (snd (run_state m w), l))"
  by (simp add: unlogged_def split: prod.split)

definition spy :: "'w kube \<Rightarrow> ('w \<times> AcceleratorJob list) kube" where
  "spy K = \<lparr>
     k_get_job = (\<lambda>ns n. unlogged (k_get_job K ns n)),
     k_list_jobs = (\<lambda>nso. unlogged (k_list_jobs K nso)),
     k_create_job = (\<lambda>j. unlogged (k_create_job K j)),
     k_update_job = (\<lambda>j. unlogged (k_update_job K j)),
     k_update_job_status = (\<lambda>j. State (\<lambda>(w, l).
        case run_state (k_update_job_status K j) w of (r, w') \<Rightarrow> (r, (w', l @ [j])))),
     k_delete_job = (\<lambda>j. unlogged (k_delete_job K j)),
     k_get_pool = (\<lambda>n. unlogged (k_get_pool K n)),
     k_list_quotas = unlogged (k_list_quotas K),
     k_list_pods = (\<lambda>nso sel. unlogged (k_list_pods K nso sel)),
     k_create_pod = (\<lambda>p. unlogged (k_create_pod K p)),
     k_delete_pod = (\<lambda>p. unlogged (k_delete_pod K p)),
     k_get_pvc = (\<lambda>ns n. unlogged (k_get_pvc K ns n)),
     k_create_pvc = (\<lambda>v. unlogged (k_create_pvc K v)),
     k_list_nodes = unlogged (k_list_nodes K),
     k_contains_finalizer = k_contains_finalizer K,
     k_add_finalizer = k_add_finalizer K,
     k_remove_finalizer = k_remove_finalizer K,
     k_set_controller_reference = k_set_controller_reference K,
     k_now = unlogged (k_now K),
     k_observe_scheduling_latency = (\<lambda>x. unlogged (k_observe_scheduling_latency K x))\<rparr>"

lemma spy_status [simp]:
  "run_state (k_update_job_status (spy K) j) (w, l) =
     (fst (run_state (k_update_job_status K j) w),
      (snd (run_state (k_update_job_status K j) w), l @ [j]))"
  by (simp add: spy_def split: prod.split)

lemma spy_unlogged [simp]:
  "k_get_job (spy K) ns n = unlogged (k_get_job K ns n)"
  "k_update_job (spy K) j = unlogged (k_update_job K j)"
  "k_get_pool (spy K) n = unlogged (k_get_pool K n)"
  "k_list_pods (spy K) nso sel = unlogged (k_list_pods K nso sel)"
  "k_create_pod (spy K) p = unlogged (k_create_pod K p)"
  "k_delete_pod (spy K) p = unlogged (k_delete_pod K p)"
  "k_get_pvc (spy K) ns n = unlogged (k_get_pvc K ns n)"
  "k_create_pvc (spy K) v = unlogged (k_create_pvc K v)"
  "k_contains_finalizer (spy K) = k_contains_finalizer K"
  "k_add_finalizer (spy K) = k_add_finalizer K"
  "k_remove_finalizer (spy K) = k_remove_finalizer K"
  "k_set_controller_reference (spy K) = k_set_controller_reference K"
  "k_now (spy K) = unlogged (k_now K)"
  "k_observe_scheduling_latency (spy K) x = unlogged (k_observe_scheduling_latency K x)"
  by (simp_all add: spy_def)

end
