(* ===== verification/Job_Controller.thy ===== *)
theory Job_Controller
  imports Kube_Client
begin

text \<open>
  The AcceleratorJob reconciler, \<^verbatim>\<open>src/internal/controller/acceleratorjob_controller.go\<close>: pod
  construction, the gang-creation loop, the phase aggregation, the retry policy with its
  backoff, and the reconcile function that composes them, over an arbitrary client \<open>K\<close>.
\<close>

section \<open>Constants and results\<close>

definition AcceleratorResourceName :: string where
  "AcceleratorResourceName = ''metalgrid.dev/accelerator''"

definition jobLabel :: string where
  "jobLabel = ''metalgrid.dev/job''"

record ctrl_Result =
  Requeue :: bool
  RequeueAfter :: duration

definition ctrl_done :: ctrl_Result where
  "ctrl_done = \<lparr>Requeue = False, RequeueAfter = 0\<rparr>"

text \<open>\<^verbatim>\<open>return ctrl.Result{}, err\<close>, where \<open>r\<close> tells whether \<^verbatim>\<open>err\<close> is nil.\<close>

definition done_or :: "go_error + 'a \<Rightarrow> go_error + ctrl_Result" where
  "done_or r = (case r of Inl e \<Rightarrow> Inl e | Inr _ \<Rightarrow> Inr ctrl_done)"

text \<open>\<^verbatim>\<open>return fmt.Errorf("ctx: %w", err)\<close> if the call failed.\<close>

definition wrap_err :: "string \<Rightarrow> go_error + 'a \<Rightarrow> go_error + 'a" where
  "wrap_err ctx r = (case r of Inl e \<Rightarrow> Inl (errorf ctx e) | Inr x \<Rightarrow> Inr x)"

section \<open>Phase aggregation\<close>

fun failureMessage :: "pod list \<Rightarrow> string" where
  "failureMessage [] = ''''"
| "failureMessage (p # ps) = (if pod_Phase p = PodFailed then pod_Message p else failureMessage ps)"

text \<open>
  The first loop returns early on a failed pod (\<open>None\<close>) and otherwise counts the succeeded
  ones; the second looks for a running or succeeded pod.
\<close>

fun count_succeeded :: "pod list \<Rightarrow> nat \<Rightarrow> nat option" where
  "count_succeeded [] acc = Some acc"
| "count_succeeded (p # ps) acc =
     (case pod_Phase p of
        PodFailed \<Rightarrow> None
      | PodSucceeded \<Rightarrow> count_succeeded ps (Suc acc)
      | _ \<Rightarrow> count_succeeded ps acc)"

fun any_started :: "pod list \<Rightarrow> bool" where
  "any_started [] = False"
| "any_started (p # ps) =
     (if pod_Phase p = PodRunning \<or> pod_Phase p = PodSucceeded then True else any_started ps)"

definition aggregatePhase :: "pod list \<Rightarrow> AcceleratorJobPhase" where
  "aggregatePhase pods =
     (case count_succeeded pods 0 of
        None \<Rightarrow> AcceleratorJobFailed
      | Some succeeded \<Rightarrow>
          if succeeded = length pods then AcceleratorJobSucceeded
          else if any_started pods then AcceleratorJobRunning
          else AcceleratorJobPending)"

section \<open>Retry policy\<close>

text \<open>A negative shift count panics in Go; an overflowing shift drops the high bits.\<close>

definition backoffDuration :: "int32 \<Rightarrow> go_error + duration" where
  "backoffDuration retryCount =
     (let base = 5 * second; maxBackoff = 60 * second
      in if sint retryCount < 0 then Inl (Panic ''runtime error: negative shift amount'')
         else let d = push_bit (nat (sint retryCount)) base
              in if sint maxBackoff < sint d \<or> sint d \<le> 0 then Inr maxBackoff else Inr d)"

text \<open>\<^verbatim>\<open>Duration.String()\<close> on whole seconds, the only durations this file formats.\<close>

definition duration_string :: "duration \<Rightarrow> string" where
  "duration_string d =
     (let s = nat (sint d) div 1000000000; h = s div 3600; m = s div 60
      in (if 0 < h then show_nat h @ ''h'' else '''') @
         (if 0 < m then show_nat (m mod 60) @ ''m'' else '''') @ show_nat (s mod 60) @ ''s'')"

definition scheduleRetryOrFail :: "'w kube \<Rightarrow> AcceleratorJob \<Rightarrow> string \<Rightarrow> ('w, unit) eff" where
  "scheduleRetryOrFail K job failMsg = do {
     now \<leftarrow> k_now K;
     (let st = job_Status job; spec = job_Spec job
      in if sint (spec_MaxRetries spec) \<le> sint (st_RetryCount st)
         then k_update_job_status K (job\<lparr>job_Status := st\<lparr>
                st_Phase := AcceleratorJobFailed,
                st_Message := ''failed after '' @ show_int (sint (st_RetryCount st)) @
                  '' retries: '' @ failMsg,
                st_CompletionTime := Some now\<rparr>\<rparr>)
         else let count = st_RetryCount st + 1
              in case backoffDuration count of
                   Inl e \<Rightarrow> ret (Inl e)
                 | Inr wait \<Rightarrow> k_update_job_status K (job\<lparr>job_Status := st\<lparr>
                     st_RetryCount := count,
                     st_Phase := AcceleratorJobPending,
                     st_NextRetryTime := Some (time_add now wait),
                     st_Message := ''retrying after failure (attempt '' @ show_int (sint count) @
                       ''/'' @ show_int (sint (spec_MaxRetries spec)) @ '') in '' @
                       duration_string wait @ '': '' @ failMsg\<rparr>\<rparr>))
   }"

text \<open>The deletion loop of a retry: a pod that is already gone is not an error.\<close>

primrec delete_pods :: "'w kube \<Rightarrow> pod list \<Rightarrow> ('w, unit) eff" where
  "delete_pods K [] = ret (Inr ())"
| "delete_pods K (p # ps) = do {
     r \<leftarrow> k_delete_pod K p;
     (case r of
        Inl e \<Rightarrow> if \<not> IsNotFound e then ret (Inl (errorf (''deleting failed pod '' @ pod_Name p) e))
                 else delete_pods K ps
      | Inr _ \<Rightarrow> delete_pods K ps)
   }"

definition startRetry :: "'w kube \<Rightarrow> AcceleratorJob \<Rightarrow> ('w, unit) eff" where
  "startRetry K job = do {
     u \<leftarrow> k_update_job_status K (job\<lparr>job_Status := (job_Status job)\<lparr>st_NextRetryTime := None\<rparr>\<rparr>);
     (case u of
        Inl e \<Rightarrow> ret (Inl (errorf ''clearing retry timer'' e))
      | Inr _ \<Rightarrow> do {
          l \<leftarrow> k_list_pods K (Some (job_Namespace job)) [(jobLabel, job_Name job)];
          (case l of
             Inl e \<Rightarrow> ret (Inl (errorf ''listing pods to retry'' e))
           | Inr pods \<Rightarrow> delete_pods K pods)
        })
   }"

section \<open>Status from pods\<close>

definition syncStatusFromPods :: "'w kube \<Rightarrow> AcceleratorJob \<Rightarrow> pod list \<Rightarrow> ('w, unit) eff" where
  "syncStatusFromPods K job pods =
     (if pods = [] then ret (Inr ())
      else let phase = aggregatePhase pods; st = job_Status job
      in if phase = AcceleratorJobFailed \<and> st_Phase st \<noteq> AcceleratorJobFailed
         then scheduleRetryOrFail K job (failureMessage pods)
      else if phase = st_Phase st then ret (Inr ())
      else do {
        now \<leftarrow> k_now K;
        (let st1 = st\<lparr>st_Phase := phase\<rparr>;
             st2 = (if st_PodName st1 = '''' then st1\<lparr>st_PodName := pod_Name (hd pods)\<rparr> else st1);
             starts = (phase = AcceleratorJobRunning \<and> st_StartTime st2 = None);
             st3 = (if starts then st2\<lparr>st_StartTime := Some now\<rparr> else st2);
             st4 = (if phase = AcceleratorJobSucceeded \<and> st_CompletionTime st3 = None
                    then st3\<lparr>st_CompletionTime := Some now\<rparr> else st3)
         in do {
              (if starts
               then k_observe_scheduling_latency K
                      (sint (time_sub now (om_CreationTimestamp (job_Meta job))))
               else ret ());
              k_update_job_status K (job\<lparr>job_Status := st4\<rparr>)
            })
      })"

section \<open>Pods\<close>

definition podName :: "AcceleratorJob \<Rightarrow> int32 \<Rightarrow> string" where
  "podName job index =
     (if sint (spec_GangSize (job_Spec job)) \<le> 1 then job_Name job
      else job_Name job @ ''-'' @ show_int (sint index))"

definition priorityClassName :: "int32 \<Rightarrow> string" where
  "priorityClassName priority =
     (if 100 \<le> sint priority then ''metalgrid-high''
      else if sint priority \<le> - 100 then ''metalgrid-low''
      else ''metalgrid-normal'')"

definition checkpointVolumeName :: string where
  "checkpointVolumeName = ''checkpoint''"

definition checkpointMountPath :: string where
  "checkpointMountPath = ''/checkpoint''"

definition checkpointPVCName :: "AcceleratorJob \<Rightarrow> string" where
  "checkpointPVCName job = job_Name job @ ''-checkpoint''"

definition ensureCheckpointPVC :: "'w kube \<Rightarrow> AcceleratorJob \<Rightarrow> ('w, unit) eff" where
  "ensureCheckpointPVC K job = do {
     r \<leftarrow> k_get_pvc K (job_Namespace job) (checkpointPVCName job);
     (case r of
        Inr _ \<Rightarrow> ret (Inr ())
      | Inl e \<Rightarrow>
          if \<not> IsNotFound e then ret (Inl e)
          else case k_set_controller_reference K ''AcceleratorJob'' (job_Meta job)
                      (meta_of (job_Namespace job) (checkpointPVCName job)) of
                 Inl e2 \<Rightarrow> ret (Inl (errorf ''setting owner reference'' e2))
               | Inr m \<Rightarrow> k_create_pvc K \<lparr>pvc_Meta = m, pvc_AccessModes = [''ReadWriteOnce''],
                     pvc_Requests = [''storage'' \<mapsto> Quantity (2 ^ 30)]\<rparr>)
   }"

definition buildPod ::
  "AcceleratorJob \<Rightarrow> AcceleratorPool option \<Rightarrow> string \<Rightarrow> int32 \<Rightarrow> int32 \<Rightarrow> string \<Rightarrow> pod" where
  "buildPod job pool name index gangSize checkpointPVC =
     (let spec = job_Spec job;
          qty = Quantity (sint (spec_AcceleratorCount spec));
          resources = (spec_Resources spec)\<lparr>
            rr_Requests := (rr_Requests (spec_Resources spec))(AcceleratorResourceName \<mapsto> qty),
            rr_Limits := (rr_Limits (spec_Resources spec))(AcceleratorResourceName \<mapsto> qty)\<rparr>;
          checkpointed = (checkpointPVC \<noteq> '''');
          ctr = \<lparr>c_Name = ''job'', c_Image = spec_Image spec, c_Command = spec_Command spec,
            c_Args = spec_Args spec,
            c_Env = (if checkpointed then [(''METALGRID_CHECKPOINT_DIR'', checkpointMountPath)] else []),
            c_Resources = resources,
            c_VolumeMounts = (if checkpointed then [(checkpointVolumeName, checkpointMountPath)] else []),
            c_Ports = []\<rparr>;
          labels = [jobLabel \<mapsto> job_Name job, ''metalgrid.dev/team'' \<mapsto> spec_Team spec,
            ''metalgrid.dev/index'' \<mapsto> show_int (sint index)];
          annotations = [''metalgrid.dev/gang-size'' \<mapsto> show_int (sint gangSize)]
      in \<lparr>pod_Meta = (meta_of (job_Namespace job) name)\<lparr>
            om_Labels := (case pool of None \<Rightarrow> labels
               | Some p \<Rightarrow> labels(''metalgrid.dev/pool'' \<mapsto> pool_Name p)),
            om_Annotations := (case pool of None \<Rightarrow> annotations
               | Some p \<Rightarrow> annotations(''metalgrid.dev/placement-strategy'' \<mapsto> pool_PlacementStrategy p))\<rparr>,
          pod_Spec = \<lparr>ps_Containers = [ctr], ps_RestartPolicy = ''Never'',
            ps_PriorityClassName = priorityClassName (spec_Priority spec),
            ps_ActiveDeadlineSeconds = spec_TimeoutSeconds spec,
            ps_NodeSelector = (case pool of None \<Rightarrow> Map.empty | Some p \<Rightarrow> pool_NodeSelector p),
            ps_Tolerations = (case pool of None \<Rightarrow> [] | Some p \<Rightarrow> pool_Tolerations p),
            ps_Volumes = (if checkpointed
               then [\<lparr>vol_Name = checkpointVolumeName, vol_ClaimName = checkpointPVC\<rparr>] else []),
            ps_NodeName = ''''\<rparr>,
          pod_Phase = PodNoPhase, pod_Message = ''''\<rparr>)"

section \<open>Reconcile\<close>

definition reconcileDelete :: "'w kube \<Rightarrow> AcceleratorJob \<Rightarrow> ('w, ctrl_Result) eff" where
  "reconcileDelete K job =
     (if \<not> k_contains_finalizer K (job_Meta job) AcceleratorFinalizer then ret (Inr ctrl_done)
      else do {
        u \<leftarrow> k_update_job K (job\<lparr>job_Meta := k_remove_finalizer K (job_Meta job) AcceleratorFinalizer\<rparr>);
        ret (done_or (wrap_err ''removing finalizer'' u))
      })"

text \<open>
  The creation loop over the gang's indices: pods whose name is already listed are skipped,
  the first failure ends it, and the result tells whether any pod was created.
\<close>

primrec create_gang ::
  "'w kube \<Rightarrow> AcceleratorJob \<Rightarrow> AcceleratorPool option \<Rightarrow> int32 \<Rightarrow> string set \<Rightarrow> nat list \<Rightarrow> bool
     \<Rightarrow> ('w, bool) eff" where
  "create_gang K job pool gangSize existing [] created = ret (Inr created)"
| "create_gang K job pool gangSize existing (i # is) created =
     (let name = podName job (word_of_nat i)
      in if name \<in> existing then create_gang K job pool gangSize existing is created
      else let checkpointPVC = (if spec_Checkpoint (job_Spec job) then checkpointPVCName job else '''');
               newPod = buildPod job pool name (word_of_nat i) gangSize checkpointPVC
           in case k_set_controller_reference K ''AcceleratorJob'' (job_Meta job) (pod_Meta newPod) of
                Inl e \<Rightarrow> ret (Inl (errorf ''setting owner reference'' e))
              | Inr m \<Rightarrow> do {
                  r \<leftarrow> k_create_pod K (newPod\<lparr>pod_Meta := m\<rparr>);
                  (case r of
                     Inl e \<Rightarrow> ret (Inl (errorf ''creating pod'' e))
                   | Inr _ \<Rightarrow> create_gang K job pool gangSize existing is True)
                })"

definition effective_gang :: "AcceleratorJob \<Rightarrow> int32" where
  "effective_gang job =
     (if sint (spec_GangSize (job_Spec job)) < 1 then 1 else spec_GangSize (job_Spec job))"

definition gang_indices :: "AcceleratorJob \<Rightarrow> nat list" where
  "gang_indices job = [0..<nat (sint (effective_gang job))]"

text \<open>After the loop: mark a fresh job Pending, wait for new pods, or read the status off the pods.\<close>

definition reconcile_finish :: "'w kube \<Rightarrow> AcceleratorJob \<Rightarrow> pod list \<Rightarrow> bool \<Rightarrow> ('w, ctrl_Result) eff" where
  "reconcile_finish K job pods created =
     (if created \<and> st_Phase (job_Status job) = PhaseUnset then do {
        u \<leftarrow> k_update_job_status K
               (job\<lparr>job_Status := (job_Status job)\<lparr>st_Phase := AcceleratorJobPending\<rparr>\<rparr>);
        ret (done_or (wrap_err ''updating status'' u))
      }
      else if created then ret (Inr ctrl_done)
      else do {
        s \<leftarrow> syncStatusFromPods K job pods;
        ret (done_or s)
      })"

text \<open>From the gang size to the end: list the job's pods and create the missing ones.\<close>

definition reconcile_pods :: "'w kube \<Rightarrow> AcceleratorJob \<Rightarrow> AcceleratorPool option \<Rightarrow> ('w, ctrl_Result) eff" where
  "reconcile_pods K job pool = do {
     l \<leftarrow> k_list_pods K (Some (job_Namespace job)) [(jobLabel, job_Name job)];
     (case l of
        Inl e \<Rightarrow> ret (Inl (errorf ''listing pods'' e))
      | Inr pods \<Rightarrow> do {
          c \<leftarrow> create_gang K job pool (effective_gang job) (pod_Name ` set pods) (gang_indices job) False;
          (case c of
             Inl e \<Rightarrow> ret (Inl e)
           | Inr created \<Rightarrow> reconcile_finish K job pods created)
        })
   }"

text \<open>The pool lookup: a pool that does not exist yet is waited for, not a failure.\<close>

definition reconcile_pool :: "'w kube \<Rightarrow> AcceleratorJob \<Rightarrow> ('w, ctrl_Result) eff" where
  "reconcile_pool K job =
     (if spec_Pool (job_Spec job) \<noteq> '''' then do {
        p \<leftarrow> k_get_pool K (spec_Pool (job_Spec job));
        (case p of
           Inl e \<Rightarrow>
             if IsNotFound e then ret (Inr \<lparr>Requeue = False, RequeueAfter = 5 * second\<rparr>)
             else ret (Inl (errorf ''getting AcceleratorPool'' e))
         | Inr pool \<Rightarrow> reconcile_pods K job (Some pool))
      }
      else reconcile_pods K job None)"

text \<open>The checkpoint volume comes first, when the job asks for one.\<close>

definition reconcile_active :: "'w kube \<Rightarrow> AcceleratorJob \<Rightarrow> ('w, ctrl_Result) eff" where
  "reconcile_active K job =
     (if spec_Checkpoint (job_Spec job) then do {
        c \<leftarrow> ensureCheckpointPVC K job;
        (case c of
           Inl e \<Rightarrow> ret (Inl (errorf ''ensuring checkpoint PVC'' e))
         | Inr _ \<Rightarrow> reconcile_pool K job)
      }
      else reconcile_pool K job)"

definition is_terminal :: "AcceleratorJobPhase \<Rightarrow> bool" where
  "is_terminal ph \<longleftrightarrow> ph = AcceleratorJobSucceeded \<or> ph = AcceleratorJobFailed"

text \<open>\<^verbatim>\<open>Reconcile\<close> of the object \<open>ns/n\<close>.\<close>

definition Reconcile :: "'w kube \<Rightarrow> string \<Rightarrow> string \<Rightarrow> ('w, ctrl_Result) eff" where
  "Reconcile K ns n = do {
     g \<leftarrow> k_get_job K ns n;
     (case g of
        Inl e \<Rightarrow> ret (if IsNotFound e then Inr ctrl_done else Inl e)
      | Inr job \<Rightarrow>
          if \<not> time_is_zero (om_DeletionTimestamp (job_Meta job)) then reconcileDelete K job
          else if \<not> k_contains_finalizer K (job_Meta job) AcceleratorFinalizer then do {
            u \<leftarrow> k_update_job K (job\<lparr>job_Meta := k_add_finalizer K (job_Meta job) AcceleratorFinalizer\<rparr>);
            ret (case u of Inl e \<Rightarrow> Inl (errorf ''adding finalizer'' e)
                 | Inr _ \<Rightarrow> Inr \<lparr>Requeue = True, RequeueAfter = 0\<rparr>)
          }
          else if is_terminal (st_Phase (job_Status job)) then ret (Inr ctrl_done)
          else (case st_NextRetryTime (job_Status job) of
            Some t \<Rightarrow> do {
              now \<leftarrow> k_now K;
              (let wait = time_sub t now
               in if 0 < sint wait then ret (Inr \<lparr>Requeue = False, RequeueAfter = wait\<rparr>)
                  else do {
                    s \<leftarrow> startRetry K job;
                    ret (done_or s)
                  })
            }
          | None \<Rightarrow> reconcile_active K job))
   }"

section \<open>Facts about the parts\<close>

lemma count_succeeded_None: "count_succeeded ps acc = None \<longleftrightarrow> (\<exists>p\<in>set ps. pod_Phase p = PodFailed)"
  by (induction ps arbitrary: acc) (auto split: pod_phase.split)

lemma count_succeeded_Some:
  "count_succeeded ps acc = Some k \<Longrightarrow> k = acc + length (filter (\<lambda>p. pod_Phase p = PodSucceeded) ps)"
  by (induction ps arbitrary: acc) (fastforce split: pod_phase.splits)+

lemma any_started_iff:
  "any_started ps \<longleftrightarrow> (\<exists>p\<in>set ps. pod_Phase p = PodRunning \<or> pod_Phase p = PodSucceeded)"
  by (induction ps) auto

lemma aggregatePhase_failed_iff:
  "aggregatePhase ps = AcceleratorJobFailed \<longleftrightarrow> (\<exists>p\<in>set ps. pod_Phase p = PodFailed)"
  unfolding count_succeeded_None [symmetric, of _ 0]
  by (auto simp: aggregatePhase_def split: option.split)

lemma aggregatePhase_succeeded_iff:
  "aggregatePhase ps = AcceleratorJobSucceeded \<longleftrightarrow> (\<forall>p\<in>set ps. pod_Phase p = PodSucceeded)"
proof (cases "count_succeeded ps 0")
  case None
  then obtain p where "p \<in> set ps" "pod_Phase p = PodFailed" by (auto simp: count_succeeded_None)
  with None show ?thesis by (force simp: aggregatePhase_def)
next
  case (Some k)
  then have k: "k = length (filter (\<lambda>p. pod_Phase p = PodSucceeded) ps)"
    using count_succeeded_Some by force
  have "k = length ps \<longleftrightarrow> (\<forall>p\<in>set ps. pod_Phase p = PodSucceeded)"
  proof
    assume "k = length ps"
    then show "\<forall>p\<in>set ps. pod_Phase p = PodSucceeded"
      unfolding k using length_filter_less [of _ ps "\<lambda>p. pod_Phase p = PodSucceeded"] by fastforce
  next
    assume "\<forall>p\<in>set ps. pod_Phase p = PodSucceeded"
    then show "k = length ps" unfolding k by simp
  qed
  with Some show ?thesis
    by (simp add: aggregatePhase_def)
qed

lemma podName_inj: "podName job i = podName job j \<Longrightarrow> 1 < sint (spec_GangSize (job_Spec job)) \<Longrightarrow> i = j"
  by (auto simp: podName_def dest!: show_int_inj intro: signed_word_eqI)

text \<open>Five seconds is a multiple of \<open>2 ^ 9\<close> nanoseconds, so a shift by 55 or more leaves nothing.\<close>

lemma backoff_shift_large: "55 \<le> n \<Longrightarrow> push_bit n (5000000000 :: 64 word) = 0"
proof -
  assume "55 \<le> n"
  have "push_bit n (5000000000 :: 64 word) = push_bit n (push_bit 9 9765625)"
    by (simp add: push_bit_eq_mult)
  also have "\<dots> = push_bit (n + 9) 9765625"
    by (simp only: push_bit_push_bit)
  finally show ?thesis using \<open>55 \<le> n\<close> by (simp add: push_bit_64_drop)
qed

text \<open>Below 55, no wrapped value is a positive duration under a minute: checked shift by shift.\<close>

lemma backoff_shift_small:
  "\<forall>n\<in>set [0..<55]. (let d = (5000000000 * 2 ^ n + 2 ^ 63) mod 2 ^ 64 - (2 ^ 63 :: int) in
     (if 60000000000 < d \<or> d \<le> 0 then 60000000000 else d) = min (5 * 2 ^ n) 60 * 1000000000)"
  by (simp add: upt_rec)

lemma backoffDuration_run:
  assumes "0 \<le> sint k"
  shows "backoffDuration k =
     (let d = push_bit (nat (sint k)) (5000000000 :: 64 word)
      in Inr (if 60000000000 < sint d \<or> sint d \<le> 0 then 60000000000 else d))"
  using assms by (simp add: backoffDuration_def second_def Let_def)

text \<open>The delay is \<open>5 * 2 ^ k\<close> seconds capped at one minute for every count an \<^verbatim>\<open>int32\<close> holds.\<close>

lemma backoffDuration_closed:
  assumes "0 \<le> sint k"
  shows "\<exists>d. backoffDuration k = Inr d \<and> sint d = min (5 * 2 ^ nat (sint k)) 60 * 1000000000"
proof (cases "nat (sint k) < 55")
  case True
  let ?d = "push_bit (nat (sint k)) (5000000000 :: 64 word)"
  have "sint ?d = (5000000000 * 2 ^ nat (sint k) + 2 ^ 63) mod 2 ^ 64 - 2 ^ 63"
    using sint_push_bit_64 [of "nat (sint k)" 5000000000] by simp
  moreover have "nat (sint k) \<in> set [0..<55]" using True by simp
  ultimately have val: "(if 60000000000 < sint ?d \<or> sint ?d \<le> 0 then 60000000000 else sint ?d) =
      min (5 * 2 ^ nat (sint k)) 60 * 1000000000"
    using backoff_shift_small by (simp only: Let_def)
  have run: "backoffDuration k = Inr (if 60000000000 < sint ?d \<or> sint ?d \<le> 0 then 60000000000 else ?d)"
    using assms by (simp only: backoffDuration_run Let_def)
  have sp: "sint (if c then 60000000000 else ?d) = (if c then 60000000000 else sint ?d)" for c
    by (cases c) (simp_all only: if_True if_False, simp)
  show ?thesis unfolding run by (rule exI, rule conjI, rule refl) (simp only: sp val)
next
  case False
  then have "(2::int) ^ 55 \<le> 2 ^ nat (sint k)" by (intro power_increasing) simp_all
  then have "min (5 * 2 ^ nat (sint k)) 60 = (60 :: int)" by simp
  with False assms show ?thesis
    by (simp add: backoffDuration_run backoff_shift_large)
qed

lemma buildPod_key [simp]:
  "om_Name (pod_Meta (buildPod job pool name i g c)) = name"
  "om_Namespace (pod_Meta (buildPod job pool name i g c)) = job_Namespace job"
  by (simp_all add: buildPod_def Let_def meta_of_def)

lemma aggregatePhase_range:
  "aggregatePhase pods \<in> {AcceleratorJobPending, AcceleratorJobRunning, AcceleratorJobSucceeded,
     AcceleratorJobFailed}"
  by (simp add: aggregatePhase_def split: option.split)

end
