(* ===== verification/Mem_Cluster.thy ===== *)
theory Mem_Cluster
  imports Kube_Client
begin

text \<open>
  A reference API server: tables of objects, a clock and a schedule of injected faults. It
  plays the part the fake client plays in the repository's tests, it satisfies
  \<open>kube_contract\<close>, and the witnesses of the controller's theorems run on it.
\<close>

section \<open>Tables of objects\<close>

definition lookup_by :: "('a \<Rightarrow> 'k) \<Rightarrow> 'k \<Rightarrow> 'a list \<Rightarrow> 'a option" where
  "lookup_by kf k xs = find (\<lambda>x. kf x = k) xs"

definition remove_by :: "('a \<Rightarrow> 'k) \<Rightarrow> 'k \<Rightarrow> 'a list \<Rightarrow> 'a list" where
  "remove_by kf k xs = filter (\<lambda>x. kf x \<noteq> k) xs"

definition replace_by :: "('a \<Rightarrow> 'k) \<Rightarrow> 'a \<Rightarrow> 'a list \<Rightarrow> 'a list" where
  "replace_by kf y xs = map (\<lambda>x. if kf x = kf y then y else x) xs"

text \<open>The objects reachable under their own key.\<close>

definition visible_by :: "('a \<Rightarrow> 'k) \<Rightarrow> 'a list \<Rightarrow> 'a list" where
  "visible_by kf xs = filter (\<lambda>x. lookup_by kf (kf x) xs = Some x) xs"

lemma lookup_by_key: "lookup_by kf k xs = Some x \<Longrightarrow> kf x = k"
  by (auto simp: lookup_by_def find_Some_iff)

lemma lookup_by_mem: "lookup_by kf k xs = Some x \<Longrightarrow> x \<in> set xs"
  by (auto simp: lookup_by_def find_Some_iff)

lemma lookup_by_append:
  "lookup_by kf k (xs @ [y]) =
     (case lookup_by kf k xs of None \<Rightarrow> if kf y = k then Some y else None | Some x \<Rightarrow> Some x)"
  by (induction xs) (auto simp: lookup_by_def)

lemma lookup_by_remove:
  "lookup_by kf k (remove_by kf k' xs) = (if k = k' then None else lookup_by kf k xs)"
  by (induction xs) (auto simp: lookup_by_def remove_by_def)

lemma lookup_by_replace:
  "lookup_by kf k (replace_by kf y xs) =
     (if k = kf y \<and> lookup_by kf k xs \<noteq> None then Some y else lookup_by kf k xs)"
  by (induction xs) (auto simp: lookup_by_def replace_by_def)

lemma set_visible_by: "set (visible_by kf xs) = {x. \<exists>k. lookup_by kf k xs = Some x}"
  by (auto simp: visible_by_def dest: lookup_by_key lookup_by_mem)

lemmas table_defs [go_eval] = lookup_by_def remove_by_def replace_by_def visible_by_def

section \<open>The server\<close>

record mem =
  mem_jobs :: "AcceleratorJob list"
  mem_pods :: "pod list"
  mem_pvcs :: "pvc list"
  mem_pools :: "AcceleratorPool list"
  mem_quotas :: "QuotaPolicy list"
  mem_nodes :: "node list"
  mem_clock :: instant
  mem_faults :: "bool list"
  mem_latencies :: "int list"

definition mem_empty :: mem where
  "mem_empty = \<lparr>mem_jobs = [], mem_pods = [], mem_pvcs = [], mem_pools = [], mem_quotas = [],
     mem_nodes = [], mem_clock = 0, mem_faults = [], mem_latencies = []\<rparr>"

text \<open>Each call consumes one entry of the fault schedule; an injected fault has no effect.\<close>

definition attempt :: "(mem \<Rightarrow> (go_error + 'a) \<times> mem) \<Rightarrow> (mem, 'a) eff" where
  "attempt f = State (\<lambda>w. case mem_faults w of
     [] \<Rightarrow> f w
   | b # bs \<Rightarrow> (if b then (Inl (Opaque ''injected''), w\<lparr>mem_faults := bs\<rparr>)
                else f (w\<lparr>mem_faults := bs\<rparr>)))"

definition found :: "'a option \<Rightarrow> go_error + 'a" where
  "found x = (case x of None \<Rightarrow> Inl (ApiNotFound ''not found'') | Some y \<Rightarrow> Inr y)"

text \<open>A table write: read the table, fail or replace it.\<close>

definition terminal_pod :: "pod \<Rightarrow> bool" where
  "terminal_pod p \<longleftrightarrow> pod_Phase p = PodSucceeded \<or> pod_Phase p = PodFailed"

definition mem_update_job :: "AcceleratorJob \<Rightarrow> mem \<Rightarrow> (go_error + unit) \<times> mem" where
  "mem_update_job j w = (case lookup_by job_key (job_key j) (mem_jobs w) of
     None \<Rightarrow> (Inl (ApiNotFound ''job''), w)
   | Some old \<Rightarrow>
       (let new = old\<lparr>job_Meta := job_Meta j, job_Spec := job_Spec j\<rparr>
        in if om_DeletionTimestamp (job_Meta old) \<noteq> None \<and> om_Finalizers (job_Meta j) = []
           then (Inr (), w\<lparr>mem_jobs := remove_by job_key (job_key j) (mem_jobs w)\<rparr>)
           else (Inr (), w\<lparr>mem_jobs := replace_by job_key new (mem_jobs w)\<rparr>)))"

definition mem_update_status :: "AcceleratorJob \<Rightarrow> mem \<Rightarrow> (go_error + unit) \<times> mem" where
  "mem_update_status j w = (case lookup_by job_key (job_key j) (mem_jobs w) of
     None \<Rightarrow> (Inl (ApiNotFound ''job''), w)
   | Some old \<Rightarrow>
       (Inr (), w\<lparr>mem_jobs := replace_by job_key (old\<lparr>job_Status := job_Status j\<rparr>) (mem_jobs w)\<rparr>))"

definition mem_create_job :: "AcceleratorJob \<Rightarrow> mem \<Rightarrow> (go_error + unit) \<times> mem" where
  "mem_create_job j w = (case lookup_by job_key (job_key j) (mem_jobs w) of
     Some old \<Rightarrow> (Inl (ApiAlreadyExists ''job''), w)
   | None \<Rightarrow> (Inr (), w\<lparr>mem_jobs := mem_jobs w @ [j]\<rparr>))"

definition mem_delete_job :: "AcceleratorJob \<Rightarrow> mem \<Rightarrow> (go_error + unit) \<times> mem" where
  "mem_delete_job j w = (case lookup_by job_key (job_key j) (mem_jobs w) of
     None \<Rightarrow> (Inl (ApiNotFound ''job''), w)
   | Some old \<Rightarrow>
       (if om_Finalizers (job_Meta old) = []
        then (Inr (), w\<lparr>mem_jobs := remove_by job_key (job_key j) (mem_jobs w)\<rparr>)
        else (Inr (), w\<lparr>mem_jobs := replace_by job_key
               (old\<lparr>job_Meta := (job_Meta old)\<lparr>om_DeletionTimestamp := Some (mem_clock w)\<rparr>\<rparr>)
               (mem_jobs w)\<rparr>)))"

definition mem_create_pod :: "pod \<Rightarrow> mem \<Rightarrow> (go_error + unit) \<times> mem" where
  "mem_create_pod p w = (case lookup_by pod_key (pod_key p) (mem_pods w) of
     Some old \<Rightarrow> (Inl (ApiAlreadyExists ''pod''), w)
   | None \<Rightarrow> (Inr (), w\<lparr>mem_pods := mem_pods w @ [p\<lparr>pod_Phase := PodPending\<rparr>]\<rparr>))"

definition mem_delete_pod :: "pod \<Rightarrow> mem \<Rightarrow> (go_error + unit) \<times> mem" where
  "mem_delete_pod p w = (case lookup_by pod_key (pod_key p) (mem_pods w) of
     None \<Rightarrow> (Inl (ApiNotFound ''pod''), w)
   | Some old \<Rightarrow>
       (if terminal_pod old
        then (Inr (), w\<lparr>mem_pods := remove_by pod_key (pod_key p) (mem_pods w)\<rparr>)
        else (Inr (), w\<lparr>mem_pods := replace_by pod_key
               (old\<lparr>pod_Meta := (pod_Meta old)\<lparr>om_DeletionTimestamp := Some (mem_clock w)\<rparr>\<rparr>)
               (mem_pods w)\<rparr>)))"

definition mem_create_pvc :: "pvc \<Rightarrow> mem \<Rightarrow> (go_error + unit) \<times> mem" where
  "mem_create_pvc v w = (case lookup_by pvc_key (pvc_key v) (mem_pvcs w) of
     Some old \<Rightarrow> (Inl (ApiAlreadyExists ''pvc''), w)
   | None \<Rightarrow> (Inr (), w\<lparr>mem_pvcs := mem_pvcs w @ [v]\<rparr>))"

definition mem_kube :: "mem kube" where
  "mem_kube = \<lparr>
     k_get_job = (\<lambda>ns n. attempt (\<lambda>w. (found (lookup_by job_key (ns, n) (mem_jobs w)), w))),
     k_list_jobs = (\<lambda>nso. attempt (\<lambda>w. (Inr (filter (\<lambda>j. case nso of None \<Rightarrow> True
        | Some ns \<Rightarrow> job_Namespace j = ns) (visible_by job_key (mem_jobs w))), w))),
     k_create_job = (\<lambda>j. attempt (mem_create_job j)),
     k_update_job = (\<lambda>j. attempt (mem_update_job j)),
     k_update_job_status = (\<lambda>j. attempt (mem_update_status j)),
     k_delete_job = (\<lambda>j. attempt (mem_delete_job j)),
     k_get_pool = (\<lambda>n. attempt (\<lambda>w. (found (lookup_by pool_Name n (mem_pools w)), w))),
     k_list_quotas = attempt (\<lambda>w. (Inr (mem_quotas w), w)),
     k_list_pods = (\<lambda>nso sel. attempt (\<lambda>w.
        (Inr (filter (pod_selected nso sel) (visible_by pod_key (mem_pods w))), w))),
     k_create_pod = (\<lambda>p. attempt (mem_create_pod p)),
     k_delete_pod = (\<lambda>p. attempt (mem_delete_pod p)),
     k_get_pvc = (\<lambda>ns n. attempt (\<lambda>w. (found (lookup_by pvc_key (ns, n) (mem_pvcs w)), w))),
     k_create_pvc = (\<lambda>v. attempt (mem_create_pvc v)),
     k_list_nodes = attempt (\<lambda>w. (Inr (mem_nodes w), w)),
     k_contains_finalizer = (\<lambda>m f. f \<in> set (om_Finalizers m)),
     k_add_finalizer = (\<lambda>m f. if f \<in> set (om_Finalizers m) then m
        else m\<lparr>om_Finalizers := om_Finalizers m @ [f]\<rparr>),
     k_remove_finalizer = (\<lambda>m f. m\<lparr>om_Finalizers := filter (\<lambda>g. g \<noteq> f) (om_Finalizers m)\<rparr>),
     k_set_controller_reference = (\<lambda>kind owner m.
        case om_Controller m of
          None \<Rightarrow> Inr (m\<lparr>om_Controller := Some (kind, om_Name owner)\<rparr>)
        | Some c \<Rightarrow> (if c = (kind, om_Name owner) then Inr m else Inl (Opaque ''already owned''))),
     k_now = State (\<lambda>w. (mem_clock w, w)),
     k_observe_scheduling_latency =
       (\<lambda>x. State (\<lambda>w. ((), w\<lparr>mem_latencies := mem_latencies w @ [x]\<rparr>)))\<rparr>"

definition mem_view :: "mem \<Rightarrow> cluster" where
  "mem_view w = \<lparr>cl_jobs = (\<lambda>key. lookup_by job_key key (mem_jobs w)),
     cl_pods = (\<lambda>key. lookup_by pod_key key (mem_pods w)),
     cl_pvcs = (\<lambda>key. lookup_by pvc_key key (mem_pvcs w))\<rparr>"

lemmas mem_eval [go_eval] = mem_empty_def attempt_def found_def terminal_pod_def mem_update_job_def
  mem_update_status_def mem_create_job_def mem_delete_job_def mem_create_pod_def mem_delete_pod_def
  mem_create_pvc_def mem_kube_def pod_selected_def

section \<open>The server satisfies the contract\<close>

lemma run_attempt:
  "run_state (attempt f) w =
     (case mem_faults w of [] \<Rightarrow> f w
      | b # bs \<Rightarrow> (if b then (Inl (Opaque ''injected''), w\<lparr>mem_faults := bs\<rparr>)
                   else f (w\<lparr>mem_faults := bs\<rparr>)))"
  by (simp add: attempt_def)

lemma mem_view_faults [simp]: "mem_view (w\<lparr>mem_faults := bs\<rparr>) = mem_view w"
  by (simp add: mem_view_def)

lemmas mem_ops = mem_kube_def run_attempt mem_update_job_def mem_update_status_def
  mem_create_pod_def mem_delete_pod_def mem_create_pvc_def found_def Let_def

interpretation memc: kube_contract mem_kube mem_view
proof (unfold_locales, goal_cases)
  case (11 nso sel w ps)
  then show ?case
    by (auto simp: mem_ops mem_view_def set_visible_by split: list.splits if_splits) blast+
next
  case (14 p w u)
  then show ?case
    by (auto simp: mem_ops mem_view_def lookup_by_append fun_eq_iff intro!: exI [of _ "p\<lparr>pod_Phase := PodPending\<rparr>"]
        split: list.splits if_splits option.splits)
next
  case (16 p w u)
  then show ?case
    by (auto simp: mem_ops mem_view_def pod_gone_or_terminating_def lookup_by_remove lookup_by_replace
        split: list.splits if_splits option.splits dest: lookup_by_key)
next
  case (17 key p w)
  then show ?case
    by (auto simp: mem_ops mem_view_def lookup_by_remove lookup_by_replace
        split: list.splits if_splits option.splits dest!: lookup_by_key)
next
  case (23 v w u)
  then show ?case
    by (auto simp: mem_ops mem_view_def lookup_by_append fun_eq_iff
        split: list.splits if_splits option.splits)
next
  case (24 kind owner m m')
  then have "m' = m \<or> m' = m\<lparr>om_Controller := Some (kind, om_Name owner)\<rparr>"
    by (auto simp: mem_kube_def split: option.splits if_splits)
  then show ?case
    by (metis object_meta.surjective object_meta.update_convs(8))
qed (auto simp: mem_ops mem_view_def dest: lookup_by_key split: list.splits if_splits option.splits)

end
