(* ===== verification/Job_Lifecycle.thy ===== *)
theory Job_Lifecycle
  imports Job_Controller Mem_Cluster
begin

text \<open>
  What the reconciler does to a job over time. The relation \<open>status_step\<close> is the lifecycle of a
  job's status as documented: created, observed, retried with backoff, given up. For any client
  whatsoever, a reconcile writes at most one status, and that write is such a step from the
  status it read; the retry budget and the finality of terminal phases follow by induction over
  the steps. Under the client contract, a successful reconcile leaves every gang member's pod
  (and the checkpoint claim) in place, and a retry removes the old pods and nothing else.
\<close>

section \<open>The lifecycle of a status\<close>

inductive status_step :: "AcceleratorJobSpec \<Rightarrow> AcceleratorJobStatus \<Rightarrow> AcceleratorJobStatus \<Rightarrow> bool"
  for spec where
  step_created:
    "st_Phase s = PhaseUnset \<Longrightarrow> st_NextRetryTime s = None \<Longrightarrow>
       status_step spec s (s\<lparr>st_Phase := AcceleratorJobPending\<rparr>)"
| step_retry_due:
    "\<not> is_terminal (st_Phase s) \<Longrightarrow> st_NextRetryTime s = Some t \<Longrightarrow>
       status_step spec s (s\<lparr>st_NextRetryTime := None\<rparr>)"
| step_observed:
    "\<not> is_terminal (st_Phase s) \<Longrightarrow> st_NextRetryTime s = None \<Longrightarrow> ph \<noteq> st_Phase s \<Longrightarrow>
     ph \<in> {AcceleratorJobPending, AcceleratorJobRunning, AcceleratorJobSucceeded} \<Longrightarrow>
     st_Phase s' = ph \<Longrightarrow>
     st_PodName s' = (if st_PodName s = '''' then nm else st_PodName s) \<Longrightarrow>
     st_StartTime s' =
       (if ph = AcceleratorJobRunning \<and> st_StartTime s = None then Some now else st_StartTime s) \<Longrightarrow>
     st_CompletionTime s' =
       (if ph = AcceleratorJobSucceeded \<and> st_CompletionTime s = None then Some now
        else st_CompletionTime s) \<Longrightarrow>
     st_RetryCount s' = st_RetryCount s \<Longrightarrow> st_Message s' = st_Message s \<Longrightarrow>
     st_NextRetryTime s' = None \<Longrightarrow>
       status_step spec s s'"
| step_retry:
    "\<not> is_terminal (st_Phase s) \<Longrightarrow> st_NextRetryTime s = None \<Longrightarrow>
     sint (st_RetryCount s) < sint (spec_MaxRetries spec) \<Longrightarrow>
     backoffDuration (st_RetryCount s + 1) = Inr wait \<Longrightarrow>
       status_step spec s (s\<lparr>st_RetryCount := st_RetryCount s + 1,
         st_Phase := AcceleratorJobPending, st_NextRetryTime := Some (time_add now wait),
         st_Message := msg\<rparr>)"
| step_give_up:
    "\<not> is_terminal (st_Phase s) \<Longrightarrow> st_NextRetryTime s = None \<Longrightarrow>
     sint (spec_MaxRetries spec) \<le> sint (st_RetryCount s) \<Longrightarrow>
       status_step spec s (s\<lparr>st_Phase := AcceleratorJobFailed, st_Message := msg,
         st_CompletionTime := Some now\<rparr>)"

definition one_legal_write :: "AcceleratorJob \<Rightarrow> AcceleratorJob list \<Rightarrow> bool" where
  "one_legal_write job log \<longleftrightarrow>
     (case log of [] \<Rightarrow> True
      | [j] \<Rightarrow> job_Meta j = job_Meta job \<and> job_Spec j = job_Spec job \<and>
               status_step (job_Spec job) (job_Status job) (job_Status j)
      | _ \<Rightarrow> False)"

abbreviation log_of :: "('w \<times> AcceleratorJob list, 'a) state \<Rightarrow> 'w \<Rightarrow> AcceleratorJob list" where
  "log_of m w \<equiv> snd (snd (run_state m (w, [])))"

lemma one_legal_write_simps [simp]:
  "one_legal_write job []"
  "one_legal_write job [j] \<longleftrightarrow> job_Meta j = job_Meta job \<and> job_Spec j = job_Spec job \<and>
     status_step (job_Spec job) (job_Status job) (job_Status j)"
  by (simp_all add: one_legal_write_def)

lemma create_gang_log:
  "snd (snd (run_state (create_gang (spy K) job pool g ex is c) (w, l))) = l"
proof (induction "is" arbitrary: w c)
  case Nil
  then show ?case by simp
next
  case (Cons i "is")
  then show ?case by (simp add: Let_def split: sum.split)
qed

lemma delete_pods_log: "snd (snd (run_state (delete_pods (spy K) ps) (w, l))) = l"
  by (induction ps arbitrary: w) (simp_all split: sum.split)

lemma ensure_log: "snd (snd (run_state (ensureCheckpointPVC (spy K) job) (w, l))) = l"
  by (simp add: ensureCheckpointPVC_def split: sum.split)

lemma scheduleRetry_legal:
  assumes "\<not> is_terminal (st_Phase (job_Status job))" "st_NextRetryTime (job_Status job) = None"
  shows "one_legal_write job (log_of (scheduleRetryOrFail (spy K) job msg) w)"
  using assms by (auto simp: scheduleRetryOrFail_def Let_def split: sum.split
    intro: status_step.step_retry status_step.step_give_up)

lemma startRetry_legal:
  assumes "\<not> is_terminal (st_Phase (job_Status job))" "st_NextRetryTime (job_Status job) = Some t"
  shows "one_legal_write job (log_of (startRetry (spy K) job) w)"
  using assms by (auto simp: startRetry_def delete_pods_log split: sum.split
    intro: status_step.step_retry_due)

lemma sync_legal:
  assumes live: "\<not> is_terminal (st_Phase (job_Status job))" and "st_NextRetryTime (job_Status job) = None"
  shows "one_legal_write job (log_of (syncStatusFromPods (spy K) job pods) w)"
proof (cases "pods = [] \<or> aggregatePhase pods = AcceleratorJobFailed \<or> aggregatePhase pods = st_Phase (job_Status job)")
  case True
  moreover have "st_Phase (job_Status job) \<noteq> AcceleratorJobFailed" using live by (auto simp: is_terminal_def)
  ultimately show ?thesis
    using scheduleRetry_legal [OF assms] by (auto simp: syncStatusFromPods_def Let_def)
next
  case False
  then have "aggregatePhase pods \<in> {AcceleratorJobPending, AcceleratorJobRunning, AcceleratorJobSucceeded}"
    using aggregatePhase_range [of pods] by auto
  with False assms show ?thesis
    by (auto simp: syncStatusFromPods_def Let_def
        intro!: status_step.step_observed [where ph = "aggregatePhase pods" and
          nm = "pod_Name (hd pods)" and now = "fst (run_state (k_now K) w)"])
qed

lemma one_legal_write_bind:
  assumes "\<And>w. log_of m w = []" and "\<And>r w. one_legal_write job (log_of (f r) w)"
  shows "one_legal_write job (log_of (State_Monad.bind m f) w)"
proof -
  obtain r w' where "run_state m (w, []) = (r, (w', []))"
    using assms(1) [of w] by (metis prod.collapse)
  then show ?thesis using assms(2) by simp
qed

lemma reconcile_finish_legal:
  assumes "\<not> is_terminal (st_Phase (job_Status job))" "st_NextRetryTime (job_Status job) = None"
  shows "one_legal_write job (log_of (reconcile_finish (spy K) job pods created) w)"
  using sync_legal [OF assms, of K pods w] assms(2)
  by (auto simp: reconcile_finish_def split_beta intro: status_step.step_created)

lemma reconcile_pods_legal:
  assumes "\<not> is_terminal (st_Phase (job_Status job))" "st_NextRetryTime (job_Status job) = None"
  shows "one_legal_write job (log_of (reconcile_pods (spy K) job pool) w)"
  unfolding reconcile_pods_def
  by (intro one_legal_write_bind, simp)
    (force intro!: one_legal_write_bind simp: create_gang_log reconcile_finish_legal [OF assms]
      simp del: run_state_bind split: sum.split)

lemma reconcile_pool_legal:
  assumes "\<not> is_terminal (st_Phase (job_Status job))" "st_NextRetryTime (job_Status job) = None"
  shows "one_legal_write job (log_of (reconcile_pool (spy K) job) w)"
  using reconcile_pods_legal [OF assms] by (auto simp: reconcile_pool_def split: sum.split)

lemma reconcile_active_legal:
  assumes "\<not> is_terminal (st_Phase (job_Status job))" "st_NextRetryTime (job_Status job) = None"
  shows "one_legal_write job (log_of (reconcile_active (spy K) job) w)"
  using reconcile_pool_legal [OF assms]
  by (auto intro!: one_legal_write_bind simp: reconcile_active_def ensure_log
      simp del: run_state_bind split: sum.split)

lemma Reconcile_legal:
  "case fst (run_state (k_get_job K ns n) w) of
     Inl e \<Rightarrow> log_of (Reconcile (spy K) ns n) w = []
   | Inr job \<Rightarrow> one_legal_write job (log_of (Reconcile (spy K) ns n) w)"
proof (cases "fst (run_state (k_get_job K ns n) w)")
  case (Inl e)
  then show ?thesis by (simp add: Reconcile_def)
next
  case (Inr job)
  show ?thesis
    using startRetry_legal [of job _ K] reconcile_active_legal [of job K]
    by (simp add: Inr Reconcile_def reconcileDelete_def split_beta Let_def split: option.split)
qed

definition status_ok :: "AcceleratorJobSpec \<Rightarrow> AcceleratorJobStatus \<Rightarrow> bool" where
  "status_ok spec s \<longleftrightarrow>
     0 \<le> sint (st_RetryCount s) \<and>
     sint (st_RetryCount s) \<le> max 0 (sint (spec_MaxRetries spec)) \<and>
     (st_NextRetryTime s \<noteq> None \<longrightarrow> st_Phase s = AcceleratorJobPending \<and> 0 < sint (st_RetryCount s)) \<and>
     (st_Phase s = AcceleratorJobFailed \<longrightarrow> sint (spec_MaxRetries spec) \<le> sint (st_RetryCount s)) \<and>
     (st_CompletionTime s \<noteq> None \<longleftrightarrow> is_terminal (st_Phase s)) \<and>
     (st_Phase s = PhaseUnset \<longrightarrow> st_RetryCount s = 0)"

lemma status_ok_zero: "status_ok spec zero_status"
  by (simp add: status_ok_def zero_status_def is_terminal_def)

lemma status_step_ok: "status_step spec s t \<Longrightarrow> status_ok spec s \<Longrightarrow> status_ok spec t"
  by (induction rule: status_step.induct) (auto simp: status_ok_def is_terminal_def sint_Suc32)

lemma status_step_live: "status_step spec s t \<Longrightarrow> \<not> is_terminal (st_Phase s)"
  by (induction rule: status_step.induct) (auto simp: is_terminal_def)

section \<open>Effects on pods and claims\<close>

context kube_contract
begin

lemma create_gang_pods:
  assumes "run_state (create_gang K job pool g ex is c) w = (Inr c', w')"
    and "\<And>nm. nm \<in> ex \<Longrightarrow> (job_Namespace job, nm) \<in> dom (cl_pods (view w))"
  shows "dom (cl_pods (view w')) =
      dom (cl_pods (view w)) \<union> (\<lambda>i. (job_Namespace job, podName job (word_of_nat i))) ` set is"
    and "cl_pvcs (view w') = cl_pvcs (view w)"
  using assms
proof (induction "is" arbitrary: w c)
  case Nil
  { case 1 then show ?case by simp next case 2 then show ?case by simp }
next
  case (Cons i "is")
  let ?name = "podName job (word_of_nat i)"
  let ?pod = "buildPod job pool ?name (word_of_nat i) g
      (if spec_Checkpoint (job_Spec job) then checkpointPVCName job else '''')"
  have both: "dom (cl_pods (view w')) = dom (cl_pods (view w)) \<union>
      (\<lambda>i. (job_Namespace job, podName job (word_of_nat i))) ` set (i # is) \<and> cl_pvcs (view w') = cl_pvcs (view w)"
    if run: "run_state (create_gang K job pool g ex (i # is) c) w = (Inr c', w')"
      and ex: "\<And>nm. nm \<in> ex \<Longrightarrow> (job_Namespace job, nm) \<in> dom (cl_pods (view w))" for w c
  proof (cases "?name \<in> ex")
    case True
    with run have "run_state (create_gang K job pool g ex is c) w = (Inr c', w')" by simp
    from Cons.IH [OF this ex] ex [OF True] show ?thesis by auto
  next
    case False
    with run obtain m where m: "k_set_controller_reference K ''AcceleratorJob'' (job_Meta job) (pod_Meta ?pod) = Inr m"
      by (auto simp: Let_def split: sum.splits)
    let ?new = "?pod\<lparr>pod_Meta := m\<rparr>"
    let ?w1 = "snd (run_state (k_create_pod K ?new) w)"
    from False run m obtain u where u: "fst (run_state (k_create_pod K ?new) w) = Inr u"
      and rest: "run_state (create_gang K job pool g ex is True) ?w1 = (Inr c', w')"
      by (auto simp: Let_def split_beta split: sum.splits)
    have key: "pod_key ?new = (job_Namespace job, ?name)"
      using controller_reference_keeps [OF m] by auto
    from create_pod_ok [OF u] obtain q where
      "view ?w1 = (view w)\<lparr>cl_pods := (cl_pods (view w))((job_Namespace job, ?name) \<mapsto> q)\<rparr>"
      unfolding key by blast
    then have w1: "dom (cl_pods (view ?w1)) = insert (job_Namespace job, ?name) (dom (cl_pods (view w)))"
      and v1: "cl_pvcs (view ?w1) = cl_pvcs (view w)"
      by auto
    then have "\<And>nm. nm \<in> ex \<Longrightarrow> (job_Namespace job, nm) \<in> dom (cl_pods (view ?w1))"
      using ex by auto
    from Cons.IH [OF rest this] show ?thesis by (auto simp: w1 v1)
  qed
  { case 1 then show ?case using both [OF 1(1)] by simp next case 2 then show ?case using both [OF 2(1)] by simp }
qed

lemma scheduleRetry_objects:
  "cl_pods (view (snd (run_state (scheduleRetryOrFail K job msg) w))) = cl_pods (view w)"
  "cl_pvcs (view (snd (run_state (scheduleRetryOrFail K job msg) w))) = cl_pvcs (view w)"
  by (simp_all add: scheduleRetryOrFail_def Let_def split_beta status_pods status_pvcs now_view split: sum.split)

lemma sync_objects:
  "cl_pods (view (snd (run_state (syncStatusFromPods K job pods) w))) = cl_pods (view w)"
  "cl_pvcs (view (snd (run_state (syncStatusFromPods K job pods) w))) = cl_pvcs (view w)"
  by (simp_all add: syncStatusFromPods_def Let_def split_beta status_pods status_pvcs now_view observe_view
      scheduleRetry_objects)

lemma finish_objects:
  "cl_pods (view (snd (run_state (reconcile_finish K job pods c) w))) = cl_pods (view w)"
  "cl_pvcs (view (snd (run_state (reconcile_finish K job pods c) w))) = cl_pvcs (view w)"
  by (simp_all add: reconcile_finish_def split_beta status_pods status_pvcs sync_objects)

lemma reconcile_pods_seats:
  assumes run: "run_state (reconcile_pods K job pool) w = (Inr res, w')"
  shows "dom (cl_pods (view w')) =
      dom (cl_pods (view w)) \<union> (\<lambda>i. (job_Namespace job, podName job (word_of_nat i))) ` set (gang_indices job)"
    and "cl_pvcs (view w') = cl_pvcs (view w)"
proof -
  let ?l = "k_list_pods K (Some (job_Namespace job)) [(jobLabel, job_Name job)]"
  let ?w1 = "snd (run_state ?l w)"
  from run obtain pods c w2 where pods: "fst (run_state ?l w) = Inr pods"
    and gang: "run_state (create_gang K job pool (effective_gang job) (pod_Name ` set pods)
        (gang_indices job) False) ?w1 = (Inr c, w2)"
    and w': "w' = snd (run_state (reconcile_finish K job pods c) w2)"
    by (auto simp: reconcile_pods_def split: sum.splits prod.splits)
  have ex: "(job_Namespace job, nm) \<in> dom (cl_pods (view ?w1))" if "nm \<in> pod_Name ` set pods" for nm
  proof -
    from that obtain p where p: "p \<in> set pods" "nm = pod_Name p" by blast
    with list_pods_stored [OF pods] obtain key where "cl_pods (view w) key = Some p"
      and "pod_Namespace p = job_Namespace job" by (auto simp: pod_selected_def)
    with p pods_keyed [of w key p] show ?thesis by (auto simp: list_pods_view)
  qed
  from create_gang_pods [OF gang ex]
  show "dom (cl_pods (view w')) =
      dom (cl_pods (view w)) \<union> (\<lambda>i. (job_Namespace job, podName job (word_of_nat i))) ` set (gang_indices job)"
    and "cl_pvcs (view w') = cl_pvcs (view w)"
    by (auto simp: w' finish_objects list_pods_view)
qed

lemma ensure_creates:
  assumes "fst (run_state (ensureCheckpointPVC K job) w) = Inr u"
  shows "cl_pvcs (view (snd (run_state (ensureCheckpointPVC K job) w))) (job_Namespace job, checkpointPVCName job) \<noteq> None"
  using assms
  by (auto simp: ensureCheckpointPVC_def split_beta get_pvc_view meta_of_def create_pvc_ok
      dest: get_pvc_stored controller_reference_keeps split: sum.splits if_splits)

lemma ensure_pods:
  "cl_pods (view (snd (run_state (ensureCheckpointPVC K job) w))) = cl_pods (view w)"
  by (simp add: ensureCheckpointPVC_def split_beta get_pvc_view create_pvc_pods split: sum.split)

lemma delete_pods_removes:
  assumes "run_state (delete_pods K ps) w = (Inr u, w')"
  shows "key \<in> pod_key ` set ps \<Longrightarrow> pod_gone_or_terminating (cl_pods (view w')) key"
    and "key \<notin> pod_key ` set ps \<Longrightarrow> cl_pods (view w') key = cl_pods (view w) key"
    and "cl_pvcs (view w') = cl_pvcs (view w)"
proof -
  have "(key \<in> pod_key ` set ps \<longrightarrow> pod_gone_or_terminating (cl_pods (view w')) key) \<and>
        (key \<notin> pod_key ` set ps \<longrightarrow> cl_pods (view w') key = cl_pods (view w) key) \<and>
        cl_pvcs (view w') = cl_pvcs (view w)"
    using assms
  proof (induction ps arbitrary: w)
    case Nil
    then show ?case by simp
  next
    case (Cons p ps)
    let ?w1 = "snd (run_state (k_delete_pod K p) w)"
    from Cons.prems have rest: "run_state (delete_pods K ps) ?w1 = (Inr u, w')"
      by (auto simp: split_beta split: sum.splits if_splits)
    have gone: "pod_gone_or_terminating (cl_pods (view ?w1)) (pod_key p)"
    proof (cases "fst (run_state (k_delete_pod K p) w)")
      case (Inl e)
      with Cons.prems have "IsNotFound e" by (auto simp: split_beta split: if_splits)
      with Inl show ?thesis
        using delete_pod_missing delete_pod_fails by (simp add: pod_gone_or_terminating_def)
    next
      case (Inr u)
      then show ?thesis by (rule delete_pod_ok)
    qed
    have others: "key \<noteq> pod_key p \<Longrightarrow> cl_pods (view ?w1) key = cl_pods (view w) key"
      by (rule delete_pod_others)
    from Cons.IH [OF rest] gone others show ?case
      by (auto simp: delete_pod_pvcs pod_gone_or_terminating_def)
  qed
  then show "key \<in> pod_key ` set ps \<Longrightarrow> pod_gone_or_terminating (cl_pods (view w')) key"
    and "key \<notin> pod_key ` set ps \<Longrightarrow> cl_pods (view w') key = cl_pods (view w) key"
    and "cl_pvcs (view w') = cl_pvcs (view w)" by blast+
qed

lemma startRetry_removes:
  assumes "run_state (startRetry K job) w = (Inr u, w')"
  shows "cl_pods (view w) key = Some p \<Longrightarrow>
      pod_selected (Some (job_Namespace job)) [(jobLabel, job_Name job)] p \<Longrightarrow>
      pod_gone_or_terminating (cl_pods (view w')) key"
    and "(\<And>p. cl_pods (view w) key = Some p \<Longrightarrow>
      \<not> pod_selected (Some (job_Namespace job)) [(jobLabel, job_Name job)] p) \<Longrightarrow>
      cl_pods (view w') key = cl_pods (view w) key"
    and "cl_pvcs (view w') = cl_pvcs (view w)"
proof -
  let ?l = "k_list_pods K (Some (job_Namespace job)) [(jobLabel, job_Name job)]"
  let ?w1 = "snd (run_state (k_update_job_status K (job\<lparr>job_Status := (job_Status job)\<lparr>st_NextRetryTime := None\<rparr>\<rparr>)) w)"
  from assms obtain pods where pods: "fst (run_state ?l ?w1) = Inr pods"
    and rest: "run_state (delete_pods K pods) (snd (run_state ?l ?w1)) = (Inr u, w')"
    by (auto simp: startRetry_def split_beta split: sum.splits)
  have listed: "key \<in> pod_key ` set pods \<longleftrightarrow>
      (\<exists>p. cl_pods (view w) key = Some p \<and> pod_selected (Some (job_Namespace job)) [(jobLabel, job_Name job)] p)" for key
  proof -
    have "set pods = {p. \<exists>key. cl_pods (view w) key = Some p \<and>
        pod_selected (Some (job_Namespace job)) [(jobLabel, job_Name job)] p}"
      using list_pods_stored [OF pods] by (simp only: status_pods)
    then show ?thesis using pods_keyed [of w] by blast
  qed
  note removes = delete_pods_removes [OF rest, unfolded listed]
  show "cl_pods (view w) key = Some p \<Longrightarrow>
      pod_selected (Some (job_Namespace job)) [(jobLabel, job_Name job)] p \<Longrightarrow>
      pod_gone_or_terminating (cl_pods (view w')) key"
    using removes(1) by blast
  show "(\<And>p. cl_pods (view w) key = Some p \<Longrightarrow>
      \<not> pod_selected (Some (job_Namespace job)) [(jobLabel, job_Name job)] p) \<Longrightarrow>
      cl_pods (view w') key = cl_pods (view w) key"
    using removes(2) [of key] by (auto simp: list_pods_view status_pods)
  show "cl_pvcs (view w') = cl_pvcs (view w)"
    using removes(3) by (simp add: list_pods_view status_pvcs)
qed

lemma reconcile_pool_seats:
  assumes "run_state (reconcile_pool K job) w = (Inr ctrl_done, w')"
  shows "dom (cl_pods (view w')) =
      dom (cl_pods (view w)) \<union> (\<lambda>i. (job_Namespace job, podName job (word_of_nat i))) ` set (gang_indices job)"
    and "cl_pvcs (view w') = cl_pvcs (view w)"
proof -
  obtain pool w1 where "run_state (reconcile_pods K job pool) w1 = (Inr ctrl_done, w')" and "view w1 = view w"
    using assms
    by (auto simp: reconcile_pool_def split_beta get_pool_view ctrl_done_def second_def
        split: sum.splits if_splits)
  then show "dom (cl_pods (view w')) =
      dom (cl_pods (view w)) \<union> (\<lambda>i. (job_Namespace job, podName job (word_of_nat i))) ` set (gang_indices job)"
    and "cl_pvcs (view w') = cl_pvcs (view w)"
    using reconcile_pods_seats by metis+
qed

lemma Reconcile_seats:
  assumes job: "cl_jobs (view w) (ns, n) = Some job"
    and "time_is_zero (om_DeletionTimestamp (job_Meta job))"
    and "k_contains_finalizer K (job_Meta job) AcceleratorFinalizer"
    and "\<not> is_terminal (st_Phase (job_Status job))"
    and "st_NextRetryTime (job_Status job) = None"
    and run: "run_state (Reconcile K ns n) w = (Inr ctrl_done, w')"
  shows "dom (cl_pods (view w')) =
      dom (cl_pods (view w)) \<union> (\<lambda>i. (ns, podName job (word_of_nat i))) ` set (gang_indices job)"
    and "spec_Checkpoint (job_Spec job) \<Longrightarrow> cl_pvcs (view w') (ns, checkpointPVCName job) \<noteq> None"
proof -
  let ?w1 = "snd (run_state (k_get_job K ns n) w)"
  let ?w2 = "if spec_Checkpoint (job_Spec job) then snd (run_state (ensureCheckpointPVC K job) ?w1) else ?w1"
  have ns: "job_Namespace job = ns" using jobs_keyed [OF job] by simp
  have get: "fst (run_state (k_get_job K ns n) w) = Inr job"
  proof (cases "fst (run_state (k_get_job K ns n) w)")
    case (Inl e)
    with run job show ?thesis using get_job_missing
      by (auto simp: Reconcile_def split_beta split: if_splits)
  next
    case (Inr j)
    with job get_job_stored [OF Inr] show ?thesis by simp
  qed
  then have act: "run_state (reconcile_active K job) ?w1 = (Inr ctrl_done, w')"
    using run assms(2-5) by (simp add: Reconcile_def split_beta)
  then have pool: "run_state (reconcile_pool K job) ?w2 = (Inr ctrl_done, w')"
    by (auto simp: reconcile_active_def split_beta split: sum.splits if_splits)
  from act have pvc: "spec_Checkpoint (job_Spec job) \<Longrightarrow> cl_pvcs (view ?w2) (ns, checkpointPVCName job) \<noteq> None"
    using ensure_creates [of job ?w1] ns
    by (auto simp: reconcile_active_def split_beta split: sum.splits)
  show "dom (cl_pods (view w')) =
      dom (cl_pods (view w)) \<union> (\<lambda>i. (ns, podName job (word_of_nat i))) ` set (gang_indices job)"
    using reconcile_pool_seats(1) [OF pool] by (simp add: ns ensure_pods get_job_view)
  show "spec_Checkpoint (job_Spec job) \<Longrightarrow> cl_pvcs (view w') (ns, checkpointPVCName job) \<noteq> None"
    using reconcile_pool_seats(2) [OF pool] pvc by simp
qed

end

end
