(* ===== verification/Job_Properties.thy ===== *)
theory Job_Properties
  imports Job_Lifecycle
begin

text \<open>
  The properties of the job controller (\<^verbatim>\<open>internal/controller/acceleratorjob_controller.go\<close>): the
  phase of a gang, the retry back-off, the status life cycle, and what a reconcile leaves in the
  cluster. The example job at the start is the input of the instances that follow each property.
\<close>

section \<open>A job to run the theorems on\<close>

definition example_spec :: AcceleratorJobSpec where
  "example_spec = \<lparr>spec_Image = ''busybox'', spec_Command = [], spec_Args = [],
     spec_AcceleratorType = ''mock-gpu'', spec_AcceleratorCount = 2, spec_Priority = 0,
     spec_Team = ''platform'', spec_Pool = '''', spec_GangSize = 2,
     spec_Resources = \<lparr>rr_Requests = Map.empty, rr_Limits = Map.empty\<rparr>,
     spec_MaxRetries = 3, spec_Checkpoint = True, spec_TimeoutSeconds = None\<rparr>"

definition example_job :: AcceleratorJob where
  "example_job = \<lparr>job_Meta = (meta_of ''default'' ''j'')\<lparr>om_Finalizers := [AcceleratorFinalizer]\<rparr>,
     job_Spec = example_spec, job_Status = zero_status\<rparr>"

definition example_world :: mem where
  "example_world = mem_empty\<lparr>mem_jobs := [example_job], mem_clock := 1000\<rparr>"

definition example_failed_pod :: pod where
  "example_failed_pod = (buildPod example_job None ''j'' 0 1 '''')\<lparr>pod_Phase := PodFailed\<rparr>"

lemmas example_defs = example_spec_def example_job_def example_world_def

section \<open>Properties\<close>

text \<open>The phase reported for a gang: Failed as soon as one pod failed, Succeeded exactly when
  every pod succeeded, Running when some pod has started, Pending otherwise.\<close>

lemma aggregatePhase_spec:
  "aggregatePhase pods =
     (if \<exists>p\<in>set pods. pod_Phase p = PodFailed then AcceleratorJobFailed
      else if list_all (\<lambda>p. pod_Phase p = PodSucceeded) pods then AcceleratorJobSucceeded
      else if \<exists>p\<in>set pods. pod_Phase p = PodRunning \<or> pod_Phase p = PodSucceeded
      then AcceleratorJobRunning else AcceleratorJobPending)"
proof (cases "aggregatePhase pods \<in> {AcceleratorJobFailed, AcceleratorJobSucceeded}")
  case True
  then show ?thesis
    using aggregatePhase_failed_iff [of pods] aggregatePhase_succeeded_iff [of pods]
    by (auto simp: list_all_iff)
next
  case False
  then have "\<not> (\<exists>p\<in>set pods. pod_Phase p = PodFailed)" "\<not> list_all (\<lambda>p. pod_Phase p = PodSucceeded) pods"
    using aggregatePhase_failed_iff [of pods] aggregatePhase_succeeded_iff [of pods]
    by (auto simp: list_all_iff)
  moreover from False have "aggregatePhase pods =
      (if any_started pods then AcceleratorJobRunning else AcceleratorJobPending)"
    by (simp add: aggregatePhase_def split: option.splits if_splits)
  ultimately show ?thesis by (simp add: any_started_iff)
qed

text \<open>The pods of one gang have pairwise different names, so no member overwrites another.\<close>

lemma gang_pod_names_distinct:
  "distinct (map (\<lambda>i. podName job (word_of_nat i)) (gang_indices job))"
proof (cases "1 < sint (spec_GangSize (job_Spec job))")
  case True
  have "inj_on (\<lambda>i. podName job (word_of_nat i)) (set (gang_indices job))"
  proof (rule inj_onI)
    fix i k :: nat
    assume i: "i \<in> set (gang_indices job)" and k: "k \<in> set (gang_indices job)"
      and "podName job (word_of_nat i) = podName job (word_of_nat k)"
    then have "(word_of_nat i :: int32) = word_of_nat k" using True by (auto dest: podName_inj)
    moreover have "i < 2 ^ 32" "k < 2 ^ 32"
      using i k sint32_range [of "effective_gang job"] by (auto simp: gang_indices_def)
    ultimately show "i = k"
      by (metis unat_word_of_nat_32)
  qed
  then show ?thesis by (simp add: distinct_map gang_indices_def)
next
  case False
  then have "sint (effective_gang job) \<le> 1" by (simp add: effective_gang_def)
  then have "gang_indices job = [] \<or> gang_indices job = [0]"
    by (cases "nat (sint (effective_gang job))") (auto simp: gang_indices_def)
  then show ?thesis by auto
qed

text \<open>Property C1. Against any API server, one reconcile of a job writes its status at most once, and what it
  writes is a step of the life cycle from the status it read.\<close>

theorem reconcile_writes_lifecycle_steps:
  "case fst (run_state (k_get_job K ns n) w) of
     Inl e \<Rightarrow> log_of (Reconcile (spy K) ns n) w = []
   | Inr job \<Rightarrow> one_legal_write job (log_of (Reconcile (spy K) ns n) w)"
  by (rule Reconcile_legal)



text \<open>Property C22. When a pod of the gang failed, the status sync writes exactly one status: with retries left
  the job goes back to Pending with the count raised by one and the next retry time set to now plus
  the back-off; with none left it is Failed with its completion time.\<close>

theorem failed_gang_retried_or_given_up:
  assumes "\<exists>p\<in>set pods. pod_Phase p = PodFailed"
    and "st_Phase (job_Status job) \<noteq> AcceleratorJobFailed"
    and "0 \<le> sint (st_RetryCount (job_Status job))"
  shows "\<exists>j. log_of (syncStatusFromPods (spy K) job pods) w = [j] \<and>
     (let now = fst (run_state (k_now K) w); rc = sint (st_RetryCount (job_Status job))
      in if sint (spec_MaxRetries (job_Spec job)) \<le> rc
         then st_Phase (job_Status j) = AcceleratorJobFailed \<and>
              st_CompletionTime (job_Status j) = Some now \<and>
              sint (st_RetryCount (job_Status j)) = rc
         else st_Phase (job_Status j) = AcceleratorJobPending \<and>
              sint (st_RetryCount (job_Status j)) = rc + 1 \<and>
              st_NextRetryTime (job_Status j) =
                Some (now + min (5 * 2 ^ nat (rc + 1)) 60 * 1000000000))"
proof -
  let ?rc = "st_RetryCount (job_Status job)"
  from assms(1) have pods: "pods \<noteq> []" "aggregatePhase pods = AcceleratorJobFailed"
    by (auto simp: aggregatePhase_failed_iff)
  show ?thesis
  proof (cases "sint (spec_MaxRetries (job_Spec job)) \<le> sint ?rc")
    case True
    with pods assms(2) show ?thesis
      by (simp add: syncStatusFromPods_def scheduleRetryOrFail_def Let_def)
  next
    case False
    then have suc: "sint (?rc + 1) = sint ?rc + 1" by (simp add: sint_Suc32 not_le)
    with assms(3) obtain d where "backoffDuration (?rc + 1) = Inr d"
      and "sint d = min (5 * 2 ^ nat (sint ?rc + 1)) 60 * 1000000000"
      using backoffDuration_closed [of "?rc + 1"] by auto
    with False pods assms(2) suc show ?thesis
      by (simp add: syncStatusFromPods_def scheduleRetryOrFail_def Let_def time_add_def)
  qed
qed

lemma gang_indices_set: "set (gang_indices job) = {..<nat (max 1 (sint (spec_GangSize (job_Spec job))))}"
  by (auto simp: gang_indices_def effective_gang_def)

text \<open>Property C3. All or nothing: a reconcile that succeeds on a live job leaves every pod of the gang in the
  cluster (and the checkpoint claim when asked for) and creates no other pod.\<close>

theorem successful_reconcile_seats_gang:
  assumes "kube_contract K view"
    and "cl_jobs (view w) (ns, n) = Some job"
    and "time_is_zero (om_DeletionTimestamp (job_Meta job))"
    and "k_contains_finalizer K (job_Meta job) AcceleratorFinalizer"
    and "\<not> is_terminal (st_Phase (job_Status job))"
    and "st_NextRetryTime (job_Status job) = None"
    and "run_state (Reconcile K ns n) w = (Inr ctrl_done, w')"
  shows "dom (cl_pods (view w')) = dom (cl_pods (view w)) \<union>
           (\<lambda>i. (ns, podName job (word_of_nat i))) ` {..<nat (max 1 (sint (spec_GangSize (job_Spec job))))} \<and>
         (spec_Checkpoint (job_Spec job) \<longrightarrow> cl_pvcs (view w') (ns, checkpointPVCName job) \<noteq> None)"
  using kube_contract.Reconcile_seats [OF assms] by (simp add: gang_indices_set)

lemma example_reconcile_runs:
  "fst (run_state (Reconcile mem_kube ''default'' ''j'') example_world) = Inr ctrl_done"
  by (simp add: Reconcile_def reconcile_active_def reconcile_pool_def reconcile_pods_def
      reconcile_finish_def ensureCheckpointPVC_def checkpointPVCName_def effective_gang_def gang_indices_def
      time_is_zero_def is_terminal_def done_or_def wrap_err_def Let_def upt_rec
      podName_def buildPod_def jobLabel_def example_defs go_eval)

theorem successful_reconcile_seats_gang_witness:
  "(''default'', ''j-1'') \<in>
     dom (cl_pods (mem_view (snd (run_state (Reconcile mem_kube ''default'' ''j'') example_world))))"
proof -
  let ?w' = "snd (run_state (Reconcile mem_kube ''default'' ''j'') example_world)"
  have run: "run_state (Reconcile mem_kube ''default'' ''j'') example_world = (Inr ctrl_done, ?w')"
    using example_reconcile_runs by (metis prod.collapse)
  have "cl_jobs (mem_view example_world) (''default'', ''j'') = Some example_job"
    by (simp add: mem_view_def example_defs go_eval)
  from successful_reconcile_seats_gang [OF memc.kube_contract_axioms this _ _ _ _ run]
  have "dom (cl_pods (mem_view ?w')) = dom (cl_pods (mem_view example_world)) \<union>
      (\<lambda>i. (''default'', podName example_job (word_of_nat i))) ` {..<nat (max 1 (sint (spec_GangSize (job_Spec example_job))))}"
    by (simp add: example_defs go_eval time_is_zero_def is_terminal_def)
  moreover have "podName example_job (word_of_nat 1) = ''j-1''"
    by (simp add: podName_def example_defs go_eval)
  moreover have "1 \<in> {..<nat (max 1 (sint (spec_GangSize (job_Spec example_job))))}"
    by (simp add: example_defs)
  ultimately show ?thesis by (metis (mono_tags, lifting) UnI2 image_eqI)
qed


lemma example_retry_runs:
  "run_state (startRetry mem_kube example_job) (example_world\<lparr>mem_pods := [example_failed_pod]\<rparr>) =
     (Inr (), example_world)"
  by (simp add: startRetry_def example_failed_pod_def buildPod_def jobLabel_def Let_def example_defs go_eval)


theorem failed_gang_retried_or_given_up_witness:
  "\<exists>j. log_of (syncStatusFromPods (spy mem_kube) example_job [example_failed_pod]) example_world = [j] \<and>
     st_NextRetryTime (job_Status j) = Some 10000001000"
proof -
  have "\<exists>p\<in>set [example_failed_pod]. pod_Phase p = PodFailed" by (simp add: example_failed_pod_def)
  moreover have "st_Phase (job_Status example_job) \<noteq> AcceleratorJobFailed"
    and "0 \<le> sint (st_RetryCount (job_Status example_job))"
    by (simp_all add: example_defs go_eval)
  ultimately show ?thesis
    using failed_gang_retried_or_given_up [of "[example_failed_pod]" example_job mem_kube example_world]
    by (auto simp: example_defs go_eval Let_def)
qed

section \<open>A job that keeps failing\<close>

text \<open>
  One round of failure: the status sync sees a failed pod and, unless that was the end, the retry
  is started. The worlds of the two reconciles are arbitrary: anything may happen in between.
\<close>

fun fail_rounds :: "'w kube \<Rightarrow> (pod list \<times> 'w \<times> 'w) list \<Rightarrow> AcceleratorJob \<Rightarrow> AcceleratorJob" where
  "fail_rounds K [] job = job"
| "fail_rounds K ((pods, w1, w2) # rs) job =
     (case log_of (syncStatusFromPods (spy K) job pods) w1 of
        [j1] \<Rightarrow>
          if is_terminal (st_Phase (job_Status j1)) then j1
          else (case log_of (startRetry (spy K) j1) w2 of [j2] \<Rightarrow> fail_rounds K rs j2 | _ \<Rightarrow> j1)
      | _ \<Rightarrow> job)"

lemma startRetry_log: "log_of (startRetry (spy K) job) w =
    [job\<lparr>job_Status := (job_Status job)\<lparr>st_NextRetryTime := None\<rparr>\<rparr>]"
  by (simp add: startRetry_def delete_pods_log split: sum.split)

lemma sync_failed_log:
  assumes "\<exists>p\<in>set pods. pod_Phase p = PodFailed" and "st_Phase (job_Status job) \<noteq> AcceleratorJobFailed"
    and "0 \<le> sint (st_RetryCount (job_Status job))"
  shows "\<exists>msg t. log_of (syncStatusFromPods (spy K) job pods) w =
     [if sint (spec_MaxRetries (job_Spec job)) \<le> sint (st_RetryCount (job_Status job))
      then job\<lparr>job_Status := (job_Status job)\<lparr>st_Phase := AcceleratorJobFailed, st_Message := msg,
             st_CompletionTime := Some t\<rparr>\<rparr>
      else job\<lparr>job_Status := (job_Status job)\<lparr>st_RetryCount := st_RetryCount (job_Status job) + 1,
             st_Phase := AcceleratorJobPending, st_NextRetryTime := Some t, st_Message := msg\<rparr>\<rparr>]"
proof -
  let ?rc = "st_RetryCount (job_Status job)"
  from assms(1) have pods: "pods \<noteq> []" "aggregatePhase pods = AcceleratorJobFailed"
    by (auto simp: aggregatePhase_failed_iff)
  show ?thesis
  proof (cases "sint (spec_MaxRetries (job_Spec job)) \<le> sint ?rc")
    case True
    with pods assms(2) show ?thesis by (auto simp: syncStatusFromPods_def scheduleRetryOrFail_def Let_def)
  next
    case False
    with assms(3) obtain d where "backoffDuration (?rc + 1) = Inr d"
      using backoffDuration_closed [of "?rc + 1"] by (auto simp: sint_Suc32 not_le)
    with False pods assms(2) show ?thesis by (auto simp: syncStatusFromPods_def scheduleRetryOrFail_def Let_def)
  qed
qed

text \<open>Property C14. Retrying ends: a job whose gang fails in every round is Failed for good after at most one round
  more than it has retries left, and by then it has used exactly its retries, whatever the API server
  does between and during the rounds.\<close>

theorem persistent_failure_gives_up:
  assumes "\<forall>(pods, w1, w2)\<in>set rounds. \<exists>p\<in>set pods. pod_Phase p = PodFailed"
    and "\<not> is_terminal (st_Phase (job_Status job))" and "0 \<le> sint (st_RetryCount (job_Status job))"
    and "nat (sint (spec_MaxRetries (job_Spec job)) - sint (st_RetryCount (job_Status job))) < length rounds"
  shows "st_Phase (job_Status (fail_rounds K rounds job)) = AcceleratorJobFailed \<and>
     sint (st_RetryCount (job_Status (fail_rounds K rounds job))) =
       max (sint (spec_MaxRetries (job_Spec job))) (sint (st_RetryCount (job_Status job)))"
  using assms
proof (induction rounds arbitrary: job)
  case (Cons r rs)
  obtain pods w1 w2 where r: "r = (pods, w1, w2)" by (cases r)
  let ?rc = "st_RetryCount (job_Status job)" and ?max = "sint (spec_MaxRetries (job_Spec job))"
  from Cons.prems(2) have live: "st_Phase (job_Status job) \<noteq> AcceleratorJobFailed" by (auto simp: is_terminal_def)
  with Cons.prems r obtain msg t where log: "log_of (syncStatusFromPods (spy K) job pods) w1 =
     [if ?max \<le> sint ?rc
      then job\<lparr>job_Status := (job_Status job)\<lparr>st_Phase := AcceleratorJobFailed, st_Message := msg,
             st_CompletionTime := Some t\<rparr>\<rparr>
      else job\<lparr>job_Status := (job_Status job)\<lparr>st_RetryCount := ?rc + 1,
             st_Phase := AcceleratorJobPending, st_NextRetryTime := Some t, st_Message := msg\<rparr>\<rparr>]"
    using sync_failed_log [of pods job K w1] by auto
  show ?case
  proof (cases "?max \<le> sint ?rc")
    case True
    with log r show ?thesis by (simp add: is_terminal_def)
  next
    case False
    let ?j = "job\<lparr>job_Status := (job_Status job)\<lparr>st_RetryCount := ?rc + 1, st_Phase := AcceleratorJobPending,
      st_Message := msg, st_NextRetryTime := None\<rparr>\<rparr>"
    from False have suc: "sint (?rc + 1) = sint ?rc + 1" by (simp add: sint_Suc32 not_le)
    have "fail_rounds K (r # rs) job = fail_rounds K rs ?j"
      using log r False by (simp add: is_terminal_def startRetry_log)
    moreover have "st_Phase (job_Status (fail_rounds K rs ?j)) = AcceleratorJobFailed \<and>
        sint (st_RetryCount (job_Status (fail_rounds K rs ?j))) = max ?max (sint (?rc + 1))"
      using Cons.IH [of ?j] Cons.prems suc False by (simp add: is_terminal_def nat_less_iff)
    ultimately show ?thesis using suc False by simp
  qed
qed simp

theorem persistent_failure_gives_up_witness:
  "st_Phase (job_Status (fail_rounds mem_kube (replicate 9 ([example_failed_pod], example_world, example_world)) example_job)) =
     AcceleratorJobFailed"
proof -
  have "\<forall>(pods, w1, w2)\<in>set (replicate 9 ([example_failed_pod], example_world, example_world)).
      \<exists>p\<in>set pods. pod_Phase p = PodFailed"
    by (simp add: example_failed_pod_def)
  moreover have "\<not> is_terminal (st_Phase (job_Status example_job))" "0 \<le> sint (st_RetryCount (job_Status example_job))"
    "nat (sint (spec_MaxRetries (job_Spec example_job)) - sint (st_RetryCount (job_Status example_job))) <
       length (replicate 9 ([example_failed_pod], example_world, example_world))"
    by (simp_all add: example_defs go_eval is_terminal_def)
  ultimately show ?thesis using persistent_failure_gives_up by blast
qed

end
