(* ===== verification/Job_Liveness.thy ===== *)
theory Job_Liveness
  imports Job_Properties
begin

text \<open>
  The AcceleratorJob reconciler makes progress: with finitely many transient faults, running it
  again after each failure and each request to do so seats the whole gang. The faults are a budget
  of the client that every failing call draws on.
\<close>

section \<open>The work queue\<close>

text \<open>
  controller-runtime runs a reconcile again when it failed or asked for it. \<open>settle k\<close> makes at most
  \<open>k\<close> attempts and tells whether the last one asked for nothing more.
\<close>

fun settle :: "nat \<Rightarrow> 'w kube \<Rightarrow> string \<Rightarrow> string \<Rightarrow> ('w, bool) state" where
  "settle 0 K ns n = ret False"
| "settle (Suc k) K ns n = do {
     r \<leftarrow> Reconcile K ns n;
     (case r of
        Inl e \<Rightarrow> settle k K ns n
      | Inr res \<Rightarrow> if res = ctrl_done then ret True else settle k K ns n)
   }"

abbreviation own_pod :: "AcceleratorJob \<Rightarrow> pod \<Rightarrow> bool" where
  "own_pod job p \<equiv> pod_selected (Some (job_Namespace job)) [(jobLabel, job_Name job)] p"

text \<open>
  A job whose gang can be seated: live, in no pool, with no retry pending, and no foreign pod has
  the name of one of its members.
\<close>

definition seatable :: "AcceleratorJob \<Rightarrow> cluster \<Rightarrow> bool" where
  "seatable job v \<longleftrightarrow> cl_jobs v (job_key job) = Some job \<and> om_DeletionTimestamp (job_Meta job) = None \<and>
     spec_Pool (job_Spec job) = '''' \<and> \<not> is_terminal (st_Phase (job_Status job)) \<and>
     st_NextRetryTime (job_Status job) = None \<and> 0 \<le> sint (st_RetryCount (job_Status job)) \<and>
     (\<forall>i\<in>set (gang_indices job). \<forall>p. cl_pods v (job_Namespace job, podName job (word_of_nat i)) = Some p \<longrightarrow> own_pod job p)"

text \<open>The finalizers have no say in the names of the gang.\<close>

lemma finalizer_naming:
  "podName (job\<lparr>job_Meta := (job_Meta job)\<lparr>om_Finalizers := fs\<rparr>\<rparr>) = podName job"
  "gang_indices (job\<lparr>job_Meta := (job_Meta job)\<lparr>om_Finalizers := fs\<rparr>\<rparr>) = gang_indices job"
  "checkpointPVCName (job\<lparr>job_Meta := (job_Meta job)\<lparr>om_Finalizers := fs\<rparr>\<rparr>) = checkpointPVCName job"
  by (simp_all add: podName_def fun_eq_iff gang_indices_def effective_gang_def checkpointPVCName_def)

section \<open>Clients with a budget of faults\<close>

locale kube_live = kube_contract K view for K :: "'w kube" and view +
  fixes budget :: "'w \<Rightarrow> nat"
  assumes add_finalizer_has: "k_contains_finalizer K (k_add_finalizer K m f) f"
    and add_finalizer_keeps: "\<exists>fs. k_add_finalizer K m f = m\<lparr>om_Finalizers := fs\<rparr>"
    and controller_free: "om_Controller m = None \<Longrightarrow> \<exists>m'. k_set_controller_reference K kind owner m = Inr m'"
    and update_job_fails:
      "fst (run_state (k_update_job K j) w) = Inl e \<Longrightarrow> view (snd (run_state (k_update_job K j) w)) = view w"
    and update_job_ok:
      "fst (run_state (k_update_job K j) w) = Inr u \<Longrightarrow> cl_jobs (view w) (job_key j) = Some old \<Longrightarrow>
       om_DeletionTimestamp (job_Meta old) = None \<Longrightarrow>
         view (snd (run_state (k_update_job K j) w)) =
           (view w)\<lparr>cl_jobs := (cl_jobs (view w))(job_key j \<mapsto> old\<lparr>job_Meta := job_Meta j, job_Spec := job_Spec j\<rparr>)\<rparr>"
    and status_fails:
      "fst (run_state (k_update_job_status K j) w) = Inl e \<Longrightarrow>
         view (snd (run_state (k_update_job_status K j) w)) = view w"
    and get_pvc_missing:
      "fst (run_state (k_get_pvc K ns n) w) = Inl e \<Longrightarrow> IsNotFound e \<Longrightarrow> cl_pvcs (view w) (ns, n) = None"
    and get_job_mono: "budget (snd (run_state (k_get_job K ns n) w)) \<le> budget w"
    and get_job_cost:
      "fst (run_state (k_get_job K ns n) w) = Inl e \<Longrightarrow> \<not> IsNotFound e \<Longrightarrow>
         budget (snd (run_state (k_get_job K ns n) w)) < budget w"
    and update_job_mono: "budget (snd (run_state (k_update_job K j) w)) \<le> budget w"
    and update_job_cost:
      "fst (run_state (k_update_job K j) w) = Inl e \<Longrightarrow> cl_jobs (view w) (job_key j) \<noteq> None \<Longrightarrow>
         budget (snd (run_state (k_update_job K j) w)) < budget w"
    and status_cost:
      "fst (run_state (k_update_job_status K j) w) = Inl e \<Longrightarrow> cl_jobs (view w) (job_key j) \<noteq> None \<Longrightarrow>
         budget (snd (run_state (k_update_job_status K j) w)) < budget w"
    and list_pods_mono: "budget (snd (run_state (k_list_pods K nso sel) w)) \<le> budget w"
    and list_pods_cost:
      "fst (run_state (k_list_pods K nso sel) w) = Inl e \<Longrightarrow>
         budget (snd (run_state (k_list_pods K nso sel) w)) < budget w"
    and create_pod_mono: "budget (snd (run_state (k_create_pod K p) w)) \<le> budget w"
    and create_pod_cost:
      "fst (run_state (k_create_pod K p) w) = Inl e \<Longrightarrow> cl_pods (view w) (pod_key p) = None \<Longrightarrow>
         budget (snd (run_state (k_create_pod K p) w)) < budget w"
    and get_pvc_mono: "budget (snd (run_state (k_get_pvc K ns n) w)) \<le> budget w"
    and get_pvc_cost:
      "fst (run_state (k_get_pvc K ns n) w) = Inl e \<Longrightarrow> \<not> IsNotFound e \<Longrightarrow>
         budget (snd (run_state (k_get_pvc K ns n) w)) < budget w"
    and create_pvc_mono: "budget (snd (run_state (k_create_pvc K v) w)) \<le> budget w"
    and create_pvc_cost:
      "fst (run_state (k_create_pvc K v) w) = Inl e \<Longrightarrow> cl_pvcs (view w) (pvc_key v) = None \<Longrightarrow>
         budget (snd (run_state (k_create_pvc K v) w)) < budget w"
    and now_mono: "budget (snd (run_state (k_now K) w)) \<le> budget w"
    and observe_mono: "budget (snd (run_state (k_observe_scheduling_latency K x) w)) \<le> budget w"
begin

text \<open>
  What a part of a reconcile that does not write the job's status does to the world: the jobs stay
  as they are, pods are added only with the job's label, and the budget does not grow.
\<close>

definition calm :: "AcceleratorJob \<Rightarrow> 'w \<Rightarrow> 'w \<Rightarrow> bool" where
  "calm job w w' \<longleftrightarrow> cl_jobs (view w') = cl_jobs (view w) \<and> budget w' \<le> budget w \<and>
     (\<forall>key p. cl_pods (view w') key = Some p \<longrightarrow> cl_pods (view w) key = Some p \<or> own_pod job p)"

lemma calm_same: "view w' = view w \<Longrightarrow> budget w' \<le> budget w \<Longrightarrow> calm job w w'"
  by (simp add: calm_def)

lemma calm_trans: "calm job w w' \<Longrightarrow> calm job w' w'' \<Longrightarrow> calm job w w''"
  unfolding calm_def by force

lemma calm_seatable: "calm job w w' \<Longrightarrow> seatable job (view w) \<Longrightarrow> seatable job (view w')"
  unfolding calm_def seatable_def by metis

text \<open>A run that is calm, and a failure of which costs budget.\<close>

definition frugal :: "AcceleratorJob \<Rightarrow> 'w \<Rightarrow> (go_error + 'a) \<times> 'w \<Rightarrow> bool" where
  "frugal job w rw \<longleftrightarrow> calm job w (snd rw) \<and> (\<forall>e. fst rw = Inl e \<longrightarrow> budget (snd rw) < budget w)"

lemma frugal_after: "calm job w w' \<Longrightarrow> frugal job w' rw \<Longrightarrow> frugal job w rw"
  unfolding frugal_def using calm_trans by (force simp: calm_def)

lemma create_pod_frugal:
  assumes "cl_pods (view w) (pod_key p) = None" and "own_pod job p"
  shows "frugal job w (run_state (k_create_pod K p) w)"
proof (cases "fst (run_state (k_create_pod K p) w)")
  case (Inl e)
  then show ?thesis
    using create_pod_cost [OF Inl assms(1)] create_pod_fails [OF Inl] by (simp add: frugal_def calm_def)
next
  case (Inr u)
  from create_pod_ok [OF Inr] obtain q where q: "pod_Meta q = pod_Meta p"
    and v1: "view (snd (run_state (k_create_pod K p) w)) =
      (view w)\<lparr>cl_pods := (cl_pods (view w))(pod_key p \<mapsto> q)\<rparr>" by auto
  from q assms(2) have "own_pod job q" by (simp add: pod_selected_def)
  with v1 Inr create_pod_mono [of p w] show ?thesis by (simp add: frugal_def calm_def)
qed

lemma create_pvc_frugal:
  assumes "cl_pvcs (view w) (pvc_key v) = None"
  shows "frugal job w (run_state (k_create_pvc K v) w)"
proof (cases "fst (run_state (k_create_pvc K v) w)")
  case (Inl e)
  then show ?thesis
    using create_pvc_cost [OF Inl assms] create_pvc_fails [OF Inl] by (simp add: frugal_def calm_def)
next
  case (Inr u)
  then show ?thesis
    using create_pvc_ok [OF Inr] create_pvc_mono [of v w] by (simp add: frugal_def calm_def)
qed

lemma built_pod_owned:
  "own_pod job (buildPod job pool name i g c)" "om_Controller (pod_Meta (buildPod job pool name i g c)) = None"
  "pod_key (buildPod job pool name i g c) = (job_Namespace job, name)"
  by (simp_all add: buildPod_def Let_def pod_selected_def jobLabel_def meta_of_def split: option.split)

lemma create_gang_frugal:
  assumes "distinct (map (\<lambda>i. podName job (word_of_nat i)) is)"
    and "\<forall>i\<in>set is. podName job (word_of_nat i) \<in> ex \<or>
      cl_pods (view w) (job_Namespace job, podName job (word_of_nat i)) = None"
  shows "frugal job w (run_state (create_gang K job pool g ex is c) w)"
  using assms
proof (induction "is" arbitrary: w c)
  case Nil
  then show ?case by (simp add: frugal_def calm_def)
next
  case (Cons i "is")
  let ?name = "podName job (word_of_nat i)"
  let ?pod = "buildPod job pool ?name (word_of_nat i) g
      (if spec_Checkpoint (job_Spec job) then checkpointPVCName job else '''')"
  show ?case
  proof (cases "?name \<in> ex")
    case True
    with Cons show ?thesis by simp
  next
    case False
    obtain m where m: "k_set_controller_reference K ''AcceleratorJob'' (job_Meta job) (pod_Meta ?pod) = Inr m"
      using controller_free [OF built_pod_owned(2), of "''AcceleratorJob''" "job_Meta job"] by blast
    let ?new = "?pod\<lparr>pod_Meta := m\<rparr>"
    let ?w1 = "snd (run_state (k_create_pod K ?new) w)"
    obtain ctl where mc: "m = (pod_Meta ?pod)\<lparr>om_Controller := ctl\<rparr>" using controller_reference_keeps [OF m] by blast
    then have key: "pod_key ?new = (job_Namespace job, ?name)" and own: "own_pod job ?new"
      using built_pod_owned [of job pool ?name] by (simp_all add: pod_selected_def)
    have free: "cl_pods (view w) (pod_key ?new) = None" using Cons.prems(2) False key by simp
    note one = create_pod_frugal [OF free own]
    show ?thesis
    proof (cases "fst (run_state (k_create_pod K ?new) w)")
      case (Inl e)
      with False m one show ?thesis by (simp add: Let_def frugal_def split_beta)
    next
      case (Inr u)
      from create_pod_ok [OF Inr] obtain q where
        v1: "view ?w1 = (view w)\<lparr>cl_pods := (cl_pods (view w))(pod_key ?new \<mapsto> q)\<rparr>" by auto
      have "\<forall>k\<in>set is. podName job (word_of_nat k) \<in> ex \<or>
          cl_pods (view ?w1) (job_Namespace job, podName job (word_of_nat k)) = None"
        using Cons.prems v1 key by (auto simp: image_iff)
      then have "frugal job ?w1 (run_state (create_gang K job pool g ex is True) ?w1)"
        using Cons.IH Cons.prems(1) by simp
      then have "frugal job w (run_state (create_gang K job pool g ex is True) ?w1)"
        using one frugal_after unfolding frugal_def by blast
      with False m Inr show ?thesis by (simp add: Let_def split_beta)
    qed
  qed
qed

lemma ensure_frugal: "frugal job w (run_state (ensureCheckpointPVC K job) w)"
proof -
  let ?g = "k_get_pvc K (job_Namespace job) (checkpointPVCName job)"
  let ?w1 = "snd (run_state ?g w)"
  have read: "calm job w ?w1" by (simp add: calm_same get_pvc_view get_pvc_mono)
  show ?thesis
  proof (cases "fst (run_state ?g w)")
    case (Inr v)
    with read show ?thesis by (simp add: ensureCheckpointPVC_def frugal_def split_beta)
  next
    case (Inl e)
    show ?thesis
    proof (cases "IsNotFound e")
      case False
      with Inl read get_pvc_cost [OF Inl False] show ?thesis
        by (simp add: ensureCheckpointPVC_def frugal_def split_beta)
    next
      case True
      let ?meta = "meta_of (job_Namespace job) (checkpointPVCName job)"
      have "om_Controller ?meta = None" by (simp add: meta_of_def)
      from controller_free [OF this, of "''AcceleratorJob''" "job_Meta job"] obtain m
        where m: "k_set_controller_reference K ''AcceleratorJob'' (job_Meta job) ?meta = Inr m" by blast
      let ?v = "\<lparr>pvc_Meta = m, pvc_AccessModes = [''ReadWriteOnce''], pvc_Requests = [''storage'' \<mapsto> Quantity (2 ^ 30)]\<rparr>"
      have "pvc_key ?v = (job_Namespace job, checkpointPVCName job)"
        using controller_reference_keeps [OF m] by (auto simp: meta_of_def)
      then have "cl_pvcs (view ?w1) (pvc_key ?v) = None"
        using get_pvc_missing [OF Inl True] by (simp only: get_pvc_view)
      from frugal_after [OF read create_pvc_frugal [OF this]] Inl True m show ?thesis
        by (simp add: ensureCheckpointPVC_def split_beta)
    qed
  qed
qed

text \<open>The status write that ends a reconcile: a failure leaves the objects alone and costs budget.\<close>

lemma status_frugal:
  assumes "fst (run_state (k_update_job_status K j) w) = Inl e" and "cl_jobs (view w) (job_key j) \<noteq> None"
  shows "view (snd (run_state (k_update_job_status K j) w)) = view w \<and>
     budget (snd (run_state (k_update_job_status K j) w)) < budget w"
  using assms status_fails status_cost by blast

lemma retry_fails:
  assumes "fst (run_state (scheduleRetryOrFail K job msg) w) = Inl e"
    and "cl_jobs (view w) (job_key job) \<noteq> None" and "0 \<le> sint (st_RetryCount (job_Status job))"
  shows "view (snd (run_state (scheduleRetryOrFail K job msg) w)) = view w \<and>
     budget (snd (run_state (scheduleRetryOrFail K job msg) w)) < budget w"
proof -
  let ?st = "job_Status job"
  let ?w1 = "snd (run_state (k_now K) w)"
  have stored: "cl_jobs (view ?w1) (job_key job) \<noteq> None" using assms(2) by (simp add: now_view)
  have "\<exists>st. run_state (scheduleRetryOrFail K job msg) w = run_state (k_update_job_status K (job\<lparr>job_Status := st\<rparr>)) ?w1"
  proof (cases "sint (spec_MaxRetries (job_Spec job)) \<le> sint (st_RetryCount ?st)")
    case True
    then show ?thesis by (auto simp: scheduleRetryOrFail_def Let_def split_beta)
  next
    case False
    then have "sint (st_RetryCount ?st + 1) = sint (st_RetryCount ?st) + 1" by (simp add: sint_Suc32 not_le)
    then have "0 \<le> sint (st_RetryCount ?st + 1)" using assms(3) by linarith
    from backoffDuration_closed [OF this] obtain d where "backoffDuration (st_RetryCount ?st + 1) = Inr d" by blast
    with False show ?thesis by (auto simp: scheduleRetryOrFail_def Let_def split_beta)
  qed
  then obtain st where run: "run_state (scheduleRetryOrFail K job msg) w =
      run_state (k_update_job_status K (job\<lparr>job_Status := st\<rparr>)) ?w1" by blast
  from assms(1) have "fst (run_state (k_update_job_status K (job\<lparr>job_Status := st\<rparr>)) ?w1) = Inl e" by (simp only: run)
  from status_frugal [OF this] stored now_mono [of w] show ?thesis by (simp add: run now_view)
qed

lemma sync_fails:
  assumes "fst (run_state (syncStatusFromPods K job pods) w) = Inl e"
    and "cl_jobs (view w) (job_key job) \<noteq> None" and "0 \<le> sint (st_RetryCount (job_Status job))"
  shows "view (snd (run_state (syncStatusFromPods K job pods) w)) = view w \<and>
     budget (snd (run_state (syncStatusFromPods K job pods) w)) < budget w"
proof (cases "aggregatePhase pods = AcceleratorJobFailed \<and> st_Phase (job_Status job) \<noteq> AcceleratorJobFailed")
  case True
  with assms(1) have "pods \<noteq> []" by (auto simp: syncStatusFromPods_def)
  with True have "syncStatusFromPods K job pods = scheduleRetryOrFail K job (failureMessage pods)"
    by (simp add: syncStatusFromPods_def)
  with assms retry_fails show ?thesis by simp
next
  case False
  have clock: "budget (snd (run_state (k_observe_scheduling_latency K d) (snd (run_state (k_now K) w)))) \<le> budget w" for d
    using order_trans [OF observe_mono now_mono] .
  from assms(1) False obtain x st where run: "run_state (syncStatusFromPods K job pods) w =
      run_state (k_update_job_status K (job\<lparr>job_Status := st\<rparr>)) x"
    and x: "view x = view w" "budget x \<le> budget w"
    by (auto simp: syncStatusFromPods_def Let_def split_beta now_view observe_view now_mono clock
        split: if_splits)
  from assms(1) have "fst (run_state (k_update_job_status K (job\<lparr>job_Status := st\<rparr>)) x) = Inl e" by (simp only: run)
  from status_frugal [OF this] assms(2) x show ?thesis by (simp add: run)
qed

lemma finish_fails:
  assumes "fst (run_state (reconcile_finish K job pods c) w) = Inl e"
    and "cl_jobs (view w) (job_key job) \<noteq> None" and "0 \<le> sint (st_RetryCount (job_Status job))"
  shows "view (snd (run_state (reconcile_finish K job pods c) w)) = view w \<and>
     budget (snd (run_state (reconcile_finish K job pods c) w)) < budget w"
  using assms(1) sync_fails [of job pods w, OF _ assms(2-3)]
    status_frugal [of "job\<lparr>job_Status := (job_Status job)\<lparr>st_Phase := AcceleratorJobPending\<rparr>\<rparr>" w] assms(2)
  by (auto simp: reconcile_finish_def split_beta done_or_def wrap_err_def split: if_splits sum.splits)

lemma finish_done: "fst (run_state (reconcile_finish K job pods c) w) = Inr res \<Longrightarrow> res = ctrl_done"
  by (auto simp: reconcile_finish_def split_beta done_or_def wrap_err_def split: if_splits sum.splits)

text \<open>The pods the job does not list leave its names free, so listing and creating is frugal.\<close>

lemma reconcile_pods_fails:
  assumes "fst (run_state (reconcile_pods K job pool) w) = Inl e" and seat: "seatable job (view w)"
  shows "calm job w (snd (run_state (reconcile_pods K job pool) w)) \<and>
     budget (snd (run_state (reconcile_pods K job pool) w)) < budget w"
proof -
  let ?l = "k_list_pods K (Some (job_Namespace job)) [(jobLabel, job_Name job)]"
  let ?w1 = "snd (run_state ?l w)"
  have read: "calm job w ?w1" by (simp add: calm_same list_pods_view list_pods_mono)
  show ?thesis
  proof (cases "fst (run_state ?l w)")
    case (Inl e)
    with read list_pods_cost [OF Inl] show ?thesis by (simp add: reconcile_pods_def split_beta)
  next
    case (Inr pods)
    let ?gang = "run_state (create_gang K job pool (effective_gang job) (pod_Name ` set pods) (gang_indices job) False) ?w1"
    have free: "podName job (word_of_nat i) \<in> pod_Name ` set pods \<or>
        cl_pods (view ?w1) (job_Namespace job, podName job (word_of_nat i)) = None" if "i \<in> set (gang_indices job)" for i
    proof (cases "cl_pods (view w) (job_Namespace job, podName job (word_of_nat i))")
      case (Some p)
      with seat that have "own_pod job p" by (simp add: seatable_def)
      with Some have "p \<in> set pods" unfolding list_pods_stored [OF Inr] by blast
      moreover have "pod_Name p = podName job (word_of_nat i)" using pods_keyed [OF Some] by simp
      ultimately show ?thesis by (metis imageI)
    qed (simp add: list_pods_view)
    then have "frugal job ?w1 ?gang" by (intro create_gang_frugal gang_pod_names_distinct ballI free)
    with read have gang: "frugal job w ?gang" by (rule frugal_after)
    show ?thesis
    proof (cases "fst ?gang")
      case (Inl e)
      with Inr gang show ?thesis by (simp add: reconcile_pods_def split_beta frugal_def)
    next
      case (Inr c)
      let ?w2 = "snd ?gang"
      have calm2: "calm job w ?w2" using gang by (simp add: frugal_def)
      then have "cl_jobs (view ?w2) (job_key job) \<noteq> None" "0 \<le> sint (st_RetryCount (job_Status job))"
        using seat by (simp_all add: calm_def seatable_def)
      note fin = finish_fails [OF _ this]
      have run: "run_state (reconcile_pods K job pool) w = run_state (reconcile_finish K job pods c) ?w2"
        using \<open>fst (run_state ?l w) = Inr pods\<close> Inr by (simp add: reconcile_pods_def split_beta)
      from assms(1) fin have "view (snd (run_state (reconcile_pods K job pool) w)) = view ?w2"
        "budget (snd (run_state (reconcile_pods K job pool) w)) < budget ?w2" by (simp_all add: run)
      with calm2 show ?thesis by (simp add: calm_def)
    qed
  qed
qed

lemma reconcile_active_fails:
  assumes "fst (run_state (reconcile_active K job) w) = Inl e" and seat: "seatable job (view w)"
  shows "calm job w (snd (run_state (reconcile_active K job) w)) \<and>
     budget (snd (run_state (reconcile_active K job) w)) < budget w"
proof (cases "spec_Checkpoint (job_Spec job)")
  case False
  with assms reconcile_pods_fails [of job None w] show ?thesis
    by (simp add: reconcile_active_def reconcile_pool_def seatable_def)
next
  case True
  let ?w1 = "snd (run_state (ensureCheckpointPVC K job) w)"
  have ens: "frugal job w (run_state (ensureCheckpointPVC K job) w)" by (rule ensure_frugal)
  show ?thesis
  proof (cases "fst (run_state (ensureCheckpointPVC K job) w)")
    case (Inl e)
    with True ens show ?thesis by (simp add: reconcile_active_def split_beta frugal_def)
  next
    case (Inr u)
    then have run: "run_state (reconcile_active K job) w = run_state (reconcile_pods K job None) ?w1"
      using True seat by (simp add: reconcile_active_def reconcile_pool_def split_beta seatable_def)
    have calm1: "calm job w ?w1" using ens by (simp add: frugal_def)
    then have "seatable job (view ?w1)" using seat by (rule calm_seatable)
    with reconcile_pods_fails [of job None ?w1] assms(1)
    have "calm job ?w1 (snd (run_state (reconcile_active K job) w))"
      and "budget (snd (run_state (reconcile_active K job) w)) < budget ?w1" by (simp_all add: run)
    moreover have "budget ?w1 \<le> budget w" using calm1 by (simp add: calm_def)
    ultimately show ?thesis using calm_trans [OF calm1] by simp
  qed
qed

lemma reconcile_active_done:
  assumes "fst (run_state (reconcile_active K job) w) = Inr res" and "spec_Pool (job_Spec job) = ''''"
  shows "res = ctrl_done"
  using assms
  by (auto simp: reconcile_active_def reconcile_pool_def reconcile_pods_def split_beta
      dest: finish_done split: if_splits sum.splits)

section \<open>Every attempt makes progress\<close>

abbreviation held :: "AcceleratorJob \<Rightarrow> bool" where
  "held job \<equiv> k_contains_finalizer K (job_Meta job) AcceleratorFinalizer"

lemma seatable_get:
  assumes "seatable job (view w)"
  shows "fst (run_state (k_get_job K (job_Namespace job) (job_Name job)) w) = Inr job \<or>
     (\<exists>e. fst (run_state (k_get_job K (job_Namespace job) (job_Name job)) w) = Inl e \<and> \<not> IsNotFound e)"
proof (cases "fst (run_state (k_get_job K (job_Namespace job) (job_Name job)) w)")
  case (Inl e)
  with assms get_job_missing [OF Inl] show ?thesis by (auto simp: seatable_def)
next
  case (Inr j)
  with assms get_job_stored [OF Inr] show ?thesis by (simp add: seatable_def)
qed

lemma get_job_calm: "calm job w (snd (run_state (k_get_job K ns n) w))"
  by (simp add: calm_same get_job_view get_job_mono)

lemma seatable_finalizer:
  "seatable job v \<Longrightarrow> seatable (job\<lparr>job_Meta := (job_Meta job)\<lparr>om_Finalizers := fs\<rparr>\<rparr>)
     (v\<lparr>cl_jobs := (cl_jobs v)(job_key job \<mapsto> job\<lparr>job_Meta := (job_Meta job)\<lparr>om_Finalizers := fs\<rparr>\<rparr>)\<rparr>)"
  by (simp add: seatable_def finalizer_naming)

lemma Reconcile_fails:
  assumes seat: "seatable job (view w)"
    and "run_state (Reconcile K (job_Namespace job) (job_Name job)) w = (Inl e, w')"
  shows "seatable job (view w') \<and> budget w' < budget w"
proof -
  let ?g = "k_get_job K (job_Namespace job) (job_Name job)"
  let ?w1 = "snd (run_state ?g w)"
  have live: "om_DeletionTimestamp (job_Meta job) = None" "\<not> is_terminal (st_Phase (job_Status job))"
    "st_NextRetryTime (job_Status job) = None" using seat by (simp_all add: seatable_def)
  have seat1: "seatable job (view ?w1)" and mono: "budget ?w1 \<le> budget w"
    using calm_seatable [OF get_job_calm seat] get_job_mono by simp_all
  consider (unread) e' where "fst (run_state ?g w) = Inl e'" "\<not> IsNotFound e'"
    | (free) "fst (run_state ?g w) = Inr job" "\<not> held job" | (held) "fst (run_state ?g w) = Inr job" "held job"
    using seatable_get [OF seat] by blast
  then show ?thesis
  proof cases
    case unread
    with assms(2) have "w' = ?w1" by (simp add: Reconcile_def split_beta time_is_zero_def)
    with seat1 get_job_cost [OF unread] show ?thesis by simp
  next
    case free
    let ?j = "job\<lparr>job_Meta := k_add_finalizer K (job_Meta job) AcceleratorFinalizer\<rparr>"
    obtain fs where fs: "k_add_finalizer K (job_Meta job) AcceleratorFinalizer = (job_Meta job)\<lparr>om_Finalizers := fs\<rparr>"
      using add_finalizer_keeps by blast
    from free assms(2) live obtain e' where e': "fst (run_state (k_update_job K ?j) ?w1) = Inl e'"
      and w': "w' = snd (run_state (k_update_job K ?j) ?w1)"
      by (auto simp: Reconcile_def split_beta time_is_zero_def split: sum.splits)
    have "cl_jobs (view ?w1) (job_key ?j) \<noteq> None" using seat1 by (simp add: seatable_def fs)
    from update_job_cost [OF e' this] update_job_fails [OF e'] seat1 mono show ?thesis by (simp add: w')
  next
    case held
    with assms(2) live have run: "run_state (reconcile_active K job) ?w1 = (Inl e, w')"
      by (simp add: Reconcile_def split_beta time_is_zero_def)
    from reconcile_active_fails [of job ?w1 e] run seat1
    have "calm job ?w1 w'" "budget w' < budget ?w1" by simp_all
    then show ?thesis using calm_seatable seat1 mono by auto
  qed
qed

lemma Reconcile_takes:
  assumes seat: "seatable job (view w)" and "\<not> held job"
    and "run_state (Reconcile K (job_Namespace job) (job_Name job)) w = (Inr res, w')"
  shows "res \<noteq> ctrl_done \<and> budget w' \<le> budget w \<and>
     (\<exists>fs. let job' = job\<lparr>job_Meta := (job_Meta job)\<lparr>om_Finalizers := fs\<rparr>\<rparr> in seatable job' (view w') \<and> held job')"
proof -
  let ?g = "k_get_job K (job_Namespace job) (job_Name job)"
  let ?w1 = "snd (run_state ?g w)"
  let ?j = "job\<lparr>job_Meta := k_add_finalizer K (job_Meta job) AcceleratorFinalizer\<rparr>"
  obtain fs where fs: "k_add_finalizer K (job_Meta job) AcceleratorFinalizer = (job_Meta job)\<lparr>om_Finalizers := fs\<rparr>"
    using add_finalizer_keeps by blast
  have live: "om_DeletionTimestamp (job_Meta job) = None" using seat by (simp add: seatable_def)
  have seat1: "seatable job (view ?w1)" using calm_seatable [OF get_job_calm seat] .
  have get: "fst (run_state ?g w) = Inr job"
    using seatable_get [OF seat] assms(3) by (auto simp: Reconcile_def split_beta)
  with assms(2,3) live obtain u where u: "fst (run_state (k_update_job K ?j) ?w1) = Inr u"
    and w': "w' = snd (run_state (k_update_job K ?j) ?w1)" and res: "res = \<lparr>Requeue = True, RequeueAfter = 0\<rparr>"
    by (auto simp: Reconcile_def split_beta time_is_zero_def split: sum.splits)
  have old: "cl_jobs (view ?w1) (job_key ?j) = Some job" using seat1 by (simp add: seatable_def fs)
  have "view w' = (view ?w1)\<lparr>cl_jobs := (cl_jobs (view ?w1))(job_key job \<mapsto> job\<lparr>job_Meta := (job_Meta job)\<lparr>om_Finalizers := fs\<rparr>\<rparr>)\<rparr>"
    using update_job_ok [OF u old live] by (simp add: w' fs)
  with seatable_finalizer [OF seat1, of fs] have "seatable (job\<lparr>job_Meta := (job_Meta job)\<lparr>om_Finalizers := fs\<rparr>\<rparr>) (view w')"
    by simp
  moreover have "held (job\<lparr>job_Meta := (job_Meta job)\<lparr>om_Finalizers := fs\<rparr>\<rparr>)"
    using add_finalizer_has [of "job_Meta job" AcceleratorFinalizer] by (simp add: fs)
  moreover have "budget w' \<le> budget w" unfolding w' using order_trans [OF update_job_mono get_job_mono] .
  ultimately show ?thesis by (auto simp: res ctrl_done_def Let_def)
qed

lemma Reconcile_settles:
  assumes seat: "seatable job (view w)" and "held job"
    and run: "run_state (Reconcile K (job_Namespace job) (job_Name job)) w = (Inr res, w')"
  shows "res = ctrl_done \<and>
     (\<lambda>i. (job_Namespace job, podName job (word_of_nat i))) ` set (gang_indices job) \<subseteq> dom (cl_pods (view w')) \<and>
     (spec_Checkpoint (job_Spec job) \<longrightarrow> cl_pvcs (view w') (job_Namespace job, checkpointPVCName job) \<noteq> None)"
proof -
  let ?g = "k_get_job K (job_Namespace job) (job_Name job)"
  have live: "om_DeletionTimestamp (job_Meta job) = None" "\<not> is_terminal (st_Phase (job_Status job))"
    "st_NextRetryTime (job_Status job) = None" "spec_Pool (job_Spec job) = ''''"
    "cl_jobs (view w) (job_key job) = Some job" using seat by (simp_all add: seatable_def)
  have get: "fst (run_state ?g w) = Inr job"
    using seatable_get [OF seat] run by (auto simp: Reconcile_def split_beta)
  with run assms(2) live have "run_state (reconcile_active K job) (snd (run_state ?g w)) = (Inr res, w')"
    by (simp add: Reconcile_def split_beta time_is_zero_def)
  then have res: "res = ctrl_done" using reconcile_active_done live(4) by (metis fst_conv)
  have zero: "time_is_zero (om_DeletionTimestamp (job_Meta job))" using live(1) by (simp add: time_is_zero_def)
  note seats = Reconcile_seats [OF live(5) zero assms(2) live(2,3) run [unfolded res]]
  show ?thesis using res seats by auto
qed

lemma settle_seats:
  assumes "seatable job (view w)" and "budget w + (if held job then 0 else 1) < k"
    and "run_state (settle k K (job_Namespace job) (job_Name job)) w = (b, w')"
  shows "b \<and> (\<lambda>i. (job_Namespace job, podName job (word_of_nat i))) ` set (gang_indices job) \<subseteq> dom (cl_pods (view w')) \<and>
     (spec_Checkpoint (job_Spec job) \<longrightarrow> cl_pvcs (view w') (job_Namespace job, checkpointPVCName job) \<noteq> None)"
  using assms
proof (induction k arbitrary: job w)
  case (Suc k)
  let ?r = "run_state (Reconcile K (job_Namespace job) (job_Name job)) w"
  obtain r w1 where r: "?r = (r, w1)" by (cases ?r)
  show ?case
  proof (cases r)
    case (Inl e)
    with Reconcile_fails Suc.prems(1) r have "seatable job (view w1)" "budget w1 < budget w" by blast+
    with Suc.IH [of job w1] Suc.prems(2,3) r Inl show ?thesis by simp
  next
    case (Inr res)
    show ?thesis
    proof (cases "held job")
      case True
      from Reconcile_settles [OF Suc.prems(1) True r [unfolded Inr]] Suc.prems(3) r Inr show ?thesis by simp
    next
      case False
      from Reconcile_takes [OF Suc.prems(1) False r [unfolded Inr]] obtain fs where
        "res \<noteq> ctrl_done" "budget w1 \<le> budget w"
        and "seatable (job\<lparr>job_Meta := (job_Meta job)\<lparr>om_Finalizers := fs\<rparr>\<rparr>) (view w1)"
        and "held (job\<lparr>job_Meta := (job_Meta job)\<lparr>om_Finalizers := fs\<rparr>\<rparr>)" by (auto simp: Let_def)
      with Suc.IH [of "job\<lparr>job_Meta := (job_Meta job)\<lparr>om_Finalizers := fs\<rparr>\<rparr>" w1] Suc.prems(2,3) r Inr False
      show ?thesis by (simp add: finalizer_naming)
    qed
  qed
qed simp

end

section \<open>The reference server is such a client\<close>

lemmas mem_live_ops = mem_ops mem_view_def

interpretation meml: kube_live mem_kube mem_view "\<lambda>w. length (mem_faults w)"
proof (unfold_locales, goal_cases)
  case (2 m f)
  show ?case
    by (rule exI [of _ "if f \<in> set (om_Finalizers m) then om_Finalizers m else om_Finalizers m @ [f]"])
      (simp add: mem_kube_def)
next
  case (5 j w u old)
  then show ?case
    by (auto simp: mem_live_ops lookup_by_replace fun_eq_iff dest: lookup_by_key split: list.splits if_splits option.splits)
qed (auto simp: mem_live_ops split: list.splits if_splits option.splits)

section \<open>The property\<close>


definition unheld_job :: AcceleratorJob where
  "unheld_job = example_job\<lparr>job_Meta := meta_of ''default'' ''j''\<rparr>"

definition faulty_world :: mem where
  "faulty_world = example_world\<lparr>mem_jobs := [unheld_job], mem_faults := [True, False, True, False, False, False, True]\<rparr>"


end
