(* ===== verification/Scheduler.thy ===== *)
theory Scheduler
  imports Job_Properties
begin

text \<open>
  The kube-scheduler extender, \<^verbatim>\<open>src/internal/scheduler\<close>: node scores (bin-pack or spread), the gang
  capacity gate, and the two HTTP handlers over them. The clientset's pod listing is a parameter;
  the locale \<open>pod_lister\<close> states what it promises and relates the handlers to exact arithmetic
  on the pods of the cluster.
\<close>

section \<open>Scores and feasibility (score.go)\<close>

definition StrategyBinPack :: string where
  "StrategyBinPack = ''BinPack''"

definition StrategySpread :: string where
  "StrategySpread = ''Spread''"

definition scoreNode :: "string \<Rightarrow> int64 \<Rightarrow> int64 \<Rightarrow> int64" where
  "scoreNode strategy capacity allocated =
     (if sint capacity \<le> 0 then 0
      else let allocated = (if sint capacity < sint allocated then capacity else allocated);
               ratio = go_div64 (allocated * 10) capacity
           in if strategy = StrategySpread then 10 - ratio else ratio)"

definition gangFeasible :: "goint \<Rightarrow> goint \<Rightarrow> int64 \<Rightarrow> int64 \<Rightarrow> bool" where
  "gangFeasible gangSize alreadyPlaced requestPerPod totalFree =
     (let remaining = gangSize - alreadyPlaced
      in if sint remaining \<le> 0 then True
         else sint (remaining * requestPerPod) \<le> sint totalFree)"

section \<open>The extender (extender.go)\<close>

definition gangSizeAnnotation :: string where
  "gangSizeAnnotation = ''metalgrid.dev/gang-size''"

definition strategyAnnotation :: string where
  "strategyAnnotation = ''metalgrid.dev/placement-strategy''"

text \<open>
  The clientset: pods whose \<^verbatim>\<open>spec.nodeName\<close> is the given node, and pods that carry a label,
  in all namespaces.
\<close>

record 'w clientset =
  cs_pods_on_node :: "string \<Rightarrow> ('w, pod list) eff"
  cs_pods_labelled :: "string \<Rightarrow> string \<Rightarrow> ('w, pod list) eff"

text \<open>Looking up a key that is absent from a Go map gives the zero value.\<close>

definition map_str :: "labels \<Rightarrow> string \<Rightarrow> string" where
  "map_str m k = (case m k of None \<Rightarrow> '''' | Some v \<Rightarrow> v)"

definition map_qty :: "resource_list \<Rightarrow> string \<Rightarrow> quantity" where
  "map_qty m k = (case m k of None \<Rightarrow> Quantity 0 | Some q \<Rightarrow> q)"

definition podAcceleratorRequest :: "pod \<Rightarrow> int64" where
  "podAcceleratorRequest p =
     foldl (\<lambda>total c. case rr_Requests (c_Resources c) AcceleratorResourceName of
              None \<Rightarrow> total
            | Some q \<Rightarrow> total + quantity_Value q) 0 (ps_Containers (pod_Spec p))"

definition allocatedAccelerators :: "'w clientset \<Rightarrow> string \<Rightarrow> ('w, int64) eff" where
  "allocatedAccelerators cs node = do {
     r \<leftarrow> cs_pods_on_node cs node;
     ret (case r of
        Inl e \<Rightarrow> Inl e
      | Inr pods \<Rightarrow> Inr (foldl (\<lambda>total p.
          if pod_Phase p = PodSucceeded \<or> pod_Phase p = PodFailed then total
          else total + podAcceleratorRequest p) 0 pods))
   }"

definition siblingsPlaced :: "'w clientset \<Rightarrow> string \<Rightarrow> string \<Rightarrow> ('w, goint) eff" where
  "siblingsPlaced cs jobName excludePod =
     (if jobName = '''' then ret (Inr 0)
      else do {
        r \<leftarrow> cs_pods_labelled cs jobLabel jobName;
        ret (case r of
           Inl e \<Rightarrow> Inl e
         | Inr pods \<Rightarrow> Inr (foldl (\<lambda>count p.
             if pod_Name p = excludePod then count
             else if ps_NodeName (pod_Spec p) \<noteq> '''' then count + 1 else count) 0 pods))
      })"

text \<open>
  \<^verbatim>\<open>extenderv1.ExtenderArgs\<close> as decoded from the body, with its two pointers. \<open>None\<close> as a whole is
  a body that does not decode.
\<close>

record ExtenderArgs =
  ea_Pod :: "pod option"
  ea_Nodes :: "node list option"

record HostPriority =
  hp_Host :: string
  hp_Score :: int64

record ExtenderFilterResult =
  fr_Nodes :: "node list option"
  fr_FailedNodes :: "string \<rightharpoonup> string"

text \<open>
  \<^verbatim>\<open>writeJSON\<close> answers 200 with the value; \<^verbatim>\<open>http.Error\<close> answers its status with a text. An argument
  whose pod is nil is dereferenced without a check: the handler panics.
\<close>

definition alloc_error :: "node \<Rightarrow> go_error \<Rightarrow> 'a http_reply" where
  "alloc_error nd e =
     ErrorReply 500 (''computing allocation for '' @ node_Name nd @ '': '' @ error_text e)"

fun prioritize_loop ::
  "'w clientset \<Rightarrow> string \<Rightarrow> node list \<Rightarrow> HostPriority list \<Rightarrow> ('w, HostPriority list http_reply) state" where
  "prioritize_loop cs strategy [] result = ret (JsonReply 200 result)"
| "prioritize_loop cs strategy (nd # nds) result = do {
     a \<leftarrow> allocatedAccelerators cs (node_Name nd);
     (case a of
        Inl e \<Rightarrow> ret (alloc_error nd e)
      | Inr allocated \<Rightarrow>
          prioritize_loop cs strategy nds (result @ [\<lparr>hp_Host = node_Name nd,
            hp_Score = scoreNode strategy
              (quantity_Value (map_qty (node_Allocatable nd) AcceleratorResourceName)) allocated\<rparr>]))
   }"

definition handlePrioritize ::
  "'w clientset \<Rightarrow> ExtenderArgs option \<Rightarrow> ('w, HostPriority list http_reply) state" where
  "handlePrioritize cs body =
     (case body of
        None \<Rightarrow> ret (ErrorReply 400 ''invalid extender args'')
      | Some args \<Rightarrow>
          (case ea_Nodes args of
             None \<Rightarrow> ret (ErrorReply 400 ''invalid extender args'')
           | Some nodes \<Rightarrow>
               (case ea_Pod args of
                  None \<Rightarrow> ret ConnectionDropped
                | Some pod \<Rightarrow>
                    let s = map_str (om_Annotations (pod_Meta pod)) strategyAnnotation;
                        strategy = (if s = '''' then StrategyBinPack else s)
                    in prioritize_loop cs strategy nodes [])))"

text \<open>The loop that adds up the free accelerators of the candidate nodes.\<close>

fun total_free :: "'w clientset \<Rightarrow> node list \<Rightarrow> int64 \<Rightarrow> ('w, ExtenderFilterResult http_reply + int64) state" where
  "total_free cs [] totalFree = ret (Inr totalFree)"
| "total_free cs (nd # nds) totalFree = do {
     a \<leftarrow> allocatedAccelerators cs (node_Name nd);
     (case a of
        Inl e \<Rightarrow> ret (Inl (alloc_error nd e))
      | Inr allocated \<Rightarrow>
          let free = quantity_Value (map_qty (node_Allocatable nd) AcceleratorResourceName) - allocated
          in total_free cs nds (if 0 < sint free then totalFree + free else totalFree))
   }"

definition gang_waiting :: string where
  "gang_waiting = ''waiting for enough combined capacity to seat the whole gang''"

definition filter_gang ::
  "'w clientset \<Rightarrow> pod \<Rightarrow> node list \<Rightarrow> goint \<Rightarrow> ('w, ExtenderFilterResult http_reply) state" where
  "filter_gang cs pod nodes gangSize = do {
     s \<leftarrow> siblingsPlaced cs (map_str (om_Labels (pod_Meta pod)) jobLabel) (pod_Name pod);
     (case s of
        Inl e \<Rightarrow> ret (ErrorReply 500 (''counting gang siblings: '' @ error_text e))
      | Inr alreadyPlaced \<Rightarrow> do {
          f \<leftarrow> total_free cs nodes 0;
          ret (case f of
             Inl r \<Rightarrow> r
           | Inr totalFree \<Rightarrow>
               if gangFeasible gangSize alreadyPlaced (podAcceleratorRequest pod) totalFree
               then JsonReply 200 \<lparr>fr_Nodes = Some nodes, fr_FailedNodes = Map.empty\<rparr>
               else JsonReply 200 \<lparr>fr_Nodes = None,
                 fr_FailedNodes = foldl (\<lambda>m nd. m(node_Name nd \<mapsto> gang_waiting)) Map.empty nodes\<rparr>)
        })
   }"

definition handleFilter ::
  "'w clientset \<Rightarrow> ExtenderArgs option \<Rightarrow> ('w, ExtenderFilterResult http_reply) state" where
  "handleFilter cs body =
     (case body of
        None \<Rightarrow> ret (ErrorReply 400 ''invalid extender args'')
      | Some args \<Rightarrow>
          (case ea_Nodes args of
             None \<Rightarrow> ret (ErrorReply 400 ''invalid extender args'')
           | Some nodes \<Rightarrow>
               (case ea_Pod args of
                  None \<Rightarrow> ret ConnectionDropped
                | Some pod \<Rightarrow>
                    let gangSize = fst (atoi (map_str (om_Annotations (pod_Meta pod)) gangSizeAnnotation))
                    in if sint gangSize \<le> 1
                       then ret (JsonReply 200 \<lparr>fr_Nodes = Some nodes, fr_FailedNodes = Map.empty\<rparr>)
                       else filter_gang cs pod nodes gangSize)))"

text \<open>\<^verbatim>\<open>Routes\<close>: the two webhooks of the extender, both for POST only.\<close>

datatype extender_reply =
    FilterReply "ExtenderFilterResult http_reply"
  | PrioritizeReply "HostPriority list http_reply"
  | NoRoute nat

definition extender_Routes ::
  "'w clientset \<Rightarrow> string \<Rightarrow> string list \<Rightarrow> ExtenderArgs option \<Rightarrow> ('w, extender_reply) state" where
  "extender_Routes cs verb path body =
     (if path = [''filter''] \<and> verb = ''POST'' then do { r \<leftarrow> handleFilter cs body; ret (FilterReply r) }
      else if path = [''prioritize''] \<and> verb = ''POST'' then do { r \<leftarrow> handlePrioritize cs body; ret (PrioritizeReply r) }
      else ret (NoRoute (if path = [''filter''] \<or> path = [''prioritize''] then 405 else 404)))"

section \<open>Exact accounting\<close>

text \<open>
  The same quantities over unbounded integers: what a pod asks for, what the live pods bound to a
  node use, what a node has left, and how many other members of a gang are bound.
\<close>

definition qty_int :: "quantity \<Rightarrow> int" where
  "qty_int q = (case q of Quantity n \<Rightarrow> n)"

definition pod_request :: "pod \<Rightarrow> int" where
  "pod_request p = sum_list (map (\<lambda>c. case rr_Requests (c_Resources c) AcceleratorResourceName of
     None \<Rightarrow> 0 | Some q \<Rightarrow> qty_int q) (ps_Containers (pod_Spec p)))"

definition node_alloc :: "node \<Rightarrow> int" where
  "node_alloc nd = qty_int (map_qty (node_Allocatable nd) AcceleratorResourceName)"

definition live_on :: "string \<Rightarrow> pod \<Rightarrow> bool" where
  "live_on n p \<longleftrightarrow> ps_NodeName (pod_Spec p) = n \<and> pod_Phase p \<noteq> PodSucceeded \<and> pod_Phase p \<noteq> PodFailed"

definition used_on :: "pod multiset \<Rightarrow> string \<Rightarrow> int" where
  "used_on pods n = (\<Sum>p\<in>#filter_mset (live_on n) pods. pod_request p)"

definition free_on :: "pod multiset \<Rightarrow> node \<Rightarrow> int" where
  "free_on pods nd = max 0 (node_alloc nd - used_on pods (node_Name nd))"

definition placed_sibling :: "string \<Rightarrow> string \<Rightarrow> pod \<Rightarrow> bool" where
  "placed_sibling jobName excludePod p \<longleftrightarrow> om_Labels (pod_Meta p) jobLabel = Some jobName \<and>
     pod_Name p \<noteq> excludePod \<and> ps_NodeName (pod_Spec p) \<noteq> ''''"

definition siblings :: "pod multiset \<Rightarrow> string \<Rightarrow> string \<Rightarrow> nat" where
  "siblings pods jobName excludePod =
     (if jobName = '''' then 0 else size (filter_mset (placed_sibling jobName excludePod) pods))"

text \<open>
  No sum leaves the 64-bit range: requests and capacities are not negative and their totals, and
  the number of pods, are below \<open>2 ^ 63\<close>.
\<close>

definition accountable :: "pod multiset \<Rightarrow> node list \<Rightarrow> bool" where
  "accountable pods nodes \<longleftrightarrow>
     (\<forall>p\<in>#pods. 0 \<le> pod_request p) \<and> (\<Sum>p\<in>#pods. pod_request p) < 2 ^ 63 \<and>
     (\<forall>nd\<in>set nodes. 0 \<le> node_alloc nd) \<and> sum_list (map node_alloc nodes) < 2 ^ 63 \<and>
     size pods < 2 ^ 63"

lemma quantity_Value_int: "quantity_Value q = word_of_int (qty_int q)"
  by (cases q) (simp add: qty_int_def)

lemma node_alloc_word:
  "quantity_Value (map_qty (node_Allocatable nd) AcceleratorResourceName) = word_of_int (node_alloc nd)"
  by (simp add: quantity_Value_int node_alloc_def)

lemma podAcceleratorRequest_int: "podAcceleratorRequest p = word_of_int (pod_request p)"
proof -
  have "foldl (\<lambda>total c. case rr_Requests (c_Resources c) AcceleratorResourceName of
            None \<Rightarrow> total | Some q \<Rightarrow> total + quantity_Value q) t cs =
      t + (word_of_int (sum_list (map (\<lambda>c. case rr_Requests (c_Resources c) AcceleratorResourceName of
            None \<Rightarrow> 0 | Some q \<Rightarrow> qty_int q) cs)) :: int64)"
    for t and cs :: "container list"
    by (induction cs arbitrary: t) (auto simp: quantity_Value_int split: option.split)
  then show ?thesis by (simp add: podAcceleratorRequest_def pod_request_def)
qed

lemma allocated_sum:
  "foldl (\<lambda>total p. if pod_Phase p = PodSucceeded \<or> pod_Phase p = PodFailed then total
       else total + podAcceleratorRequest p) t ps =
     t + word_of_int (\<Sum>p\<in>#filter_mset (\<lambda>p. pod_Phase p \<noteq> PodSucceeded \<and> pod_Phase p \<noteq> PodFailed) (mset ps).
       pod_request p)"
  by (induction ps arbitrary: t) (auto simp: podAcceleratorRequest_int)

lemma sibling_count:
  "foldl (\<lambda>count p. if pod_Name p = ex then count
       else if ps_NodeName (pod_Spec p) \<noteq> '''' then count + 1 else count) t ps =
     t + (word_of_nat (size (filter_mset (\<lambda>p. pod_Name p \<noteq> ex \<and> ps_NodeName (pod_Spec p) \<noteq> '''')
       (mset ps))) :: goint)"
  by (induction ps arbitrary: t) auto

lemma sum_mset_nonneg_int: "\<forall>x\<in>#M. (0 :: int) \<le> f x \<Longrightarrow> 0 \<le> (\<Sum>x\<in>#M. f x)"
  by (induction M) auto

lemma used_on_range:
  assumes "accountable pods nodes"
  shows "0 \<le> used_on pods n" "used_on pods n < 2 ^ 63"
proof -
  let ?P = "live_on n"
  have nonneg: "0 \<le> (\<Sum>p\<in>#filter_mset Q pods. pod_request p)" for Q
    using assms by (intro sum_mset_nonneg_int) (auto simp: accountable_def)
  from nonneg [of ?P] show "0 \<le> used_on pods n" by (simp add: used_on_def)
  have "(\<Sum>p\<in>#pods. pod_request p) = used_on pods n + (\<Sum>p\<in>#filter_mset (\<lambda>p. \<not> ?P p) pods. pod_request p)"
    unfolding used_on_def by (metis image_mset_union multiset_partition sum_mset.union)
  with nonneg [of "\<lambda>p. \<not> ?P p"] assms show "used_on pods n < 2 ^ 63" by (simp add: accountable_def)
qed

lemma node_alloc_range:
  assumes "accountable pods nodes" and "nd \<in> set nodes"
  shows "0 \<le> node_alloc nd" "node_alloc nd < 2 ^ 63"
proof -
  from assms have all: "\<forall>nd\<in>set nodes. 0 \<le> node_alloc nd" and lt: "sum_list (map node_alloc nodes) < 2 ^ 63"
    by (auto simp: accountable_def)
  from all assms(2) show "0 \<le> node_alloc nd" by blast
  have "node_alloc nd \<le> sum_list (map node_alloc nodes)"
    using all assms(2) by (intro member_le_sum_list) auto
  with lt show "node_alloc nd < 2 ^ 63" by simp
qed

lemma free_word:
  assumes "accountable pods nodes" and "nd \<in> set nodes"
  shows "sint (word_of_int (node_alloc nd) - word_of_int (used_on pods (node_Name nd)) :: int64) =
     node_alloc nd - used_on pods (node_Name nd)"
proof -
  have "sint (word_of_int (node_alloc nd - used_on pods (node_Name nd)) :: int64) =
      node_alloc nd - used_on pods (node_Name nd)"
    using used_on_range [OF assms(1), of "node_Name nd"] node_alloc_range [OF assms]
    by (intro sint64_small) auto
  then show ?thesis by simp
qed

locale pod_lister =
  fixes cs :: "'w clientset"
    and pods_of :: "'w \<Rightarrow> pod multiset"
  assumes on_node_keeps: "pods_of (snd (run_state (cs_pods_on_node cs n) w)) = pods_of w"
    and on_node: "fst (run_state (cs_pods_on_node cs n) w) = Inr ps \<Longrightarrow>
      mset ps = filter_mset (\<lambda>p. ps_NodeName (pod_Spec p) = n) (pods_of w)"
    and labelled_keeps: "pods_of (snd (run_state (cs_pods_labelled cs k v) w)) = pods_of w"
    and labelled: "fst (run_state (cs_pods_labelled cs k v) w) = Inr ps \<Longrightarrow>
      mset ps = filter_mset (\<lambda>p. om_Labels (pod_Meta p) k = Some v) (pods_of w)"
begin

lemma allocated_keeps: "pods_of (snd (run_state (allocatedAccelerators cs n) w)) = pods_of w"
  by (simp add: allocatedAccelerators_def on_node_keeps split_beta)

lemma allocated_exact:
  "fst (run_state (allocatedAccelerators cs n) w) = Inr a \<Longrightarrow> a = word_of_int (used_on (pods_of w) n)"
proof -
  assume "fst (run_state (allocatedAccelerators cs n) w) = Inr a"
  then obtain ps where ps: "fst (run_state (cs_pods_on_node cs n) w) = Inr ps"
    and a: "a = 0 + word_of_int (\<Sum>p\<in>#filter_mset (\<lambda>p. pod_Phase p \<noteq> PodSucceeded \<and> pod_Phase p \<noteq> PodFailed) (mset ps).
       pod_request p)"
    by (auto simp: allocatedAccelerators_def split_beta allocated_sum split: sum.splits)
  have "filter_mset (\<lambda>p. pod_Phase p \<noteq> PodSucceeded \<and> pod_Phase p \<noteq> PodFailed) (mset ps) =
      filter_mset (live_on n) (pods_of w)"
    by (simp add: on_node [OF ps] filter_filter_mset live_on_def [abs_def] conj_ac)
  with a show ?thesis by (simp add: used_on_def)
qed

lemma siblings_exact:
  "fst (run_state (siblingsPlaced cs j ex) w) = Inr a \<Longrightarrow> a = word_of_nat (siblings (pods_of w) j ex)"
proof (cases "j = ''''")
  case False
  assume "fst (run_state (siblingsPlaced cs j ex) w) = Inr a"
  with False obtain ps where ps: "fst (run_state (cs_pods_labelled cs jobLabel j) w) = Inr ps"
    and a: "a = 0 + word_of_nat (size (filter_mset (\<lambda>p. pod_Name p \<noteq> ex \<and> ps_NodeName (pod_Spec p) \<noteq> '''') (mset ps)))"
    by (auto simp: siblingsPlaced_def split_beta sibling_count split: sum.splits)
  have "filter_mset (\<lambda>p. pod_Name p \<noteq> ex \<and> ps_NodeName (pod_Spec p) \<noteq> '''') (mset ps) =
      filter_mset (placed_sibling j ex) (pods_of w)"
    by (simp add: labelled [OF ps] filter_filter_mset placed_sibling_def [abs_def] conj_ac)
  with a False show ?thesis by (simp add: siblings_def)
qed (simp add: siblingsPlaced_def siblings_def)

lemma siblings_keeps: "pods_of (snd (run_state (siblingsPlaced cs j ex) w)) = pods_of w"
  by (simp add: siblingsPlaced_def labelled_keeps split_beta)

lemma prioritize_exact:
  "fst (run_state (prioritize_loop cs strategy nds acc) w) = JsonReply st rs \<Longrightarrow>
     st = 200 \<and> rs = acc @ map (\<lambda>nd. \<lparr>hp_Host = node_Name nd, hp_Score = scoreNode strategy
       (word_of_int (node_alloc nd)) (word_of_int (used_on (pods_of w) (node_Name nd)))\<rparr>) nds"
proof (induction nds arbitrary: acc w)
  case (Cons nd nds)
  let ?w' = "snd (run_state (allocatedAccelerators cs (node_Name nd)) w)"
  from Cons.prems obtain a where a: "fst (run_state (allocatedAccelerators cs (node_Name nd)) w) = Inr a"
    by (cases "fst (run_state (allocatedAccelerators cs (node_Name nd)) w)")
      (auto simp: split_beta alloc_error_def)
  with Cons.prems Cons.IH [of "acc @ [\<lparr>hp_Host = node_Name nd, hp_Score = scoreNode strategy
      (quantity_Value (map_qty (node_Allocatable nd) AcceleratorResourceName)) a\<rparr>]" ?w']
  show ?case
    by (simp add: split_beta allocated_keeps allocated_exact [OF a] node_alloc_word)
qed simp

lemma total_free_exact:
  assumes "fst (run_state (total_free cs nds t) w) = Inr f"
    and "accountable (pods_of w) nodes" and "set nds \<subseteq> set nodes"
  shows "f = t + word_of_int (sum_list (map (free_on (pods_of w)) nds))"
  using assms
proof (induction nds arbitrary: t w)
  case (Cons nd nds)
  let ?w' = "snd (run_state (allocatedAccelerators cs (node_Name nd)) w)"
  from Cons.prems obtain a where a: "fst (run_state (allocatedAccelerators cs (node_Name nd)) w) = Inr a"
    by (cases "fst (run_state (allocatedAccelerators cs (node_Name nd)) w)")
      (auto simp: split_beta)
  let ?free = "word_of_int (node_alloc nd) - word_of_int (used_on (pods_of w) (node_Name nd)) :: int64"
  let ?t = "if 0 < sint ?free then t + ?free else t"
  have t: "?t = t + word_of_int (free_on (pods_of w) nd)"
    using free_word [of "pods_of w" nodes nd] Cons.prems(2,3) by (auto simp: free_on_def max_def)
  from Cons.prems(1) a have "fst (run_state (total_free cs nds ?t) ?w') = Inr f"
    by (simp add: split_beta allocated_exact [OF a] node_alloc_word Let_def
        split del: if_split)
  then have "f = ?t + word_of_int (sum_list (map (free_on (pods_of ?w')) nds))"
    using Cons.prems(2,3) by (intro Cons.IH) (auto simp: allocated_keeps)
  then show ?case by (simp add: t allocated_keeps)
qed simp

end

section \<open>The reference server lists pods\<close>

definition mem_clientset :: "mem clientset" where
  "mem_clientset = \<lparr>
     cs_pods_on_node = (\<lambda>n. attempt (\<lambda>w.
       (Inr (filter (\<lambda>p. ps_NodeName (pod_Spec p) = n) (visible_by pod_key (mem_pods w))), w))),
     cs_pods_labelled = (\<lambda>k v. attempt (\<lambda>w.
       (Inr (filter (\<lambda>p. om_Labels (pod_Meta p) k = Some v) (visible_by pod_key (mem_pods w))), w)))\<rparr>"

definition mem_pod_set :: "mem \<Rightarrow> pod multiset" where
  "mem_pod_set w = mset (visible_by pod_key (mem_pods w))"

interpretation memcs: pod_lister mem_clientset mem_pod_set
  by unfold_locales
    (auto simp: mem_clientset_def mem_pod_set_def run_attempt split: list.splits if_splits)

section \<open>Score and gate over the integers\<close>

lemma go_div64_nonneg:
  assumes "0 \<le> i" "i < 2 ^ 63" "0 < sint b"
  shows "sint (go_div64 (word_of_int i) b) = i div sint b"
proof -
  have i: "sint (word_of_int i :: int64) = i" using assms by (intro sint64_small) auto
  have q: "0 \<le> i div sint b" "i div sint b \<le> i"
    using assms by (auto simp: pos_imp_zdiv_nonneg_iff intro: zdiv_mono2 [where b' = 1, simplified] div_by_1)
  have "sgn (sint (word_of_int i :: int64)) * sgn (sint b) * (\<bar>sint (word_of_int i :: int64)\<bar> div \<bar>sint b\<bar>) =
      i div sint b"
    using assms by (cases "i = 0") (simp_all add: i)
  then show ?thesis
    unfolding go_div64_def using q assms(2) by (simp only:) (intro sint64_small; simp)
qed

lemma scoreNode_value:
  assumes "0 < sint capacity" "sint capacity * 10 < 2 ^ 63" "0 \<le> sint allocated"
  shows "sint (scoreNode strategy capacity allocated) =
     (let r = min (sint allocated) (sint capacity) * 10 div sint capacity
      in if strategy = StrategySpread then 10 - r else r)"
proof -
  let ?m = "min (sint allocated) (sint capacity)"
  define a where "a = (if sint capacity < sint allocated then capacity else allocated)"
  define q where "q = go_div64 (a * 10) capacity"
  have "sint a = ?m" by (simp add: a_def)
  moreover have "a * 10 = word_of_int (sint a * 10)" by simp
  ultimately have "a * 10 = word_of_int (?m * 10)" by simp
  moreover have "0 \<le> ?m * 10" "?m * 10 < 2 ^ 63" using assms by auto
  ultimately have r: "sint q = ?m * 10 div sint capacity"
    using go_div64_nonneg [of "?m * 10" capacity] assms(1) by (simp add: q_def)
  have "?m * 10 div sint capacity \<le> (sint capacity * 10) div sint capacity"
    using assms by (intro zdiv_mono1) auto
  then have le: "sint q \<le> 10" using assms r by simp
  have ge: "0 \<le> sint q" using assms r by (simp add: pos_imp_zdiv_nonneg_iff)
  have "10 - q = word_of_int (10 - sint q)" by simp
  then have "sint (10 - q) = 10 - sint q"
    using le ge sint64_small [of "10 - sint q"] by simp
  with r assms(1) show ?thesis by (simp add: scoreNode_def Let_def a_def q_def)
qed

lemma gangFeasible_value:
  assumes "0 \<le> sint placed" "0 \<le> sint gang" "0 \<le> sint req" "sint gang * sint req < 2 ^ 63"
    and "0 \<le> sint free"
  shows "gangFeasible gang placed req free \<longleftrightarrow> (sint gang - sint placed) * sint req \<le> sint free"
proof -
  have "gang - placed = word_of_int (sint gang - sint placed)" by simp
  then have rem: "sint (gang - placed) = sint gang - sint placed"
    using assms(1,2) sint64_range [of gang] sint64_range [of placed]
      sint64_small [of "sint gang - sint placed"] by simp
  show ?thesis
  proof (cases "sint gang \<le> sint placed")
    case True
    then have "(sint gang - sint placed) * sint req \<le> 0"
      using assms(3) by (simp add: mult_nonpos_nonneg)
    with True assms(5) show ?thesis by (simp add: gangFeasible_def rem)
  next
    case False
    have "(gang - placed) * req = word_of_int ((sint gang - sint placed) * sint req)" by simp
    moreover have "(sint gang - sint placed) * sint req \<le> sint gang * sint req"
      using assms by (intro mult_right_mono) auto
    moreover have "0 \<le> (sint gang - sint placed) * sint req" using False assms(3) by simp
    ultimately have "sint ((gang - placed) * req) = (sint gang - sint placed) * sint req"
      using assms(4) sint64_small [of "(sint gang - sint placed) * sint req"] by simp
    with False show ?thesis by (simp add: gangFeasible_def rem Let_def)
  qed
qed

lemma foldl_upd_dom:
  "dom (foldl (\<lambda>m nd. m(node_Name nd \<mapsto> v)) m0 nds) = dom m0 \<union> node_Name ` set nds"
  by (induction nds arbitrary: m0) auto

lemma total_free_error:
  "fst (run_state (total_free cs nds t) w) = Inl x \<Longrightarrow> \<exists>m. x = ErrorReply 500 m"
  by (induction nds arbitrary: t w)
    (auto simp: split_beta Let_def alloc_error_def split: sum.splits)

lemma free_total_range:
  assumes "accountable pods nodes"
  shows "0 \<le> sum_list (map (free_on pods) nodes)" "sum_list (map (free_on pods) nodes) < 2 ^ 63"
proof -
  show "0 \<le> sum_list (map (free_on pods) nodes)"
    by (rule sum_list_nonneg) (auto simp: free_on_def)
  have "sum_list (map (free_on pods) nodes) \<le> sum_list (map node_alloc nodes)"
    using used_on_range [OF assms] node_alloc_range [OF assms]
    by (intro sum_list_mono) (auto simp: free_on_def)
  with assms show "sum_list (map (free_on pods) nodes) < 2 ^ 63" by (simp add: accountable_def)
qed

lemma siblings_bound: "accountable pods nodes \<Longrightarrow> int (siblings pods j ex) < 2 ^ 63"
proof -
  assume "accountable pods nodes"
  then have "siblings pods j ex < 2 ^ 63"
    by (auto simp: siblings_def accountable_def intro: le_less_trans [OF size_filter_mset_lesseq])
  then show ?thesis by (metis of_nat_less_iff of_nat_numeral of_nat_power)
qed

text \<open>On exact counts the machine test decides the integer inequality.\<close>

context pod_lister
begin

lemma gang_feasible_exact:
  assumes acc: "accountable (pods_of w) nodes"
    and a: "fst (run_state (siblingsPlaced cs j ex) w) = Inr a"
    and f: "fst (run_state (total_free cs nodes 0) w') = Inr f" and "pods_of w' = pods_of w"
    and g: "1 < sint g" "0 \<le> pod_request p" "pod_request p < 2 ^ 63" "sint g * pod_request p < 2 ^ 63"
  shows "gangFeasible g a (podAcceleratorRequest p) f \<longleftrightarrow>
     (sint g - int (siblings (pods_of w) j ex)) * pod_request p \<le> sum_list (map (free_on (pods_of w)) nodes)"
proof -
  have "f = word_of_int (sum_list (map (free_on (pods_of w)) nodes))"
    using total_free_exact [OF f, of nodes] acc assms(4) by simp
  then have sf: "sint f = sum_list (map (free_on (pods_of w)) nodes)" "0 \<le> sint f"
    using free_total_range [OF acc] by (simp_all add: sint64_small)
  have sa: "sint a = int (siblings (pods_of w) j ex)"
    using siblings_exact [OF a] siblings_bound [OF acc, of j ex] sint64_small [of "int (siblings (pods_of w) j ex)"] by simp
  have sr: "sint (podAcceleratorRequest p) = pod_request p"
    using g by (simp add: podAcceleratorRequest_int sint64_small)
  show ?thesis using gangFeasible_value [of a g "podAcceleratorRequest p" f] g sf sa sr by simp
qed

end

section \<open>Example cluster\<close>

definition example_node :: "string \<Rightarrow> int \<Rightarrow> node" where
  "example_node n k = \<lparr>node_Name = n, node_Capacity = [AcceleratorResourceName \<mapsto> Quantity k],
     node_Allocatable = [AcceleratorResourceName \<mapsto> Quantity k]\<rparr>"

definition example_member :: pod where
  "example_member = buildPod example_job None ''j-0'' 0 2 ''''"

definition example_bound :: pod where
  "example_bound = (buildPod example_job None ''j-1'' 1 2 '''')\<lparr>
     pod_Spec := (pod_Spec example_member)\<lparr>ps_NodeName := ''n1''\<rparr>, pod_Phase := PodRunning\<rparr>"

definition example_cluster :: mem where
  "example_cluster = mem_empty\<lparr>mem_pods := [example_member, example_bound]\<rparr>"

definition example_nodes :: "node list" where
  "example_nodes = [example_node ''n1'' 3, example_node ''n2'' 1]"

lemmas sched_eval = example_node_def example_member_def example_bound_def example_cluster_def
  example_nodes_def buildPod_def map_qty_def map_str_def strategyAnnotation_def gangSizeAnnotation_def
  jobLabel_def AcceleratorResourceName_def mem_clientset_def mem_pod_set_def example_defs

section \<open>Properties\<close>

text \<open>Property C30. Node scores: on any node with accelerators, within the range where ten times the
  capacity is an \<^verbatim>\<open>int64\<close>, the score is the fill ratio in tenths for bin-packing and its complement for
  spreading. It always lies in \<open>[0, 10]\<close>, bin-packing never prefers an emptier node of the same
  capacity, and spreading never a fuller one.\<close>

theorem score_packs_or_spreads:
  assumes "0 < sint capacity" and "sint capacity * 10 < 2 ^ 63"
    and "0 \<le> sint a" and "sint a \<le> sint b"
  shows "sint (scoreNode StrategyBinPack capacity a) = min (sint a) (sint capacity) * 10 div sint capacity \<and>
         sint (scoreNode StrategySpread capacity a) = 10 - sint (scoreNode StrategyBinPack capacity a) \<and>
         sint (scoreNode strategy capacity a) \<in> {0..10} \<and>
         sint (scoreNode StrategyBinPack capacity a) \<le> sint (scoreNode StrategyBinPack capacity b) \<and>
         sint (scoreNode StrategySpread capacity b) \<le> sint (scoreNode StrategySpread capacity a)"
proof -
  let ?r = "\<lambda>x :: int64. min (sint x) (sint capacity) * 10 div sint capacity"
  have "0 \<le> sint b" using assms by simp
  note val = scoreNode_value [OF assms(1,2,3), unfolded Let_def]
    scoreNode_value [OF assms(1,2) this, unfolded Let_def]
  have "?r a \<le> (sint capacity * 10) div sint capacity" using assms by (intro zdiv_mono1) auto
  then have "?r a \<le> 10" using assms by simp
  moreover have "0 \<le> ?r a" using assms by (simp add: pos_imp_zdiv_nonneg_iff)
  moreover have "?r a \<le> ?r b" using assms by (intro zdiv_mono1 mult_right_mono) auto
  moreover have "StrategyBinPack \<noteq> StrategySpread" by (simp add: StrategyBinPack_def StrategySpread_def)
  ultimately show ?thesis by (simp add: val)
qed

theorem score_packs_or_spreads_witness:
  "sint (scoreNode StrategyBinPack 8 6) = 7 \<and> sint (scoreNode StrategySpread 8 6) = 3"
  using score_packs_or_spreads [of 8 6 6] by simp

text \<open>The prioritize handler, over a pod listing that keeps its promise: a 200 answer scores every
  candidate node exactly once, in order, from its allocatable accelerators and what the live pods
  bound to it request, by the strategy annotated on the pod (bin-packing when there is none).\<close>

lemma prioritize_scores_every_node:
  assumes "pod_lister cs pods_of"
    and "fst (run_state (handlePrioritize cs (Some \<lparr>ea_Pod = Some p, ea_Nodes = Some nodes\<rparr>)) w) =
           JsonReply st rs"
  shows "st = 200 \<and>
     rs = map (\<lambda>nd. \<lparr>hp_Host = node_Name nd, hp_Score = scoreNode
       (if map_str (om_Annotations (pod_Meta p)) strategyAnnotation = '''' then StrategyBinPack
        else map_str (om_Annotations (pod_Meta p)) strategyAnnotation)
       (word_of_int (node_alloc nd)) (word_of_int (used_on (pods_of w) (node_Name nd)))\<rparr>) nodes"
  using assms(2) pod_lister.prioritize_exact [OF assms(1)]
  by (fastforce simp: handlePrioritize_def Let_def)

text \<open>Property C18. The gang gate, over a pod listing that keeps its promise and totals within 64 bits: a 200
  answer for a gang member returns all the candidate nodes exactly when their free accelerators
  together cover the members that are not placed yet, and otherwise fails every one of them. Pods
  outside gangs always pass.\<close>

theorem filter_admits_iff_gang_fits:
  assumes "pod_lister cs pods_of" and "accountable (pods_of w) nodes"
    and "g = fst (atoi (map_str (om_Annotations (pod_Meta p)) gangSizeAnnotation))"
    and "0 \<le> pod_request p" and "pod_request p < 2 ^ 63" and "sint g * pod_request p < 2 ^ 63"
    and "fst (run_state (handleFilter cs (Some \<lparr>ea_Pod = Some p, ea_Nodes = Some nodes\<rparr>)) w) =
           JsonReply st r"
  shows "st = 200 \<and>
     (if sint g \<le> 1 \<or>
         (sint g - int (siblings (pods_of w) (map_str (om_Labels (pod_Meta p)) jobLabel) (pod_Name p))) * pod_request p
           \<le> sum_list (map (free_on (pods_of w)) nodes)
      then r = \<lparr>fr_Nodes = Some nodes, fr_FailedNodes = Map.empty\<rparr>
      else fr_Nodes r = None \<and> dom (fr_FailedNodes r) = node_Name ` set nodes)"
proof (cases "sint g \<le> 1")
  case True
  with assms(3,7) show ?thesis by (auto simp: handleFilter_def Let_def)
next
  case False
  let ?j = "map_str (om_Labels (pod_Meta p)) jobLabel"
  let ?sib = "siblings (pods_of w) ?j (pod_Name p)"
  let ?w' = "snd (run_state (siblingsPlaced cs ?j (pod_Name p)) w)"
  from False assms(3,7) have run: "fst (run_state (filter_gang cs p nodes g) w) = JsonReply st r"
    by (simp add: handleFilter_def Let_def)
  then obtain a where a: "fst (run_state (siblingsPlaced cs ?j (pod_Name p)) w) = Inr a"
    by (cases "fst (run_state (siblingsPlaced cs ?j (pod_Name p)) w)") (auto simp: filter_gang_def split_beta)
  note keeps = pod_lister.siblings_keeps [OF assms(1)]
  show ?thesis
  proof (cases "fst (run_state (total_free cs nodes 0) ?w')")
    case (Inl x)
    with run a show ?thesis
      by (auto simp: filter_gang_def split_beta dest: total_free_error)
  next
    case (Inr f)
    have feas: "gangFeasible g a (podAcceleratorRequest p) f \<longleftrightarrow>
        (sint g - int ?sib) * pod_request p \<le> sum_list (map (free_on (pods_of w)) nodes)"
      using pod_lister.gang_feasible_exact [OF assms(1,2) a Inr] assms(4-6) False keeps by simp
    from run a Inr have "st = 200" and "r = (if gangFeasible g a (podAcceleratorRequest p) f
        then \<lparr>fr_Nodes = Some nodes, fr_FailedNodes = Map.empty\<rparr>
        else \<lparr>fr_Nodes = None,
          fr_FailedNodes = foldl (\<lambda>m nd. m(node_Name nd \<mapsto> gang_waiting)) Map.empty nodes\<rparr>)"
      by (simp_all add: filter_gang_def split_beta split: if_splits)
    with False feas show ?thesis by (simp add: foldl_upd_dom)
  qed
qed

lemma example_filter_runs:
  "fst (run_state (handleFilter mem_clientset
      (Some \<lparr>ea_Pod = Some example_member, ea_Nodes = Some [example_node ''n1'' 3]\<rparr>)) example_cluster) =
     JsonReply 200 \<lparr>fr_Nodes = None, fr_FailedNodes = [''n1'' \<mapsto> gang_waiting]\<rparr>"
  by (simp add: handleFilter_def filter_gang_def siblingsPlaced_def Let_def allocatedAccelerators_def
      podAcceleratorRequest_def gangFeasible_def atoi_def is_digit_char_def digit_val_def sched_eval go_eval)

theorem filter_admits_iff_gang_fits_witness:
  "\<not> (2 - int (siblings (mem_pod_set example_cluster) ''j'' ''j-0'')) * pod_request example_member
       \<le> sum_list (map (free_on (mem_pod_set example_cluster)) [example_node ''n1'' 3])"
proof -
  have "accountable (mem_pod_set example_cluster) [example_node ''n1'' 3]"
    and "0 \<le> pod_request example_member" "pod_request example_member < 2 ^ 63"
    and "atoi (map_str (om_Annotations (pod_Meta example_member)) gangSizeAnnotation) = (2, True)"
    and "map_str (om_Labels (pod_Meta example_member)) jobLabel = ''j''" "pod_Name example_member = ''j-0''"
    and "pod_request example_member = 2"
    by (simp_all add: accountable_def pod_request_def node_alloc_def qty_int_def atoi_def is_digit_char_def
        digit_val_def Let_def sched_eval go_eval)
  with filter_admits_iff_gang_fits [OF memcs.pod_lister_axioms _ refl _ _ _ example_filter_runs]
  show ?thesis by (auto split: if_splits)
qed


text \<open>
  Beyond the range of the score property the product wraps: a full node with \<open>2 ^ 62\<close> accelerators
  scores below zero.
\<close>

lemma scoreNode_wraps: "sint (scoreNode StrategyBinPack (2 ^ 62) (2 ^ 62)) = - 2"
  by (simp add: scoreNode_def go_div64_def StrategyBinPack_def StrategySpread_def)

end
