(* ===== verification/Fair_Queue.thy ===== *)
theory Fair_Queue
  imports Prelude
begin

text \<open>
  The job submission queue, \<^verbatim>\<open>src/internal/queue\<close>: the wire message, publishing, the fair-share
  consumer with its dead-letter routing, and the round-robin reordering \<^verbatim>\<open>interleaveByKey\<close>. The
  JetStream client is the parameter record \<open>jetstream\<close>. The locale \<open>grouped\<close> is the contract
  between the grouping pass and the round-robin pass.
\<close>

section \<open>Messages\<close>

record JobSubmission =
  sub_ID :: string
  sub_Team :: string
  sub_Image :: string
  sub_Command :: "string list"
  sub_Args :: "string list"
  sub_AcceleratorType :: string
  sub_AcceleratorCount :: int32
  sub_Priority :: int32
  sub_TraceParent :: string

text \<open>
  A message body, by what \<^verbatim>\<open>json.Unmarshal\<close> into a \<^verbatim>\<open>JobSubmission\<close> makes of it: the text that
  encodes a submission, or text that does not decode.
\<close>

datatype payload = Encoded JobSubmission | Undecodable string

definition json_Marshal :: "JobSubmission \<Rightarrow> payload" where
  "json_Marshal sub = Encoded sub"

fun json_Unmarshal :: "payload \<Rightarrow> go_error + JobSubmission" where
  "json_Unmarshal (Encoded sub) = Inr sub"
| "json_Unmarshal (Undecodable s) = Inl (Opaque s)"

text \<open>
  A delivered message: its sequence number in the stream, its body, and the delivery count of its
  metadata (\<open>None\<close> when \<^verbatim>\<open>Metadata()\<close> fails).
\<close>

record msg =
  msg_Seq :: nat
  msg_Data :: payload
  msg_NumDelivered :: "64 word option"

section \<open>The JetStream client\<close>

text \<open>
  \<open>js_publish\<close> takes the subject, the body and the message id, if any; \<open>js_fetch\<close> yields the
  messages of a batch and whether \<^verbatim>\<open>batch.Error()\<close> is set; \<open>js_ctx_err\<close> is \<^verbatim>\<open>ctx.Err()\<close>. The errors
  of \<^verbatim>\<open>Ack\<close>, \<^verbatim>\<open>Nak\<close> and \<^verbatim>\<open>Term\<close> are discarded by the code and do not appear.
\<close>

record 'w jetstream =
  js_publish :: "string \<Rightarrow> payload \<Rightarrow> string option \<Rightarrow> ('w, unit) eff"
  js_consumer :: "('w, unit) eff"
  js_info_pending :: "('w, 64 word) eff"
  js_create_consumer :: "goint \<Rightarrow> ('w, unit) eff"
  js_fetch :: "nat \<Rightarrow> ('w, msg list \<times> bool) eff"
  js_peek_consumer :: "('w, unit) eff"
  js_peek_fetch :: "goint \<Rightarrow> ('w, msg list) eff"
  js_ack :: "msg \<Rightarrow> ('w, unit) state"
  js_nak :: "msg \<Rightarrow> ('w, unit) state"
  js_term :: "msg \<Rightarrow> ('w, unit) state"
  js_ctx_err :: "('w, go_error option) state"

definition SubmitSubj :: string where
  "SubmitSubj = ''jobs.submit''"

definition DLQSubj :: string where
  "DLQSubj = ''jobs.dlq''"

definition FairShareBatchSize :: nat where
  "FairShareBatchSize = 50"

definition Publish :: "'w jetstream \<Rightarrow> string \<Rightarrow> payload \<Rightarrow> ('w, unit) eff" where
  "Publish J msgID payload = do {
     r \<leftarrow> js_publish J SubmitSubj payload (Some msgID);
     ret (case r of Inl e \<Rightarrow> Inl (errorf ''publishing job'' e) | Inr _ \<Rightarrow> Inr ())
   }"

definition PublishDLQ :: "'w jetstream \<Rightarrow> payload \<Rightarrow> ('w, unit) eff" where
  "PublishDLQ J payload = js_publish J DLQSubj payload None"

definition PendingCount :: "'w jetstream \<Rightarrow> ('w, goint) eff" where
  "PendingCount J = do {
     c \<leftarrow> js_consumer J;
     (case c of
        Inl e \<Rightarrow> ret (Inl (errorf ''getting consumer'' e))
      | Inr _ \<Rightarrow> do {
          i \<leftarrow> js_info_pending J;
          ret (case i of Inl e \<Rightarrow> Inl (errorf ''getting consumer info'' e) | Inr n \<Rightarrow> Inr n)
        })
   }"

definition PeekDLQ :: "'w jetstream \<Rightarrow> goint \<Rightarrow> ('w, payload list) eff" where
  "PeekDLQ J limit = do {
     c \<leftarrow> js_peek_consumer J;
     (case c of
        Inl e \<Rightarrow> ret (Inl (errorf ''creating peek consumer'' e))
      | Inr _ \<Rightarrow> do {
          b \<leftarrow> js_peek_fetch J limit;
          ret (case b of
             Inl e \<Rightarrow> Inl (errorf ''fetching DLQ messages'' e)
           | Inr msgs \<Rightarrow> Inr (map msg_Data msgs))
        })
   }"

section \<open>interleaveByKey\<close>

text \<open>
  The first pass collects the messages of each key in arrival order, and the keys in the order
  they are first seen. Reading an absent key of a Go map gives the nil slice.
\<close>

definition group_at :: "('k \<rightharpoonup> 'm list) \<Rightarrow> 'k \<Rightarrow> 'm list" where
  "group_at groups k = (case groups k of None \<Rightarrow> [] | Some ms \<Rightarrow> ms)"

definition group_step :: "('m \<Rightarrow> 'k) \<Rightarrow> ('k \<rightharpoonup> 'm list) \<times> 'k list \<Rightarrow> 'm \<Rightarrow> ('k \<rightharpoonup> 'm list) \<times> 'k list" where
  "group_step key acc m =
     (let (groups, order) = acc; k = key m;
          order' = (if groups k = None then order @ [k] else order)
      in (groups(k \<mapsto> group_at groups k @ [m]), order'))"

definition group_by_key :: "('m \<Rightarrow> 'k) \<Rightarrow> 'm list \<Rightarrow> ('k \<rightharpoonup> 'm list) \<times> 'k list" where
  "group_by_key key msgs = foldl (group_step key) (Map.empty, []) msgs"

text \<open>One sweep over the keys takes the head of every group that has one.\<close>

fun rr_round :: "'k list \<Rightarrow> ('k \<rightharpoonup> 'm list) \<Rightarrow> 'm list \<Rightarrow> bool \<Rightarrow> ('k \<rightharpoonup> 'm list) \<times> 'm list \<times> bool" where
  "rr_round [] groups out progressed = (groups, out, progressed)"
| "rr_round (k # ks) groups out progressed =
     (case group_at groups k of
        [] \<Rightarrow> rr_round ks groups out progressed
      | m # ms \<Rightarrow> rr_round ks (groups(k \<mapsto> ms)) (out @ [m]) True)"

definition waiting :: "'k list \<Rightarrow> ('k \<rightharpoonup> 'm list) \<Rightarrow> nat" where
  "waiting order groups = (\<Sum>k\<in>set order. length (group_at groups k))"

lemma group_at_upd [simp]: "group_at (groups(k \<mapsto> ms)) k' = (if k' = k then ms else group_at groups k')"
  by (simp add: group_at_def)

lemma waiting_upd_less:
  assumes "finite K" "k \<in> K" "group_at groups k = m # ms"
  shows "(\<Sum>k'\<in>K. length (group_at (groups(k \<mapsto> ms)) k')) < (\<Sum>k'\<in>K. length (group_at groups k'))"
  using assms by (intro sum_strict_mono_ex1) auto

lemma rr_round_waiting:
  assumes "rr_round ks groups out p = (groups', out', p')" and "finite K" "set ks \<subseteq> K"
  shows "(\<Sum>k\<in>K. length (group_at groups' k)) \<le> (\<Sum>k\<in>K. length (group_at groups k)) \<and>
    (p' \<longrightarrow> p \<or> (\<Sum>k\<in>K. length (group_at groups' k)) < (\<Sum>k\<in>K. length (group_at groups k)))"
  using assms
proof (induction ks groups out p rule: rr_round.induct)
  case (2 k ks groups out p)
  show ?case
  proof (cases "group_at groups k")
    case Nil
    with 2 show ?thesis by simp
  next
    case (Cons m ms)
    with 2(3) have run: "rr_round ks (groups(k \<mapsto> ms)) (out @ [m]) True = (groups', out', p')" by simp
    from 2(5) have "set ks \<subseteq> K" "k \<in> K" by simp_all
    from conjunct1 [OF 2(2) [OF Cons run 2(4) this(1)]] waiting_upd_less [OF 2(4) this(2) Cons]
    show ?thesis by linarith
  qed
qed simp

text \<open>The sweeps repeat until one makes no progress; every other one shrinks what is waiting.\<close>

function rr_loop :: "'k list \<Rightarrow> ('k \<rightharpoonup> 'm list) \<Rightarrow> 'm list \<Rightarrow> 'm list" where
  "rr_loop order groups out =
     (case rr_round order groups out False of
        (groups', out', progressed) \<Rightarrow> if progressed then rr_loop order groups' out' else out')"
  by pat_completeness auto

termination
  by (relation "measure (\<lambda>(order, groups, out). waiting order groups)")
    (auto simp: waiting_def dest!: sym [of "(_, _, True)"] rr_round_waiting [OF _ finite_set order.refl])

declare rr_loop.simps [simp del]

definition interleaveByKey :: "msg list \<Rightarrow> (payload \<Rightarrow> string) \<Rightarrow> msg list" where
  "interleaveByKey msgs keyFunc =
     (if msgs = [] then []
      else case group_by_key (\<lambda>m. keyFunc (msg_Data m)) msgs of
        (groups, order) \<Rightarrow> rr_loop order groups [])"

section \<open>The consumer\<close>

definition deliveriesExhausted :: "msg \<Rightarrow> goint \<Rightarrow> bool" where
  "deliveriesExhausted m maxDeliver =
     (case msg_NumDelivered m of None \<Rightarrow> False | Some n \<Rightarrow> sint maxDeliver \<le> sint n)"

definition process_msg ::
  "'w jetstream \<Rightarrow> goint \<Rightarrow> (payload \<Rightarrow> ('w, unit) eff) \<Rightarrow> msg \<Rightarrow> ('w, unit) state" where
  "process_msg J maxDeliver handler m = do {
     h \<leftarrow> handler (msg_Data m);
     (case h of
        Inl e \<Rightarrow>
          if deliveriesExhausted m maxDeliver then do {
            d \<leftarrow> PublishDLQ J (msg_Data m);
            (case d of Inl dlqErr \<Rightarrow> js_nak J m | Inr _ \<Rightarrow> js_term J m)
          }
          else js_nak J m
      | Inr _ \<Rightarrow> js_ack J m)
   }"

fun process_all ::
  "'w jetstream \<Rightarrow> goint \<Rightarrow> (payload \<Rightarrow> ('w, unit) eff) \<Rightarrow> msg list \<Rightarrow> ('w, unit) state" where
  "process_all J maxDeliver handler [] = ret ()"
| "process_all J maxDeliver handler (m # ms) = do {
     _ \<leftarrow> process_msg J maxDeliver handler m;
     process_all J maxDeliver handler ms
   }"

text \<open>
  The consumer's endless loop, run for a number of iterations: \<open>Some e\<close> when it returned the
  error \<open>e\<close>, \<open>None\<close> while it is still running.
\<close>

fun consume_loop ::
  "nat \<Rightarrow> 'w jetstream \<Rightarrow> goint \<Rightarrow> (payload \<Rightarrow> string) \<Rightarrow> (payload \<Rightarrow> ('w, unit) eff)
     \<Rightarrow> ('w, go_error option) state" where
  "consume_loop 0 J maxDeliver keyFunc handler = ret None"
| "consume_loop (Suc n) J maxDeliver keyFunc handler = do {
     c \<leftarrow> js_ctx_err J;
     (case c of
        Some e \<Rightarrow> ret (Some e)
      | None \<Rightarrow> do {
          b \<leftarrow> js_fetch J FairShareBatchSize;
          (case b of
             Inl e \<Rightarrow> ret (Some (errorf ''fetching batch'' e))
           | Inr (msgs, failed) \<Rightarrow>
               if failed \<and> msgs = [] then consume_loop n J maxDeliver keyFunc handler
               else do {
                 _ \<leftarrow> process_all J maxDeliver handler (interleaveByKey msgs keyFunc);
                 consume_loop n J maxDeliver keyFunc handler
               })
        })
   }"

definition ConsumeFairShare ::
  "nat \<Rightarrow> 'w jetstream \<Rightarrow> goint \<Rightarrow> (payload \<Rightarrow> string) \<Rightarrow> (payload \<Rightarrow> ('w, unit) eff)
     \<Rightarrow> ('w, go_error option) state" where
  "ConsumeFairShare n J maxDeliver keyFunc handler = do {
     c \<leftarrow> js_create_consumer J maxDeliver;
     (case c of
        Inl e \<Rightarrow> ret (Some (errorf ''creating consumer'' e))
      | Inr _ \<Rightarrow> consume_loop n J maxDeliver keyFunc handler)
   }"

section \<open>Grouping\<close>

text \<open>The keys in the order they are first seen.\<close>

definition first_seen :: "('m \<Rightarrow> 'k) \<Rightarrow> 'm list \<Rightarrow> 'k list" where
  "first_seen key msgs = rev (remdups (rev (map key msgs)))"

lemma first_seen_snoc:
  "first_seen key (msgs @ [m]) =
     (if key m \<in> set (map key msgs) then first_seen key msgs else first_seen key msgs @ [key m])"
  by (simp add: first_seen_def)

lemma first_seen_distinct [simp]: "distinct (first_seen key msgs)"
  by (simp add: first_seen_def)

lemma first_seen_set [simp]: "set (first_seen key msgs) = key ` set msgs"
  by (simp add: first_seen_def)

lemma group_by_key_closed:
  "group_by_key key msgs =
     ((\<lambda>k. if k \<in> key ` set msgs then Some (filter (\<lambda>m. key m = k) msgs) else None),
      first_seen key msgs)"
proof (induction msgs rule: rev_induct)
  case Nil
  then show ?case by (simp add: group_by_key_def first_seen_def)
next
  case (snoc m msgs)
  have "group_by_key key (msgs @ [m]) = group_step key (group_by_key key msgs) m"
    by (simp add: group_by_key_def)
  moreover have "filter (\<lambda>x. key x = key m) msgs = []" if "key m \<notin> key ` set msgs"
    using that by (metis (mono_tags, lifting) filter_False image_eqI)
  ultimately show ?case
    by (auto simp: snoc.IH group_step_def first_seen_snoc group_at_def fun_eq_iff Let_def)
qed

section \<open>Round robin\<close>

lemma rr_round_drop:
  assumes "distinct ks" and "\<forall>k\<in>set ks. group_at G k = drop j (g k)"
  shows "\<exists>G'. rr_round ks G out p =
      (G', out @ map (\<lambda>k. g k ! j) (filter (\<lambda>k. j < length (g k)) ks), p \<or> (\<exists>k\<in>set ks. j < length (g k))) \<and>
    (\<forall>k\<in>set ks. group_at G' k = drop (Suc j) (g k)) \<and> (\<forall>k. k \<notin> set ks \<longrightarrow> group_at G' k = group_at G k)"
  using assms
proof (induction ks arbitrary: G out p)
  case (Cons k ks)
  show ?case
  proof (cases "j < length (g k)")
    case False
    with Cons.prems have "group_at G k = []" by simp
    with False Cons.IH [of G out p] Cons.prems show ?thesis by auto
  next
    case True
    then have drop: "drop j (g k) = g k ! j # drop (Suc j) (g k)" by (simp add: Cons_nth_drop_Suc)
    have "\<forall>k'\<in>set ks. group_at (G(k \<mapsto> drop (Suc j) (g k))) k' = drop j (g k')"
      using Cons.prems by auto
    moreover have "distinct ks" using Cons.prems(1) by simp
    ultimately obtain G' where "rr_round ks (G(k \<mapsto> drop (Suc j) (g k))) (out @ [g k ! j]) True =
        (G', (out @ [g k ! j]) @ map (\<lambda>k. g k ! j) (filter (\<lambda>k. j < length (g k)) ks),
         True \<or> (\<exists>k\<in>set ks. j < length (g k)))"
      and "\<forall>k\<in>set ks. group_at G' k = drop (Suc j) (g k)"
      and "\<forall>k'. k' \<notin> set ks \<longrightarrow> group_at G' k' = group_at (G(k \<mapsto> drop (Suc j) (g k))) k'"
      using Cons.IH [of "G(k \<mapsto> drop (Suc j) (g k))" "out @ [g k ! j]" True] by blast
    moreover have "group_at G k = g k ! j # drop (Suc j) (g k)" using Cons.prems drop by simp
    ultimately show ?thesis using True Cons.prems(1) by (intro exI [of _ G']) auto
  qed
qed simp

text \<open>
  What the grouping hands to the round-robin pass: distinct keys, each message under its own key,
  every nonempty group listed. \<open>rr_turn order g j\<close> is the \<open>j\<close>-th sweep.
\<close>

definition rr_turn :: "'k list \<Rightarrow> ('k \<Rightarrow> 'm list) \<Rightarrow> nat \<Rightarrow> 'm list" where
  "rr_turn order g j = map (\<lambda>k. g k ! j) (filter (\<lambda>k. j < length (g k)) order)"

lemma concat_split_at:
  "concat xss = xs @ m # ys \<Longrightarrow> \<exists>a pre post c. xss = a @ (pre @ m # post) # c \<and> xs = concat a @ pre"
proof (induction xss arbitrary: xs)
  case (Cons zs xss)
  from Cons.prems consider us where "zs = xs @ m # us" | us where "xs = zs @ us" "concat xss = us @ m # ys"
    by (auto simp: append_eq_append_conv2 append_eq_Cons_conv)
  then show ?case
  proof cases
    case 1
    then show ?thesis
      by (intro exI [of _ "[]"] exI [of _ xs] exI [of _ us] exI [of _ xss]) simp
  next
    case (2 us)
    from Cons.IH [OF 2(2)] obtain a pre post c
      where "xss = a @ (pre @ m # post) # c" "us = concat a @ pre" by blast
    with 2(1) show ?thesis by (intro exI [of _ "zs # a"]) auto
  qed
qed simp

locale grouped =
  fixes key :: "'m \<Rightarrow> 'k" and order :: "'k list" and g :: "'k \<Rightarrow> 'm list"
  assumes order_distinct: "distinct order"
    and keyed: "m \<in> set (g k) \<Longrightarrow> key m = k"
    and listed: "g k \<noteq> [] \<Longrightarrow> k \<in> set order"
begin

lemma turn_filter: "filter (\<lambda>m. key m = k) (rr_turn order g j) = (if j < length (g k) then [g k ! j] else [])"
proof -
  have nth: "key (g a ! j) = a" if "j < length (g a)" for a using keyed [OF nth_mem [OF that]] .
  have "filter (\<lambda>m. key m = k) (map (\<lambda>k. g k ! j) (filter (\<lambda>k. j < length (g k)) ks)) =
      (if k \<in> set ks \<and> j < length (g k) then [g k ! j] else [])" if "distinct ks" for ks
    using that by (induction ks) (auto simp: nth)
  from this [OF order_distinct] listed [of k] show ?thesis
    by (cases "g k = []") (auto simp: rr_turn_def)
qed

lemma turns_filter:
  "filter (\<lambda>m. key m = k) (concat (map (rr_turn order g) [0..<n])) = take n (g k)"
  by (induction n) (auto simp: turn_filter take_Suc_conv_app_nth)

lemma loop_closed:
  assumes "\<forall>k\<in>set order. group_at G k = drop j (g k)" and "\<forall>k\<in>set order. length (g k) \<le> n" and "j \<le> n"
  shows "rr_loop order G out = out @ concat (map (rr_turn order g) [j..<n])"
  using assms
proof (induction "n - j" arbitrary: j G out)
  case 0
  then have "j = n" by simp
  with 0 have none: "\<not> (\<exists>k\<in>set order. j < length (g k))" by force
  with rr_round_drop [OF order_distinct 0(2), of out False] \<open>j = n\<close> show ?case
    by (auto simp: rr_loop.simps [of order G out] filter_empty_conv simp del: bex_simps)
next
  case (Suc d)
  obtain G' where r: "rr_round order G out False = (G', out @ rr_turn order g j, \<exists>k\<in>set order. j < length (g k))"
    and G': "\<forall>k\<in>set order. group_at G' k = drop (Suc j) (g k)"
    using rr_round_drop [OF order_distinct Suc.prems(1), of out False] by (auto simp: rr_turn_def)
  show ?case
  proof (cases "\<exists>k\<in>set order. j < length (g k)")
    case True
    with Suc.hyps(2) Suc.prems have "rr_loop order G' (out @ rr_turn order g j) =
        (out @ rr_turn order g j) @ concat (map (rr_turn order g) [Suc j..<n])"
      by (intro Suc.hyps(1) G') auto
    moreover have "j < n" using Suc.hyps(2) by simp
    ultimately show ?thesis
      by (simp add: rr_loop.simps [of order G out] r True upt_conv_Cons)
  next
    case False
    then have "rr_turn order g i = []" if "j \<le> i" for i
      using that by (force simp: rr_turn_def filter_empty_conv)
    then have "concat (map (rr_turn order g) [j..<n]) = []" "rr_turn order g j = []" by auto
    with False show ?thesis by (simp add: rr_loop.simps [of order G out] r)
  qed
qed

text \<open>No key gets a second rr_turn order g while another key waits for its first, and so on.\<close>

lemma turns_fair:
  assumes "concat (map (rr_turn order g) [0..<n]) = xs @ m # ys"
  shows "length (filter (\<lambda>x. key x = k) xs) \<le> Suc (length (filter (\<lambda>x. key x = key m) xs))"
proof -
  from concat_split_at [OF assms] obtain a pre post c
    where split: "map (rr_turn order g) [0..<n] = a @ (pre @ m # post) # c" and xs: "xs = concat a @ pre" by blast
  let ?j = "length a"
  have "length (map (rr_turn order g) [0..<n]) = ?j + Suc (length c)" by (simp only: split) simp
  then have j: "?j < n" by simp
  have a: "a = map (rr_turn order g) [0..<?j]"
    using arg_cong [OF split, of "take ?j"] j by (simp add: take_map)
  have tj: "rr_turn order g ?j = pre @ m # post"
    using arg_cong [OF split, of "\<lambda>l. l ! ?j"] j by (simp add: nth_append)
  have "length (filter (\<lambda>x. key x = k) pre) \<le> length (filter (\<lambda>x. key x = k) (rr_turn order g ?j))"
    by (simp add: tj)
  also have "\<dots> \<le> 1" by (simp add: turn_filter)
  finally have pre: "length (filter (\<lambda>x. key x = k) pre) \<le> 1" .
  have ca: "filter (\<lambda>x. key x = k') (concat a) = take ?j (g k')" for k'
    by (subst a) (simp only: turns_filter)
  have "m \<in> set (rr_turn order g ?j)" by (simp add: tj)
  then have "filter (\<lambda>x. key x = key m) (rr_turn order g ?j) \<noteq> []" by (auto simp: filter_empty_conv)
  then have "?j < length (g (key m))" by (auto simp: turn_filter split: if_splits)
  then have "?j \<le> length (filter (\<lambda>x. key x = key m) xs)" by (simp add: xs ca)
  moreover have "length (filter (\<lambda>x. key x = k) xs) \<le> ?j + 1" using pre by (simp add: xs ca)
  ultimately show ?thesis by simp
qed

end

interpretation fs: grouped key "first_seen key msgs" "\<lambda>k. filter (\<lambda>m. key m = k) msgs"
  for key :: "'m \<Rightarrow> 'k" and msgs :: "'m list"
  by unfold_locales (auto simp: filter_empty_conv)

text \<open>
  The reordering equals the sweeps \<open>0, 1, 2, ...\<close>, where sweep \<open>j\<close> takes the \<open>j\<close>-th message of every team
  that has one, teams in the order they were first seen.
\<close>

lemma interleave_closed:
  "interleaveByKey msgs kf =
     concat (map (rr_turn (first_seen (\<lambda>m. kf (msg_Data m)) msgs)
       (\<lambda>k. filter (\<lambda>m. kf (msg_Data m) = k) msgs)) [0..<length msgs])"
proof -
  let ?key = "\<lambda>m. kf (msg_Data m)"
  have "rr_loop (first_seen ?key msgs) (fst (group_by_key ?key msgs)) [] =
      [] @ concat (map (rr_turn (first_seen ?key msgs) (\<lambda>k. filter (\<lambda>m. ?key m = k) msgs)) [0..<length msgs])"
    by (rule fs.loop_closed) (auto simp: group_by_key_closed group_at_def)
  then show ?thesis by (simp add: interleaveByKey_def group_by_key_closed)
qed

section \<open>Recording what happens to messages\<close>

datatype event =
    Handled payload bool
  | DeadLettered payload bool
  | Acked msg
  | Nacked msg
  | Terminated msg

text \<open>Run \<open>m\<close> and record the events its result stands for.\<close>

definition logged :: "('a \<Rightarrow> 'l list) \<Rightarrow> ('w, 'a) state \<Rightarrow> ('w \<times> 'l list, 'a) state" where
  "logged ev m = State (\<lambda>(w, l). case run_state m w of (r, w') \<Rightarrow> (r, (w', l @ ev r)))"

lemma run_logged [simp]:
  "run_state (logged ev m) (w, l) =
     (fst (run_state m w), (snd (run_state m w), l @ ev (fst (run_state m w))))"
  by (simp add: logged_def split: prod.split)

definition js_spy :: "'w jetstream \<Rightarrow> ('w \<times> event list) jetstream" where
  "js_spy J = \<lparr>
     js_publish = (\<lambda>subj p i. logged
       (\<lambda>r. if subj = DLQSubj then [DeadLettered p (\<not> isl r)] else []) (js_publish J subj p i)),
     js_consumer = logged (\<lambda>_. []) (js_consumer J),
     js_info_pending = logged (\<lambda>_. []) (js_info_pending J),
     js_create_consumer = (\<lambda>n. logged (\<lambda>_. []) (js_create_consumer J n)),
     js_fetch = (\<lambda>n. logged (\<lambda>_. []) (js_fetch J n)),
     js_peek_consumer = logged (\<lambda>_. []) (js_peek_consumer J),
     js_peek_fetch = (\<lambda>n. logged (\<lambda>_. []) (js_peek_fetch J n)),
     js_ack = (\<lambda>m. logged (\<lambda>_. [Acked m]) (js_ack J m)),
     js_nak = (\<lambda>m. logged (\<lambda>_. [Nacked m]) (js_nak J m)),
     js_term = (\<lambda>m. logged (\<lambda>_. [Terminated m]) (js_term J m)),
     js_ctx_err = logged (\<lambda>_. []) (js_ctx_err J)\<rparr>"

definition handler_spy :: "(payload \<Rightarrow> ('w, unit) eff) \<Rightarrow> payload \<Rightarrow> ('w \<times> event list, unit) eff" where
  "handler_spy handler p = logged (\<lambda>r. [Handled p (\<not> isl r)]) (handler p)"

text \<open>The four ways a delivery may end, as the events they leave.\<close>

definition settled :: "goint \<Rightarrow> msg \<Rightarrow> event list \<Rightarrow> bool" where
  "settled maxDeliver m es \<longleftrightarrow>
     es = [Handled (msg_Data m) True, Acked m] \<or>
     \<not> deliveriesExhausted m maxDeliver \<and> es = [Handled (msg_Data m) False, Nacked m] \<or>
     deliveriesExhausted m maxDeliver \<and>
       (es = [Handled (msg_Data m) False, DeadLettered (msg_Data m) True, Terminated m] \<or>
        es = [Handled (msg_Data m) False, DeadLettered (msg_Data m) False, Nacked m])"

lemma process_msg_settled:
  "\<exists>es. snd (snd (run_state (process_msg (js_spy J) maxDeliver (handler_spy h) m) (w, l))) = l @ es \<and>
     settled maxDeliver m es"
  by (auto simp: process_msg_def PublishDLQ_def js_spy_def handler_spy_def settled_def split_beta
      isl_def split: sum.split)

lemma process_all_settled:
  "\<exists>blocks. snd (snd (run_state (process_all (js_spy J) maxDeliver (handler_spy h) ms) (w, l))) =
       l @ concat blocks \<and> list_all2 (settled maxDeliver) ms blocks"
proof (induction ms arbitrary: w l)
  case Nil
  then show ?case by simp
next
  case (Cons m ms)
  let ?r = "run_state (process_msg (js_spy J) maxDeliver (handler_spy h) m) (w, l)"
  obtain es where es: "snd (snd ?r) = l @ es" "settled maxDeliver m es"
    using process_msg_settled [of J maxDeliver h m w l] by auto
  then obtain w' where w': "snd ?r = (w', l @ es)" by (cases "snd ?r") auto
  from Cons.IH [of w' "l @ es"] obtain blocks
    where "snd (snd (run_state (process_all (js_spy J) maxDeliver (handler_spy h) ms) (w', l @ es))) =
        (l @ es) @ concat blocks" "list_all2 (settled maxDeliver) ms blocks" by blast
  with es w' show ?case by (intro exI [of _ "es # blocks"]) (simp add: split_beta)
qed

section \<open>Properties\<close>

text \<open>Property C21. Fair share keeps every message and every team's order: the reordered batch holds, for each
  key, exactly that key's messages in their arrival order (so it is a permutation of the batch).\<close>

theorem interleave_keeps_messages:
  "mset (interleaveByKey msgs keyFunc) = mset msgs \<and>
   filter (\<lambda>m. keyFunc (msg_Data m) = k) (interleaveByKey msgs keyFunc) =
     filter (\<lambda>m. keyFunc (msg_Data m) = k) msgs"
proof -
  let ?key = "\<lambda>m. keyFunc (msg_Data m)"
  have order: "filter (\<lambda>m. ?key m = k') (interleaveByKey msgs keyFunc) = filter (\<lambda>m. ?key m = k') msgs" for k'
    by (simp only: interleave_closed fs.turns_filter) simp
  have "count (mset (interleaveByKey msgs keyFunc)) x = count (mset msgs) x" for x
    using arg_cong [OF order [of "?key x"], of "\<lambda>l. count (mset l) x"] by simp
  with order show ?thesis by (auto intro: multiset_eqI)
qed

text \<open>Property C8. Fair share is fair: whenever a message is handled, no team has been served more than once
  more often in the batch than the message's own team, so a burst cannot starve another team.\<close>

theorem interleave_is_fair:
  assumes "interleaveByKey msgs keyFunc = served @ m # rest"
  shows "length (filter (\<lambda>x. keyFunc (msg_Data x) = k) served) \<le>
     Suc (length (filter (\<lambda>x. keyFunc (msg_Data x) = keyFunc (msg_Data m)) served))"
  using fs.turns_fair assms unfolding interleave_closed .

definition example_msg :: "nat \<Rightarrow> string \<Rightarrow> 64 word \<Rightarrow> msg" where
  "example_msg s t n = \<lparr>msg_Seq = s, msg_Data = Undecodable t, msg_NumDelivered = Some n\<rparr>"

definition example_key :: "payload \<Rightarrow> string" where
  "example_key p = (case p of Undecodable s \<Rightarrow> s | Encoded sub \<Rightarrow> sub_Team sub)"

theorem interleave_is_fair_witness:
  "length (filter (\<lambda>x. example_key (msg_Data x) = ''a'') [example_msg 0 ''a'' 1]) \<le>
     Suc (length (filter (\<lambda>x. example_key (msg_Data x) = ''b'') [example_msg 0 ''a'' 1]))"
proof -
  have "interleaveByKey [example_msg 0 ''a'' 1, example_msg 1 ''a'' 1, example_msg 2 ''b'' 1] example_key =
      [example_msg 0 ''a'' 1] @ example_msg 2 ''b'' 1 # [example_msg 1 ''a'' 1]"
    by (simp add: interleaveByKey_def group_by_key_def group_step_def group_at_def rr_loop.simps
        example_msg_def example_key_def Let_def)
  from interleave_is_fair [OF this, of "''a''"] show ?thesis
    by (simp add: example_msg_def example_key_def)
qed

text \<open>Property C15. Every message of a batch is settled exactly once, in fair-share order, whatever the broker
  and the handler do: acknowledged exactly when the handler succeeded, handed back for redelivery
  while deliveries remain, and on the last delivery either terminated after it was stored in the
  dead-letter subject or handed back because storing it failed.\<close>

theorem batch_settles_every_message:
  "\<exists>blocks.
     snd (snd (run_state (process_all (js_spy J) maxDeliver (handler_spy handler)
       (interleaveByKey msgs keyFunc)) (w, []))) = concat blocks \<and>
     list_all2 (settled maxDeliver) (interleaveByKey msgs keyFunc) blocks"
  using process_all_settled [where l = "[]"] by simp

end
