(* ===== verification/Admission.thy ===== *)
theory Admission
  imports Job_Properties
begin

text \<open>
  The admission webhook, \<^verbatim>\<open>src/internal/webhook/acceleratorjob_webhook.go\<close>: the quota check on
  creation, with its 32-bit sum, and what it guarantees when admissions follow one another.
\<close>

section \<open>The quota check\<close>

text \<open>
  \<^verbatim>\<open>%q\<close> of a string: escapes for quotes, backslashes and control characters. Text outside ASCII is
  kept as it is.
\<close>

definition hex_digit :: "nat \<Rightarrow> char" where
  "hex_digit d = (if d < 10 then digit_char d else char_of (87 + d))"

definition quote_char :: "char \<Rightarrow> string" where
  "quote_char c =
     (let n = of_char c :: nat
      in if n = 34 \<or> n = 92 then [CHR 0x5C, c]
         else if 32 \<le> n \<and> n \<noteq> 127 then [c]
         else if n = 7 then [CHR 0x5C, CHR ''a'']
         else if n = 8 then [CHR 0x5C, CHR ''b'']
         else if n = 12 then [CHR 0x5C, CHR ''f'']
         else if n = 10 then [CHR 0x5C, CHR ''n'']
         else if n = 13 then [CHR 0x5C, CHR ''r'']
         else if n = 9 then [CHR 0x5C, CHR ''t'']
         else if n = 11 then [CHR 0x5C, CHR ''v'']
         else [CHR 0x5C, CHR ''x'', hex_digit (n div 16), hex_digit (n mod 16)])"

definition go_quote :: "string \<Rightarrow> string" where
  "go_quote s = [CHR 0x22] @ concat (map quote_char s) @ [CHR 0x22]"

text \<open>The first policy of the team, in the order the list call returned them.\<close>

definition team_policy :: "string \<Rightarrow> QuotaPolicy list \<Rightarrow> QuotaPolicy option" where
  "team_policy team policies = find (\<lambda>p. qp_Team p = team) policies"

text \<open>The accelerators of the team's jobs that are neither succeeded nor failed, as an \<^verbatim>\<open>int32\<close> sum.\<close>

definition quota_used :: "string \<Rightarrow> AcceleratorJob list \<Rightarrow> int32" where
  "quota_used team jobs =
     foldl (\<lambda>used j.
       if spec_Team (job_Spec j) \<noteq> team then used
       else if st_Phase (job_Status j) = AcceleratorJobSucceeded \<or>
               st_Phase (job_Status j) = AcceleratorJobFailed then used
       else used + spec_AcceleratorCount (job_Spec j)) 0 jobs"

definition quota_error :: "AcceleratorJob \<Rightarrow> int32 \<Rightarrow> QuotaPolicy \<Rightarrow> go_error" where
  "quota_error job used policy = Opaque (''team '' @ go_quote (spec_Team (job_Spec job)) @
     '' quota exceeded: '' @ show_int (sint used) @ '' in use, '' @
     show_int (sint (spec_AcceleratorCount (job_Spec job))) @ '' requested, '' @
     show_int (sint (qp_MaxAccelerators policy)) @ '' max'')"

definition checkQuota :: "'w kube \<Rightarrow> AcceleratorJob \<Rightarrow> ('w, unit) eff" where
  "checkQuota K job = do {
     ps \<leftarrow> k_list_quotas K;
     (case ps of
        Inl e \<Rightarrow> ret (Inl (errorf ''listing quota policies'' e))
      | Inr policies \<Rightarrow>
          (case team_policy (spec_Team (job_Spec job)) policies of
             None \<Rightarrow> ret (Inr ())
           | Some policy \<Rightarrow> do {
               js \<leftarrow> k_list_jobs K None;
               ret (case js of
                  Inl e \<Rightarrow> Inl (errorf ''listing accelerator jobs'' e)
                | Inr jobs \<Rightarrow>
                    let used = quota_used (spec_Team (job_Spec job)) jobs
                    in if sint (qp_MaxAccelerators policy) < sint (used + spec_AcceleratorCount (job_Spec job))
                       then Inl (quota_error job used policy)
                       else Inr ())
             }))
   }"

definition ValidateCreate :: "'w kube \<Rightarrow> AcceleratorJob \<Rightarrow> ('w, unit) eff" where
  "ValidateCreate K job = checkQuota K job"

definition ValidateUpdate :: "AcceleratorJob \<Rightarrow> AcceleratorJob \<Rightarrow> ('w, unit) eff" where
  "ValidateUpdate old new = ret (Inr ())"

definition ValidateDelete :: "AcceleratorJob \<Rightarrow> ('w, unit) eff" where
  "ValidateDelete job = ret (Inr ())"

section \<open>Exact use\<close>

definition live_job :: "AcceleratorJob \<Rightarrow> bool" where
  "live_job j \<longleftrightarrow> \<not> is_terminal (st_Phase (job_Status j))"

text \<open>What a team's live jobs ask for, as an unbounded integer.\<close>

definition team_use :: "string \<Rightarrow> AcceleratorJob list \<Rightarrow> int" where
  "team_use team jobs = sum_list (map (\<lambda>j. sint (spec_AcceleratorCount (job_Spec j)))
     (filter (\<lambda>j. spec_Team (job_Spec j) = team \<and> live_job j) jobs))"

lemma quota_used_wraps: "quota_used team jobs = word_of_int (team_use team jobs)"
proof -
  have "foldl (\<lambda>used j.
       if spec_Team (job_Spec j) \<noteq> team then used
       else if st_Phase (job_Status j) = AcceleratorJobSucceeded \<or>
               st_Phase (job_Status j) = AcceleratorJobFailed then used
       else used + spec_AcceleratorCount (job_Spec j)) u jobs = u + word_of_int (team_use team jobs)" for u
    by (induction jobs arbitrary: u) (auto simp: team_use_def live_job_def is_terminal_def)
  then show ?thesis by (simp add: quota_used_def)
qed

lemma team_use_Cons:
  "team_use team (j # jobs) =
     (if spec_Team (job_Spec j) = team \<and> live_job j then sint (spec_AcceleratorCount (job_Spec j)) else 0) +
     team_use team jobs"
  by (simp add: team_use_def)

lemma team_use_append: "team_use team (xs @ ys) = team_use team xs + team_use team ys"
  by (simp add: team_use_def)

lemma quota_check_exact:
  assumes "- (2 ^ 31) \<le> team_use team jobs + sint n" "team_use team jobs + sint n < 2 ^ 31"
  shows "sint (quota_used team jobs + n) = team_use team jobs + sint n"
proof -
  have "quota_used team jobs + n = word_of_int (team_use team jobs + sint n)"
    by (simp add: quota_used_wraps)
  then show ?thesis using sint32_small [OF assms] by simp
qed

section \<open>A run of admissions\<close>

text \<open>
  The jobs of the cluster over time, with the policies fixed: the webhook admits a new job on the
  list of jobs at that moment; a live job's status changes, possibly to a terminal phase; a
  terminal job stays as it is; any job may be deleted.
\<close>

definition admits :: "QuotaPolicy list \<Rightarrow> AcceleratorJob list \<Rightarrow> AcceleratorJob \<Rightarrow> bool" where
  "admits policies jobs job =
     (case team_policy (spec_Team (job_Spec job)) policies of
        None \<Rightarrow> True
      | Some policy \<Rightarrow>
          sint (quota_used (spec_Team (job_Spec job)) jobs + spec_AcceleratorCount (job_Spec job))
            \<le> sint (qp_MaxAccelerators policy))"

text \<open>
  A request that the 32-bit sum can hold: a positive count that fits beside the team's maximum.
\<close>

definition fits_int32 :: "QuotaPolicy list \<Rightarrow> AcceleratorJob \<Rightarrow> bool" where
  "fits_int32 policies job \<longleftrightarrow> 0 < sint (spec_AcceleratorCount (job_Spec job)) \<and>
     (\<forall>p\<in>set policies. qp_Team p = spec_Team (job_Spec job) \<longrightarrow>
        0 \<le> sint (qp_MaxAccelerators p) \<and>
        sint (qp_MaxAccelerators p) + sint (spec_AcceleratorCount (job_Spec job)) < 2 ^ 31)"

inductive admission_step :: "QuotaPolicy list \<Rightarrow> AcceleratorJob list \<Rightarrow> AcceleratorJob list \<Rightarrow> bool"
  for policies where
  admit: "fits_int32 policies job \<Longrightarrow> admits policies jobs job \<Longrightarrow> admission_step policies jobs (jobs @ [job])"
| progress: "live_job j \<Longrightarrow> admission_step policies (xs @ j # ys) (xs @ j\<lparr>job_Status := s\<rparr> # ys)"
| removal: "admission_step policies (xs @ j # ys) (xs @ ys)"

definition quota_respected :: "QuotaPolicy list \<Rightarrow> AcceleratorJob list \<Rightarrow> bool" where
  "quota_respected policies jobs \<longleftrightarrow>
     (\<forall>j\<in>set jobs. fits_int32 policies j) \<and>
     (\<forall>team p. team_policy team policies = Some p \<longrightarrow>
        0 \<le> sint (qp_MaxAccelerators p) \<longrightarrow> team_use team jobs \<le> sint (qp_MaxAccelerators p))"

lemma team_use_nonneg:
  "\<forall>j\<in>set jobs. fits_int32 policies j \<Longrightarrow> 0 \<le> team_use team jobs"
  unfolding team_use_def by (rule sum_list_nonneg) (auto simp: fits_int32_def)

lemma team_policy_SomeD: "team_policy team policies = Some p \<Longrightarrow> p \<in> set policies \<and> qp_Team p = team"
  by (auto simp: team_policy_def find_Some_iff)

lemma admit_respects:
  assumes "quota_respected policies jobs" "fits_int32 policies job" "admits policies jobs job"
  shows "quota_respected policies (jobs @ [job])"
proof -
  let ?n = "spec_AcceleratorCount (job_Spec job)"
  have "team_use team (jobs @ [job]) \<le> sint (qp_MaxAccelerators p)"
    if p: "team_policy team policies = Some p" "0 \<le> sint (qp_MaxAccelerators p)" for team p
  proof (cases "spec_Team (job_Spec job) = team")
    case True
    have le: "team_use team jobs \<le> sint (qp_MaxAccelerators p)" "0 \<le> team_use team jobs"
      using assms(1) p by (auto simp: quota_respected_def intro: team_use_nonneg)
    have "0 < sint ?n" "sint (qp_MaxAccelerators p) + sint ?n < 2 ^ 31"
      using assms(2) True team_policy_SomeD [OF p(1)] by (auto simp: fits_int32_def)
    with le have "sint (quota_used team jobs + ?n) = team_use team jobs + sint ?n"
      by (intro quota_check_exact) auto
    with assms(3) p True \<open>0 < sint ?n\<close> le show ?thesis
      by (auto simp: admits_def team_use_append team_use_def)
  next
    case False
    with assms(1) p show ?thesis by (auto simp: quota_respected_def team_use_append team_use_def)
  qed
  with assms(1,2) show ?thesis by (auto simp: quota_respected_def)
qed

lemma quota_respected_Nil: "quota_respected policies []"
  by (simp add: quota_respected_def team_use_def)

lemma fits_int32_status [simp]: "fits_int32 policies (j\<lparr>job_Status := s\<rparr>) = fits_int32 policies j"
  by (simp add: fits_int32_def)

lemma quota_respected_mono:
  assumes "quota_respected policies jobs" and "\<forall>j\<in>set jobs'. fits_int32 policies j"
    and "\<And>team. team_use team jobs' \<le> team_use team jobs"
  shows "quota_respected policies jobs'"
  using assms unfolding quota_respected_def by (meson order.trans)

lemma admission_step_respects:
  "admission_step policies jobs jobs' \<Longrightarrow> quota_respected policies jobs \<Longrightarrow> quota_respected policies jobs'"
proof (induction rule: admission_step.induct)
  case (admit job jobs)
  then show ?case by (intro admit_respects)
next
  case (progress j xs ys s)
  then have "team_use team (xs @ j\<lparr>job_Status := s\<rparr> # ys) \<le> team_use team (xs @ j # ys)" for team
    by (auto simp: quota_respected_def team_use_append team_use_Cons fits_int32_def)
  with progress show ?case
    by (intro quota_respected_mono [OF progress(2)]) (use progress in \<open>auto simp: quota_respected_def\<close>)
next
  case (removal xs j ys)
  then have "team_use team (xs @ ys) \<le> team_use team (xs @ j # ys)" for team
    by (auto simp: quota_respected_def team_use_append team_use_Cons fits_int32_def)
  with removal show ?case
    by (intro quota_respected_mono [OF removal]) (use removal in \<open>auto simp: quota_respected_def\<close>)
qed

section \<open>Properties\<close>


definition example_policy :: QuotaPolicy where
  "example_policy = \<lparr>qp_Name = ''q'', qp_Team = ''platform'', qp_MaxAccelerators = 3\<rparr>"





end
