(* ===== verification/Submission.thy ===== *)
theory Submission
  imports Job_Properties Fair_Queue
begin

text \<open>
  The operator's side of the queue: \<^verbatim>\<open>src/internal/controller/submission.go\<close> (one AcceleratorJob per
  queued submission) and the consumer and metrics poller of \<^verbatim>\<open>src/cmd/operator/main.go\<close>. Tracing
  spans have no effect on the objects and are left out.
\<close>

section \<open>The submission handler\<close>

definition zero_spec :: AcceleratorJobSpec where
  "zero_spec = \<lparr>spec_Image = '''', spec_Command = [], spec_Args = [], spec_AcceleratorType = '''',
     spec_AcceleratorCount = 0, spec_Priority = 0, spec_Team = '''', spec_Pool = '''', spec_GangSize = 0,
     spec_Resources = \<lparr>rr_Requests = Map.empty, rr_Limits = Map.empty\<rparr>,
     spec_MaxRetries = 0, spec_Checkpoint = False, spec_TimeoutSeconds = None\<rparr>"

definition submission_job :: "string \<Rightarrow> JobSubmission \<Rightarrow> AcceleratorJob" where
  "submission_job namespace sub =
     \<lparr>job_Meta = meta_of namespace (sub_ID sub),
      job_Spec = zero_spec\<lparr>spec_Image := sub_Image sub, spec_Command := sub_Command sub,
        spec_Args := sub_Args sub, spec_AcceleratorType := sub_AcceleratorType sub,
        spec_AcceleratorCount := sub_AcceleratorCount sub, spec_Priority := sub_Priority sub,
        spec_Team := sub_Team sub\<rparr>,
      job_Status = zero_status\<rparr>"

definition SubmissionHandler :: "'w kube \<Rightarrow> string \<Rightarrow> payload \<Rightarrow> ('w, unit) eff" where
  "SubmissionHandler K namespace payload =
     (case json_Unmarshal payload of
        Inl e \<Rightarrow> ret (Inl (errorf ''decoding job submission'' e))
      | Inr sub \<Rightarrow> do {
          c \<leftarrow> k_create_job K (submission_job namespace sub);
          ret (case c of
             Inl e \<Rightarrow> if IsAlreadyExists e then Inr ()
                      else Inl (errorf (''creating AcceleratorJob '' @ sub_ID sub) e)
           | Inr _ \<Rightarrow> Inr ())
        })"

section \<open>The operator's runnables\<close>

definition submissionTeam :: "payload \<Rightarrow> string" where
  "submissionTeam payload = (case json_Unmarshal payload of Inl e \<Rightarrow> '''' | Inr sub \<Rightarrow> sub_Team sub)"

text \<open>
  \<^verbatim>\<open>submissionConsumer.Start\<close>, its consumer loop run for \<open>n\<close> iterations: \<open>None\<close> while it runs, otherwise
  the returned error, if any.
\<close>

definition submissionConsumer_Start ::
  "nat \<Rightarrow> 'w jetstream \<Rightarrow> (payload \<Rightarrow> ('w, unit) eff) \<Rightarrow> ('w, go_error option option) state" where
  "submissionConsumer_Start n J handler = do {
     r \<leftarrow> ConsumeFairShare n J 5 submissionTeam handler;
     (case r of
        None \<Rightarrow> ret None
      | Some err \<Rightarrow> do {
          c \<leftarrow> js_ctx_err J;
          ret (Some (if c \<noteq> None then None else Some err))
        })
   }"

text \<open>
  The gauges of \<^verbatim>\<open>internal/metrics\<close> the poller sets; the utilization is the float quotient of its
  two arguments.
\<close>

record 'w gauges =
  set_JobPhaseCount :: "string \<Rightarrow> goint \<Rightarrow> ('w, unit) state"
  set_QueueDepth :: "goint \<Rightarrow> ('w, unit) state"
  set_AcceleratorUtilization :: "int64 \<Rightarrow> int64 \<Rightarrow> ('w, unit) state"

definition phase_counts :: "AcceleratorJob list \<Rightarrow> AcceleratorJobPhase \<Rightarrow> goint" where
  "phase_counts jobs =
     foldl (\<lambda>counts j. counts(st_Phase (job_Status j) := counts (st_Phase (job_Status j)) + 1)) (\<lambda>_. 0) jobs"

fun set_phases ::
  "'w gauges \<Rightarrow> (AcceleratorJobPhase \<Rightarrow> goint) \<Rightarrow> AcceleratorJobPhase list \<Rightarrow> ('w, unit) state" where
  "set_phases G counts [] = ret ()"
| "set_phases G counts (ph # phs) = do {
     _ \<leftarrow> set_JobPhaseCount G (phase_string ph) (counts ph);
     set_phases G counts phs
   }"

definition node_total :: "node list \<Rightarrow> int64" where
  "node_total nodes = foldl (\<lambda>total n. total +
     quantity_Value (case node_Capacity n AcceleratorResourceName of None \<Rightarrow> Quantity 0 | Some q \<Rightarrow> q)) 0 nodes"

definition pods_allocated :: "pod list \<Rightarrow> int64" where
  "pods_allocated pods = foldl (\<lambda>allocated p.
     if pod_Phase p = PodSucceeded \<or> pod_Phase p = PodFailed then allocated
     else foldl (\<lambda>a c. case rr_Requests (c_Resources c) AcceleratorResourceName of
            None \<Rightarrow> a | Some q \<Rightarrow> a + quantity_Value q) allocated (ps_Containers (pod_Spec p))) 0 pods"

definition poll :: "'w kube \<Rightarrow> 'w jetstream \<Rightarrow> 'w gauges \<Rightarrow> string \<Rightarrow> ('w, unit) state" where
  "poll K J G namespace = do {
     js \<leftarrow> k_list_jobs K (Some namespace);
     _ \<leftarrow> (case js of
        Inl e \<Rightarrow> ret ()
      | Inr jobs \<Rightarrow> set_phases G (phase_counts jobs)
          [AcceleratorJobPending, AcceleratorJobRunning, AcceleratorJobSucceeded, AcceleratorJobFailed]);
     d \<leftarrow> PendingCount J;
     _ \<leftarrow> (case d of Inl e \<Rightarrow> ret () | Inr depth \<Rightarrow> set_QueueDepth G depth);
     ns \<leftarrow> k_list_nodes K;
     (let total = (case ns of Inl e \<Rightarrow> 0 | Inr nodes \<Rightarrow> node_total nodes)
      in do {
        ps \<leftarrow> k_list_pods K (Some namespace) [];
        (let allocated = (case ps of Inl e \<Rightarrow> 0 | Inr pods \<Rightarrow> pods_allocated pods)
         in if 0 < sint total then set_AcceleratorUtilization G allocated total else ret ())
      })
   }"

section \<open>Creating jobs\<close>

text \<open>
  What the API server promises about creating jobs, beyond \<open>kube_contract\<close>. It may fill in
  defaults, but keeps what the submission sets.
\<close>

definition same_request :: "AcceleratorJob \<Rightarrow> AcceleratorJob \<Rightarrow> bool" where
  "same_request j q \<longleftrightarrow> job_key q = job_key j \<and>
     spec_Image (job_Spec q) = spec_Image (job_Spec j) \<and>
     spec_Command (job_Spec q) = spec_Command (job_Spec j) \<and>
     spec_Args (job_Spec q) = spec_Args (job_Spec j) \<and>
     spec_AcceleratorType (job_Spec q) = spec_AcceleratorType (job_Spec j) \<and>
     spec_AcceleratorCount (job_Spec q) = spec_AcceleratorCount (job_Spec j) \<and>
     spec_Priority (job_Spec q) = spec_Priority (job_Spec j) \<and>
     spec_Team (job_Spec q) = spec_Team (job_Spec j)"

locale job_creation = kube_contract K view
  for K :: "'w kube" and view :: "'w \<Rightarrow> cluster" +
  assumes create_job_fails:
      "fst (run_state (k_create_job K j) w) = Inl e \<Longrightarrow>
         view (snd (run_state (k_create_job K j) w)) = view w"
    and create_job_exists:
      "fst (run_state (k_create_job K j) w) = Inl e \<Longrightarrow> IsAlreadyExists e \<Longrightarrow>
         cl_jobs (view w) (job_key j) \<noteq> None"
    and create_job_ok:
      "fst (run_state (k_create_job K j) w) = Inr u \<Longrightarrow>
         cl_jobs (view w) (job_key j) = None \<and>
         (\<exists>q. same_request j q \<and> view (snd (run_state (k_create_job K j) w)) =
            (view w)\<lparr>cl_jobs := (cl_jobs (view w))(job_key j \<mapsto> q)\<rparr>)"
begin

lemma submission_creates:
  assumes "run_state (SubmissionHandler K ns (Encoded sub)) w = (Inr u, w')"
  shows "\<exists>q. view w' = (view w)\<lparr>cl_jobs := (cl_jobs (view w))((ns, sub_ID sub) \<mapsto> q)\<rparr> \<and>
     (cl_jobs (view w) (ns, sub_ID sub) = None \<longrightarrow> same_request (submission_job ns sub) q) \<and>
     (cl_jobs (view w) (ns, sub_ID sub) \<noteq> None \<longrightarrow> cl_jobs (view w) (ns, sub_ID sub) = Some q)"
proof -
  let ?c = "run_state (k_create_job K (submission_job ns sub)) w"
  have key: "job_key (submission_job ns sub) = (ns, sub_ID sub)"
    by (simp add: submission_job_def meta_of_def)
  have w': "w' = snd ?c" using assms by (auto simp: SubmissionHandler_def split_beta)
  show ?thesis
  proof (cases "fst ?c")
    case (Inl e)
    with assms have "IsAlreadyExists e" by (auto simp: SubmissionHandler_def split_beta split: if_splits)
    with create_job_exists [OF Inl] key obtain q where "cl_jobs (view w) (ns, sub_ID sub) = Some q"
      by (metis option.exhaust)
    moreover from create_job_fails [OF Inl] w' have "view w' = view w" by simp
    ultimately show ?thesis by (intro exI [of _ q]) (simp add: fun_upd_idem)
  next
    case (Inr u')
    from create_job_ok [OF Inr] w' key show ?thesis by auto
  qed
qed

lemma submission_grows:
  "cl_jobs (view w) key \<noteq> None \<Longrightarrow>
     cl_jobs (view (snd (run_state (SubmissionHandler K ns p) w))) key \<noteq> None"
proof (cases p)
  case (Encoded sub)
  assume some: "cl_jobs (view w) key \<noteq> None"
  show ?thesis
  proof (cases "fst (run_state (k_create_job K (submission_job ns sub)) w)")
    case (Inl e)
    with some Encoded show ?thesis
      by (simp add: SubmissionHandler_def split_beta create_job_fails)
  next
    case (Inr u)
    from create_job_ok [OF Inr] some Encoded show ?thesis
      by (auto simp: SubmissionHandler_def split_beta)
  qed
qed (simp add: SubmissionHandler_def)

lemma submission_again:
  assumes "cl_jobs (view w) (ns, sub_ID sub) \<noteq> None"
  shows "view (snd (run_state (SubmissionHandler K ns (Encoded sub)) w)) = view w"
proof (cases "fst (run_state (k_create_job K (submission_job ns sub)) w)")
  case (Inl e)
  then show ?thesis by (simp add: SubmissionHandler_def split_beta create_job_fails)
next
  case (Inr u)
  from create_job_ok [OF Inr] assms show ?thesis by (simp add: submission_job_def meta_of_def)
qed

text \<open>A consumer whose queue calls leave the cluster alone: acknowledged submissions have their job.\<close>

lemma process_creates:
  assumes apart: "\<And>s p i w. view (snd (run_state (js_publish J s p i) w)) = view w"
    "\<And>m w. view (snd (run_state (js_ack J m) w)) = view w"
    "\<And>m w. view (snd (run_state (js_nak J m) w)) = view w"
    "\<And>m w. view (snd (run_state (js_term J m) w)) = view w"
    and r: "r = run_state (process_msg (js_spy J) maxDeliver (handler_spy (SubmissionHandler K ns)) m) (w, l)"
  shows "(\<forall>key. cl_jobs (view w) key \<noteq> None \<longrightarrow> cl_jobs (view (fst (snd r))) key \<noteq> None) \<and>
     (\<forall>m' sub. Acked m' \<in> set (snd (snd r)) \<longrightarrow> msg_Data m' = Encoded sub \<longrightarrow>
        Acked m' \<in> set l \<or> cl_jobs (view (fst (snd r))) (ns, sub_ID sub) \<noteq> None)"
proof -
  let ?h = "run_state (SubmissionHandler K ns (msg_Data m)) w"
  have view_r: "view (fst (snd r)) = view (snd ?h)"
    unfolding r by (auto simp: process_msg_def PublishDLQ_def js_spy_def handler_spy_def split_beta apart
        split: sum.split)
  moreover have "cl_jobs (view (snd ?h)) (ns, sub_ID sub) \<noteq> None"
    if "Acked m' \<in> set (snd (snd r))" "Acked m' \<notin> set l" "msg_Data m' = Encoded sub" for m' sub
  proof -
    from that(1,2) have "m' = m" "\<exists>u. fst ?h = Inr u"
      unfolding r by (auto simp: process_msg_def PublishDLQ_def js_spy_def handler_spy_def split_beta
          split: sum.splits if_splits)
    with that(3) obtain u where "run_state (SubmissionHandler K ns (Encoded sub)) w = (Inr u, snd ?h)"
      by (metis prod.collapse)
    from submission_creates [OF this] show ?thesis by auto
  qed
  ultimately show ?thesis using submission_grows by metis
qed

lemma process_all_creates:
  assumes apart: "\<And>s p i w. view (snd (run_state (js_publish J s p i) w)) = view w"
    "\<And>m w. view (snd (run_state (js_ack J m) w)) = view w"
    "\<And>m w. view (snd (run_state (js_nak J m) w)) = view w"
    "\<And>m w. view (snd (run_state (js_term J m) w)) = view w"
    and "\<forall>m sub. Acked m \<in> set l \<longrightarrow> msg_Data m = Encoded sub \<longrightarrow> cl_jobs (view w) (ns, sub_ID sub) \<noteq> None"
    and "Acked m \<in> set (snd (snd (run_state
      (process_all (js_spy J) maxDeliver (handler_spy (SubmissionHandler K ns)) ms) (w, l))))"
    and "msg_Data m = Encoded sub"
  shows "cl_jobs (view (fst (snd (run_state
      (process_all (js_spy J) maxDeliver (handler_spy (SubmissionHandler K ns)) ms) (w, l))))) (ns, sub_ID sub) \<noteq> None"
  using assms(5,6)
proof (induction ms arbitrary: w l)
  case Nil
  with assms(7) show ?case by simp
next
  case (Cons m' ms)
  let ?r = "run_state (process_msg (js_spy J) maxDeliver (handler_spy (SubmissionHandler K ns)) m') (w, l)"
  obtain w' l' where r: "snd ?r = (w', l')" by (cases "snd ?r")
  have "\<forall>m sub. Acked m \<in> set l' \<longrightarrow> msg_Data m = Encoded sub \<longrightarrow> cl_jobs (view w') (ns, sub_ID sub) \<noteq> None"
    using process_creates [OF apart refl, where maxDeliver = maxDeliver and m = m' and w = w and l = l] Cons.prems(1) r
    by (metis fst_conv snd_conv)
  from Cons.IH [OF this] Cons.prems(2) r show ?case by (simp add: split_beta)
qed

end

interpretation memj: job_creation mem_kube mem_view
proof (unfold_locales, goal_cases)
  case (1 j w e)
  then show ?case
    by (auto simp: mem_ops mem_create_job_def split: list.splits if_splits option.splits)
next
  case (2 j w e)
  then show ?case
    by (auto simp: mem_ops mem_create_job_def mem_view_def split: list.splits if_splits option.splits)
next
  case (3 j w u)
  then show ?case
    by (auto simp: mem_ops mem_create_job_def mem_view_def same_request_def lookup_by_append fun_eq_iff
        intro!: exI [of _ j] split: list.splits if_splits option.splits)
qed


text \<open>The poller's count of a phase is the number of jobs in it, as a Go \<^verbatim>\<open>int\<close>.\<close>

lemma phase_counts_word:
  "phase_counts jobs ph = word_of_nat (length (filter (\<lambda>j. st_Phase (job_Status j) = ph) jobs))"
proof (induction jobs rule: rev_induct)
  case Nil
  then show ?case by (simp add: phase_counts_def)
next
  case (snoc j jobs)
  then show ?case by (auto simp: phase_counts_def)
qed

section \<open>Properties\<close>

definition example_submission :: JobSubmission where
  "example_submission = \<lparr>sub_ID = ''j'', sub_Team = ''platform'', sub_Image = ''busybox'', sub_Command = [],
     sub_Args = [], sub_AcceleratorType = ''mock-gpu'', sub_AcceleratorCount = 2, sub_Priority = 0,
     sub_TraceParent = ''''\<rparr>"

definition quiet_jetstream :: "'w jetstream" where
  "quiet_jetstream = \<lparr>js_publish = (\<lambda>s p i. ret (Inr ())), js_consumer = ret (Inr ()),
     js_info_pending = ret (Inr 0), js_create_consumer = (\<lambda>n. ret (Inr ())),
     js_fetch = (\<lambda>n. ret (Inr ([], True))), js_peek_consumer = ret (Inr ()),
     js_peek_fetch = (\<lambda>n. ret (Inr [])), js_ack = (\<lambda>m. ret ()), js_nak = (\<lambda>m. ret ()),
     js_term = (\<lambda>m. ret ()), js_ctx_err = ret None\<rparr>"

lemmas submission_eval = SubmissionHandler_def submission_job_def example_submission_def zero_spec_def

text \<open>Handling a submission is idempotent: when it succeeds the job it names exists, no other object
  changed, and the job is the submitted one unless a job of that name was there before; handling the
  same message again, as a redelivery does, changes nothing.\<close>

lemma submission_is_idempotent:
  assumes "job_creation K view"
    and "run_state (SubmissionHandler K ns (json_Marshal sub)) w = (Inr u, w')"
  shows "(\<exists>q. view w' = (view w)\<lparr>cl_jobs := (cl_jobs (view w))((ns, sub_ID sub) \<mapsto> q)\<rparr> \<and>
       (cl_jobs (view w) (ns, sub_ID sub) = None \<longrightarrow> same_request (submission_job ns sub) q) \<and>
       (cl_jobs (view w) (ns, sub_ID sub) \<noteq> None \<longrightarrow> cl_jobs (view w) (ns, sub_ID sub) = Some q)) \<and>
     view (snd (run_state (SubmissionHandler K ns (json_Marshal sub)) w')) = view w'"
proof -
  from assms(2) have run: "run_state (SubmissionHandler K ns (Encoded sub)) w = (Inr u, w')"
    by (simp add: json_Marshal_def)
  note made = job_creation.submission_creates [OF assms(1) run]
  then have "cl_jobs (view w') (ns, sub_ID sub) \<noteq> None" by auto
  from made job_creation.submission_again [OF assms(1) this] show ?thesis
    by (simp add: json_Marshal_def)
qed

lemma example_submission_runs:
  "run_state (SubmissionHandler mem_kube ''default'' (json_Marshal example_submission)) mem_empty =
     (Inr (), mem_empty\<lparr>mem_jobs := [submission_job ''default'' example_submission]\<rparr>)"
  by (simp add: json_Marshal_def submission_eval go_eval)

text \<open>Property C16. No acknowledged submission is lost: when the consumer has worked through a batch, every
  submission it acknowledged has its AcceleratorJob in the cluster.\<close>

theorem acknowledged_submissions_have_jobs:
  assumes "job_creation K view"
    and "\<And>s p i w. view (snd (run_state (js_publish J s p i) w)) = view w"
    and "\<And>m w. view (snd (run_state (js_ack J m) w)) = view w"
    and "\<And>m w. view (snd (run_state (js_nak J m) w)) = view w"
    and "\<And>m w. view (snd (run_state (js_term J m) w)) = view w"
    and "run_state (process_all (js_spy J) maxDeliver (handler_spy (SubmissionHandler K ns))
           (interleaveByKey msgs submissionTeam)) (w, []) = (u, w', events)"
    and "Acked m \<in> set events" and "msg_Data m = json_Marshal sub"
  shows "cl_jobs (view w') (ns, sub_ID sub) \<noteq> None"
  using job_creation.process_all_creates [OF assms(1-5), where w = w and l = "[]" and m = m and sub = sub
      and ms = "interleaveByKey msgs submissionTeam" and maxDeliver = maxDeliver and ns = ns]
    assms(6-8) by (simp add: json_Marshal_def)

definition example_delivery :: msg where
  "example_delivery = \<lparr>msg_Seq = 1, msg_Data = json_Marshal example_submission, msg_NumDelivered = Some 1\<rparr>"

theorem acknowledged_submissions_have_jobs_witness:
  "cl_jobs (mem_view (mem_empty\<lparr>mem_jobs := [submission_job ''default'' example_submission]\<rparr>)) (''default'', ''j'') \<noteq> None"
proof -
  let ?w' = "mem_empty\<lparr>mem_jobs := [submission_job ''default'' example_submission]\<rparr>"
  have "interleaveByKey [example_delivery] submissionTeam = [example_delivery]"
    by (simp add: interleaveByKey_def group_by_key_def group_step_def group_at_def rr_loop.simps Let_def)
  then have run: "run_state (process_all (js_spy quiet_jetstream) 5
      (handler_spy (SubmissionHandler mem_kube ''default'')) (interleaveByKey [example_delivery] submissionTeam))
      (mem_empty, []) =
    ((), ?w', [Handled (json_Marshal example_submission) True, Acked example_delivery])"
    by (simp add: process_msg_def handler_spy_def js_spy_def quiet_jetstream_def example_delivery_def
        example_submission_runs)
  have "msg_Data example_delivery = json_Marshal example_submission"
    by (simp add: example_delivery_def)
  from acknowledged_submissions_have_jobs [OF memj.job_creation_axioms _ _ _ _ run _ this]
  show ?thesis by (simp add: quiet_jetstream_def example_submission_def)
qed

end
