(* ===== verification/Go_Time.thy ===== *)
theory Go_Time
  imports Prelude "HOL-Library.Monad_Syntax"
begin

text \<open>
  The parts of Go's \<^verbatim>\<open>time\<close> package that pagination tokens go through: the proleptic Gregorian
  calendar, and \<^verbatim>\<open>Format\<close> and \<^verbatim>\<open>Parse\<close> with the layouts \<^verbatim>\<open>time.RFC3339Nano\<close> and \<^verbatim>\<open>time.RFC3339\<close>. The
  processes run in UTC, so formatting writes the zone as \<^verbatim>\<open>Z\<close>; parsing accepts any offset.
\<close>

section \<open>Calendar\<close>

definition is_leap :: "int \<Rightarrow> bool" where
  "is_leap y \<longleftrightarrow> y mod 4 = 0 \<and> (y mod 100 \<noteq> 0 \<or> y mod 400 = 0)"

definition month_lengths :: "int \<Rightarrow> int list" where
  "month_lengths y = [31, if is_leap y then 29 else 28, 31, 30, 31, 30, 31, 31, 30, 31, 30, 31]"

text \<open>Days from 1 January of year 1 to 1 January of year \<open>y\<close>.\<close>

definition days_before_year :: "int \<Rightarrow> int" where
  "days_before_year y = 365 * (y - 1) + (y - 1) div 4 - (y - 1) div 100 + (y - 1) div 400"

text \<open>The year of a day and the day's number in that year, by 400-, 100-, 4- and 1-year cycles.\<close>

definition year_of_days :: "int \<Rightarrow> int \<times> int" where
  "year_of_days d =
     (let n400 = d div 146097; d1 = d mod 146097;
          n100 = d1 div 36524 - d1 div 36524 div 4; d2 = d1 - 36524 * n100;
          n4 = d2 div 1461; d3 = d2 - 1461 * n4;
          n1 = d3 div 365 - d3 div 365 div 4
      in (400 * n400 + 100 * n100 + 4 * n4 + n1 + 1, d3 - 365 * n1))"

text \<open>Month (from 0) and day (from 0) of a day of the year.\<close>

fun month_of :: "int list \<Rightarrow> int \<Rightarrow> int \<times> int" where
  "month_of [] d = (0, d)"
| "month_of (l # ls) d = (if d < l then (0, d) else let (m, r) = month_of ls (d - l) in (m + 1, r))"

definition days_before_month :: "int list \<Rightarrow> int \<Rightarrow> int" where
  "days_before_month ls m = sum_list (take (nat m) ls)"

text \<open>
  Splitting a cycle of four periods of \<open>L\<close> days and one leap day, as the year computation does at
  two levels: the extra day stays in the last period.
\<close>

lemma cycle_split:
  fixes L :: int
  assumes "0 \<le> d" "d \<le> 4 * L" "0 < L" and b: "b = d div L - d div L div 4"
  shows "0 \<le> b" "b \<le> 3" "0 \<le> d - L * b" "d - L * b \<le> L" "b < 3 \<or> d < 4 * L \<longrightarrow> d - L * b < L"
proof -
  define q where "q = d div L"
  have q: "L * q \<le> d" "d < L * q + L"
    using pos_mod_bound [OF assms(3), of d] pos_mod_sign [OF assms(3), of d]
    by (simp_all add: q_def algebra_simps minus_mod_eq_mult_div [symmetric])
  have "0 \<le> q" unfolding q_def using assms by (simp add: pos_imp_zdiv_nonneg_iff)
  moreover have "q \<le> 4"
    unfolding q_def using zdiv_mono1 [OF assms(2,3)] assms(3) by simp
  ultimately consider "q = 0" | "q = 1" | "q = 2" | "q = 3" | "q = 4" by linarith
  then have *: "0 \<le> b \<and> b \<le> 3 \<and> 0 \<le> d - L * b \<and> d - L * b \<le> L \<and> (b < 3 \<or> d < 4 * L \<longrightarrow> d - L * b < L)"
    by cases (use q assms(2) b in \<open>simp_all flip: q_def\<close>)
  then show "0 \<le> b" "b \<le> 3" "0 \<le> d - L * b" "d - L * b \<le> L" "b < 3 \<or> d < 4 * L \<longrightarrow> d - L * b < L"
    by blast+
qed

lemma mod_carry:
  fixes r :: int
  assumes "y = n * q + r + 1" "0 \<le> r" "r < n"
  shows "y mod n = (if r = n - 1 then 0 else r + 1)"
proof (cases "r = n - 1")
  case True
  with assms have "y mod n = 0" by (intro int_mod_pos_eq [where q = "q + 1"]) (simp_all add: algebra_simps)
  with True show ?thesis by simp
next
  case False
  with assms have "y mod n = r + 1" by (intro int_mod_pos_eq [where q = q]) simp_all
  with False show ?thesis by simp
qed

text \<open>The leap years of the cycles: every fourth one, except the last of the first three centuries.\<close>

lemma cycle_leap:
  fixes b :: int
  assumes "0 \<le> b" "b \<le> 3" "0 \<le> c" "c \<le> 24" "0 \<le> e" "e \<le> 3" and y: "y = 400 * a + 100 * b + 4 * c + e + 1"
  shows "is_leap y \<longleftrightarrow> e = 3 \<and> (c \<noteq> 24 \<or> b = 3)"
proof -
  have "y mod 4 = (if e = 4 - 1 then 0 else e + 1)"
    by (rule mod_carry [where q = "100 * a + 25 * b + c"]) (use assms in simp_all)
  moreover have "y mod 100 = (if 4 * c + e = 100 - 1 then 0 else 4 * c + e + 1)"
    by (rule mod_carry [where q = "4 * a + b"]) (use assms in simp_all)
  moreover have "y mod 400 = (if 100 * b + 4 * c + e = 400 - 1 then 0 else 100 * b + 4 * c + e + 1)"
    by (rule mod_carry [where q = a]) (use assms in simp_all)
  ultimately show ?thesis using assms(1-6) unfolding is_leap_def by (auto split: if_splits)
qed

lemma year_of_days_sound:
  assumes "year_of_days d = (y, yd)"
  shows "days_before_year y + yd = d" "0 \<le> yd" "yd < (if is_leap y then 366 else 365)"
proof -
  define a where "a = d div 146097"
  define d1 where "d1 = d mod 146097"
  define b where "b = d1 div 36524 - d1 div 36524 div 4"
  define d2 where "d2 = d1 - 36524 * b"
  define c where "c = d2 div 1461"
  define d3 where "d3 = d2 - 1461 * c"
  define e where "e = d3 div 365 - d3 div 365 div 4"
  have y: "y = 400 * a + 100 * b + 4 * c + e + 1" and yd: "yd = d3 - 365 * e"
    using assms unfolding year_of_days_def Let_def a_def [symmetric] d1_def [symmetric] b_def [symmetric]
      d2_def [symmetric] c_def [symmetric] d3_def [symmetric] e_def [symmetric] by simp_all
  have d: "d = 146097 * a + d1" by (simp add: a_def d1_def)
  have r1: "0 \<le> d1" "d1 < 146097" by (simp_all add: d1_def)
  have "d1 \<le> 4 * 36524" using r1 by simp
  note b = cycle_split [OF r1(1) this _ b_def, simplified, folded d2_def]
  have d3: "d3 = d2 mod 1461" by (simp add: d3_def c_def minus_mult_div_eq_mod)
  have "c \<le> 36524 div 1461" unfolding c_def using b(4) by (intro zdiv_mono1) auto
  moreover have "0 \<le> c" unfolding c_def using b(3) by (simp add: d2_def pos_imp_zdiv_nonneg_iff)
  moreover have "0 \<le> d3" "d3 < 1461" by (simp_all add: d3)
  moreover have "c = 24 \<longrightarrow> b < 3 \<longrightarrow> d3 < 1460" using b(5) by (auto simp: d3_def)
  ultimately have c: "0 \<le> c" "c \<le> 24" "0 \<le> d3" "d3 < 1461" "c = 24 \<longrightarrow> b < 3 \<longrightarrow> d3 < 1460"
    by simp_all
  then have "d3 \<le> 4 * 365" by simp
  note e = cycle_split [OF c(3) this _ e_def, simplified]
  have div: "(y - 1) div 4 = 100 * a + 25 * b + c" "(y - 1) div 100 = 4 * a + b" "(y - 1) div 400 = a"
    using b(1,2) c(1,2) e(1,2)
    by (intro int_div_pos_eq [where r = e] int_div_pos_eq [where r = "4 * c + e"]
        int_div_pos_eq [where r = "100 * b + 4 * c + e"]; simp add: y)+
  show "days_before_year y + yd = d"
    unfolding days_before_year_def div yd d using y by (simp add: d2_def d3_def)
  show "0 \<le> yd" using e yd by simp
  have leap: "is_leap y \<longleftrightarrow> e = 3 \<and> (c \<noteq> 24 \<or> b = 3)"
    using b(1,2) c(1,2) e(1,2) y by (intro cycle_leap)
  show "yd < (if is_leap y then 366 else 365)"
    unfolding leap using e c(1,2,5) b(1,2) by (auto simp: yd)
qed

lemma month_of_sound:
  assumes "month_of ls d = (m, r)" and "0 \<le> d" and "\<forall>l\<in>set ls. 0 < l" and "d < sum_list ls"
  shows "0 \<le> m \<and> m < int (length ls) \<and> 0 \<le> r \<and> r < ls ! nat m \<and> days_before_month ls m + r = d"
  using assms
proof (induction ls d arbitrary: m r rule: month_of.induct)
  case (2 l ls d)
  show ?case
  proof (cases "d < l")
    case True
    with 2(2,3) show ?thesis by (auto simp: days_before_month_def)
  next
    case False
    obtain m' r' where mr: "month_of ls (d - l) = (m', r')" by (cases "month_of ls (d - l)")
    from 2(1) [OF False mr] 2(3-5) False
    have "0 \<le> m' \<and> m' < int (length ls) \<and> 0 \<le> r' \<and> r' < ls ! nat m' \<and> days_before_month ls m' + r' = d - l"
      by auto
    moreover have "m = m' + 1" "r = r'" using 2(2) False mr by simp_all
    ultimately show ?thesis by (simp add: days_before_month_def nat_add_distrib)
  qed
qed simp

lemma month_lengths_sum: "sum_list (month_lengths y) = (if is_leap y then 366 else 365)"
  by (simp add: month_lengths_def)

lemma month_lengths_bounds: "\<forall>l\<in>set (month_lengths y). 0 < l \<and> l \<le> 31" "length (month_lengths y) = 12"
  by (simp_all add: month_lengths_def)

section \<open>Civil time\<close>

record civil =
  cv_year :: int
  cv_month :: int
  cv_day :: int
  cv_hour :: int
  cv_min :: int
  cv_sec :: int
  cv_nsec :: int

definition civil_of :: "instant \<Rightarrow> civil" where
  "civil_of t =
     (let days = t div 86400000000000; ns = t mod 86400000000000; s = ns div 1000000000;
          (y, yd) = year_of_days days; (m, d) = month_of (month_lengths y) yd
      in \<lparr>cv_year = y, cv_month = m + 1, cv_day = d + 1, cv_hour = s div 3600, cv_min = s div 60 mod 60,
          cv_sec = s mod 60, cv_nsec = ns mod 1000000000\<rparr>)"

definition instant_of :: "civil \<Rightarrow> instant" where
  "instant_of c =
     (days_before_year (cv_year c) + days_before_month (month_lengths (cv_year c)) (cv_month c - 1) +
        (cv_day c - 1)) * 86400000000000 +
     (cv_hour c * 3600 + cv_min c * 60 + cv_sec c) * 1000000000 + cv_nsec c"

text \<open>The checks of the parser: every field in its range and the day in its month.\<close>

definition civil_ok :: "civil \<Rightarrow> bool" where
  "civil_ok c \<longleftrightarrow> 1 \<le> cv_month c \<and> cv_month c \<le> 12 \<and> 1 \<le> cv_day c \<and>
     cv_day c \<le> month_lengths (cv_year c) ! nat (cv_month c - 1) \<and>
     0 \<le> cv_hour c \<and> cv_hour c < 24 \<and> 0 \<le> cv_min c \<and> cv_min c < 60 \<and> 0 \<le> cv_sec c \<and> cv_sec c < 60 \<and>
     0 \<le> cv_nsec c \<and> cv_nsec c < 1000000000"

lemma civil_of_sound: "instant_of (civil_of t) = t" "civil_ok (civil_of t)"
proof -
  define ns where "ns = t mod 86400000000000"
  define s where "s = ns div 1000000000"
  obtain y yd where y: "year_of_days (t div 86400000000000) = (y, yd)"
    by (cases "year_of_days (t div 86400000000000)")
  obtain m d where m: "month_of (month_lengths y) yd = (m, d)" by (cases "month_of (month_lengths y) yd")
  have c: "civil_of t = \<lparr>cv_year = y, cv_month = m + 1, cv_day = d + 1, cv_hour = s div 3600,
      cv_min = s div 60 mod 60, cv_sec = s mod 60, cv_nsec = ns mod 1000000000\<rparr>"
    by (simp add: civil_of_def Let_def y m ns_def s_def)
  note ys = year_of_days_sound [OF y]
  have ms: "0 \<le> m" "m < 12" "0 \<le> d" "d < month_lengths y ! nat m"
      "days_before_month (month_lengths y) m + d = yd"
    using month_of_sound [OF m ys(2)] ys(3) month_lengths_bounds [of y]
    by (auto simp: month_lengths_sum)
  have "0 \<le> ns" "ns < 86400000000000" by (simp_all add: ns_def)
  then have s: "0 \<le> s" "s < 86400" "s * 1000000000 + ns mod 1000000000 = ns" by (simp_all add: s_def)
  have hms: "s div 3600 * 3600 + s div 60 mod 60 * 60 + s mod 60 = s"
  proof -
    have "s div 3600 = s div 60 div 60" by (simp add: zdiv_zmult2_eq [symmetric])
    moreover have "s = 60 * (s div 60) + s mod 60" "s div 60 = 60 * (s div 60 div 60) + s div 60 mod 60"
      by simp_all
    ultimately show ?thesis by linarith
  qed
  have "instant_of (civil_of t) =
      (days_before_year y + (days_before_month (month_lengths y) m + d)) * 86400000000000 +
      (s div 3600 * 3600 + s div 60 mod 60 * 60 + s mod 60) * 1000000000 + ns mod 1000000000"
    by (simp add: instant_of_def c algebra_simps)
  also have "\<dots> = (t div 86400000000000) * 86400000000000 + ns"
    by (simp only: hms ms(5) ys(1)) (simp only: s(3) add.assoc)
  finally show "instant_of (civil_of t) = t" by (simp add: ns_def)
  have "s div 3600 < 24" using zdiv_mono1 [of s 86399 3600] s(2) by simp
  with ms s show "civil_ok (civil_of t)"
    by (simp add: civil_ok_def c)
qed


section \<open>Formatting\<close>

text \<open>The last \<open>k\<close> decimal digits of a number, zero-padded.\<close>

fun digits :: "nat \<Rightarrow> nat \<Rightarrow> string" where
  "digits 0 n = []"
| "digits (Suc k) n = digits k (n div 10) @ [digit_char (n mod 10)]"

definition year_text :: "int \<Rightarrow> string" where
  "year_text y =
     (let body = (\<lambda>n. if n < 10000 then digits 4 n else show_nat n)
      in if y < 0 then ''-'' @ body (nat (- y)) else body (nat y))"

definition strip_zeros :: "string \<Rightarrow> string" where
  "strip_zeros s = rev (dropWhile (\<lambda>c. c = CHR ''0'') (rev s))"

definition frac_text :: "int \<Rightarrow> string" where
  "frac_text ns = (if ns = 0 then '''' else ''.'' @ strip_zeros (digits 9 (nat ns)))"

definition date_time_text :: "civil \<Rightarrow> string" where
  "date_time_text c = year_text (cv_year c) @ ''-'' @ digits 2 (nat (cv_month c)) @ ''-'' @
     digits 2 (nat (cv_day c)) @ ''T'' @ digits 2 (nat (cv_hour c)) @ '':'' @ digits 2 (nat (cv_min c)) @
     '':'' @ digits 2 (nat (cv_sec c))"

definition format_RFC3339Nano :: "instant \<Rightarrow> string" where
  "format_RFC3339Nano t = date_time_text (civil_of t) @ frac_text (cv_nsec (civil_of t)) @ ''Z''"

definition format_RFC3339 :: "instant \<Rightarrow> string" where
  "format_RFC3339 t = date_time_text (civil_of t) @ ''Z''"

section \<open>Parsing\<close>

text \<open>Each piece of the layout consumes a prefix of the text or fails.\<close>

definition take_digits :: "nat \<Rightarrow> string \<Rightarrow> (int \<times> string) option" where
  "take_digits k s =
     (if k \<le> length s \<and> list_all is_digit_char (take k s)
      then Some (int (parse_digits (take k s)), drop k s) else None)"

text \<open>The hour may have one digit only.\<close>

definition take_hour :: "string \<Rightarrow> (int \<times> string) option" where
  "take_hour s = (case take_digits 2 s of Some r \<Rightarrow> Some r | None \<Rightarrow> take_digits 1 s)"

definition expect :: "char \<Rightarrow> string \<Rightarrow> string option" where
  "expect c s = (case s of [] \<Rightarrow> None | d # ds \<Rightarrow> if d = c then Some ds else None)"

text \<open>
  An optional fraction after the seconds, set off by a period or a comma; digits beyond the ninth
  are read and dropped.
\<close>

definition take_frac :: "string \<Rightarrow> int \<times> string" where
  "take_frac s =
     (case s of
        p # d # ds \<Rightarrow>
          if (p = CHR ''.'' \<or> p = CHR '','') \<and> is_digit_char d
          then let ns = take 9 (takeWhile is_digit_char (d # ds))
               in (int (parse_digits ns * 10 ^ (9 - length ns)), dropWhile is_digit_char (d # ds))
          else (0, s)
      | _ \<Rightarrow> (0, s))"

text \<open>The zone: \<^verbatim>\<open>Z\<close>, or a signed \<^verbatim>\<open>hh:mm\<close>, as an offset in seconds.\<close>

definition take_zone :: "string \<Rightarrow> (int \<times> string) option" where
  "take_zone s =
     (case s of
        [] \<Rightarrow> None
      | c # cs \<Rightarrow>
          if c = CHR ''Z'' then Some (0, cs)
          else if c = CHR ''+'' \<or> c = CHR ''-'' then
            do {
              (hr, s1) \<leftarrow> take_digits 2 cs;
              s2 \<leftarrow> expect (CHR '':'') s1;
              (mm, s3) \<leftarrow> take_digits 2 s2;
              if hr \<le> 24 \<and> mm \<le> 60
              then Some ((if c = CHR ''+'' then 1 else - 1) * (hr * 3600 + mm * 60), s3) else None
            }
          else None)"

definition parse_RFC3339Nano :: "string \<Rightarrow> instant option" where
  "parse_RFC3339Nano s0 = do {
     (year, s1) \<leftarrow> take_digits 4 s0;
     s2 \<leftarrow> expect (CHR ''-'') s1;
     (month, s3) \<leftarrow> take_digits 2 s2;
     s4 \<leftarrow> expect (CHR ''-'') s3;
     (day, s5) \<leftarrow> take_digits 2 s4;
     s6 \<leftarrow> expect (CHR ''T'') s5;
     (hour, s7) \<leftarrow> take_hour s6;
     s8 \<leftarrow> expect (CHR '':'') s7;
     (mn, s9) \<leftarrow> take_digits 2 s8;
     s10 \<leftarrow> expect (CHR '':'') s9;
     (sec, s11) \<leftarrow> take_digits 2 s10;
     let (nsec, s12) = take_frac s11;
     (offset, s13) \<leftarrow> take_zone s12;
     let c = \<lparr>cv_year = year, cv_month = month, cv_day = day, cv_hour = hour, cv_min = mn,
              cv_sec = sec, cv_nsec = nsec\<rparr>;
     if s13 = [] \<and> civil_ok c then Some (instant_of c - offset * 1000000000) else None
   }"

section \<open>Round trip\<close>

lemma digits_length [simp]: "length (digits k n) = k"
  by (induction k arbitrary: n) auto

lemma digits_are_digits: "list_all is_digit_char (digits k n)"
  by (induction k arbitrary: n) auto

lemma parse_digits_digits: "n < 10 ^ k \<Longrightarrow> parse_digits (digits k n) = n"
proof (induction k arbitrary: n)
  case (Suc k)
  then have "n div 10 < 10 ^ k" by (simp add: less_mult_imp_div_less mult.commute)
  with Suc.IH show ?case by (simp add: parse_digits_snoc)
qed simp

lemma take_digits_digits:
  "0 \<le> n \<Longrightarrow> n < 10 ^ k \<Longrightarrow> take_digits k (digits k (nat n) @ s) = Some (n, s)"
  by (simp add: take_digits_def digits_are_digits parse_digits_digits nat_less_iff)

lemma strip_zeros_snoc:
  "strip_zeros (s @ [c]) = (if c = CHR ''0'' then strip_zeros s else s @ [c])"
  by (simp add: strip_zeros_def)

lemma strip_zeros_value:
  "length (strip_zeros s) \<le> length s \<and>
   parse_digits (strip_zeros s) * 10 ^ (length s - length (strip_zeros s)) = parse_digits s"
proof (induction s rule: rev_induct)
  case (snoc c s)
  then show ?case
    by (auto simp: strip_zeros_snoc parse_digits_snoc digit_val_def Suc_diff_le)
qed (simp add: strip_zeros_def)

lemma strip_zeros_digits: "list_all is_digit_char s \<Longrightarrow> list_all is_digit_char (strip_zeros s)"
  by (induction s rule: rev_induct) (auto simp: strip_zeros_snoc, simp add: strip_zeros_def)

lemma takeWhile_digits: "list_all is_digit_char s \<Longrightarrow> \<not> is_digit_char c \<Longrightarrow>
  takeWhile is_digit_char (s @ c # t) = s \<and> dropWhile is_digit_char (s @ c # t) = c # t"
  by (induction s) auto

lemma take_frac_text:
  assumes "0 \<le> ns" "ns < 1000000000"
  shows "take_frac (frac_text ns @ ''Z'') = (ns, ''Z'')"
proof (cases "ns = 0")
  case True
  then show ?thesis by (simp add: frac_text_def take_frac_def)
next
  case False
  let ?s = "strip_zeros (digits 9 (nat ns))"
  have val: "parse_digits ?s * 10 ^ (9 - length ?s) = nat ns" and len: "length ?s \<le> 9"
    using strip_zeros_value [of "digits 9 (nat ns)"] parse_digits_digits [of "nat ns" 9] assms
    by (simp_all add: nat_less_iff)
  have val': "int (parse_digits ?s) * 10 ^ (9 - length ?s) = ns"
    using arg_cong [OF val, of int] assms by simp
  have dig: "list_all is_digit_char ?s" by (simp add: strip_zeros_digits digits_are_digits)
  from val False assms have "?s \<noteq> []" by auto
  then obtain d ds where s: "?s = d # ds" by (cases ?s) auto
  have z: "\<not> is_digit_char (CHR ''Z'')" by (simp add: is_digit_char_def)
  from takeWhile_digits [OF dig z, of "[]"] dig val' len False assms show ?thesis
    by (simp add: frac_text_def take_frac_def s)
qed

lemma days_before_year_mono:
  assumes "x \<le> y" shows "days_before_year x \<le> days_before_year y"
proof -
  have "(x - 1) div 4 \<le> (y - 1) div 4" "(x - 1) div 400 \<le> (y - 1) div 400"
    using assms by (intro zdiv_mono1; simp)+
  moreover have "(y - 1) div 100 - (x - 1) div 100 \<le> y - x"
  proof (cases "x = y")
    case False
    have "(y - 1) div 100 * 100 \<le> y - 1" "x - 1 < (x - 1) div 100 * 100 + 100"
      using div_mult_mod_eq [of "y - 1" 100] div_mult_mod_eq [of "x - 1" 100]
        pos_mod_sign [of 100 "y - 1"] pos_mod_bound [of 100 "x - 1"] by linarith+
    with False assms show ?thesis by linarith
  qed simp
  ultimately show ?thesis using assms by (simp add: days_before_year_def)
qed

lemma year_range_of_days:
  assumes "days_before_year y < 3652059" "- 366 < days_before_year y"
  shows "0 \<le> y \<and> y < 10000"
proof (rule ccontr)
  assume "\<not> (0 \<le> y \<and> y < 10000)"
  then consider "y \<le> - 1" | "10000 \<le> y" by linarith
  then show False
  proof cases
    case 1
    from days_before_year_mono [OF 1] assms(2) show False by (simp add: days_before_year_def)
  next
    case 2
    from days_before_year_mono [OF 2] assms(1) show False by (simp add: days_before_year_def)
  qed
qed

lemma civil_year_range:
  assumes "0 \<le> t" and "t < instant_of \<lparr>cv_year = 10000, cv_month = 1, cv_day = 1, cv_hour = 0,
      cv_min = 0, cv_sec = 0, cv_nsec = 0\<rparr>"
  shows "0 \<le> cv_year (civil_of t)" "cv_year (civil_of t) < 10000"
proof -
  let ?d = "t div 86400000000000"
  obtain y yd where y: "year_of_days ?d = (y, yd)" by (cases "year_of_days ?d")
  then have cy: "cv_year (civil_of t) = y" by (simp add: civil_of_def Let_def split: prod.split)
  have d: "0 \<le> ?d" "?d < 3652059"
    using assms by (simp_all add: instant_of_def days_before_year_def days_before_month_def
        pos_imp_zdiv_nonneg_iff)
  have "days_before_year y + yd = ?d" "0 \<le> yd" "yd < 366"
    using year_of_days_sound [OF y] by (auto split: if_splits)
  with d have "days_before_year y < 3652059" "- 366 < days_before_year y" by linarith+
  then have "0 \<le> y \<and> y < 10000" by (rule year_range_of_days)
  then show "0 \<le> cv_year (civil_of t)" "cv_year (civil_of t) < 10000" by (simp_all add: cy)
qed

text \<open>Every instant of the years 1 to 9999 survives formatting and parsing to the nanosecond.\<close>

lemma parse_format:
  assumes "0 \<le> t" and "t < instant_of \<lparr>cv_year = 10000, cv_month = 1, cv_day = 1, cv_hour = 0,
      cv_min = 0, cv_sec = 0, cv_nsec = 0\<rparr>"
  shows "parse_RFC3339Nano (format_RFC3339Nano t) = Some t"
proof -
  let ?c = "civil_of t"
  have y: "0 \<le> cv_year ?c" "cv_year ?c < 10000" using assms by (rule civil_year_range)+
  have ok: "civil_ok ?c" by (rule civil_of_sound)
  have day: "cv_day ?c \<le> 31"
    using ok month_lengths_bounds [of "cv_year ?c"] nth_mem [of "nat (cv_month ?c - 1)" "month_lengths (cv_year ?c)"]
    by (fastforce simp: civil_ok_def nat_less_iff)
  have eq: "\<lparr>cv_year = cv_year ?c, cv_month = cv_month ?c, cv_day = cv_day ?c, cv_hour = cv_hour ?c,
      cv_min = cv_min ?c, cv_sec = cv_sec ?c, cv_nsec = cv_nsec ?c\<rparr> = ?c" by simp
  have z: "take_zone ''Z'' = Some (0, [])" by (simp add: take_zone_def)
  have r: "0 \<le> cv_month ?c" "cv_month ?c < 100" "0 \<le> cv_day ?c" "cv_day ?c < 100" "0 \<le> cv_hour ?c"
      "cv_hour ?c < 100" "0 \<le> cv_min ?c" "cv_min ?c < 100" "0 \<le> cv_sec ?c" "cv_sec ?c < 100"
      "0 \<le> cv_nsec ?c" "cv_nsec ?c < 1000000000"
    using ok day by (simp_all add: civil_ok_def)
  have yt: "year_text (cv_year ?c) = digits 4 (nat (cv_year ?c))"
    using y by (simp add: year_text_def nat_less_iff)
  have td: "take_digits 4 (digits 4 (nat (cv_year ?c)) @ s) = Some (cv_year ?c, s)"
      "take_digits 2 (digits 2 (nat (cv_month ?c)) @ s) = Some (cv_month ?c, s)"
      "take_digits 2 (digits 2 (nat (cv_day ?c)) @ s) = Some (cv_day ?c, s)"
      "take_digits 2 (digits 2 (nat (cv_hour ?c)) @ s) = Some (cv_hour ?c, s)"
      "take_digits 2 (digits 2 (nat (cv_min ?c)) @ s) = Some (cv_min ?c, s)"
      "take_digits 2 (digits 2 (nat (cv_sec ?c)) @ s) = Some (cv_sec ?c, s)" for s
    by (rule take_digits_digits; use y r in simp)+
  show ?thesis
    by (simp add: parse_RFC3339Nano_def format_RFC3339Nano_def date_time_text_def yt td
        take_hour_def expect_def take_frac_text r z Let_def eq ok civil_of_sound(1))
qed

end
