(* ===== verification/Cursor.thy ===== *)
theory Cursor
  imports Go_Time
begin

text \<open>
  The pagination tokens of \<^verbatim>\<open>src/internal/store/store.go\<close>: \<^verbatim>\<open>base64.RawURLEncoding\<close>,
  \<^verbatim>\<open>EncodeCursor\<close> and \<^verbatim>\<open>DecodeCursor\<close>. Strings are byte strings, as in Go.
\<close>

section \<open>Unpadded URL-safe base64\<close>

definition b64_alphabet :: string where
  "b64_alphabet = ''ABCDEFGHIJKLMNOPQRSTUVWXYZabcdefghijklmnopqrstuvwxyz0123456789-_''"

definition b64_char :: "nat \<Rightarrow> char" where
  "b64_char n = b64_alphabet ! n"

fun index_of :: "'a \<Rightarrow> 'a list \<Rightarrow> nat option" where
  "index_of x [] = None"
| "index_of x (y # ys) = (if x = y then Some 0 else map_option Suc (index_of x ys))"

definition b64_val :: "char \<Rightarrow> nat option" where
  "b64_val c = index_of c b64_alphabet"

text \<open>Three bytes become four characters; one or two left over become two or three.\<close>

fun b64_bytes :: "nat list \<Rightarrow> string" where
  "b64_bytes (a # b # c # rest) =
     b64_char (a div 4) # b64_char (a mod 4 * 16 + b div 16) # b64_char (b mod 16 * 4 + c div 64) #
     b64_char (c mod 64) # b64_bytes rest"
| "b64_bytes [a, b] = [b64_char (a div 4), b64_char (a mod 4 * 16 + b div 16), b64_char (b mod 16 * 4)]"
| "b64_bytes [a] = [b64_char (a div 4), b64_char (a mod 4 * 16)]"
| "b64_bytes [] = []"

definition EncodeToString :: "string \<Rightarrow> string" where
  "EncodeToString s = b64_bytes (map of_char s)"

text \<open>
  The decoder skips line breaks, rejects any other character outside the alphabet and a single
  left-over character, and ignores the unused low bits of the last character.
\<close>

fun unb64 :: "nat list \<Rightarrow> nat list option" where
  "unb64 (w # x # y # z # rest) =
     map_option (\<lambda>bs. (w * 4 + x div 16) # (x mod 16 * 16 + y div 4) # (y mod 4 * 64 + z) # bs) (unb64 rest)"
| "unb64 [w, x, y] = Some [w * 4 + x div 16, x mod 16 * 16 + y div 4]"
| "unb64 [w, x] = Some [w * 4 + x div 16]"
| "unb64 [w] = None"
| "unb64 [] = Some []"

fun all_some :: "'a option list \<Rightarrow> 'a list option" where
  "all_some [] = Some []"
| "all_some (None # xs) = None"
| "all_some (Some x # xs) = map_option (Cons x) (all_some xs)"

definition DecodeString :: "string \<Rightarrow> string option" where
  "DecodeString s =
     (case all_some (map b64_val (filter (\<lambda>c. c \<noteq> CHR 0x0A \<and> c \<noteq> CHR 0x0D) s)) of
        None \<Rightarrow> None
      | Some vs \<Rightarrow> map_option (map char_of) (unb64 vs))"

lemma b64_val_char: "n < 64 \<Longrightarrow> b64_val (b64_char n) = Some n"
proof -
  have "\<forall>n\<in>set [0..<64]. b64_val (b64_char n) = Some n" by code_simp
  then show "n < 64 \<Longrightarrow> ?thesis" by simp
qed

lemma b64_char_no_break: "n < 64 \<Longrightarrow> b64_char n \<noteq> CHR 0x0A \<and> b64_char n \<noteq> CHR 0x0D"
proof -
  have "\<forall>n\<in>set [0..<64]. b64_char n \<noteq> CHR 0x0A \<and> b64_char n \<noteq> CHR 0x0D" by code_simp
  then show "n < 64 \<Longrightarrow> ?thesis" by simp
qed

text \<open>The 6-bit values written for a byte string.\<close>

fun sextets :: "nat list \<Rightarrow> nat list" where
  "sextets (a # b # c # rest) =
     a div 4 # (a mod 4 * 16 + b div 16) # (b mod 16 * 4 + c div 64) # c mod 64 # sextets rest"
| "sextets [a, b] = [a div 4, a mod 4 * 16 + b div 16, b mod 16 * 4]"
| "sextets [a] = [a div 4, a mod 4 * 16]"
| "sextets [] = []"

lemma b64_bytes_sextets: "b64_bytes bs = map b64_char (sextets bs)"
  by (induction bs rule: b64_bytes.induct) auto

lemma byte_sextet_bounds:
  fixes a b c :: nat
  assumes "a < 256" "b < 256"
  shows "a div 4 < 64" "a mod 4 * 16 + b div 16 < 64" "b mod 16 * 4 + c mod 4 < 64" "a div 64 < 4"
proof -
  have "a mod 4 \<le> 3" "b mod 16 \<le> 15" "c mod 4 \<le> 3" by simp_all
  moreover have "b div 16 \<le> 15" "a div 4 \<le> 63" "a div 64 \<le> 3" using assms by simp_all
  ultimately show "a div 4 < 64" "a mod 4 * 16 + b div 16 < 64" "b mod 16 * 4 + c mod 4 < 64" "a div 64 < 4"
    by linarith+
qed

lemma sextets_bound: "\<forall>b\<in>set bs. b < 256 \<Longrightarrow> \<forall>v\<in>set (sextets bs). v < 64"
proof (induction bs rule: sextets.induct)
  case (1 a b c rest)
  then have "c div 64 < 4" "b mod 16 \<le> 15" by (simp_all add: less_mult_imp_div_less)
  then have "b mod 16 * 4 + c div 64 < 64" by linarith
  with 1 byte_sextet_bounds(1,2) [of a b] show ?case by simp
next
  case (2 a b)
  have "b mod 16 \<le> 15" by simp
  then have "b mod 16 * 4 < 64" by linarith
  with 2 byte_sextet_bounds(1,2) [of a b] show ?case by simp
next
  case (3 a)
  have "a mod 4 \<le> 3" by simp
  then have "a mod 4 * 16 < 64" by linarith
  with 3 byte_sextet_bounds(1) [of a 0] show ?case by simp
qed simp

lemma join_split:
  fixes a b c :: nat
  assumes "a < 256" "b < 256" "c < 256"
  shows "a div 4 * 4 + (a mod 4 * 16 + b div 16) div 16 = a"
    "(a mod 4 * 16 + b div 16) mod 16 * 16 + (b mod 16 * 4 + c div 64) div 4 = b"
    "(b mod 16 * 4 + c div 64) mod 4 * 64 + c mod 64 = c"
proof -
  have "b div 16 < 16" "c div 64 < 4" using assms by simp_all
  then show "a div 4 * 4 + (a mod 4 * 16 + b div 16) div 16 = a"
    "(a mod 4 * 16 + b div 16) mod 16 * 16 + (b mod 16 * 4 + c div 64) div 4 = b"
    "(b mod 16 * 4 + c div 64) mod 4 * 64 + c mod 64 = c"
    by simp_all
qed

lemma unb64_sextets: "\<forall>b\<in>set bs. b < 256 \<Longrightarrow> unb64 (sextets bs) = Some bs"
proof (induction bs rule: sextets.induct)
  case (1 a b c rest)
  then show ?case using join_split [of a b c] by simp
next
  case (2 a b)
  then show ?case using join_split(1,2) [of a b 0] by simp
next
  case (3 a)
  then show ?case using join_split(1) [of a 0 0] by simp
qed simp

lemma all_some_map: "\<forall>x\<in>set xs. f x = Some (g x) \<Longrightarrow> all_some (map f xs) = Some (map g xs)"
  by (induction xs) auto

lemma base64_roundtrip: "DecodeString (EncodeToString s) = Some s"
proof -
  let ?bs = "map of_char s :: nat list"
  have bytes: "\<forall>b\<in>set ?bs. b < 256" by (auto simp: nat_of_char_less_256)
  have enc: "EncodeToString s = map b64_char (sextets ?bs)"
    by (simp add: EncodeToString_def b64_bytes_sextets)
  have "filter (\<lambda>c. c \<noteq> CHR 0x0A \<and> c \<noteq> CHR 0x0D) (EncodeToString s) = EncodeToString s"
    unfolding enc filter_id_conv using sextets_bound [OF bytes] b64_char_no_break by auto
  moreover have "all_some (map (\<lambda>v. b64_val (b64_char v)) (sextets ?bs)) = Some (map (\<lambda>v. v) (sextets ?bs))"
    by (rule all_some_map) (use sextets_bound [OF bytes] b64_val_char in auto)
  ultimately show ?thesis
    by (simp add: DecodeString_def enc comp_def unb64_sextets [OF bytes])
qed

section \<open>Cursors\<close>

record cursor =
  cur_CreatedAt :: instant
  cur_ID :: string

definition EncodeCursor :: "cursor \<Rightarrow> string" where
  "EncodeCursor c = EncodeToString (format_RFC3339Nano (cur_CreatedAt c) @ ''|'' @ cur_ID c)"

text \<open>\<^verbatim>\<open>strings.SplitN(s, "|", 2)\<close>.\<close>

definition split_bar :: "string \<Rightarrow> string list" where
  "split_bar s =
     (case dropWhile (\<lambda>c. c \<noteq> CHR ''|'') s of
        [] \<Rightarrow> [s]
      | _ # rest \<Rightarrow> [takeWhile (\<lambda>c. c \<noteq> CHR ''|'') s, rest])"

definition DecodeCursor :: "string \<Rightarrow> go_error + cursor" where
  "DecodeCursor token =
     (case DecodeString token of
        None \<Rightarrow> Inl (errorf ''decoding cursor'' (Opaque ''illegal base64 data''))
      | Some raw \<Rightarrow>
          (case split_bar raw of
             [ts, i] \<Rightarrow>
               (case parse_RFC3339Nano ts of
                  None \<Rightarrow> Inl (errorf ''malformed cursor timestamp'' (Opaque ''cannot parse time''))
                | Some t \<Rightarrow> Inr \<lparr>cur_CreatedAt = t, cur_ID = i\<rparr>)
           | _ \<Rightarrow> Inl (Opaque ''malformed cursor'')))"

text \<open>The instants a four-digit year can write.\<close>

definition end_of_9999 :: instant where
  "end_of_9999 = instant_of \<lparr>cv_year = 10000, cv_month = 1, cv_day = 1, cv_hour = 0,
      cv_min = 0, cv_sec = 0, cv_nsec = 0\<rparr>"


lemma digits_no_bar: "CHR ''|'' \<notin> set (digits k n)"
  using digits_are_digits [of k n] by (auto simp: list_all_iff is_digit_char_def)

lemma show_nat_no_bar: "CHR ''|'' \<notin> set (show_nat n)"
  using show_nat_digits [of n] by (auto simp: list_all_iff is_digit_char_def)

lemma strip_zeros_subset: "set (strip_zeros s) \<subseteq> set s"
  unfolding strip_zeros_def set_rev using set_dropWhileD by fastforce

lemma format_no_bar: "CHR ''|'' \<notin> set (format_RFC3339Nano t)"
proof -
  have "CHR ''|'' \<notin> set (strip_zeros (digits 9 n))" for n
    using strip_zeros_subset [of "digits 9 n"] digits_no_bar [of 9 n] by blast
  then show ?thesis
    by (auto simp: format_RFC3339Nano_def date_time_text_def year_text_def frac_text_def Let_def
        digits_no_bar show_nat_no_bar)
qed

lemma split_bar_append: "CHR ''|'' \<notin> set a \<Longrightarrow> split_bar (a @ ''|'' @ b) = [a, b]"
proof -
  assume "CHR ''|'' \<notin> set a"
  then have "dropWhile (\<lambda>c. c \<noteq> CHR ''|'') (a @ ''|'' @ b) = CHR ''|'' # b"
    "takeWhile (\<lambda>c. c \<noteq> CHR ''|'') (a @ ''|'' @ b) = a"
    by (induction a) auto
  then show ?thesis by (simp add: split_bar_def)
qed

lemma cursor_roundtrip:
  "0 \<le> cur_CreatedAt c \<Longrightarrow> cur_CreatedAt c < end_of_9999 \<Longrightarrow> DecodeCursor (EncodeCursor c) = Inr c"
  by (simp add: DecodeCursor_def EncodeCursor_def base64_roundtrip split_bar_append [OF format_no_bar, simplified]
      parse_format end_of_9999_def)

lemma EncodeCursor_nonempty: "EncodeCursor c \<noteq> []"
proof
  assume "EncodeCursor c = []"
  moreover have "DecodeString [] = Some []" by (simp add: DecodeString_def)
  ultimately have "DecodeString (EncodeCursor c) = Some []" by simp
  then show False by (simp add: EncodeCursor_def base64_roundtrip)
qed

section \<open>Properties\<close>

text \<open>Property C24. Pagination tokens round-trip: decoding what \<^verbatim>\<open>EncodeCursor\<close> produced gives back the very
  cursor, to the nanosecond and for any row id (bars, quotes and non-ASCII bytes included), for every
  time up to the end of the year 9999; and no token is empty, so it is never taken for "no cursor".\<close>

theorem cursor_token_roundtrip:
  assumes "0 \<le> cur_CreatedAt c" and "cur_CreatedAt c < end_of_9999"
  shows "DecodeCursor (EncodeCursor c) = Inr c \<and> EncodeCursor c \<noteq> ''''"
  using cursor_roundtrip [OF assms] EncodeCursor_nonempty by simp

theorem cursor_token_roundtrip_witness:
  "DecodeCursor (EncodeCursor \<lparr>cur_CreatedAt = 63000000000000000001, cur_ID = ''job-1|x''\<rparr>) =
     Inr \<lparr>cur_CreatedAt = 63000000000000000001, cur_ID = ''job-1|x''\<rparr>"
  using cursor_token_roundtrip [of "\<lparr>cur_CreatedAt = 63000000000000000001, cur_ID = ''job-1|x''\<rparr>"]
  by (simp add: end_of_9999_def instant_of_def days_before_year_def days_before_month_def)

end
