(* ===== verification/Store.thy ===== *)
theory Store
  imports Cursor "HOL-Library.List_Lexorder" "HOL-Library.Char_ord"
begin

text \<open>
  The job store, \<^verbatim>\<open>src/internal/store/store.go\<close>. Its SQL statements are functions on the two tables
  of the schema; the connection that carries them is a parameter that may lose a statement before or
  after it took effect. The locale \<open>collation\<close> is what the statements rely on of the database's text
  order, \<open>pg_laws\<close> what the code relies on of the connection.
\<close>

section \<open>Tables\<close>

record JobRecord =
  jr_ID :: string
  jr_IdempotencyKey :: string
  jr_Team :: string
  jr_Image :: string
  jr_AcceleratorType :: string
  jr_AcceleratorCount :: int32
  jr_Priority :: int32
  jr_Status :: string
  jr_CreatedAt :: instant
  jr_UpdatedAt :: instant

record AuditRecord =
  ar_ID :: int64
  ar_JobID :: string
  ar_Team :: string
  ar_Action :: string
  ar_CreatedAt :: instant

record db =
  db_jobs :: "JobRecord list"
  db_audit :: "AuditRecord list"
  db_serial :: int64

definition db_empty :: db where
  "db_empty = \<lparr>db_jobs = [], db_audit = [], db_serial = 1\<rparr>"

section \<open>The connection\<close>

datatype db_fault = NoFault | LostBefore go_error | LostAfter go_error

text \<open>
  \<open>pg_db\<close> and \<open>pg_set\<close> give access to the tables in the world; \<open>pg_now\<close> is the database's clock,
  \<open>pg_less\<close> its text collation.
\<close>

record 'w pg =
  pg_db :: "'w \<Rightarrow> db"
  pg_set :: "db \<Rightarrow> 'w \<Rightarrow> 'w"
  pg_fault :: "('w, db_fault) state"
  pg_now :: "('w, instant) state"
  pg_less :: "string \<Rightarrow> string \<Rightarrow> bool"

text \<open>A \<^verbatim>\<open>timestamptz\<close> holds whole microseconds.\<close>

definition pg_time :: "instant \<Rightarrow> instant" where
  "pg_time t = t div 1000 * 1000"

text \<open>A statement that returns one row or none, or a command.\<close>

definition statement :: "'w pg \<Rightarrow> (instant \<Rightarrow> db \<Rightarrow> (go_error + 'r) \<times> db) \<Rightarrow> ('w, 'r) eff" where
  "statement P f = do {
     fl \<leftarrow> pg_fault P;
     now \<leftarrow> pg_now P;
     State (\<lambda>w.
       let (r, d) = f (pg_time now) (pg_db P w)
       in case fl of
            LostBefore e \<Rightarrow> (Inl e, w)
          | LostAfter e \<Rightarrow> (Inl e, pg_set P d w)
          | NoFault \<Rightarrow> (r, pg_set P d w))
   }"

text \<open>A query over rows: an error of \<^verbatim>\<open>Query\<close>, or the rows and the error \<^verbatim>\<open>rows.Err()\<close> reports after them.\<close>

definition query :: "'w pg \<Rightarrow> (db \<Rightarrow> go_error + 'r list) \<Rightarrow> ('w, 'r list \<times> go_error option) eff" where
  "query P f = do {
     fl \<leftarrow> pg_fault P;
     State (\<lambda>w.
       (case fl of
          LostBefore e \<Rightarrow> Inl e
        | LostAfter e \<Rightarrow> Inr ([], Some e)
        | NoFault \<Rightarrow> (case f (pg_db P w) of Inl e \<Rightarrow> Inl e | Inr rows \<Rightarrow> Inr (rows, None)), w))
   }"

section \<open>Ordering rows\<close>

fun insert_by :: "('a \<Rightarrow> 'a \<Rightarrow> bool) \<Rightarrow> 'a \<Rightarrow> 'a list \<Rightarrow> 'a list" where
  "insert_by before x [] = [x]"
| "insert_by before x (y # ys) = (if before y x then y # insert_by before x ys else x # y # ys)"

definition order_by :: "('a \<Rightarrow> 'a \<Rightarrow> bool) \<Rightarrow> 'a list \<Rightarrow> 'a list" where
  "order_by before xs = foldr (insert_by before) xs []"

text \<open>\<^verbatim>\<open>(t1, i1) < (t2, i2)\<close> in SQL's row comparison.\<close>

definition row_less :: "('i \<Rightarrow> 'i \<Rightarrow> bool) \<Rightarrow> instant \<times> 'i \<Rightarrow> instant \<times> 'i \<Rightarrow> bool" where
  "row_less lt a b \<longleftrightarrow> fst a < fst b \<or> fst a = fst b \<and> lt (snd a) (snd b)"

text \<open>\<^verbatim>\<open>LIMIT n\<close> rejects a negative \<open>n\<close>.\<close>

definition limit_rows :: "goint \<Rightarrow> 'a list \<Rightarrow> go_error + 'a list" where
  "limit_rows n xs = (if sint n < 0 then Inl (Opaque ''LIMIT must not be negative'') else Inr (take (nat (sint n)) xs))"

section \<open>Jobs\<close>

definition insert_job_sql :: "JobRecord \<Rightarrow> instant \<Rightarrow> db \<Rightarrow> (go_error + JobRecord) \<times> db" where
  "insert_job_sql rec now d =
     (if \<exists>r\<in>set (db_jobs d). jr_IdempotencyKey r = jr_IdempotencyKey rec then (Inl ErrNoRows, d)
      else if \<exists>r\<in>set (db_jobs d). jr_ID r = jr_ID rec
      then (Inl (Opaque ''duplicate key value violates unique constraint''), d)
      else let row = rec\<lparr>jr_Status := ''Pending'', jr_CreatedAt := now, jr_UpdatedAt := now\<rparr>
           in (Inr row, d\<lparr>db_jobs := db_jobs d @ [row]\<rparr>))"

definition select_job_sql :: "(JobRecord \<Rightarrow> bool) \<Rightarrow> instant \<Rightarrow> db \<Rightarrow> (go_error + JobRecord) \<times> db" where
  "select_job_sql P now d =
     (case find P (db_jobs d) of None \<Rightarrow> Inl ErrNoRows | Some r \<Rightarrow> Inr r, d)"

definition scanJob :: "go_error + JobRecord \<Rightarrow> go_error + JobRecord" where
  "scanJob row =
     (case row of
        Inl e \<Rightarrow> if errors_is e ErrNoRows then Inl ErrNotFound else Inl (errorf ''scanning job row'' e)
      | Inr rec \<Rightarrow> Inr rec)"

definition store_GetJob :: "'w pg \<Rightarrow> string \<Rightarrow> ('w, JobRecord) eff" where
  "store_GetJob P i = do {
     r \<leftarrow> statement P (select_job_sql (\<lambda>r. jr_ID r = i));
     ret (scanJob r)
   }"

definition GetJobByIdempotencyKey :: "'w pg \<Rightarrow> string \<Rightarrow> ('w, JobRecord) eff" where
  "GetJobByIdempotencyKey P key = do {
     r \<leftarrow> statement P (select_job_sql (\<lambda>r. jr_IdempotencyKey r = key));
     ret (scanJob r)
   }"

definition store_CreateJob :: "'w pg \<Rightarrow> JobRecord \<Rightarrow> ('w, JobRecord) eff" where
  "store_CreateJob P rec = do {
     row \<leftarrow> statement P (insert_job_sql rec);
     (case scanJob row of
        Inr out \<Rightarrow> ret (Inr out)
      | Inl e \<Rightarrow>
          if \<not> errors_is e ErrNotFound then ret (Inl (errorf ''inserting job'' e))
          else GetJobByIdempotencyKey P (jr_IdempotencyKey rec))
   }"

text \<open>The four variants of the page query: with or without a team, with or without a cursor.\<close>

definition jobs_page_sql ::
  "(string \<Rightarrow> string \<Rightarrow> bool) \<Rightarrow> string \<Rightarrow> cursor option \<Rightarrow> goint \<Rightarrow> db \<Rightarrow> go_error + JobRecord list" where
  "jobs_page_sql lt team after n d =
     (let key = (\<lambda>r. (jr_CreatedAt r, jr_ID r));
          newest_first = order_by (\<lambda>a b. row_less lt (key b) (key a));
          older = (\<lambda>c r. row_less lt (key r) (pg_time (cur_CreatedAt c), cur_ID c))
      in case after of
           None \<Rightarrow>
             if team = '''' then limit_rows n (newest_first (db_jobs d))
             else limit_rows n (newest_first (filter (\<lambda>r. jr_Team r = team) (db_jobs d)))
         | Some c \<Rightarrow>
             if team = '''' then limit_rows n (newest_first (filter (older c) (db_jobs d)))
             else limit_rows n (newest_first (filter (\<lambda>r. jr_Team r = team \<and> older c r) (db_jobs d))))"

definition ListJobsPage :: "'w pg \<Rightarrow> string \<Rightarrow> cursor option \<Rightarrow> goint \<Rightarrow> ('w, JobRecord list) eff" where
  "ListJobsPage P team after limit = do {
     r \<leftarrow> query P (jobs_page_sql (pg_less P) team after (limit + 1));
     ret (case r of
        Inl e \<Rightarrow> Inl (errorf ''listing jobs'' e)
      | Inr (rows, Some e) \<Rightarrow> Inl e
      | Inr (rows, None) \<Rightarrow> Inr rows)
   }"

definition UpdateStatus :: "'w pg \<Rightarrow> string \<Rightarrow> string \<Rightarrow> ('w, unit) eff" where
  "UpdateStatus P i status = do {
     r \<leftarrow> statement P (\<lambda>now d.
       (Inr (length (filter (\<lambda>r. jr_ID r = i) (db_jobs d))),
        d\<lparr>db_jobs := map (\<lambda>r. if jr_ID r = i then r\<lparr>jr_Status := status, jr_UpdatedAt := now\<rparr> else r) (db_jobs d)\<rparr>));
     ret (case r of
        Inl e \<Rightarrow> Inl (errorf ''updating job status'' e)
      | Inr affected \<Rightarrow> if affected = 0 then Inl ErrNotFound else Inr ())
   }"

section \<open>Audit log\<close>

definition RecordAudit :: "'w pg \<Rightarrow> string \<Rightarrow> string \<Rightarrow> string \<Rightarrow> ('w, unit) eff" where
  "RecordAudit P jobID team act = do {
     r \<leftarrow> statement P (\<lambda>now d.
       (Inr (), d\<lparr>db_audit := db_audit d @ [\<lparr>ar_ID = db_serial d, ar_JobID = jobID, ar_Team = team,
            ar_Action = act, ar_CreatedAt = now\<rparr>], db_serial := db_serial d + 1\<rparr>));
     ret (case r of Inl e \<Rightarrow> Inl (errorf ''recording audit entry'' e) | Inr _ \<Rightarrow> Inr ())
   }"

text \<open>
  The page query of the audit log orders by the numeric id but compares the cursor with the id's
  text, \<^verbatim>\<open>id::text\<close>.
\<close>

definition audit_page_sql ::
  "(string \<Rightarrow> string \<Rightarrow> bool) \<Rightarrow> cursor option \<Rightarrow> goint \<Rightarrow> db \<Rightarrow> go_error + AuditRecord list" where
  "audit_page_sql lt after n d =
     (let newest_first = order_by (\<lambda>a b.
            row_less (\<lambda>i j. i < j) (ar_CreatedAt b, sint (ar_ID b)) (ar_CreatedAt a, sint (ar_ID a)))
      in case after of
           None \<Rightarrow> limit_rows n (newest_first (db_audit d))
         | Some c \<Rightarrow> limit_rows n (newest_first (filter (\<lambda>r.
             row_less lt (ar_CreatedAt r, show_int (sint (ar_ID r))) (pg_time (cur_CreatedAt c), cur_ID c))
             (db_audit d))))"

definition ListAuditPage :: "'w pg \<Rightarrow> cursor option \<Rightarrow> goint \<Rightarrow> ('w, AuditRecord list) eff" where
  "ListAuditPage P after limit = do {
     r \<leftarrow> query P (audit_page_sql (pg_less P) after (limit + 1));
     ret (case r of
        Inl e \<Rightarrow> Inl (errorf ''listing audit log'' e)
      | Inr (rows, Some e) \<Rightarrow> Inl e
      | Inr (rows, None) \<Rightarrow> Inr rows)
   }"

text \<open>
  The migration runs \<^verbatim>\<open>CREATE TABLE IF NOT EXISTS\<close> and \<^verbatim>\<open>CREATE INDEX IF NOT EXISTS\<close>; both tables are part
  of every \<open>db\<close>, so what is left of it is the error path.
\<close>

definition Migrate :: "'w pg \<Rightarrow> ('w, unit) eff" where
  "Migrate P = do {
     r \<leftarrow> statement P (\<lambda>now d. (Inr (), d));
     ret (case r of Inl e \<Rightarrow> Inl (errorf ''applying schema'' e) | Inr _ \<Rightarrow> Inr ())
   }"

definition Ping :: "'w pg \<Rightarrow> ('w, unit) eff" where
  "Ping P = do {
     fl \<leftarrow> pg_fault P;
     ret (case fl of LostBefore e \<Rightarrow> Inl e | LostAfter e \<Rightarrow> Inl e | NoFault \<Rightarrow> Inr ())
   }"

section \<open>Orders and collations\<close>

lemma insert_by_mset: "mset (insert_by before x ys) = add_mset x (mset ys)"
  by (induction ys) auto

lemma order_by_mset: "mset (order_by before xs) = mset xs"
  by (induction xs) (auto simp: order_by_def insert_by_mset)

lemma order_by_set [simp]: "set (order_by before xs) = set xs"
  using arg_cong [OF order_by_mset, of set_mset] by simp

locale strict_total =
  fixes lt :: "'i \<Rightarrow> 'i \<Rightarrow> bool"
  assumes lt_irrefl: "\<not> lt i i"
    and lt_trans: "lt i j \<Longrightarrow> lt j k \<Longrightarrow> lt i k"
    and lt_total: "i \<noteq> j \<Longrightarrow> lt i j \<or> lt j i"
begin

lemma lt_asym: "lt i j \<Longrightarrow> \<not> lt j i"
  using lt_irrefl lt_trans by blast

lemma insert_by_sorted:
  assumes "sorted_wrt (\<lambda>a b. lt (key b) (key a)) ys" and "\<forall>y\<in>set ys. key y \<noteq> key x"
  shows "sorted_wrt (\<lambda>a b. lt (key b) (key a)) (insert_by (\<lambda>a b. lt (key b) (key a)) x ys)"
  using assms
proof (induction ys)
  case (Cons y ys)
  have mem: "set (insert_by b x zs) = insert x (set zs)" for b zs
    by (induction zs) auto
  show ?case
  proof (cases "lt (key x) (key y)")
    case True
    with Cons show ?thesis by (auto simp: mem)
  next
    case False
    with Cons.prems lt_total have xy: "lt (key y) (key x)" by auto
    with Cons.prems have "\<forall>z\<in>set ys. lt (key z) (key x)" using lt_trans by auto
    with False xy Cons.prems(1) show ?thesis by simp
  qed
qed simp

lemma order_by_sorted:
  "distinct (map key xs) \<Longrightarrow>
     sorted_wrt (\<lambda>a b. lt (key b) (key a)) (order_by (\<lambda>a b. lt (key b) (key a)) xs)"
proof (induction xs)
  case (Cons x xs)
  let ?s = "order_by (\<lambda>a b. lt (key b) (key a)) xs"
  have "set ?s = set xs" by simp
  moreover have "key x \<notin> key ` set xs" "distinct (map key xs)" using Cons.prems by simp_all
  ultimately have "\<forall>y\<in>set ?s. key y \<noteq> key x" "distinct (map key xs)" by (force simp: image_iff)+
  with Cons.IH show ?case
    using insert_by_sorted [of key ?s x] by (simp add: order_by_def)
qed (simp add: order_by_def)

lemma filter_insert_by:
  assumes "sorted_wrt (\<lambda>a b. lt (key b) (key a)) ys"
  shows "filter Q (insert_by (\<lambda>a b. lt (key b) (key a)) x ys) =
     (if Q x then insert_by (\<lambda>a b. lt (key b) (key a)) x (filter Q ys) else filter Q ys)"
  using assms
proof (induction ys)
  case (Cons y ys)
  have head: "insert_by (\<lambda>a b. lt (key b) (key a)) x zs = x # zs"
    if "\<forall>z\<in>set zs. \<not> lt (key x) (key z)" for zs
    using that by (cases zs) auto
  show ?case
  proof (cases "lt (key x) (key y)")
    case True
    with Cons show ?thesis by simp
  next
    case False
    have "\<not> lt (key x) (key z)" if "z \<in> set ys" for z
      using that Cons.prems False lt_trans [of "key x" "key z" "key y"] by auto
    with False show ?thesis using head [of "filter Q ys"] by auto
  qed
qed simp

lemma filter_order_by:
  "distinct (map key xs) \<Longrightarrow>
     filter Q (order_by (\<lambda>a b. lt (key b) (key a)) xs) = order_by (\<lambda>a b. lt (key b) (key a)) (filter Q xs)"
proof (induction xs)
  case (Cons x xs)
  then have "distinct (map key xs)" by simp
  from filter_insert_by [OF order_by_sorted [OF this], of Q x] Cons show ?case
    by (simp add: order_by_def)
qed (simp add: order_by_def)

text \<open>In a list sorted from new to old, what is older than the \<open>k\<close>-th row is the rest after it.\<close>

lemma older_than_nth:
  assumes "sorted_wrt (\<lambda>a b. lt (key b) (key a)) xs" and "k < length xs"
  shows "filter (\<lambda>x. lt (key x) (key (xs ! k))) xs = drop (Suc k) xs"
proof -
  have xs: "xs = take k xs @ xs ! k # drop (Suc k) xs" using assms(2) by (simp add: id_take_nth_drop)
  have "sorted_wrt (\<lambda>a b. lt (key b) (key a)) (take k xs @ xs ! k # drop (Suc k) xs)"
    using assms(1) xs by simp
  then have "\<forall>x\<in>set (take k xs). lt (key (xs ! k)) (key x)"
    "\<forall>x\<in>set (drop (Suc k) xs). lt (key x) (key (xs ! k))"
    by (auto simp: sorted_wrt_append)
  then have "filter (\<lambda>x. lt (key x) (key (xs ! k))) (take k xs) = []"
    "filter (\<lambda>x. lt (key x) (key (xs ! k))) (drop (Suc k) xs) = drop (Suc k) xs"
    using lt_asym by (auto simp: filter_empty_conv filter_id_conv)
  with lt_irrefl show ?thesis by (subst xs) simp
qed

end

text \<open>
  The text order of the database, and the row order it gives together with the timestamp. The
  collation is whatever the database was created with; the bytewise one is an instance.
\<close>

locale collation = strict_total lt for lt :: "string \<Rightarrow> string \<Rightarrow> bool"

sublocale collation \<subseteq> row: strict_total "row_less lt"
proof
  show "\<not> row_less lt i i" for i by (simp add: row_less_def lt_irrefl)
  show "row_less lt i j \<Longrightarrow> row_less lt j k \<Longrightarrow> row_less lt i k" for i j k
    using lt_trans by (auto simp: row_less_def)
  show "i \<noteq> j \<Longrightarrow> row_less lt i j \<or> row_less lt j i" for i j
    using lt_total by (auto simp: row_less_def prod_eq_iff)
qed

interpretation bytewise: collation "(<) :: string \<Rightarrow> string \<Rightarrow> bool"
  by unfold_locales auto

section \<open>The invariant of the tables\<close>

definition time_ok :: "instant \<Rightarrow> bool" where
  "time_ok t \<longleftrightarrow> 0 \<le> t \<and> t < end_of_9999 \<and> pg_time t = t"

definition db_ok :: "db \<Rightarrow> bool" where
  "db_ok d \<longleftrightarrow> distinct (map jr_ID (db_jobs d)) \<and> distinct (map jr_IdempotencyKey (db_jobs d)) \<and>
     (\<forall>r\<in>set (db_jobs d). time_ok (jr_CreatedAt r)) \<and> (\<forall>r\<in>set (db_audit d). time_ok (ar_CreatedAt r))"

locale pg_laws =
  fixes P :: "'w pg"
  assumes get_set: "pg_db P (pg_set P d w) = d"
    and fault_keeps: "pg_db P (snd (run_state (pg_fault P) w)) = pg_db P w"
    and now_keeps: "pg_db P (snd (run_state (pg_now P) w)) = pg_db P w"
    and now_ok: "time_ok (pg_time (fst (run_state (pg_now P) w)))"
begin

lemma statement_db:
  "\<exists>now. time_ok now \<and> (pg_db P (snd (run_state (statement P f) w)) = pg_db P w \<and>
       (\<exists>e. fst (run_state (statement P f) w) = Inl e) \<or>
     pg_db P (snd (run_state (statement P f) w)) = snd (f now (pg_db P w)) \<and>
       (fst (run_state (statement P f) w) = fst (f now (pg_db P w)) \<or>
        (\<exists>e. fst (run_state (statement P f) w) = Inl e)))"
proof -
  let ?w1 = "snd (run_state (pg_fault P) w)"
  let ?now = "pg_time (fst (run_state (pg_now P) ?w1))"
  show ?thesis
    by (rule exI [of _ ?now])
      (auto simp: statement_def split_beta Let_def get_set fault_keeps now_keeps now_ok split: db_fault.split)
qed

lemma statement_invariant:
  assumes "\<And>now d. time_ok now \<Longrightarrow> db_ok d \<Longrightarrow> db_ok (snd (f now d))" and "db_ok (pg_db P w)"
  shows "db_ok (pg_db P (snd (run_state (statement P f) w)))"
  using statement_db [of f w] assms by auto

lemma query_db: "pg_db P (snd (run_state (query P f) w)) = pg_db P w"
  by (simp add: query_def split_beta fault_keeps)

end

lemma insert_job_ok: "time_ok now \<Longrightarrow> db_ok d \<Longrightarrow> db_ok (snd (insert_job_sql rec now d))"
  by (auto simp: insert_job_sql_def db_ok_def Let_def)

lemma select_job_keeps [simp]: "snd (select_job_sql Q now d) = d"
  by (simp add: select_job_sql_def)

lemma update_status_ok:
  "time_ok now \<Longrightarrow> db_ok d \<Longrightarrow>
     db_ok (d\<lparr>db_jobs := map (\<lambda>r. if jr_ID r = i then r\<lparr>jr_Status := s, jr_UpdatedAt := now\<rparr> else r) (db_jobs d)\<rparr>)"
proof -
  let ?f = "\<lambda>r :: JobRecord. if jr_ID r = i then r\<lparr>jr_Status := s, jr_UpdatedAt := now\<rparr> else r"
  have "jr_ID \<circ> ?f = jr_ID" "jr_IdempotencyKey \<circ> ?f = jr_IdempotencyKey" by (auto simp: fun_eq_iff)
  then show "time_ok now \<Longrightarrow> db_ok d \<Longrightarrow> ?thesis" by (auto simp: db_ok_def)
qed

context pg_laws
begin

lemma store_GetJob_db: "pg_db P (snd (run_state (store_GetJob P i) w)) = pg_db P w"
  using statement_db [of "select_job_sql (\<lambda>r. jr_ID r = i)" w]
  by (auto simp: store_GetJob_def split_beta)

lemma by_key_db: "pg_db P (snd (run_state (GetJobByIdempotencyKey P k) w)) = pg_db P w"
  using statement_db [of "select_job_sql (\<lambda>r. jr_IdempotencyKey r = k)" w]
  by (auto simp: GetJobByIdempotencyKey_def split_beta)

lemma store_CreateJob_db:
  "pg_db P (snd (run_state (store_CreateJob P rec) w)) =
     pg_db P (snd (run_state (statement P (insert_job_sql rec)) w))"
  by (auto simp: store_CreateJob_def split_beta by_key_db split: sum.split)

lemma store_ops_invariant:
  assumes "db_ok (pg_db P w)"
  shows "db_ok (pg_db P (snd (run_state (store_CreateJob P rec) w)))"
    "db_ok (pg_db P (snd (run_state (UpdateStatus P i s) w)))"
    "db_ok (pg_db P (snd (run_state (RecordAudit P j t a) w)))"
proof -
  show "db_ok (pg_db P (snd (run_state (store_CreateJob P rec) w)))"
    unfolding store_CreateJob_db by (rule statement_invariant [OF insert_job_ok assms])
  have "db_ok (pg_db P (snd (run_state (statement P (\<lambda>now d.
       (Inr (length (filter (\<lambda>r. jr_ID r = i) (db_jobs d))),
        d\<lparr>db_jobs := map (\<lambda>r. if jr_ID r = i then r\<lparr>jr_Status := s, jr_UpdatedAt := now\<rparr> else r) (db_jobs d)\<rparr>))) w)))"
    by (rule statement_invariant [OF _ assms]) (simp add: update_status_ok)
  then show "db_ok (pg_db P (snd (run_state (UpdateStatus P i s) w)))"
    by (simp add: UpdateStatus_def split_beta)
  have "db_ok (pg_db P (snd (run_state (statement P (\<lambda>now d.
       (Inr (), d\<lparr>db_audit := db_audit d @ [\<lparr>ar_ID = db_serial d, ar_JobID = j, ar_Team = t,
            ar_Action = a, ar_CreatedAt = now\<rparr>], db_serial := db_serial d + 1\<rparr>))) w)))"
    by (rule statement_invariant [OF _ assms]) (auto simp: db_ok_def)
  then show "db_ok (pg_db P (snd (run_state (RecordAudit P j t a) w)))"
    by (simp add: RecordAudit_def split_beta)
qed

text \<open>What a lookup by key returns, and what a successful creation leaves behind.\<close>

lemma by_key_found:
  assumes "fst (run_state (GetJobByIdempotencyKey P k) w) = Inr r"
  shows "r \<in> set (db_jobs (pg_db P w)) \<and> jr_IdempotencyKey r = k"
  using assms statement_db [of "select_job_sql (\<lambda>r. jr_IdempotencyKey r = k)" w]
  by (auto simp: GetJobByIdempotencyKey_def split_beta scanJob_def select_job_sql_def find_Some_iff
      split: sum.splits option.splits if_splits)

lemma create_leaves_row:
  assumes "run_state (store_CreateJob P rec) w = (Inr r, w')"
  shows "r \<in> set (db_jobs (pg_db P w')) \<and> jr_IdempotencyKey r = jr_IdempotencyKey rec"
proof (cases "scanJob (fst (run_state (statement P (insert_job_sql rec)) w))")
  case (Inl e)
  with assms have
    g: "run_state (GetJobByIdempotencyKey P (jr_IdempotencyKey rec))
       (snd (run_state (statement P (insert_job_sql rec)) w)) = (Inr r, w')"
    by (auto simp: store_CreateJob_def split_beta split: if_splits)
  then have "pg_db P w' = pg_db P (snd (run_state (statement P (insert_job_sql rec)) w))"
    using by_key_db by (metis snd_conv)
  moreover from g have "fst (run_state (GetJobByIdempotencyKey P (jr_IdempotencyKey rec))
      (snd (run_state (statement P (insert_job_sql rec)) w))) = Inr r" by simp
  ultimately show ?thesis using by_key_found by simp
next
  case (Inr x)
  with assms have x: "x = r" "w' = snd (run_state (statement P (insert_job_sql rec)) w)"
    by (auto simp: store_CreateJob_def split_beta)
  with Inr have "fst (run_state (statement P (insert_job_sql rec)) w) = Inr r"
    by (auto simp: scanJob_def split: sum.splits if_splits)
  with statement_db [of "insert_job_sql rec" w] x(2) show ?thesis
    by (auto simp: insert_job_sql_def Let_def split: if_splits)
qed

lemma create_again:
  assumes "r \<in> set (db_jobs (pg_db P w))" and "jr_IdempotencyKey r = jr_IdempotencyKey rec"
    and "db_ok (pg_db P w)"
  shows "pg_db P (snd (run_state (store_CreateJob P rec) w)) = pg_db P w"
    and "fst (run_state (store_CreateJob P rec) w) = Inr r' \<Longrightarrow> r' = r"
proof -
  let ?s = "run_state (statement P (insert_job_sql rec)) w"
  have ins: "insert_job_sql rec now (pg_db P w) = (Inl ErrNoRows, pg_db P w)" for now
    using assms(1,2) by (auto simp: insert_job_sql_def)
  then have keep: "pg_db P (snd ?s) = pg_db P w" and err: "\<exists>e. fst ?s = Inl e"
    using statement_db [of "insert_job_sql rec" w] by auto
  from keep show "pg_db P (snd (run_state (store_CreateJob P rec) w)) = pg_db P w"
    by (simp add: store_CreateJob_db)
  assume "fst (run_state (store_CreateJob P rec) w) = Inr r'"
  with err have "fst (run_state (GetJobByIdempotencyKey P (jr_IdempotencyKey rec)) (snd ?s)) = Inr r'"
    by (auto simp: store_CreateJob_def split_beta scanJob_def split: if_splits)
  from by_key_found [OF this] keep assms show "r' = r"
    by (auto simp: db_ok_def distinct_map inj_on_def)
qed

end

section \<open>A database in memory\<close>

record dbw =
  dbw_db :: db
  dbw_clock :: instant
  dbw_faults :: "db_fault list"

definition mem_pg :: "dbw pg" where
  "mem_pg = \<lparr>pg_db = dbw_db, pg_set = (\<lambda>d w. w\<lparr>dbw_db := d\<rparr>),
     pg_fault = State (\<lambda>w. case dbw_faults w of [] \<Rightarrow> (NoFault, w) | f # fs \<Rightarrow> (f, w\<lparr>dbw_faults := fs\<rparr>)),
     pg_now = State (\<lambda>w. (dbw_clock w mod end_of_9999, w)),
     pg_less = (<)\<rparr>"

lemma end_of_9999_value: "end_of_9999 = 315537897600000000000"
  by (simp add: end_of_9999_def instant_of_def days_before_year_def days_before_month_def)

interpretation mempg: pg_laws mem_pg
  by unfold_locales
    (auto simp: mem_pg_def time_ok_def pg_time_def end_of_9999_value pos_imp_zdiv_nonneg_iff
      split: list.split)

definition example_record :: JobRecord where
  "example_record = \<lparr>jr_ID = ''job-1'', jr_IdempotencyKey = ''k'', jr_Team = ''platform'', jr_Image = ''busybox'',
     jr_AcceleratorType = ''mock-gpu'', jr_AcceleratorCount = 2, jr_Priority = 0, jr_Status = '''',
     jr_CreatedAt = 0, jr_UpdatedAt = 0\<rparr>"

definition example_dbw :: dbw where
  "example_dbw = \<lparr>dbw_db = db_empty, dbw_clock = 7000, dbw_faults = []\<rparr>"

lemmas store_eval = example_record_def example_dbw_def mem_pg_def db_empty_def statement_def query_def
  insert_job_sql_def select_job_sql_def scanJob_def store_CreateJob_def GetJobByIdempotencyKey_def
  pg_time_def end_of_9999_value

section \<open>Properties\<close>



text \<open>Creating a job is idempotent in its key, even over a faulty connection: once a creation
  with a key returned a record, every later creation with the same key, whatever else it asks for,
  leaves the tables as they are and can only return that very record or an error.\<close>

theorem store_create_idempotent:
  assumes "pg_laws P" and "db_ok (pg_db P w)"
    and "run_state (store_CreateJob P rec) w = (Inr r, w')"
    and "pg_db P w2 = pg_db P w'" and "jr_IdempotencyKey rec2 = jr_IdempotencyKey rec"
  shows "pg_db P (snd (run_state (store_CreateJob P rec2) w2)) = pg_db P w' \<and>
     (case fst (run_state (store_CreateJob P rec2) w2) of Inl e \<Rightarrow> True | Inr r2 \<Rightarrow> r2 = r)"
proof -
  have ok: "db_ok (pg_db P w')"
    using pg_laws.store_ops_invariant(1) [OF assms(1,2)] assms(3) by (metis snd_conv)
  have r: "r \<in> set (db_jobs (pg_db P w2))" "jr_IdempotencyKey r = jr_IdempotencyKey rec2"
    using pg_laws.create_leaves_row [OF assms(1,3)] assms(4,5) by simp_all
  note again = pg_laws.create_again [OF assms(1) r]
  from again ok assms(4) show ?thesis by (auto split: sum.split)
qed

lemma example_create_runs:
  "run_state (store_CreateJob mem_pg example_record) example_dbw =
     (Inr (example_record\<lparr>jr_Status := ''Pending'', jr_CreatedAt := 7000, jr_UpdatedAt := 7000\<rparr>),
      example_dbw\<lparr>dbw_db := db_empty\<lparr>db_jobs :=
        [example_record\<lparr>jr_Status := ''Pending'', jr_CreatedAt := 7000, jr_UpdatedAt := 7000\<rparr>]\<rparr>\<rparr>)"
  by (simp add: store_eval Let_def)

theorem store_create_idempotent_witness:
  "let w' = snd (run_state (store_CreateJob mem_pg example_record) example_dbw)
   in pg_db mem_pg (snd (run_state (store_CreateJob mem_pg (example_record\<lparr>jr_Image := ''other''\<rparr>)) w')) =
        pg_db mem_pg w'"
proof -
  have "db_ok (pg_db mem_pg example_dbw)" by (simp add: db_ok_def example_dbw_def mem_pg_def db_empty_def)
  moreover have "jr_IdempotencyKey (example_record\<lparr>jr_Image := ''other''\<rparr>) = jr_IdempotencyKey example_record"
    by simp
  ultimately show ?thesis
    using store_create_idempotent [OF mempg.pg_laws_axioms _ example_create_runs refl] by (simp add: example_create_runs)
qed

end
