(* ===== verification/Service.thy ===== *)
theory Service
  imports Store Submission
begin

text \<open>
  The transport-independent business logic, \<^verbatim>\<open>src/internal/service/job_service.go\<close>: creating,
  reading, listing and cancelling jobs, capacity, the dead-letter listing and the audit listing,
  over the store, the queue and the cluster.
\<close>

section \<open>The service\<close>

definition DefaultPageLimit :: goint where
  "DefaultPageLimit = 50"

definition MaxPageLimit :: goint where
  "MaxPageLimit = 100"

text \<open>
  The collaborators. \<open>svc_uuid\<close> is \<^verbatim>\<open>uuid.NewString()\<close>, \<open>svc_traceparent\<close> the injected trace parent
  and \<open>svc_JobsCreatedTotal\<close> the counter of created jobs per team.
\<close>

record 'w JobService =
  svc_Store :: "'w pg"
  svc_Queue :: "'w jetstream"
  svc_K8s :: "'w kube"
  svc_Namespace :: string
  svc_uuid :: "('w, string) state"
  svc_traceparent :: "('w, string) state"
  svc_JobsCreatedTotal :: "string \<Rightarrow> ('w, unit) state"

record CreateJobInput =
  in_Team :: string
  in_Image :: string
  in_Command :: "string list"
  in_Args :: "string list"
  in_AcceleratorType :: string
  in_AcceleratorCount :: int32
  in_Priority :: int32
  in_IdempotencyKey :: string

definition Validate :: "CreateJobInput \<Rightarrow> go_error + unit" where
  "Validate inp =
     (if in_Team inp = '''' \<or> in_Image inp = '''' \<or> in_AcceleratorType inp = '''' \<or> sint (in_AcceleratorCount inp) < 1
      then Inl (Wrapf '''' ErrValidation '': team, image, acceleratorType and acceleratorCount are required'')
      else Inr ())"

record Job =
  sj_ID :: string
  sj_Team :: string
  sj_Image :: string
  sj_AcceleratorType :: string
  sj_AcceleratorCount :: int32
  sj_Priority :: int32
  sj_Status :: string
  sj_Message :: string
  sj_CreatedAt :: instant

definition jobFromRecord :: "JobRecord \<Rightarrow> Job" where
  "jobFromRecord rec = \<lparr>sj_ID = jr_ID rec, sj_Team = jr_Team rec, sj_Image = jr_Image rec,
     sj_AcceleratorType = jr_AcceleratorType rec, sj_AcceleratorCount = jr_AcceleratorCount rec,
     sj_Priority = jr_Priority rec, sj_Status = jr_Status rec, sj_Message = '''',
     sj_CreatedAt = jr_CreatedAt rec\<rparr>"

text \<open>Publishing, auditing and counting a job that was inserted just now.\<close>

definition enqueue_new ::
  "'w JobService \<Rightarrow> CreateJobInput \<Rightarrow> string \<Rightarrow> JobRecord \<Rightarrow> ('w, Job) eff" where
  "enqueue_new S inp idempotencyKey rec = do {
     tp \<leftarrow> svc_traceparent S;
     (let payload = json_Marshal \<lparr>sub_ID = jr_ID rec, sub_Team = jr_Team rec, sub_Image = jr_Image rec,
            sub_Command = in_Command inp, sub_Args = in_Args inp,
            sub_AcceleratorType = jr_AcceleratorType rec, sub_AcceleratorCount = jr_AcceleratorCount rec,
            sub_Priority = jr_Priority rec, sub_TraceParent = tp\<rparr>
      in do {
        p \<leftarrow> Publish (svc_Queue S) idempotencyKey payload;
        (case p of
           Inl e \<Rightarrow> ret (Inl (errorf ''enqueuing job'' e))
         | Inr _ \<Rightarrow> do {
             _ \<leftarrow> RecordAudit (svc_Store S) (jr_ID rec) (jr_Team rec) ''create'';
             _ \<leftarrow> svc_JobsCreatedTotal S (jr_Team rec);
             ret (Inr (jobFromRecord rec))
           })
      })
   }"

definition CreateJob :: "'w JobService \<Rightarrow> CreateJobInput \<Rightarrow> ('w, Job) eff" where
  "CreateJob S inp =
     (case Validate inp of
        Inl e \<Rightarrow> ret (Inl e)
      | Inr _ \<Rightarrow> do {
          idempotencyKey \<leftarrow> (if in_IdempotencyKey inp = '''' then svc_uuid S else ret (in_IdempotencyKey inp));
          u \<leftarrow> svc_uuid S;
          (let i = ''job-'' @ u
           in do {
             r \<leftarrow> store_CreateJob (svc_Store S) \<lparr>jr_ID = i, jr_IdempotencyKey = idempotencyKey,
                    jr_Team = in_Team inp, jr_Image = in_Image inp, jr_AcceleratorType = in_AcceleratorType inp,
                    jr_AcceleratorCount = in_AcceleratorCount inp, jr_Priority = in_Priority inp,
                    jr_Status = '''', jr_CreatedAt = 0, jr_UpdatedAt = 0\<rparr>;
             (case r of
                Inl e \<Rightarrow> ret (Inl (errorf ''recording job'' e))
              | Inr rec \<Rightarrow>
                  if jr_ID rec = i then enqueue_new S inp idempotencyKey rec
                  else ret (Inr (jobFromRecord rec)))
           })
        })"

definition GetJob :: "'w JobService \<Rightarrow> string \<Rightarrow> ('w, Job) eff" where
  "GetJob S i = do {
     r \<leftarrow> store_GetJob (svc_Store S) i;
     (case r of
        Inl e \<Rightarrow> ret (Inl e)
      | Inr rec \<Rightarrow> do {
          c \<leftarrow> k_get_job (svc_K8s S) (svc_Namespace S) i;
          (let job = jobFromRecord rec
           in ret (Inr (case c of
                Inl e \<Rightarrow> job
              | Inr cr \<Rightarrow>
                  (let job' = (if phase_string (st_Phase (job_Status cr)) \<noteq> ''''
                               then job\<lparr>sj_Status := phase_string (st_Phase (job_Status cr))\<rparr> else job)
                   in job'\<lparr>sj_Message := st_Message (job_Status cr)\<rparr>))))
        })
   }"

definition page_limit :: "goint \<Rightarrow> goint" where
  "page_limit limit = (if sint limit \<le> 0 \<or> sint MaxPageLimit < sint limit then DefaultPageLimit else limit)"

definition invalid_cursor :: "go_error \<Rightarrow> go_error" where
  "invalid_cursor e = Wrapf '''' ErrValidation ('': invalid cursor: '' @ error_text e)"

text \<open>The cursor argument: absent when the token is empty.\<close>

definition cursor_arg :: "string \<Rightarrow> go_error + cursor option" where
  "cursor_arg token =
     (if token = '''' then Inr None
      else case DecodeCursor token of
        Inl e \<Rightarrow> Inl (invalid_cursor e)
      | Inr c \<Rightarrow> Inr (Some c))"

text \<open>Cutting off the extra row, and the token of the last row when there was one.\<close>

definition cut_page :: "goint \<Rightarrow> ('r \<Rightarrow> cursor) \<Rightarrow> 'r list \<Rightarrow> 'r list \<times> string" where
  "cut_page limit cur recs =
     (if int (length recs) > sint limit
      then let page = take (nat (sint limit)) recs in (page, EncodeCursor (cur (last page)))
      else (recs, ''''))"

definition ListJobs :: "'w JobService \<Rightarrow> string \<Rightarrow> string \<Rightarrow> goint \<Rightarrow> ('w, Job list \<times> string) eff" where
  "ListJobs S team token limit0 =
     (let limit = page_limit limit0
      in case cursor_arg token of
           Inl e \<Rightarrow> ret (Inl e)
         | Inr after \<Rightarrow> do {
             r \<leftarrow> ListJobsPage (svc_Store S) team after limit;
             ret (case r of
                Inl e \<Rightarrow> Inl e
              | Inr recs \<Rightarrow>
                  let (page, next) = cut_page limit (\<lambda>r. \<lparr>cur_CreatedAt = jr_CreatedAt r, cur_ID = jr_ID r\<rparr>) recs
                  in Inr (map jobFromRecord page, next))
           })"

definition DeleteJob :: "'w JobService \<Rightarrow> string \<Rightarrow> ('w, unit) eff" where
  "DeleteJob S i = do {
     g \<leftarrow> k_get_job (svc_K8s S) (svc_Namespace S) i;
     (case g of
        Inl e \<Rightarrow> ret (Inl (if IsNotFound e then ErrNotFound else errorf ''loading job'' e))
      | Inr job \<Rightarrow> do {
          d \<leftarrow> k_delete_job (svc_K8s S) job;
          (let finish = do {
                 _ \<leftarrow> UpdateStatus (svc_Store S) i ''Cancelled'';
                 _ \<leftarrow> RecordAudit (svc_Store S) i (spec_Team (job_Spec job)) ''cancel'';
                 ret (Inr ())
               }
           in case d of
                Inl e \<Rightarrow> if \<not> IsNotFound e then ret (Inl (errorf ''deleting job'' e)) else finish
              | Inr _ \<Rightarrow> finish)
        })
   }"

record Capacity =
  cap_Total :: int64
  cap_Available :: int64

definition add_present :: "quantity \<Rightarrow> resource_list \<Rightarrow> quantity" where
  "add_present q m = (case m AcceleratorResourceName of None \<Rightarrow> q | Some x \<Rightarrow> quantity_Add q x)"

definition service_Capacity :: "'w JobService \<Rightarrow> ('w, Capacity) eff" where
  "service_Capacity S = do {
     r \<leftarrow> k_list_nodes (svc_K8s S);
     ret (case r of
        Inl e \<Rightarrow> Inl (errorf ''listing nodes'' e)
      | Inr nodes \<Rightarrow>
          let (total, available) = foldl (\<lambda>(t, a) n.
                (add_present t (node_Capacity n), add_present a (node_Allocatable n))) (Quantity 0, Quantity 0) nodes
          in Inr \<lparr>cap_Total = quantity_Value total, cap_Available = quantity_Value available\<rparr>)
   }"

record DLQEntry =
  dlq_Submission :: "JobSubmission option"
  dlq_Raw :: string

fun payload_text :: "payload \<Rightarrow> string" where
  "payload_text (Undecodable s) = s"
| "payload_text (Encoded sub) = ''''"

fun parseDLQEntries :: "payload list \<Rightarrow> DLQEntry list" where
  "parseDLQEntries [] = []"
| "parseDLQEntries (p # ps) =
     (case json_Unmarshal p of
        Inl e \<Rightarrow> \<lparr>dlq_Submission = None, dlq_Raw = payload_text p\<rparr>
      | Inr sub \<Rightarrow> \<lparr>dlq_Submission = Some sub, dlq_Raw = ''''\<rparr>) # parseDLQEntries ps"

definition ListDLQ :: "'w JobService \<Rightarrow> goint \<Rightarrow> ('w, DLQEntry list) eff" where
  "ListDLQ S limit = do {
     r \<leftarrow> PeekDLQ (svc_Queue S) limit;
     ret (case r of Inl e \<Rightarrow> Inl e | Inr payloads \<Rightarrow> Inr (parseDLQEntries payloads))
   }"

record AuditEntry =
  ae_JobID :: string
  ae_Team :: string
  ae_Action :: string
  ae_CreatedAt :: instant

definition audit_entry :: "AuditRecord \<Rightarrow> AuditEntry" where
  "audit_entry r = \<lparr>ae_JobID = ar_JobID r, ae_Team = ar_Team r, ae_Action = ar_Action r,
     ae_CreatedAt = ar_CreatedAt r\<rparr>"

definition ListAudit :: "'w JobService \<Rightarrow> string \<Rightarrow> goint \<Rightarrow> ('w, AuditEntry list \<times> string) eff" where
  "ListAudit S token limit0 =
     (let limit = page_limit limit0
      in case cursor_arg token of
           Inl e \<Rightarrow> ret (Inl e)
         | Inr after \<Rightarrow> do {
             r \<leftarrow> ListAuditPage (svc_Store S) after limit;
             ret (case r of
                Inl e \<Rightarrow> Inl e
              | Inr recs \<Rightarrow>
                  let (page, next) = cut_page limit
                        (\<lambda>r. \<lparr>cur_CreatedAt = ar_CreatedAt r, cur_ID = show_int (sint (ar_ID r))\<rparr>) recs
                  in Inr (map audit_entry page, next))
           })"

section \<open>Walking the pages\<close>

text \<open>A client that follows the tokens until none is returned, for at most \<open>n\<close> requests.\<close>

fun walk_jobs :: "nat \<Rightarrow> 'w JobService \<Rightarrow> string \<Rightarrow> string \<Rightarrow> goint \<Rightarrow> ('w, Job list option) eff" where
  "walk_jobs 0 S team token limit = ret (Inr None)"
| "walk_jobs (Suc n) S team token limit = do {
     r \<leftarrow> ListJobs S team token limit;
     (case r of
        Inl e \<Rightarrow> ret (Inl e)
      | Inr (jobs, next) \<Rightarrow>
          if next = '''' then ret (Inr (Some jobs))
          else do {
            rest \<leftarrow> walk_jobs n S team next limit;
            ret (case rest of
               Inl e \<Rightarrow> Inl e
             | Inr m \<Rightarrow> Inr (map_option (\<lambda>js. jobs @ js) m))
          })
   }"

text \<open>The rows a team may see, newest first.\<close>

definition job_key_of :: "JobRecord \<Rightarrow> instant \<times> string" where
  "job_key_of r = (jr_CreatedAt r, jr_ID r)"

definition team_rows :: "'w pg \<Rightarrow> string \<Rightarrow> db \<Rightarrow> JobRecord list" where
  "team_rows P team d = order_by (\<lambda>a b. row_less (pg_less P) (job_key_of b) (job_key_of a))
     (filter (\<lambda>r. team = '''' \<or> jr_Team r = team) (db_jobs d))"

definition job_cursor :: "JobRecord \<Rightarrow> cursor" where
  "job_cursor r = \<lparr>cur_CreatedAt = jr_CreatedAt r, cur_ID = jr_ID r\<rparr>"

text \<open>The cursor that continues at position \<open>j\<close> of the rows \<open>xs\<close>.\<close>

definition cursor_at :: "JobRecord list \<Rightarrow> nat \<Rightarrow> cursor option" where
  "cursor_at xs j = (case j of 0 \<Rightarrow> None | Suc k \<Rightarrow> Some (job_cursor (xs ! k)))"

definition token_at :: "JobRecord list \<Rightarrow> nat \<Rightarrow> string" where
  "token_at xs j = (case j of 0 \<Rightarrow> '''' | Suc k \<Rightarrow> EncodeCursor (job_cursor (xs ! k)))"

lemma page_limit_range: "1 \<le> sint (page_limit l) \<and> sint (page_limit l) \<le> 100"
  by (auto simp: page_limit_def DefaultPageLimit_def MaxPageLimit_def)

lemma sint_page_limit_Suc: "sint (page_limit l + 1) = sint (page_limit l) + 1"
proof -
  have "page_limit l + 1 = word_of_int (sint (page_limit l) + 1)" by simp
  then show ?thesis using page_limit_range [of l] sint64_small [of "sint (page_limit l) + 1"] by simp
qed

lemma cut_page_spec:
  assumes "0 < m" and "sint L = int m"
  shows "cut_page L cur (take (Suc m) ys) =
     (if m < length ys then (take m ys, EncodeCursor (cur (ys ! (m - 1)))) else (ys, ''''))"
proof (cases "m < length ys")
  case True
  then have "take m ys \<noteq> []" using assms(1) by auto
  then have "last (take m ys) = ys ! (m - 1)" using True assms(1) by (simp add: last_conv_nth)
  moreover have "length (take (Suc m) ys) = Suc m" "take m (take (Suc m) ys) = take m ys"
    using True by simp_all
  ultimately show ?thesis using True assms by (simp add: cut_page_def Let_def)
next
  case False
  then show ?thesis using assms by (simp add: cut_page_def)
qed

locale steady_pg = pg_laws P + collation "pg_less P" for P :: "'w pg" +
  assumes no_fault: "fst (run_state (pg_fault P) w) = NoFault"
begin

lemma keys_distinct: "db_ok d \<Longrightarrow> distinct (map job_key_of (filter Q (db_jobs d)))"
  by (auto simp: db_ok_def distinct_map inj_on_def job_key_of_def)

lemma team_rows_sorted:
  "db_ok d \<Longrightarrow> sorted_wrt (\<lambda>a b. row_less (pg_less P) (job_key_of b) (job_key_of a)) (team_rows P team d)"
  unfolding team_rows_def by (intro row.order_by_sorted keys_distinct)

lemma team_rows_mset: "mset (team_rows P team d) = mset (filter (\<lambda>r. team = '''' \<or> jr_Team r = team) (db_jobs d))"
  unfolding team_rows_def by (rule order_by_mset)

lemma team_rows_set: "set (team_rows P team d) = {r \<in> set (db_jobs d). team = '''' \<or> jr_Team r = team}"
  using arg_cong [OF team_rows_mset, of set_mset] by simp

lemma page_rows:
  assumes "db_ok d" and "j \<le> length (team_rows P team d)" and "0 \<le> sint n"
  shows "jobs_page_sql (pg_less P) team (cursor_at (team_rows P team d) j) n d =
     Inr (take (nat (sint n)) (drop j (team_rows P team d)))"
proof (cases j)
  case 0
  with assms show ?thesis
    by (auto simp: jobs_page_sql_def cursor_at_def limit_rows_def team_rows_def job_key_of_def Let_def)
next
  case (Suc k)
  let ?xs = "team_rows P team d"
  let ?newest = "order_by (\<lambda>a b. row_less (pg_less P) (job_key_of b) (job_key_of a))"
  have k: "k < length ?xs" using assms(2) Suc by simp
  then have "?xs ! k \<in> set (db_jobs d)" using team_rows_set nth_mem by blast
  with assms(1) have "pg_time (jr_CreatedAt (?xs ! k)) = jr_CreatedAt (?xs ! k)"
    by (auto simp: db_ok_def time_ok_def)
  then have key: "(pg_time (cur_CreatedAt (job_cursor (?xs ! k))), cur_ID (job_cursor (?xs ! k))) = job_key_of (?xs ! k)"
    by (simp add: job_cursor_def job_key_of_def)
  have "?newest (filter (\<lambda>r. row_less (pg_less P) (job_key_of r) (job_key_of (?xs ! k)))
      (filter (\<lambda>r. team = '''' \<or> jr_Team r = team) (db_jobs d))) = drop j ?xs"
    using row.filter_order_by [OF keys_distinct [OF assms(1)], of
        "\<lambda>r. row_less (pg_less P) (job_key_of r) (job_key_of (?xs ! k))" "\<lambda>r. team = '''' \<or> jr_Team r = team"]
      row.older_than_nth [OF team_rows_sorted [OF assms(1)] k] Suc
    by (simp add: team_rows_def)
  with assms(3) Suc key show ?thesis
    by (auto simp: jobs_page_sql_def cursor_at_def limit_rows_def Let_def job_key_of_def conj_commute)
qed

lemma token_decodes:
  assumes "db_ok d" and "j \<le> length (team_rows P team d)"
  shows "cursor_arg (token_at (team_rows P team d) j) = Inr (cursor_at (team_rows P team d) j)"
proof (cases j)
  case (Suc k)
  with assms(2) have "team_rows P team d ! k \<in> set (db_jobs d)" 
    using team_rows_set [of team d] nth_mem [of k "team_rows P team d"] by auto
  with assms(1) have "DecodeCursor (EncodeCursor (job_cursor (team_rows P team d ! k))) = Inr (job_cursor (team_rows P team d ! k))"
    by (intro cursor_roundtrip) (auto simp: db_ok_def time_ok_def job_cursor_def)
  with Suc show ?thesis by (simp add: cursor_arg_def token_at_def cursor_at_def EncodeCursor_nonempty)
qed (simp add: cursor_arg_def token_at_def cursor_at_def)

lemma ListJobs_page:
  assumes "svc_Store S = P" and "db_ok (pg_db P w)" and "j \<le> length (team_rows P team (pg_db P w))"
  shows "fst (run_state (ListJobs S team (token_at (team_rows P team (pg_db P w)) j) limit) w) =
     (let xs = team_rows P team (pg_db P w); m = nat (sint (page_limit limit))
      in Inr (map jobFromRecord (take m (drop j xs)), if j + m < length xs then token_at xs (j + m) else ''''))"
proof -
  let ?xs = "team_rows P team (pg_db P w)"
  let ?L = "page_limit limit"
  let ?m = "nat (sint ?L)"
  let ?recs = "take (Suc ?m) (drop j ?xs)"
  have L: "1 \<le> sint ?L" "nat (sint (?L + 1)) = Suc ?m" "0 \<le> sint (?L + 1)"
    using page_limit_range [of limit] sint_page_limit_Suc [of limit] by linarith+
  have "fst (run_state (ListJobsPage P team (cursor_at ?xs j) ?L) w) = Inr ?recs"
    using page_rows [OF assms(2,3), of "?L + 1"] L no_fault [of w]
    by (simp add: ListJobsPage_def query_def split_beta fault_keeps)
  then have run: "fst (run_state (ListJobs S team (token_at ?xs j) limit) w) =
      (let (page, next) = cut_page ?L job_cursor ?recs in Inr (map jobFromRecord page, next))"
    using token_decodes [OF assms(2,3)] assms(1)
    by (simp add: ListJobs_def Let_def split_beta job_cursor_def [abs_def])
  have cut: "cut_page ?L job_cursor ?recs = (if ?m < length (drop j ?xs)
      then (take ?m (drop j ?xs), EncodeCursor (job_cursor (drop j ?xs ! (?m - 1)))) else (drop j ?xs, ''''))"
    using L(1) by (intro cut_page_spec) auto
  have "token_at ?xs (j + ?m) = EncodeCursor (job_cursor (?xs ! (j + ?m - 1)))"
    using L(1) by (cases "j + ?m") (auto simp: token_at_def)
  moreover have "drop j ?xs ! (?m - 1) = ?xs ! (j + ?m - 1)" if "j + ?m < length ?xs"
    using that L(1) by (simp add: nth_drop)
  moreover have "?m < length (drop j ?xs) \<longleftrightarrow> j + ?m < length ?xs" by auto
  ultimately show ?thesis by (simp add: run cut Let_def)
qed

lemma ListJobs_db: "svc_Store S = P \<Longrightarrow> pg_db P (snd (run_state (ListJobs S team t l) w)) = pg_db P w"
  by (auto simp: ListJobs_def ListJobsPage_def Let_def split_beta query_db split: sum.split)

lemma walk_from:
  assumes "svc_Store S = P" and "db_ok (pg_db P w)" and "j \<le> length (team_rows P team (pg_db P w))"
    and "length (team_rows P team (pg_db P w)) - j < n"
  shows "fst (run_state (walk_jobs n S team (token_at (team_rows P team (pg_db P w)) j) limit) w) =
     Inr (Some (map jobFromRecord (drop j (team_rows P team (pg_db P w)))))"
  using assms(2-)
proof (induction n arbitrary: j w)
  case (Suc n)
  let ?xs = "team_rows P team (pg_db P w)"
  let ?m = "nat (sint (page_limit limit))"
  let ?w' = "snd (run_state (ListJobs S team (token_at ?xs j) limit) w)"
  note page = ListJobs_page [OF assms(1) Suc.prems(1,2), of limit, unfolded Let_def]
  have db: "pg_db P ?w' = pg_db P w" by (rule ListJobs_db [OF assms(1)])
  have m: "1 \<le> ?m" using page_limit_range [of limit] by linarith
  show ?case
  proof (cases "j + ?m < length ?xs")
    case True
    have "fst (run_state (walk_jobs n S team (token_at ?xs (j + ?m)) limit) ?w') =
        Inr (Some (map jobFromRecord (drop (j + ?m) ?xs)))"
      using Suc.IH [of ?w' "j + ?m"] Suc.prems True m by (simp add: db)
    moreover have "token_at ?xs (j + ?m) \<noteq> ''''"
      using m by (cases "j + ?m") (auto simp: token_at_def EncodeCursor_nonempty)
    moreover have "map jobFromRecord (take ?m (drop j ?xs)) @ map jobFromRecord (drop (j + ?m) ?xs) =
        map jobFromRecord (drop j ?xs)"
      using append_take_drop_id [of ?m "drop j ?xs"] by (simp add: add.commute flip: map_append)
    ultimately show ?thesis using page True by (simp add: split_beta)
  next
    case False
    with page show ?thesis by (simp add: split_beta)
  qed
qed simp

end

section \<open>The environment of the service\<close>

definition job_row_valid :: "JobRecord \<Rightarrow> bool" where
  "job_row_valid r \<longleftrightarrow> jr_Team r \<noteq> '''' \<and> jr_Image r \<noteq> '''' \<and> jr_AcceleratorType r \<noteq> '''' \<and> 1 \<le> sint (jr_AcceleratorCount r)"

text \<open>
  The parts of the world do not interfere: publishing, tracing and counting leave the tables alone,
  and identifiers and database calls leave the queue (seen through \<open>q\<close>) alone. Generated
  identifiers are new.
\<close>

locale service_env = pg_laws "svc_Store S" for S :: "'w JobService" +
  fixes q :: "'w \<Rightarrow> 'q"
  assumes uuid_db: "pg_db (svc_Store S) (snd (run_state (svc_uuid S) w)) = pg_db (svc_Store S) w"
    and trace_db: "pg_db (svc_Store S) (snd (run_state (svc_traceparent S) w)) = pg_db (svc_Store S) w"
    and count_db: "pg_db (svc_Store S) (snd (run_state (svc_JobsCreatedTotal S t) w)) = pg_db (svc_Store S) w"
    and publish_db: "pg_db (svc_Store S) (snd (run_state (js_publish (svc_Queue S) s p i) w)) = pg_db (svc_Store S) w"
    and uuid_q: "q (snd (run_state (svc_uuid S) w)) = q w"
    and fault_q: "q (snd (run_state (pg_fault (svc_Store S)) w)) = q w"
    and now_q: "q (snd (run_state (pg_now (svc_Store S)) w)) = q w"
    and set_q: "q (pg_set (svc_Store S) d w) = q w"
    and uuid_new: "''job-'' @ fst (run_state (svc_uuid S) w) \<notin> jr_ID ` set (db_jobs (pg_db (svc_Store S) w))"
begin

lemma statement_q: "q (snd (run_state (statement (svc_Store S) f) w)) = q w"
  by (auto simp: statement_def split_beta Let_def fault_q now_q set_q split: db_fault.split)

lemma store_create_q: "q (snd (run_state (store_CreateJob (svc_Store S) rec) w)) = q w"
  by (auto simp: store_CreateJob_def GetJobByIdempotencyKey_def split_beta statement_q split: sum.split)

lemma audit_jobs: "db_jobs (pg_db (svc_Store S) (snd (run_state (RecordAudit (svc_Store S) j t a) w))) =
    db_jobs (pg_db (svc_Store S) w)"
  using statement_db [of "\<lambda>now d. (Inr (), d\<lparr>db_audit := db_audit d @ [\<lparr>ar_ID = db_serial d, ar_JobID = j,
      ar_Team = t, ar_Action = a, ar_CreatedAt = now\<rparr>], db_serial := db_serial d + 1\<rparr>)" w]
  by (auto simp: RecordAudit_def split_beta)

lemma enqueue_result:
  assumes "run_state (enqueue_new S inp key rec) w = (Inr job, w')"
  shows "job = jobFromRecord rec \<and> db_jobs (pg_db (svc_Store S) w') = db_jobs (pg_db (svc_Store S) w)"
  using assms
  by (auto simp: enqueue_new_def Publish_def split_beta Let_def count_db audit_jobs publish_db trace_db
      split: sum.splits)

text \<open>A creation that succeeded left the record it reports in the table.\<close>

lemma CreateJob_leaves_row:
  assumes "run_state (CreateJob S inp) w = (Inr job, w')" and "in_IdempotencyKey inp \<noteq> ''''"
  shows "\<exists>r\<in>set (db_jobs (pg_db (svc_Store S) w')). jr_IdempotencyKey r = in_IdempotencyKey inp \<and> job = jobFromRecord r"
proof -
  let ?w1 = "snd (run_state (svc_uuid S) w)"
  let ?i = "''job-'' @ fst (run_state (svc_uuid S) w)"
  let ?rec = "\<lparr>jr_ID = ?i, jr_IdempotencyKey = in_IdempotencyKey inp,
                    jr_Team = in_Team inp, jr_Image = in_Image inp, jr_AcceleratorType = in_AcceleratorType inp,
                    jr_AcceleratorCount = in_AcceleratorCount inp, jr_Priority = in_Priority inp,
                    jr_Status = '''', jr_CreatedAt = 0, jr_UpdatedAt = 0\<rparr> :: JobRecord"
  let ?c = "run_state (store_CreateJob (svc_Store S) ?rec) ?w1"
  from assms obtain r where r: "fst ?c = Inr r"
    and rest: "run_state (if jr_ID r = ?i then enqueue_new S inp (in_IdempotencyKey inp) r
      else ret (Inr (jobFromRecord r))) (snd ?c) = (Inr job, w')"
    by (cases "fst ?c") (auto simp: CreateJob_def split_beta Let_def split: sum.splits)
  from r have "?c = (Inr r, snd ?c)" by (metis prod.collapse)
  from create_leaves_row [OF this] have row: "r \<in> set (db_jobs (pg_db (svc_Store S) (snd ?c)))"
    "jr_IdempotencyKey r = in_IdempotencyKey inp" by simp_all
  have "job = jobFromRecord r \<and> db_jobs (pg_db (svc_Store S) w') = db_jobs (pg_db (svc_Store S) (snd ?c))"
    using rest enqueue_result by (cases "jr_ID r = ?i") auto
  with row show ?thesis by metis
qed

lemma CreateJob_again:
  assumes "r \<in> set (db_jobs (pg_db (svc_Store S) w))" and "jr_IdempotencyKey r = in_IdempotencyKey inp"
    and "in_IdempotencyKey inp \<noteq> ''''" and "db_ok (pg_db (svc_Store S) w)"
  shows "pg_db (svc_Store S) (snd (run_state (CreateJob S inp) w)) = pg_db (svc_Store S) w \<and>
     q (snd (run_state (CreateJob S inp) w)) = q w \<and>
     (\<forall>job. fst (run_state (CreateJob S inp) w) = Inr job \<longrightarrow> job = jobFromRecord r)"
proof (cases "Validate inp")
  case (Inr u)
  let ?w1 = "snd (run_state (svc_uuid S) w)"
  let ?i = "''job-'' @ fst (run_state (svc_uuid S) w)"
  let ?rec = "\<lparr>jr_ID = ?i, jr_IdempotencyKey = in_IdempotencyKey inp,
                    jr_Team = in_Team inp, jr_Image = in_Image inp, jr_AcceleratorType = in_AcceleratorType inp,
                    jr_AcceleratorCount = in_AcceleratorCount inp, jr_Priority = in_Priority inp,
                    jr_Status = '''', jr_CreatedAt = 0, jr_UpdatedAt = 0\<rparr> :: JobRecord"
  let ?c = "run_state (store_CreateJob (svc_Store S) ?rec) ?w1"
  have "r \<in> set (db_jobs (pg_db (svc_Store S) ?w1))" "jr_IdempotencyKey r = jr_IdempotencyKey ?rec"
    "db_ok (pg_db (svc_Store S) ?w1)" using assms by (simp_all add: uuid_db)
  note again = create_again [OF this]
  have keep: "pg_db (svc_Store S) (snd ?c) = pg_db (svc_Store S) w" "q (snd ?c) = q w"
    using again(1) by (simp_all add: uuid_db store_create_q uuid_q)
  show ?thesis
  proof (cases "fst ?c")
    case (Inl e)
    with Inr assms(3) keep show ?thesis by (simp add: CreateJob_def split_beta Let_def)
  next
    case (Inr r')
    from again(2) [OF Inr] have "r' = r" .
    moreover have "jr_ID r \<noteq> ?i" using uuid_new [of w] assms(1) by force
    ultimately show ?thesis
      using Inr \<open>Validate inp = Inr u\<close> assms(3) keep by (simp add: CreateJob_def split_beta Let_def)
  qed
qed (simp add: CreateJob_def)

lemma enqueue_jobs: "db_jobs (pg_db (svc_Store S) (snd (run_state (enqueue_new S inp key rec) w))) = db_jobs (pg_db (svc_Store S) w)"
  by (auto simp: enqueue_new_def Publish_def split_beta Let_def count_db audit_jobs publish_db trace_db
      split: sum.split)

lemma store_create_valid:
  assumes "list_all job_row_valid (db_jobs (pg_db (svc_Store S) w))" and "job_row_valid rec"
  shows "list_all job_row_valid (db_jobs (pg_db (svc_Store S) (snd (run_state (store_CreateJob (svc_Store S) rec) w))))"
  using statement_db [of "insert_job_sql rec" w] assms
  by (auto simp: store_CreateJob_db insert_job_sql_def Let_def job_row_valid_def split: if_splits)

lemma CreateJob_valid:
  assumes "list_all job_row_valid (db_jobs (pg_db (svc_Store S) w))"
  shows "list_all job_row_valid (db_jobs (pg_db (svc_Store S) (snd (run_state (CreateJob S inp) w)))) \<and>
     (\<forall>job. fst (run_state (CreateJob S inp) w) = Inr job \<longrightarrow>
        (\<exists>r\<in>set (db_jobs (pg_db (svc_Store S) (snd (run_state (CreateJob S inp) w)))). job = jobFromRecord r))"
proof (cases "Validate inp")
  case (Inr u)
  let ?k = "run_state (if in_IdempotencyKey inp = '''' then svc_uuid S else ret (in_IdempotencyKey inp)) w"
  let ?u = "run_state (svc_uuid S) (snd ?k)"
  let ?i = "''job-'' @ fst ?u"
  let ?rec = "\<lparr>jr_ID = ?i, jr_IdempotencyKey = fst ?k, jr_Team = in_Team inp, jr_Image = in_Image inp,
      jr_AcceleratorType = in_AcceleratorType inp, jr_AcceleratorCount = in_AcceleratorCount inp,
      jr_Priority = in_Priority inp, jr_Status = '''', jr_CreatedAt = 0, jr_UpdatedAt = 0\<rparr> :: JobRecord"
  let ?c = "run_state (store_CreateJob (svc_Store S) ?rec) (snd ?u)"
  from Inr have "job_row_valid ?rec" by (auto simp: Validate_def job_row_valid_def split: if_splits)
  moreover have "pg_db (svc_Store S) (snd ?u) = pg_db (svc_Store S) w" by (simp add: uuid_db)
  ultimately have ok: "list_all job_row_valid (db_jobs (pg_db (svc_Store S) (snd ?c)))"
    using store_create_valid assms by simp
  have run: "run_state (CreateJob S inp) w = (case fst ?c of
        Inl e \<Rightarrow> (Inl (errorf ''recording job'' e), snd ?c)
      | Inr r \<Rightarrow> if jr_ID r = ?i then run_state (enqueue_new S inp (fst ?k) r) (snd ?c) else (Inr (jobFromRecord r), snd ?c))"
    using Inr by (simp add: CreateJob_def split_beta Let_def split: sum.split)
  show ?thesis
  proof (cases "fst ?c")
    case (Inl e)
    with ok show ?thesis by (simp add: run)
  next
    case (Inr r)
    then have "?c = (Inr r, snd ?c)" by (metis prod.collapse)
    from create_leaves_row [OF this] have row: "r \<in> set (db_jobs (pg_db (svc_Store S) (snd ?c)))" by simp
    show ?thesis
    proof (cases "jr_ID r = ?i")
      case True
      have "job = jobFromRecord r" if "fst (run_state (enqueue_new S inp (fst ?k) r) (snd ?c)) = Inr job" for job
        using that enqueue_result by (metis prod.collapse)
      with True Inr ok row show ?thesis by (auto simp: run enqueue_jobs)
    next
      case False
      with Inr ok row show ?thesis by (auto simp: run)
    qed
  qed
qed (use assms in \<open>simp add: CreateJob_def Validate_def split: if_splits\<close>)

end

section \<open>A system in memory\<close>

text \<open>Run an action of a component inside the world that holds it.\<close>

definition zoom :: "('w \<Rightarrow> 'v) \<Rightarrow> ('v \<Rightarrow> 'w \<Rightarrow> 'w) \<Rightarrow> ('v, 'a) state \<Rightarrow> ('w, 'a) state" where
  "zoom get put m = State (\<lambda>w. case run_state m (get w) of (r, v) \<Rightarrow> (r, put v w))"

lemma run_zoom [simp]:
  "run_state (zoom get put m) w = (fst (run_state m (get w)), put (snd (run_state m (get w))) w)"
  by (simp add: zoom_def split: prod.split)

definition zoom_kube :: "('w \<Rightarrow> 'v) \<Rightarrow> ('v \<Rightarrow> 'w \<Rightarrow> 'w) \<Rightarrow> 'v kube \<Rightarrow> 'w kube" where
  "zoom_kube get put K = \<lparr>
     k_get_job = (\<lambda>ns n. zoom get put (k_get_job K ns n)),
     k_list_jobs = (\<lambda>nso. zoom get put (k_list_jobs K nso)),
     k_create_job = (\<lambda>j. zoom get put (k_create_job K j)),
     k_update_job = (\<lambda>j. zoom get put (k_update_job K j)),
     k_update_job_status = (\<lambda>j. zoom get put (k_update_job_status K j)),
     k_delete_job = (\<lambda>j. zoom get put (k_delete_job K j)),
     k_get_pool = (\<lambda>n. zoom get put (k_get_pool K n)),
     k_list_quotas = zoom get put (k_list_quotas K),
     k_list_pods = (\<lambda>nso sel. zoom get put (k_list_pods K nso sel)),
     k_create_pod = (\<lambda>p. zoom get put (k_create_pod K p)),
     k_delete_pod = (\<lambda>p. zoom get put (k_delete_pod K p)),
     k_get_pvc = (\<lambda>ns n. zoom get put (k_get_pvc K ns n)),
     k_create_pvc = (\<lambda>v. zoom get put (k_create_pvc K v)),
     k_list_nodes = zoom get put (k_list_nodes K),
     k_contains_finalizer = k_contains_finalizer K,
     k_add_finalizer = k_add_finalizer K,
     k_remove_finalizer = k_remove_finalizer K,
     k_set_controller_reference = k_set_controller_reference K,
     k_now = zoom get put (k_now K),
     k_observe_scheduling_latency = (\<lambda>x. zoom get put (k_observe_scheduling_latency K x))\<rparr>"

record sys =
  sys_dbw :: dbw
  sys_mem :: mem
  sys_stream :: "(string \<times> payload) list"
  sys_publish_faults :: "bool list"

definition sys_put_dbw :: "dbw \<Rightarrow> sys \<Rightarrow> sys" where
  "sys_put_dbw d s = s\<lparr>sys_dbw := d\<rparr>"

definition sys_put_mem :: "mem \<Rightarrow> sys \<Rightarrow> sys" where
  "sys_put_mem m s = s\<lparr>sys_mem := m\<rparr>"

definition sys_pg :: "sys pg" where
  "sys_pg = \<lparr>pg_db = (\<lambda>s. dbw_db (sys_dbw s)), pg_set = (\<lambda>d s. s\<lparr>sys_dbw := (sys_dbw s)\<lparr>dbw_db := d\<rparr>\<rparr>),
     pg_fault = zoom sys_dbw sys_put_dbw (pg_fault mem_pg),
     pg_now = zoom sys_dbw sys_put_dbw (pg_now mem_pg), pg_less = (<)\<rparr>"

definition sys_publish :: "string \<Rightarrow> payload \<Rightarrow> string option \<Rightarrow> (sys, unit) eff" where
  "sys_publish subj p i = State (\<lambda>s.
     case sys_publish_faults s of
       True # fs \<Rightarrow> (Inl (Opaque ''nats: no response from stream''), s\<lparr>sys_publish_faults := fs\<rparr>)
     | False # fs \<Rightarrow> (Inr (), s\<lparr>sys_stream := sys_stream s @ [(subj, p)], sys_publish_faults := fs\<rparr>)
     | [] \<Rightarrow> (Inr (), s\<lparr>sys_stream := sys_stream s @ [(subj, p)]\<rparr>))"

definition sys_jetstream :: "sys jetstream" where
  "sys_jetstream = quiet_jetstream\<lparr>js_publish := sys_publish,
     js_peek_fetch := (\<lambda>n. State (\<lambda>s. (Inr (map (\<lambda>(subj, p). \<lparr>msg_Seq = 0, msg_Data = p, msg_NumDelivered = Some 1\<rparr>)
       (take (nat (sint n)) (filter (\<lambda>(subj, p). subj = DLQSubj) (sys_stream s)))), s)))\<rparr>"

text \<open>Identifiers longer than any id in the table are new.\<close>

definition sys_service :: "sys JobService" where
  "sys_service = \<lparr>svc_Store = sys_pg, svc_Queue = sys_jetstream,
     svc_K8s = zoom_kube sys_mem sys_put_mem mem_kube, svc_Namespace = ''default'',
     svc_uuid = State (\<lambda>s. (concat (map jr_ID (db_jobs (dbw_db (sys_dbw s)))) @ ''u'', s)),
     svc_traceparent = ret '''', svc_JobsCreatedTotal = (\<lambda>t. ret ())\<rparr>"

definition example_sys :: sys where
  "example_sys = \<lparr>sys_dbw = example_dbw, sys_mem = mem_empty, sys_stream = [], sys_publish_faults = []\<rparr>"

definition example_input :: CreateJobInput where
  "example_input = \<lparr>in_Team = ''platform'', in_Image = ''busybox'', in_Command = [], in_Args = [],
     in_AcceleratorType = ''mock-gpu'', in_AcceleratorCount = 2, in_Priority = 0, in_IdempotencyKey = ''k''\<rparr>"

lemmas sys_eval = sys_service_def sys_pg_def sys_jetstream_def sys_publish_def sys_put_dbw_def sys_put_mem_def
  example_sys_def example_input_def quiet_jetstream_def CreateJob_def Validate_def enqueue_new_def
  Publish_def RecordAudit_def jobFromRecord_def json_Marshal_def store_eval

lemma concat_new: "x \<in> set xs \<Longrightarrow> length x \<le> length (concat xs)"
  by (induction xs) auto

interpretation sys: service_env sys_service sys_stream
proof (unfold_locales, goal_cases)
  case (13 w)
  show ?case
  proof
    assume "''job-'' @ fst (run_state (svc_uuid sys_service) w)
      \<in> jr_ID ` set (db_jobs (pg_db (svc_Store sys_service) w))"
    then obtain r where "r \<in> set (db_jobs (dbw_db (sys_dbw w)))"
      and "jr_ID r = ''job-'' @ concat (map jr_ID (db_jobs (dbw_db (sys_dbw w)))) @ ''u''"
      by (auto simp: sys_service_def sys_pg_def)
    moreover from this(1) have "length (jr_ID r) \<le> length (concat (map jr_ID (db_jobs (dbw_db (sys_dbw w)))))"
      by (intro concat_new) simp
    ultimately show False by simp
  qed
qed (auto simp: sys_service_def sys_pg_def sys_jetstream_def sys_publish_def sys_put_dbw_def mem_pg_def
    time_ok_def pg_time_def end_of_9999_value pos_imp_zdiv_nonneg_iff split: list.split bool.split)

definition steady :: "dbw pg" where
  "steady = mem_pg\<lparr>pg_fault := ret NoFault\<rparr>"

interpretation steady: steady_pg steady
  by unfold_locales
    (auto simp: steady_def mem_pg_def time_ok_def pg_time_def end_of_9999_value pos_imp_zdiv_nonneg_iff)

definition steady_service :: "dbw JobService" where
  "steady_service = \<lparr>svc_Store = steady, svc_Queue = quiet_jetstream,
     svc_K8s = zoom_kube (\<lambda>_. mem_empty) (\<lambda>_ w. w) mem_kube, svc_Namespace = ''default'',
     svc_uuid = ret ''u'', svc_traceparent = ret '''', svc_JobsCreatedTotal = (\<lambda>t. ret ())\<rparr>"

definition example_pages :: dbw where
  "example_pages = example_dbw\<lparr>dbw_db := db_empty\<lparr>db_jobs :=
     [example_record\<lparr>jr_CreatedAt := 5000\<rparr>,
      example_record\<lparr>jr_ID := ''job-2'', jr_IdempotencyKey := ''k2'', jr_CreatedAt := 5000\<rparr>]\<rparr>\<rparr>"

definition example_audit :: "int64 \<Rightarrow> AuditRecord" where
  "example_audit i = \<lparr>ar_ID = i, ar_JobID = ''job-1'', ar_Team = ''platform'', ar_Action = ''create'', ar_CreatedAt = 5000\<rparr>"

definition example_audit_log :: dbw where
  "example_audit_log = example_dbw\<lparr>dbw_db := db_empty\<lparr>db_audit := [example_audit 9, example_audit 10]\<rparr>\<rparr>"

section \<open>Properties\<close>

text \<open>Property C9. Paging through the jobs is complete: on a healthy connection, following the tokens from the
  first page returns every job of the team (of all teams for the empty team) exactly once, newest
  first with ties broken by id, for every page size, and ends within one request per job plus one.\<close>

theorem pages_enumerate_jobs:
  assumes "steady_pg (svc_Store S)" and "db_ok (pg_db (svc_Store S) w)"
    and "length (db_jobs (pg_db (svc_Store S) w)) < n"
  shows "\<exists>rows. fst (run_state (walk_jobs n S team '''' limit) w) = Inr (Some (map jobFromRecord rows)) \<and>
     mset rows = mset (filter (\<lambda>r. team = '''' \<or> jr_Team r = team) (db_jobs (pg_db (svc_Store S) w))) \<and>
     sorted_wrt (\<lambda>a b. row_less (pg_less (svc_Store S)) (job_key_of b) (job_key_of a)) rows"
proof -
  let ?P = "svc_Store S" and ?d = "pg_db (svc_Store S) w"
  note ms = steady_pg.team_rows_mset [OF assms(1), of team ?d]
  have "length (team_rows ?P team ?d) \<le> length (db_jobs ?d)"
    using arg_cong [OF ms, of size] length_filter_le by (simp only: size_mset)
  then have "fst (run_state (walk_jobs n S team (token_at (team_rows ?P team ?d) 0) limit) w) =
      Inr (Some (map jobFromRecord (drop 0 (team_rows ?P team ?d))))"
    using assms by (intro steady_pg.walk_from) auto
  with ms steady_pg.team_rows_sorted [OF assms(1,2), of team] show ?thesis
    by (intro exI [of _ "team_rows ?P team ?d"]) (simp add: token_at_def)
qed

theorem pages_enumerate_jobs_witness:
  "\<exists>jobs. fst (run_state (walk_jobs 3 steady_service ''platform'' '''' 1) example_pages) = Inr (Some jobs) \<and> length jobs = 2"
proof -
  have "db_ok (pg_db (svc_Store steady_service) example_pages)"
    "length (db_jobs (pg_db (svc_Store steady_service) example_pages)) < 3"
    by (simp_all add: db_ok_def time_ok_def steady_service_def steady_def example_pages_def store_eval)
  from pages_enumerate_jobs [OF _ this, of "''platform''" 1] steady.steady_pg_axioms
  obtain rows where "fst (run_state (walk_jobs 3 steady_service ''platform'' '''' 1) example_pages) =
      Inr (Some (map jobFromRecord rows))"
    and ms: "mset rows = mset (filter (\<lambda>r. ''platform'' = '''' \<or> jr_Team r = ''platform'')
      (db_jobs (pg_db (svc_Store steady_service) example_pages)))"
    by (auto simp: steady_service_def)
  moreover have "length rows = 2"
    using arg_cong [OF ms, of size]
    by (simp add: steady_service_def steady_def example_pages_def store_eval)
  ultimately show ?thesis by auto
qed

text \<open>Property C11. Submitting is idempotent end to end: after a creation with a key succeeded, a repetition with
  the same key (even with another payload, and over a faulty connection) changes no table, publishes
  nothing to the queue, and can only return the original job or an error.\<close>

theorem create_job_idempotent:
  assumes "service_env S q" and "run_state (CreateJob S inp) w = (Inr job, w')"
    and "in_IdempotencyKey inp \<noteq> ''''" and "in_IdempotencyKey inp2 = in_IdempotencyKey inp"
    and "db_ok (pg_db (svc_Store S) w')"
  shows "pg_db (svc_Store S) (snd (run_state (CreateJob S inp2) w')) = pg_db (svc_Store S) w' \<and>
     q (snd (run_state (CreateJob S inp2) w')) = q w' \<and>
     (\<forall>job2. fst (run_state (CreateJob S inp2) w') = Inr job2 \<longrightarrow> job2 = job)"
proof -
  from service_env.CreateJob_leaves_row [OF assms(1,2,3)] obtain r
    where r: "r \<in> set (db_jobs (pg_db (svc_Store S) w'))" "jr_IdempotencyKey r = in_IdempotencyKey inp2"
      and job: "job = jobFromRecord r" using assms(4) by auto
  from service_env.CreateJob_again [OF assms(1) r _ assms(5)] assms(3,4) show ?thesis
    by (simp add: job)
qed

definition example_created :: sys where
  "example_created = snd (run_state (CreateJob sys_service example_input) example_sys)"

lemma example_create_job:
  "run_state (CreateJob sys_service example_input) example_sys =
     (Inr \<lparr>sj_ID = ''job-u'', sj_Team = ''platform'', sj_Image = ''busybox'', sj_AcceleratorType = ''mock-gpu'',
        sj_AcceleratorCount = 2, sj_Priority = 0, sj_Status = ''Pending'', sj_Message = '''', sj_CreatedAt = 7000\<rparr>,
      example_created)"
  by (simp add: example_created_def sys_eval Let_def)

theorem create_job_idempotent_witness:
  "sys_stream (snd (run_state (CreateJob sys_service (example_input\<lparr>in_Image := ''other''\<rparr>)) example_created)) =
     sys_stream example_created"
proof -
  have "in_IdempotencyKey example_input \<noteq> ''''"
    "in_IdempotencyKey (example_input\<lparr>in_Image := ''other''\<rparr>) = in_IdempotencyKey example_input"
    by (simp_all add: example_input_def)
  moreover have "db_ok (pg_db (svc_Store sys_service) example_created)"
    by (simp add: example_created_def db_ok_def time_ok_def sys_eval Let_def)
  ultimately show ?thesis
    using create_job_idempotent [OF sys.service_env_axioms example_create_job] by blast
qed

text \<open>Property C26. Only well-formed jobs are stored: whatever a client sends and whatever fails, creating a job keeps
  every row of the table well-formed (team, image and accelerator type present, at least one
  accelerator), and a job reported as created is one of these rows.\<close>

theorem stored_jobs_well_formed:
  assumes "service_env S q" and "list_all job_row_valid (db_jobs (pg_db (svc_Store S) w))"
  shows "list_all job_row_valid (db_jobs (pg_db (svc_Store S) (snd (run_state (CreateJob S inp) w)))) \<and>
     (\<forall>job. fst (run_state (CreateJob S inp) w) = Inr job \<longrightarrow>
        (\<exists>r\<in>set (db_jobs (pg_db (svc_Store S) (snd (run_state (CreateJob S inp) w)))). job = jobFromRecord r))"
  using service_env.CreateJob_valid [OF assms] .

theorem stored_jobs_well_formed_witness:
  "list_all job_row_valid (db_jobs (dbw_db (sys_dbw (snd (run_state (CreateJob sys_service example_input) example_sys)))))"
proof -
  have "list_all job_row_valid (db_jobs (pg_db (svc_Store sys_service) example_sys))"
    by (simp add: sys_eval job_row_valid_def)
  from stored_jobs_well_formed [OF sys.service_env_axioms this, of example_input] show ?thesis
    by (simp add: sys_service_def sys_pg_def)
qed


lemma show_9_10: "show_int 9 = ''9''" "show_int 10 = ''10''"
  by (simp_all add: go_eval)


end
