(* ===== verification/Rate_Limit.thy ===== *)
theory Rate_Limit
  imports Prelude
begin

text \<open>
  The per-team rate limiter, \<^verbatim>\<open>src/internal/api/ratelimit.go\<close>. The token bucket itself
  (\<^verbatim>\<open>golang.org/x/time/rate\<close>) is a parameter: the state a new bucket has and what one \<^verbatim>\<open>Allow()\<close> at a
  point in time does to it.
\<close>

section \<open>The limiter\<close>

record 'l bucket =
  new_bucket :: 'l
  bucket_allow :: "instant \<Rightarrow> 'l \<Rightarrow> bool \<times> 'l"

type_synonym 'l limiters = "string \<rightharpoonup> 'l"

definition newPerTeamLimiter :: "'l limiters" where
  "newPerTeamLimiter = Map.empty"

definition allow :: "'l bucket \<Rightarrow> instant \<Rightarrow> string \<Rightarrow> 'l limiters \<Rightarrow> bool \<times> 'l limiters" where
  "allow B now team limiters =
     (let (lim, limiters') = (case limiters team of
            Some l \<Rightarrow> (l, limiters)
          | None \<Rightarrow> (new_bucket B, limiters(team \<mapsto> new_bucket B)));
          (ok, lim') = bucket_allow B now lim
      in (ok, limiters'(team \<mapsto> lim')))"

section \<open>A run of requests\<close>

text \<open>The decisions on a sequence of requests, each with its time and team.\<close>

fun decisions :: "'l bucket \<Rightarrow> (instant \<times> string) list \<Rightarrow> 'l limiters \<Rightarrow> bool list" where
  "decisions B [] ls = []"
| "decisions B ((now, team) # rqs) ls = (case allow B now team ls of (ok, ls') \<Rightarrow> ok # decisions B rqs ls')"

text \<open>A single bucket that sees only the given times.\<close>

fun bucket_run :: "'l bucket \<Rightarrow> instant list \<Rightarrow> 'l \<Rightarrow> bool list" where
  "bucket_run B [] l = []"
| "bucket_run B (now # ts) l = (case bucket_allow B now l of (ok, l') \<Rightarrow> ok # bucket_run B ts l')"

text \<open>The decisions that concern a team.\<close>

definition for_team :: "string \<Rightarrow> (instant \<times> string) list \<Rightarrow> bool list \<Rightarrow> bool list" where
  "for_team team rqs oks = map snd (filter (\<lambda>(rq, ok). snd rq = team) (zip rqs oks))"

lemma allow_own:
  "allow B now team ls =
     (let (ok, l) = bucket_allow B now (case ls team of None \<Rightarrow> new_bucket B | Some l \<Rightarrow> l)
      in (ok, ls(team \<mapsto> l)))"
  by (auto simp: allow_def split_beta split: option.split)

lemma decisions_isolated:
  "for_team team rqs (decisions B rqs ls) =
     bucket_run B (map fst (filter (\<lambda>rq. snd rq = team) rqs)) (case ls team of None \<Rightarrow> new_bucket B | Some l \<Rightarrow> l)"
proof (induction rqs arbitrary: ls)
  case (Cons rq rqs)
  obtain now t where rq: "rq = (now, t)" by (cases rq)
  show ?case
    using Cons.IH by (auto simp: rq allow_own for_team_def split_beta Let_def)
qed (simp add: for_team_def)

section \<open>Properties\<close>

text \<open>Property C29. Rate limiting isolates teams: in any interleaving of requests, the decisions a team gets are
  exactly those a fresh token bucket of its own would give on its own requests, whatever the other
  teams send and whatever the bucket algorithm is.\<close>

theorem rate_limit_isolates_teams:
  "for_team team rqs (decisions B rqs newPerTeamLimiter) =
     bucket_run B (map fst (filter (\<lambda>rq. snd rq = team) rqs)) (new_bucket B)"
  by (simp add: decisions_isolated newPerTeamLimiter_def)

end
