(* ===== verification/Rest_Api.thy ===== *)
theory Rest_Api
  imports Service Rate_Limit
begin

text \<open>
  The REST API, \<^verbatim>\<open>src/internal/api\<close>: authentication, the rate-limiting and metrics middleware, the
  request handlers and the routing table. The JWT library and the metrics page are parameters of
  the server record.
\<close>

section \<open>Requests and replies\<close>

record createJobRequest =
  cr_Team :: string
  cr_Image :: string
  cr_Command :: "string list"
  cr_Args :: "string list"
  cr_AcceleratorType :: string
  cr_AcceleratorCount :: int32
  cr_Priority :: int32

text \<open>
  A request: its method, the segments of its path, the two headers the code reads, the query
  parameters (\<open>''''\<close> when absent), the body as decoded (\<open>None\<close> when it does not decode), and the team
  its context carries.
\<close>

record http_request =
  rq_Method :: string
  rq_Path :: "string list"
  rq_Authorization :: string
  rq_IdempotencyKey :: string
  rq_Query :: "string \<Rightarrow> string"
  rq_Body :: "createJobRequest option"
  rq_Team :: "string option"

record jobResponse =
  resp_ID :: string
  resp_Team :: string
  resp_Image :: string
  resp_AcceleratorType :: string
  resp_AcceleratorCount :: int32
  resp_Priority :: int32
  resp_Status :: string
  resp_Message :: string
  resp_CreatedAt :: string

record auditEntryResponse =
  aer_JobID :: string
  aer_Team :: string
  aer_Action :: string
  aer_CreatedAt :: string

datatype api_body =
    JobBody jobResponse
  | JobPage "jobResponse list" string
  | DLQBody "DLQEntry list"
  | CapacityBody int64 int64
  | AuditPage "auditEntryResponse list" string
  | MetricsPage string

definition toJobResponse :: "Job \<Rightarrow> jobResponse" where
  "toJobResponse j = \<lparr>resp_ID = sj_ID j, resp_Team = sj_Team j, resp_Image = sj_Image j,
     resp_AcceleratorType = sj_AcceleratorType j, resp_AcceleratorCount = sj_AcceleratorCount j,
     resp_Priority = sj_Priority j, resp_Status = sj_Status j, resp_Message = sj_Message j,
     resp_CreatedAt = format_RFC3339 (sj_CreatedAt j)\<rparr>"

section \<open>The server\<close>

text \<open>
  \<open>sv_parse_jwt secret token\<close> is \<^verbatim>\<open>jwt.ParseWithClaims\<close> with HS256, yielding the team claim; the limiter's
  map lives in the world behind \<open>sv_limiters\<close> and \<open>sv_set_limiters\<close>; \<open>sv_observe\<close> records a request's
  method, route and status.
\<close>

record ('w, 'l) rest_server =
  sv_Jobs :: "'w JobService"
  sv_JWTSecret :: string
  sv_RateLimited :: bool
  sv_bucket :: "'l bucket"
  sv_limiters :: "'w \<Rightarrow> 'l limiters"
  sv_set_limiters :: "'l limiters \<Rightarrow> 'w \<Rightarrow> 'w"
  sv_clock :: "('w, instant) state"
  sv_parse_jwt :: "string \<Rightarrow> string \<Rightarrow> ('w, string) eff"
  sv_connected :: "('w, bool) state"
  sv_observe :: "string \<Rightarrow> string \<Rightarrow> nat \<Rightarrow> ('w, unit) state"
  sv_metrics_page :: "('w, string) state"

type_synonym 'w handler = "http_request \<Rightarrow> ('w, api_body http_reply) state"

definition reply_status :: "'a http_reply \<Rightarrow> nat" where
  "reply_status r = (case r of JsonReply n b \<Rightarrow> n | ErrorReply n m \<Rightarrow> n | EmptyReply n \<Rightarrow> n | ConnectionDropped \<Rightarrow> 200)"

definition withMetrics :: "('w, 'l) rest_server \<Rightarrow> string \<Rightarrow> 'w handler \<Rightarrow> 'w handler" where
  "withMetrics sv route next rq = do {
     r \<leftarrow> next rq;
     _ \<leftarrow> (if r = ConnectionDropped then ret () else sv_observe sv (rq_Method rq) route (reply_status r));
     ret r
   }"

section \<open>Authentication (auth.go)\<close>

definition cut_prefix :: "string \<Rightarrow> string \<Rightarrow> string option" where
  "cut_prefix pre s = (if take (length pre) s = pre then Some (drop (length pre) s) else None)"

definition authenticate :: "('w, 'l) rest_server \<Rightarrow> http_request \<Rightarrow> ('w, string) eff" where
  "authenticate sv rq =
     (case cut_prefix ''Bearer '' (rq_Authorization rq) of
        None \<Rightarrow> ret (Inl (Opaque ''missing bearer token''))
      | Some tokenStr \<Rightarrow>
          if tokenStr = '''' then ret (Inl (Opaque ''missing bearer token''))
          else do {
            c \<leftarrow> sv_parse_jwt sv (sv_JWTSecret sv) tokenStr;
            ret (case c of
               Inl e \<Rightarrow> Inl e
             | Inr team \<Rightarrow> if team = '''' then Inl (Opaque ''token has no team claim'') else Inr team)
          })"

definition AuthMiddleware :: "('w, 'l) rest_server \<Rightarrow> 'w handler \<Rightarrow> 'w handler" where
  "AuthMiddleware sv next rq = do {
     a \<leftarrow> authenticate sv rq;
     (case a of
        Inl e \<Rightarrow> ret (ErrorReply 401 (''invalid or missing token: '' @ error_text e))
      | Inr team \<Rightarrow> next (rq\<lparr>rq_Team := Some team\<rparr>))
   }"

definition RateLimitMiddleware :: "('w, 'l) rest_server \<Rightarrow> 'w handler \<Rightarrow> 'w handler" where
  "RateLimitMiddleware sv next rq =
     (case rq_Team rq of
        None \<Rightarrow> next rq
      | Some team \<Rightarrow> do {
          now \<leftarrow> sv_clock sv;
          ok \<leftarrow> State (\<lambda>w. case allow (sv_bucket sv) now team (sv_limiters sv w) of
                  (ok, ls) \<Rightarrow> (ok, sv_set_limiters sv ls w));
          (if \<not> ok then ret (ErrorReply 429 (''rate limit exceeded for team '' @ team)) else next rq)
        })"

section \<open>Handlers (server.go)\<close>

definition checkTeamAccess :: "('w, 'l) rest_server \<Rightarrow> http_request \<Rightarrow> string \<Rightarrow> bool" where
  "checkTeamAccess sv rq team \<longleftrightarrow> sv_JWTSecret sv = '''' \<or> rq_Team rq = Some team"

definition parseIntQuery :: "http_request \<Rightarrow> string \<Rightarrow> goint \<Rightarrow> goint" where
  "parseIntQuery rq key fallback =
     (let v = rq_Query rq key
      in if v = '''' then fallback
         else case atoi v of (n, ok) \<Rightarrow> if ok then n else fallback)"

definition handleHealthz :: "'w handler" where
  "handleHealthz rq = ret (EmptyReply 200)"

definition handleReadyz :: "('w, 'l) rest_server \<Rightarrow> 'w handler" where
  "handleReadyz sv rq = do {
     p \<leftarrow> Ping (svc_Store (sv_Jobs sv));
     (case p of
        Inl e \<Rightarrow> ret (ErrorReply 503 ''postgres not reachable'')
      | Inr _ \<Rightarrow> do {
          c \<leftarrow> sv_connected sv;
          ret (if \<not> c then ErrorReply 503 ''nats not connected'' else EmptyReply 200)
        })
   }"

definition handleCreateJob :: "('w, 'l) rest_server \<Rightarrow> 'w handler" where
  "handleCreateJob sv rq =
     (case rq_Body rq of
        None \<Rightarrow> ret (ErrorReply 400 ''invalid request body'')
      | Some req \<Rightarrow>
          if \<not> checkTeamAccess sv rq (cr_Team req)
          then ret (ErrorReply 403 ''token team does not match request team'')
          else do {
            r \<leftarrow> CreateJob (sv_Jobs sv) \<lparr>in_Team = cr_Team req, in_Image = cr_Image req,
                   in_Command = cr_Command req, in_Args = cr_Args req,
                   in_AcceleratorType = cr_AcceleratorType req,
                   in_AcceleratorCount = cr_AcceleratorCount req, in_Priority = cr_Priority req,
                   in_IdempotencyKey = rq_IdempotencyKey rq\<rparr>;
            ret (case r of
               Inl e \<Rightarrow> if errors_is e ErrValidation then ErrorReply 400 (error_text e)
                        else ErrorReply 500 ''failed to create job''
             | Inr job \<Rightarrow> JsonReply 201 (JobBody (toJobResponse job)))
          })"

definition handleGetJob :: "('w, 'l) rest_server \<Rightarrow> string \<Rightarrow> 'w handler" where
  "handleGetJob sv i rq = do {
     r \<leftarrow> GetJob (sv_Jobs sv) i;
     ret (case r of
        Inl e \<Rightarrow> if errors_is e ErrNotFound then ErrorReply 404 ''job not found''
                 else ErrorReply 500 ''failed to load job''
      | Inr job \<Rightarrow>
          if \<not> checkTeamAccess sv rq (sj_Team job)
          then ErrorReply 403 ''token team does not match job team''
          else JsonReply 200 (JobBody (toJobResponse job)))
   }"

definition handleListJobs :: "('w, 'l) rest_server \<Rightarrow> 'w handler" where
  "handleListJobs sv rq =
     (let limit = parseIntQuery rq ''limit'' DefaultPageLimit;
          team = (case rq_Team rq of None \<Rightarrow> '''' | Some t \<Rightarrow> t)
      in do {
        r \<leftarrow> ListJobs (sv_Jobs sv) team (rq_Query rq ''cursor'') limit;
        ret (case r of
           Inl e \<Rightarrow> if errors_is e ErrValidation then ErrorReply 400 (error_text e)
                    else ErrorReply 500 ''failed to list jobs''
         | Inr (jobs, next) \<Rightarrow> JsonReply 200 (JobPage (map toJobResponse jobs) next))
      })"

text \<open>The deletion proper, after the request was authorized.\<close>

definition delete_authorized :: "('w, 'l) rest_server \<Rightarrow> string \<Rightarrow> ('w, api_body http_reply) state" where
  "delete_authorized sv i = do {
     r \<leftarrow> DeleteJob (sv_Jobs sv) i;
     ret (case r of
        Inl e \<Rightarrow> if errors_is e ErrNotFound then ErrorReply 404 ''job not found''
                 else ErrorReply 500 ''failed to delete job''
      | Inr _ \<Rightarrow> EmptyReply 204)
   }"

definition handleDeleteJob :: "('w, 'l) rest_server \<Rightarrow> string \<Rightarrow> 'w handler" where
  "handleDeleteJob sv i rq =
     (if sv_JWTSecret sv \<noteq> '''' then do {
        r \<leftarrow> GetJob (sv_Jobs sv) i;
        (case r of
           Inl e \<Rightarrow> ret (if errors_is e ErrNotFound then ErrorReply 404 ''job not found''
                         else ErrorReply 500 ''failed to load job'')
         | Inr job \<Rightarrow>
             if \<not> checkTeamAccess sv rq (sj_Team job)
             then ret (ErrorReply 403 ''token team does not match job team'')
             else delete_authorized sv i)
      }
      else delete_authorized sv i)"

definition handleListDLQ :: "('w, 'l) rest_server \<Rightarrow> 'w handler" where
  "handleListDLQ sv rq = do {
     r \<leftarrow> ListDLQ (sv_Jobs sv) 100;
     ret (case r of
        Inl e \<Rightarrow> ErrorReply 500 ''failed to read dead-letter queue''
      | Inr entries \<Rightarrow> JsonReply 200 (DLQBody entries))
   }"

definition handleCapacity :: "('w, 'l) rest_server \<Rightarrow> 'w handler" where
  "handleCapacity sv rq = do {
     r \<leftarrow> service_Capacity (sv_Jobs sv);
     ret (case r of
        Inl e \<Rightarrow> ErrorReply 500 ''failed to compute capacity''
      | Inr c \<Rightarrow> JsonReply 200 (CapacityBody (cap_Total c) (cap_Available c)))
   }"

definition handleListAudit :: "('w, 'l) rest_server \<Rightarrow> 'w handler" where
  "handleListAudit sv rq =
     (let limit = parseIntQuery rq ''limit'' DefaultPageLimit
      in do {
        r \<leftarrow> ListAudit (sv_Jobs sv) (rq_Query rq ''cursor'') limit;
        ret (case r of
           Inl e \<Rightarrow> if errors_is e ErrValidation then ErrorReply 400 (error_text e)
                    else ErrorReply 500 ''failed to list audit log''
         | Inr (entries, next) \<Rightarrow> JsonReply 200 (AuditPage
             (map (\<lambda>e. \<lparr>aer_JobID = ae_JobID e, aer_Team = ae_Team e, aer_Action = ae_Action e,
                aer_CreatedAt = format_RFC3339 (ae_CreatedAt e)\<rparr>) entries) next))
      })"

section \<open>Routing\<close>

text \<open>
  \<^verbatim>\<open>ServeMux\<close>: a path no pattern has gives 404, a path only other methods have 405. A pattern for
  GET also serves HEAD; the literal segment \<^verbatim>\<open>dlq\<close> wins over the wildcard, which matches no empty
  segment. Paths are the cleaned ones the mux serves.
\<close>

definition reading :: "http_request \<Rightarrow> bool" where
  "reading rq \<longleftrightarrow> rq_Method rq = ''GET'' \<or> rq_Method rq = ''HEAD''"

definition not_found :: "('w, api_body http_reply) state" where
  "not_found = ret (ErrorReply 404 ''404 page not found'')"

definition bad_method :: "('w, api_body http_reply) state" where
  "bad_method = ret (ErrorReply 405 ''Method Not Allowed'')"

definition protected_mux :: "('w, 'l) rest_server \<Rightarrow> 'w handler" where
  "protected_mux sv rq =
     (case rq_Path rq of
        [v, x] \<Rightarrow>
          if v = ''v1'' \<and> x = ''jobs'' then
            (if rq_Method rq = ''POST'' then withMetrics sv ''POST /v1/jobs'' (handleCreateJob sv) rq
             else if reading rq then withMetrics sv ''GET /v1/jobs'' (handleListJobs sv) rq
             else bad_method)
          else if v = ''v1'' \<and> x = ''audit'' then
            (if reading rq then withMetrics sv ''GET /v1/audit'' (handleListAudit sv) rq else bad_method)
          else not_found
      | [v, x, i] \<Rightarrow>
          if v = ''v1'' \<and> x = ''jobs'' \<and> i \<noteq> '''' then
            (if reading rq \<and> i = ''dlq'' then withMetrics sv ''GET /v1/jobs/dlq'' (handleListDLQ sv) rq
             else if reading rq then withMetrics sv ''GET /v1/jobs/{id}'' (handleGetJob sv i) rq
             else if rq_Method rq = ''DELETE'' then withMetrics sv ''DELETE /v1/jobs/{id}'' (handleDeleteJob sv i) rq
             else bad_method)
          else not_found
      | _ \<Rightarrow> not_found)"

definition public_mux :: "('w, 'l) rest_server \<Rightarrow> 'w handler" where
  "public_mux sv rq =
     (if \<not> reading rq then bad_method
      else if rq_Path rq = [''v1'', ''capacity''] then withMetrics sv ''GET /v1/capacity'' (handleCapacity sv) rq
      else if rq_Path rq = [''healthz''] then handleHealthz rq
      else if rq_Path rq = [''readyz''] then handleReadyz sv rq
      else do {
        p \<leftarrow> sv_metrics_page sv;
        ret (JsonReply 200 (MetricsPage p))
      })"

definition is_public :: "http_request \<Rightarrow> bool" where
  "is_public rq \<longleftrightarrow> rq_Path rq \<in> {[''v1'', ''capacity''], [''healthz''], [''readyz''], [''metrics'']}"

definition protected :: "('w, 'l) rest_server \<Rightarrow> 'w handler" where
  "protected sv =
     (if sv_JWTSecret sv \<noteq> ''''
      then AuthMiddleware sv (if sv_RateLimited sv then RateLimitMiddleware sv (protected_mux sv) else protected_mux sv)
      else protected_mux sv)"

definition Routes :: "('w, 'l) rest_server \<Rightarrow> 'w handler" where
  "Routes sv rq = (if is_public rq then public_mux sv rq else protected sv rq)"


section \<open>What a team can see\<close>

definition body_for :: "string \<Rightarrow> api_body \<Rightarrow> bool" where
  "body_for team b =
     (case b of
        JobBody r \<Rightarrow> resp_Team r = team
      | JobPage rs next \<Rightarrow> list_all (\<lambda>r. resp_Team r = team) rs
      | _ \<Rightarrow> True)"

lemma run_withMetrics [simp]: "fst (run_state (withMetrics sv route h rq) w) = fst (run_state (h rq) w)"
  by (simp add: withMetrics_def split_beta)

lemma limit_rows_subset: "limit_rows n xs = Inr ys \<Longrightarrow> set ys \<subseteq> set xs"
  by (auto simp: limit_rows_def split: if_splits dest: in_set_takeD)

lemma jobs_page_team:
  assumes "jobs_page_sql lt team after n d = Inr rows" and "team \<noteq> ''''" and "r \<in> set rows"
  shows "r \<in> set (db_jobs d) \<and> jr_Team r = team"
  using assms by (auto simp: jobs_page_sql_def Let_def split: option.splits dest!: limit_rows_subset)

lemma ListJobsPage_team:
  assumes "fst (run_state (ListJobsPage P team after limit) w) = Inr rows" and "team \<noteq> ''''" and "r \<in> set rows"
  shows "jr_Team r = team"
  using assms jobs_page_team
  by (fastforce simp: ListJobsPage_def query_def split_beta split: db_fault.splits sum.splits option.splits)

lemma cut_page_subset: "set (fst (cut_page limit cur recs)) \<subseteq> set recs"
  by (auto simp: cut_page_def Let_def split: if_splits dest: in_set_takeD)

lemma ListJobs_team:
  assumes "fst (run_state (ListJobs S team tok limit) w) = Inr (jobs, next)" and "team \<noteq> ''''" and "j \<in> set jobs"
  shows "sj_Team j = team"
proof -
  let ?cur = "\<lambda>r. \<lparr>cur_CreatedAt = jr_CreatedAt r, cur_ID = jr_ID r\<rparr>"
  from assms(1) obtain after rows where
    rows: "fst (run_state (ListJobsPage (svc_Store S) team after (page_limit limit)) w) = Inr rows"
    and jobs: "jobs = map jobFromRecord (fst (cut_page (page_limit limit) ?cur rows))"
    by (auto simp: ListJobs_def Let_def split_beta split: sum.splits)
  from jobs assms(3) obtain r where "r \<in> set (fst (cut_page (page_limit limit) ?cur rows))" "j = jobFromRecord r"
    by auto
  with cut_page_subset [of "page_limit limit" ?cur rows] ListJobsPage_team [OF rows assms(2)] show ?thesis
    by (auto simp: jobFromRecord_def)
qed

lemma handleGetJob_team:
  assumes "sv_JWTSecret sv \<noteq> ''''" and "rq_Team rq = Some team"
    and "fst (run_state (handleGetJob sv i rq) w) = JsonReply st b"
  shows "body_for team b"
  using assms
  by (auto simp: handleGetJob_def split_beta checkTeamAccess_def body_for_def toJobResponse_def
      split: sum.splits if_splits)

lemma handleListJobs_team:
  assumes "rq_Team rq = Some team" and "team \<noteq> ''''"
    and "fst (run_state (handleListJobs sv rq) w) = JsonReply st b"
  shows "body_for team b"
proof -
  from assms(1,3) obtain jobs nxt where
    "fst (run_state (ListJobs (sv_Jobs sv) team (rq_Query rq ''cursor'') (parseIntQuery rq ''limit'' DefaultPageLimit)) w) =
      Inr (jobs, nxt)" and "b = JobPage (map toJobResponse jobs) nxt"
    by (auto simp: handleListJobs_def Let_def split_beta split: sum.splits if_splits)
  with ListJobs_team [OF _ assms(2)] show ?thesis
    by (fastforce simp: body_for_def list_all_iff toJobResponse_def)
qed

lemma handleDeleteJob_no_json: "fst (run_state (handleDeleteJob sv i rq) w) \<noteq> JsonReply st b"
  by (auto simp: handleDeleteJob_def delete_authorized_def split_beta split: sum.split)

lemma other_bodies:
  "fst (run_state (handleListDLQ sv rq) w) = JsonReply st b \<Longrightarrow> body_for team b"
  "fst (run_state (handleListAudit sv rq) w) = JsonReply st b \<Longrightarrow> body_for team b"
  by (auto simp: handleListDLQ_def handleListAudit_def Let_def split_beta body_for_def
      split: sum.splits if_splits)

lemma protected_mux_team:
  assumes "sv_JWTSecret sv \<noteq> ''''" and "rq_Team rq = Some team" and "team \<noteq> ''''" and "rq_Method rq \<noteq> ''POST''"
    and "fst (run_state (protected_mux sv rq) w) = JsonReply st b"
  shows "body_for team b"
  using assms(4,5)
  by (auto simp: protected_mux_def not_found_def bad_method_def handleDeleteJob_no_json
      intro: handleGetJob_team [OF assms(1,2)] handleListJobs_team [OF assms(2,3)] other_bodies
      split: list.splits if_splits)

lemma rate_limited_team:
  assumes "fst (run_state (RateLimitMiddleware sv next rq) w) = JsonReply st b"
  shows "\<exists>w'. fst (run_state (next rq) w') = JsonReply st b"
  using assms by (auto simp: RateLimitMiddleware_def split_beta split: option.splits if_splits)

lemma authenticate_nonempty: "fst (run_state (authenticate sv rq) w) = Inr team \<Longrightarrow> team \<noteq> ''''"
  by (auto simp: authenticate_def split_beta split: option.splits if_splits sum.splits)

section \<open>Example server\<close>

text \<open>A token is the name of its team; the bucket never runs dry.\<close>

definition example_server :: "(sys, unit) rest_server" where
  "example_server = \<lparr>sv_Jobs = sys_service, sv_JWTSecret = ''s3cret'', sv_RateLimited = True,
     sv_bucket = \<lparr>new_bucket = (), bucket_allow = (\<lambda>t l. (True, l))\<rparr>, sv_limiters = (\<lambda>w. Map.empty),
     sv_set_limiters = (\<lambda>l w. w), sv_clock = ret 0, sv_parse_jwt = (\<lambda>secret token. ret (Inr token)),
     sv_connected = ret True, sv_observe = (\<lambda>m r s. ret ()), sv_metrics_page = ret ''''\<rparr>"

definition example_get :: "string \<Rightarrow> http_request" where
  "example_get team = \<lparr>rq_Method = ''GET'', rq_Path = [''v1'', ''jobs'', ''job-u''],
     rq_Authorization = ''Bearer '' @ team, rq_IdempotencyKey = '''', rq_Query = (\<lambda>k. ''''), rq_Body = None,
     rq_Team = None\<rparr>"

definition example_post :: "string \<Rightarrow> http_request" where
  "example_post team = \<lparr>rq_Method = ''POST'', rq_Path = [''v1'', ''jobs''],
     rq_Authorization = ''Bearer '' @ team, rq_IdempotencyKey = ''k'', rq_Query = (\<lambda>k. ''''),
     rq_Body = Some \<lparr>cr_Team = team, cr_Image = ''x'', cr_Command = [], cr_Args = [],
       cr_AcceleratorType = ''mock-gpu'', cr_AcceleratorCount = 1, cr_Priority = 0\<rparr>,
     rq_Team = None\<rparr>"

lemmas rest_eval = example_server_def example_get_def example_post_def Routes_def is_public_def protected_def
  AuthMiddleware_def authenticate_def cut_prefix_def RateLimitMiddleware_def allow_def protected_mux_def
  reading_def withMetrics_def checkTeamAccess_def

section \<open>Properties\<close>


lemma example_get_runs:
  "fst (run_state (Routes example_server (example_get ''platform'')) example_created) =
     JsonReply 200 (JobBody \<lparr>resp_ID = ''job-u'', resp_Team = ''platform'', resp_Image = ''busybox'',
       resp_AcceleratorType = ''mock-gpu'', resp_AcceleratorCount = 2, resp_Priority = 0,
       resp_Status = ''Pending'', resp_Message = '''', resp_CreatedAt = format_RFC3339 7000\<rparr>)"
  by (simp add: rest_eval handleGetJob_def GetJob_def store_GetJob_def toJobResponse_def example_created_def
      zoom_kube_def sys_eval go_eval Let_def)


text \<open>No token, no service: with authentication on, a request outside the public paths whose token
  is missing, invalid or without a team is answered 401, and nothing but the token check runs.\<close>

lemma unauthenticated_rejected:
  assumes "sv_JWTSecret sv \<noteq> ''''" and "\<not> is_public rq"
    and "fst (run_state (authenticate sv rq) w) = Inl e"
  shows "run_state (Routes sv rq) w =
     (ErrorReply 401 (''invalid or missing token: '' @ error_text e), snd (run_state (authenticate sv rq) w))"
  using assms by (simp add: Routes_def protected_def AuthMiddleware_def split_beta)


definition example_delete :: "string \<Rightarrow> http_request" where
  "example_delete team = (example_get team)\<lparr>rq_Method := ''DELETE''\<rparr>"

definition example_running :: sys where
  "example_running = example_created\<lparr>sys_mem := mem_empty\<lparr>mem_jobs :=
     [\<lparr>job_Meta = meta_of ''default'' ''job-u'', job_Spec = zero_spec, job_Status = zero_status\<rparr>]\<rparr>\<rparr>"



end
