(* ===== verification/Grpc_Api.thy ===== *)
theory Grpc_Api
  imports Rest_Api
begin

text \<open>
  The gRPC API, \<^verbatim>\<open>src/internal/grpcapi/server.go\<close>: the five methods over the job service, and their
  agreement with the REST handlers. The messages are those of the protobuf file; the service has no
  authentication.
\<close>

section \<open>Messages and status codes\<close>

datatype grpc_code = InvalidArgument | NotFound | Internal

text \<open>\<^verbatim>\<open>status.Error(code, text)\<close> or a reply.\<close>

type_synonym ('w, 'a) rpc = "('w, (grpc_code \<times> string) + 'a) state"

record pb_Job =
  pb_Id :: string
  pb_Team :: string
  pb_Image :: string
  pb_AcceleratorType :: string
  pb_AcceleratorCount :: int32
  pb_Priority :: int32
  pb_Status :: string
  pb_Message :: string
  pb_CreatedAt :: string

record CreateJobRequest =
  cjr_Team :: string
  cjr_Image :: string
  cjr_Command :: "string list"
  cjr_Args :: "string list"
  cjr_AcceleratorType :: string
  cjr_AcceleratorCount :: int32
  cjr_Priority :: int32
  cjr_IdempotencyKey :: string

record ListJobsRequest =
  ljr_Team :: string
  ljr_Cursor :: string
  ljr_Limit :: int32

definition toProtoJob :: "Job \<Rightarrow> pb_Job" where
  "toProtoJob j = \<lparr>pb_Id = sj_ID j, pb_Team = sj_Team j, pb_Image = sj_Image j,
     pb_AcceleratorType = sj_AcceleratorType j, pb_AcceleratorCount = sj_AcceleratorCount j,
     pb_Priority = sj_Priority j, pb_Status = sj_Status j, pb_Message = sj_Message j,
     pb_CreatedAt = format_RFC3339 (sj_CreatedAt j)\<rparr>"

section \<open>Methods\<close>

definition grpc_CreateJob :: "'w JobService \<Rightarrow> CreateJobRequest \<Rightarrow> ('w, pb_Job) rpc" where
  "grpc_CreateJob S req = do {
     r \<leftarrow> CreateJob S \<lparr>in_Team = cjr_Team req, in_Image = cjr_Image req, in_Command = cjr_Command req,
            in_Args = cjr_Args req, in_AcceleratorType = cjr_AcceleratorType req,
            in_AcceleratorCount = cjr_AcceleratorCount req, in_Priority = cjr_Priority req,
            in_IdempotencyKey = cjr_IdempotencyKey req\<rparr>;
     ret (case r of
        Inl e \<Rightarrow> if errors_is e ErrValidation then Inl (InvalidArgument, error_text e)
                 else Inl (Internal, error_text e)
      | Inr job \<Rightarrow> Inr (toProtoJob job))
   }"

definition grpc_GetJob :: "'w JobService \<Rightarrow> string \<Rightarrow> ('w, pb_Job) rpc" where
  "grpc_GetJob S i = do {
     r \<leftarrow> GetJob S i;
     ret (case r of
        Inl e \<Rightarrow> if errors_is e ErrNotFound then Inl (NotFound, ''job not found'')
                 else Inl (Internal, error_text e)
      | Inr job \<Rightarrow> Inr (toProtoJob job))
   }"

definition grpc_ListJobs :: "'w JobService \<Rightarrow> ListJobsRequest \<Rightarrow> ('w, pb_Job list \<times> string) rpc" where
  "grpc_ListJobs S req = do {
     r \<leftarrow> ListJobs S (ljr_Team req) (ljr_Cursor req) (scast (ljr_Limit req));
     ret (case r of
        Inl e \<Rightarrow> if errors_is e ErrValidation then Inl (InvalidArgument, error_text e)
                 else Inl (Internal, error_text e)
      | Inr (jobs, next) \<Rightarrow> Inr (map toProtoJob jobs, next))
   }"

definition grpc_DeleteJob :: "'w JobService \<Rightarrow> string \<Rightarrow> ('w, unit) rpc" where
  "grpc_DeleteJob S i = do {
     r \<leftarrow> DeleteJob S i;
     ret (case r of
        Inl e \<Rightarrow> if errors_is e ErrNotFound then Inl (NotFound, ''job not found'')
                 else Inl (Internal, error_text e)
      | Inr _ \<Rightarrow> Inr ())
   }"

definition grpc_GetCapacity :: "'w JobService \<Rightarrow> ('w, int64 \<times> int64) rpc" where
  "grpc_GetCapacity S = do {
     r \<leftarrow> service_Capacity S;
     ret (case r of
        Inl e \<Rightarrow> Inl (Internal, error_text e)
      | Inr c \<Rightarrow> Inr (cap_Total c, cap_Available c))
   }"

section \<open>The same answers over both transports\<close>

text \<open>
  The REST reply that says the same as a gRPC reply: \<open>ok\<close> renders a result and \<open>msg\<close> is the text REST
  puts in place of an internal error's.
\<close>

definition as_rest :: "('a \<Rightarrow> api_body http_reply) \<Rightarrow> string \<Rightarrow> (grpc_code \<times> string) + 'a \<Rightarrow> api_body http_reply" where
  "as_rest ok msg r =
     (case r of
        Inl (InvalidArgument, t) \<Rightarrow> ErrorReply 400 t
      | Inl (NotFound, t) \<Rightarrow> ErrorReply 404 t
      | Inl (Internal, t) \<Rightarrow> ErrorReply 500 msg
      | Inr x \<Rightarrow> ok x)"

definition job_as_rest :: "pb_Job \<Rightarrow> jobResponse" where
  "job_as_rest p = \<lparr>resp_ID = pb_Id p, resp_Team = pb_Team p, resp_Image = pb_Image p,
     resp_AcceleratorType = pb_AcceleratorType p, resp_AcceleratorCount = pb_AcceleratorCount p,
     resp_Priority = pb_Priority p, resp_Status = pb_Status p, resp_Message = pb_Message p,
     resp_CreatedAt = pb_CreatedAt p\<rparr>"

text \<open>The gRPC request with the content of a REST creation.\<close>

definition create_as_grpc :: "http_request \<Rightarrow> createJobRequest \<Rightarrow> CreateJobRequest" where
  "create_as_grpc rq b = \<lparr>cjr_Team = cr_Team b, cjr_Image = cr_Image b, cjr_Command = cr_Command b,
     cjr_Args = cr_Args b, cjr_AcceleratorType = cr_AcceleratorType b, cjr_AcceleratorCount = cr_AcceleratorCount b,
     cjr_Priority = cr_Priority b, cjr_IdempotencyKey = rq_IdempotencyKey rq\<rparr>"

lemma job_as_rest_proto [simp]: "job_as_rest (toProtoJob j) = toJobResponse j"
  by (simp add: job_as_rest_def toProtoJob_def toJobResponse_def)

lemma create_agrees:
  assumes "rq_Body rq = Some b" and "checkTeamAccess sv rq (cr_Team b)"
  shows "run_state (handleCreateJob sv rq) w =
     map_prod (as_rest (\<lambda>p. JsonReply 201 (JobBody (job_as_rest p))) ''failed to create job'') id
       (run_state (grpc_CreateJob (sv_Jobs sv) (create_as_grpc rq b)) w)"
  using assms
  by (auto simp: handleCreateJob_def grpc_CreateJob_def create_as_grpc_def as_rest_def split_beta split: sum.split)

lemma get_agrees:
  assumes "sv_JWTSecret sv = ''''"
  shows "run_state (handleGetJob sv i rq) w =
     map_prod (as_rest (\<lambda>p. JsonReply 200 (JobBody (job_as_rest p))) ''failed to load job'') id
       (run_state (grpc_GetJob (sv_Jobs sv) i) w)"
  using assms
  by (auto simp: handleGetJob_def grpc_GetJob_def checkTeamAccess_def as_rest_def split_beta split: sum.split)

lemma list_agrees:
  assumes "parseIntQuery rq ''limit'' DefaultPageLimit = scast (ljr_Limit req)" and "ljr_Cursor req = rq_Query rq ''cursor''"
    and "ljr_Team req = (case rq_Team rq of None \<Rightarrow> '''' | Some t \<Rightarrow> t)"
  shows "run_state (handleListJobs sv rq) w =
     map_prod (as_rest (\<lambda>(ps, next). JsonReply 200 (JobPage (map job_as_rest ps) next)) ''failed to list jobs'') id
       (run_state (grpc_ListJobs (sv_Jobs sv) req) w)"
  using assms
  by (auto simp: handleListJobs_def grpc_ListJobs_def Let_def as_rest_def split_beta split: sum.split)

lemma delete_agrees:
  assumes "sv_JWTSecret sv = ''''"
  shows "run_state (handleDeleteJob sv i rq) w =
     map_prod (as_rest (\<lambda>_. EmptyReply 204) ''failed to delete job'') id (run_state (grpc_DeleteJob (sv_Jobs sv) i) w)"
  using assms
  by (auto simp: handleDeleteJob_def delete_authorized_def grpc_DeleteJob_def as_rest_def split_beta split: sum.split)

lemma capacity_agrees:
  "run_state (handleCapacity sv rq) w =
     map_prod (as_rest (\<lambda>(t, a). JsonReply 200 (CapacityBody t a)) ''failed to compute capacity'') id
       (run_state (grpc_GetCapacity (sv_Jobs sv)) w)"
  by (auto simp: handleCapacity_def grpc_GetCapacity_def as_rest_def split_beta split: sum.split)

section \<open>Properties\<close>

text \<open>Property C19. REST and gRPC never diverge: with authentication off, each REST handler has the same effect as
  the gRPC method on a request of the same content, and answers the same thing (201 or 200 with the
  same job, page or capacity, 204 for a deletion, 400 for InvalidArgument, 404 for NotFound, 500 for
  Internal), whatever the database, the queue and the cluster do.\<close>

theorem rest_and_grpc_agree:
  assumes "sv_JWTSecret sv = ''''" and "rq_Team rq = None" and "rq_Body rq = Some b"
    and "rq_Query rq ''limit'' = show_int (sint lim)"
  shows "run_state (handleCreateJob sv rq) w =
      map_prod (as_rest (\<lambda>p. JsonReply 201 (JobBody (job_as_rest p))) ''failed to create job'') id
        (run_state (grpc_CreateJob (sv_Jobs sv) (create_as_grpc rq b)) w) \<and>
    run_state (handleGetJob sv i rq) w =
      map_prod (as_rest (\<lambda>p. JsonReply 200 (JobBody (job_as_rest p))) ''failed to load job'') id
        (run_state (grpc_GetJob (sv_Jobs sv) i) w) \<and>
    run_state (handleListJobs sv rq) w =
      map_prod (as_rest (\<lambda>(ps, next). JsonReply 200 (JobPage (map job_as_rest ps) next)) ''failed to list jobs'') id
        (run_state (grpc_ListJobs (sv_Jobs sv) \<lparr>ljr_Team = '''', ljr_Cursor = rq_Query rq ''cursor'', ljr_Limit = lim\<rparr>) w) \<and>
    run_state (handleDeleteJob sv i rq) w =
      map_prod (as_rest (\<lambda>_. EmptyReply 204) ''failed to delete job'') id (run_state (grpc_DeleteJob (sv_Jobs sv) i) w) \<and>
    run_state (handleCapacity sv rq) w =
      map_prod (as_rest (\<lambda>(t, a). JsonReply 200 (CapacityBody t a)) ''failed to compute capacity'') id
        (run_state (grpc_GetCapacity (sv_Jobs sv)) w)"
proof -
  have "show_int (sint lim) \<noteq> ''''" by (simp add: show_int_def)
  moreover have "- (2 ^ 63) \<le> sint lim" "sint lim < 2 ^ 63" using sint32_range [of lim] by auto
  ultimately have limit: "parseIntQuery rq ''limit'' DefaultPageLimit = scast lim"
    using assms(4) by (simp add: parseIntQuery_def Let_def atoi_show_int)
  have "checkTeamAccess sv rq (cr_Team b)" using assms(1) by (simp add: checkTeamAccess_def)
  then show ?thesis
    by (intro conjI create_agrees [OF assms(3)] get_agrees [OF assms(1)] list_agrees delete_agrees [OF assms(1)]
        capacity_agrees) (simp_all add: limit assms(2))
qed

definition open_server :: "(sys, unit) rest_server" where
  "open_server = example_server\<lparr>sv_JWTSecret := ''''\<rparr>"

theorem rest_and_grpc_agree_witness:
  "let rq = (example_post ''platform'')\<lparr>rq_Query := (\<lambda>k. if k = ''limit'' then show_int 5 else '''')\<rparr>
   in fst (run_state (handleGetJob open_server ''job-u'' rq) example_created) =
      as_rest (\<lambda>p. JsonReply 200 (JobBody (job_as_rest p))) ''failed to load job''
        (fst (run_state (grpc_GetJob sys_service ''job-u'') example_created))"
proof -
  let ?rq = "(example_post ''platform'')\<lparr>rq_Query := (\<lambda>k. if k = ''limit'' then show_int 5 else '''')\<rparr>"
  have "sv_JWTSecret open_server = ''''" "rq_Team ?rq = None" "\<exists>b. rq_Body ?rq = Some b"
    "rq_Query ?rq ''limit'' = show_int (sint (5 :: int32))" "sv_Jobs open_server = sys_service"
    by (simp_all add: open_server_def example_server_def example_post_def)
  with rest_and_grpc_agree [of open_server ?rq _ 5 example_created "''job-u''"] show ?thesis by fastforce
qed

end
