(* ===== verification/Dead_Letters.thy ===== *)
theory Dead_Letters
  imports Rest_Api
begin

text \<open>
  Dead letters from end to end: what the consumer gives up on after the last delivery
  (\<^verbatim>\<open>ConsumeFairShare\<close>, \<^verbatim>\<open>PublishDLQ\<close> in \<^verbatim>\<open>src/internal/queue/queue.go\<close>) is what
  \<^verbatim>\<open>GET /v1/jobs/dlq\<close> shows (\<^verbatim>\<open>PeekDLQ\<close>, \<^verbatim>\<open>ListDLQ\<close>, \<^verbatim>\<open>handleListDLQ\<close>), decoded or as the raw text.
\<close>

section \<open>The dead-letter subject\<close>

text \<open>
  \<open>dlq w\<close> is what the dead-letter subject of the stream holds. A publish that is confirmed appends the
  body; one that fails may have reached the stream or not. Settling a delivery leaves the subject
  alone. A peek on a healthy connection returns the oldest entries, up to the limit.
\<close>

locale dead_letters =
  fixes J :: "'w jetstream" and dlq :: "'w \<Rightarrow> payload list"
  assumes publish_dlq: "fst (run_state (js_publish J DLQSubj p i) w) = Inr u \<Longrightarrow>
      dlq (snd (run_state (js_publish J DLQSubj p i) w)) = dlq w @ [p]"
    and publish_unconfirmed: "fst (run_state (js_publish J DLQSubj p i) w) = Inl e \<Longrightarrow>
      dlq (snd (run_state (js_publish J DLQSubj p i) w)) \<in> {dlq w, dlq w @ [p]}"
    and ack_dlq: "dlq (snd (run_state (js_ack J m) w)) = dlq w"
    and nak_dlq: "dlq (snd (run_state (js_nak J m) w)) = dlq w"
    and term_dlq: "dlq (snd (run_state (js_term J m) w)) = dlq w"
    and peek_consumer_dlq: "dlq (snd (run_state (js_peek_consumer J) w)) = dlq w"
    and peek_fetch_dlq: "fst (run_state (js_peek_fetch J n) w) = Inr ms \<Longrightarrow>
      map msg_Data ms = take (nat (sint n)) (dlq w)"
begin

lemma process_keeps_dead_letters:
  assumes "\<And>p w. dlq (snd (run_state (h p) w)) = dlq w"
    and "run_state (process_msg (js_spy J) maxDeliver (handler_spy h) m) (w, l) = (u, w', l')"
  shows "set (dlq w) \<subseteq> set (dlq w') \<and>
     (\<forall>m'. Terminated m' \<in> set l' \<longrightarrow> Terminated m' \<in> set l \<or> msg_Data m' \<in> set (dlq w'))"
proof -
  let ?h = "run_state (h (msg_Data m)) w"
  let ?p = "run_state (js_publish J DLQSubj (msg_Data m) None) (snd ?h)"
  have pub: "set (dlq w) \<subseteq> set (dlq (snd ?p))" "fst ?p = Inr x \<Longrightarrow> msg_Data m \<in> set (dlq (snd ?p))" for x
    using publish_dlq [of "msg_Data m" None "snd ?h"] publish_unconfirmed [of "msg_Data m" None "snd ?h"] assms(1)
    by (cases "fst ?p"; auto)+
  from assms(2) show ?thesis
    by (auto simp: process_msg_def PublishDLQ_def js_spy_def handler_spy_def split_beta ack_dlq nak_dlq term_dlq
        assms(1) pub subset_iff split: sum.splits if_splits dest: subsetD [OF pub(1)])
qed

lemma process_all_keeps_dead_letters:
  assumes "\<And>p w. dlq (snd (run_state (h p) w)) = dlq w"
    and "run_state (process_all (js_spy J) maxDeliver (handler_spy h) ms) (w, l) = (u, w', l')"
    and "\<forall>m. Terminated m \<in> set l \<longrightarrow> msg_Data m \<in> set (dlq w)"
  shows "\<forall>m. Terminated m \<in> set l' \<longrightarrow> msg_Data m \<in> set (dlq w')"
  using assms(2,3)
proof (induction ms arbitrary: w l)
  case Nil
  then show ?case by simp
next
  case (Cons m ms)
  obtain u1 w1 l1 where r: "run_state (process_msg (js_spy J) maxDeliver (handler_spy h) m) (w, l) = (u1, w1, l1)"
    by (metis prod_cases3)
  from process_keeps_dead_letters [OF assms(1) r] Cons.prems(2)
  have "\<forall>m. Terminated m \<in> set l1 \<longrightarrow> msg_Data m \<in> set (dlq w1)" by blast
  with Cons.IH [of w1 l1] Cons.prems(1) r show ?case by simp
qed

end

text \<open>What an entry of the listing says of the payload.\<close>

definition entry_payload :: "DLQEntry \<Rightarrow> payload" where
  "entry_payload en = (case dlq_Submission en of Some sub \<Rightarrow> Encoded sub | None \<Rightarrow> Undecodable (dlq_Raw en))"

lemma parse_entries_recover: "map entry_payload (parseDLQEntries ps) = ps"
proof (induction ps)
  case (Cons p ps)
  then show ?case by (cases p) (simp_all add: entry_payload_def)
qed simp

context dead_letters
begin

lemma listing_recovers:
  assumes "svc_Queue (sv_Jobs sv) = J"
    and "run_state (handleListDLQ sv rq) w = (JsonReply c (DLQBody entries), w')"
  shows "c = 200 \<and> map entry_payload entries = take 100 (dlq w)"
proof -
  let ?c = "snd (run_state (js_peek_consumer J) w)"
  from assms obtain ms where ms: "fst (run_state (js_peek_fetch J 100) ?c) = Inr ms"
    and "entries = parseDLQEntries (map msg_Data ms)" and "c = 200"
    by (auto simp: handleListDLQ_def ListDLQ_def PeekDLQ_def split_beta split: sum.splits)
  with peek_fetch_dlq [OF ms] show ?thesis by (simp add: parse_entries_recover peek_consumer_dlq)
qed

end

interpretation sysd: dead_letters sys_jetstream "\<lambda>s. map snd (filter (\<lambda>(subj, p). subj = DLQSubj) (sys_stream s))"
  by unfold_locales
    (auto simp: sys_jetstream_def sys_publish_def quiet_jetstream_def take_map comp_def split_beta split: list.splits bool.splits)

section \<open>The property\<close>


definition poison :: msg where
  "poison = \<lparr>msg_Seq = 7, msg_Data = Undecodable ''not json'', msg_NumDelivered = Some 5\<rparr>"

definition sys_handler :: "payload \<Rightarrow> (sys, unit) eff" where
  "sys_handler = SubmissionHandler (zoom_kube sys_mem sys_put_mem mem_kube) ''default''"

lemma sys_handler_stream: "sys_stream (snd (run_state (sys_handler p) w)) = sys_stream w"
  by (cases p) (simp_all add: sys_handler_def SubmissionHandler_def split_beta zoom_kube_def zoom_def sys_put_mem_def)

definition poisoned_sys :: sys where
  "poisoned_sys = example_sys\<lparr>sys_stream := [(DLQSubj, Undecodable ''not json'')]\<rparr>"


end
