(* ===== verification/Inference_Controller.thy ===== *)
theory Inference_Controller
  imports Job_Controller Mem_Cluster
begin

text \<open>
  The InferenceService reconciler, \<^verbatim>\<open>src/internal/controller/inferenceservice_controller.go\<close>: a
  Deployment and a Service per InferenceService, and the status copied back from the Deployment.
  The API client and \<^verbatim>\<open>controllerutil\<close> are the parameter \<open>C\<close>. The reconciler refines the abstract
  \<open>inference_spec\<close>; a failed reconcile leaves the cluster at an intermediate stage from which a
  repetition still reaches the specified state.
\<close>

section \<open>Objects\<close>

definition defaultInferenceImage :: string where
  "defaultInferenceImage = ''metalgrid/mockinference:dev''"

definition inferencePort :: int32 where
  "inferencePort = 8000"

definition InferenceServicePending :: string where
  "InferenceServicePending = ''Pending''"

definition InferenceServiceReady :: string where
  "InferenceServiceReady = ''Ready''"

text \<open>
  The parts of \<^verbatim>\<open>appsv1.Deployment\<close> and \<^verbatim>\<open>corev1.Service\<close> the code sets or reads; of their metadata, the
  name, the namespace and the controlling owner (kind and name).
\<close>

record deployment =
  dep_Name :: string
  dep_Namespace :: string
  dep_Controller :: "(string \<times> string) option"
  dep_Replicas :: "int32 option"
  dep_Selector :: "labels option"
  dep_TemplateLabels :: labels
  dep_Containers :: "container list"
  dep_ReadyReplicas :: int32

record service_port =
  sp_Port :: int32
  sp_TargetPort :: int32

record k8s_service =
  ksvc_Name :: string
  ksvc_Namespace :: string
  ksvc_Controller :: "(string \<times> string) option"
  ksvc_Selector :: labels
  ksvc_Ports :: "service_port list"

abbreviation svc_key :: "InferenceService \<Rightarrow> string \<times> string" where
  "svc_key s \<equiv> (om_Namespace (is_Meta s), om_Name (is_Meta s))"

abbreviation dep_key :: "deployment \<Rightarrow> string \<times> string" where
  "dep_key d \<equiv> (dep_Namespace d, dep_Name d)"

abbreviation ksvc_key :: "k8s_service \<Rightarrow> string \<times> string" where
  "ksvc_key d \<equiv> (ksvc_Namespace d, ksvc_Name d)"

text \<open>
  The client. \<open>ic_create_or_update_dep d f\<close> and \<open>ic_create_or_update_ksvc d f\<close> are
  \<^verbatim>\<open>controllerutil.CreateOrUpdate\<close> of the object \<open>d\<close> with the mutate function \<open>f\<close>;
  \<open>ic_set_controller owner c\<close> is \<^verbatim>\<open>controllerutil.SetControllerReference\<close> on an object whose
  controller is \<open>c\<close>.
\<close>

record 'w inference_client =
  ic_get_svc :: "string \<Rightarrow> string \<Rightarrow> ('w, InferenceService) eff"
  ic_update_status :: "InferenceService \<Rightarrow> ('w, unit) eff"
  ic_get_dep :: "string \<Rightarrow> string \<Rightarrow> ('w, deployment) eff"
  ic_create_or_update_dep :: "deployment \<Rightarrow> (deployment \<Rightarrow> go_error + deployment) \<Rightarrow> ('w, unit) eff"
  ic_create_or_update_ksvc :: "k8s_service \<Rightarrow> (k8s_service \<Rightarrow> go_error + k8s_service) \<Rightarrow> ('w, unit) eff"
  ic_set_controller :: "InferenceService \<Rightarrow> (string \<times> string) option \<Rightarrow> go_error + (string \<times> string) option"

section \<open>The reconciler\<close>

definition inferenceLabels :: "InferenceService \<Rightarrow> labels" where
  "inferenceLabels svc = [''metalgrid.dev/inference-service'' \<mapsto> om_Name (is_Meta svc)]"

definition inference_container :: "InferenceService \<Rightarrow> string \<Rightarrow> container" where
  "inference_container svc img = \<lparr>c_Name = ''inference'', c_Image = img, c_Command = [], c_Args = [],
     c_Env = [(''MODEL'', is_Model svc)], c_Resources = \<lparr>rr_Requests = Map.empty, rr_Limits = Map.empty\<rparr>,
     c_VolumeMounts = [], c_Ports = [inferencePort]\<rparr>"

text \<open>The Deployment and the Service literals before the mutate function runs.\<close>

definition bare_deployment :: "InferenceService \<Rightarrow> deployment" where
  "bare_deployment svc = \<lparr>dep_Name = om_Name (is_Meta svc), dep_Namespace = om_Namespace (is_Meta svc),
     dep_Controller = None, dep_Replicas = None, dep_Selector = None, dep_TemplateLabels = Map.empty,
     dep_Containers = [], dep_ReadyReplicas = 0\<rparr>"

definition bare_service :: "InferenceService \<Rightarrow> k8s_service" where
  "bare_service svc = \<lparr>ksvc_Name = om_Name (is_Meta svc), ksvc_Namespace = om_Namespace (is_Meta svc),
     ksvc_Controller = None, ksvc_Selector = Map.empty, ksvc_Ports = []\<rparr>"

definition mutate_deployment ::
  "'w inference_client \<Rightarrow> InferenceService \<Rightarrow> int32 \<Rightarrow> string \<Rightarrow> deployment \<Rightarrow> go_error + deployment" where
  "mutate_deployment C svc replicas img dep =
     (let dep' = dep\<lparr>dep_Replicas := Some replicas, dep_Selector := Some (inferenceLabels svc),
            dep_TemplateLabels := inferenceLabels svc, dep_Containers := [inference_container svc img]\<rparr>
      in case ic_set_controller C svc (dep_Controller dep') of
           Inl e \<Rightarrow> Inl e
         | Inr c \<Rightarrow> Inr (dep'\<lparr>dep_Controller := c\<rparr>))"

definition ensureDeployment :: "'w inference_client \<Rightarrow> InferenceService \<Rightarrow> ('w, unit) eff" where
  "ensureDeployment C svc =
     (let replicas = (if sint (is_Replicas svc) < 1 then 1 else is_Replicas svc);
          img = (if is_Image svc = '''' then defaultInferenceImage else is_Image svc)
      in ic_create_or_update_dep C (bare_deployment svc) (mutate_deployment C svc replicas img))"

definition mutate_service ::
  "'w inference_client \<Rightarrow> InferenceService \<Rightarrow> k8s_service \<Rightarrow> go_error + k8s_service" where
  "mutate_service C svc k =
     (let k' = k\<lparr>ksvc_Selector := inferenceLabels svc,
            ksvc_Ports := [\<lparr>sp_Port = inferencePort, sp_TargetPort = inferencePort\<rparr>]\<rparr>
      in case ic_set_controller C svc (ksvc_Controller k') of
           Inl e \<Rightarrow> Inl e
         | Inr c \<Rightarrow> Inr (k'\<lparr>ksvc_Controller := c\<rparr>))"

definition ensureService :: "'w inference_client \<Rightarrow> InferenceService \<Rightarrow> ('w, unit) eff" where
  "ensureService C svc = ic_create_or_update_ksvc C (bare_service svc) (mutate_service C svc)"

definition inference_endpoint :: "InferenceService \<Rightarrow> string" where
  "inference_endpoint svc = om_Name (is_Meta svc) @ ''.'' @ om_Namespace (is_Meta svc) @
     ''.svc.cluster.local:'' @ show_int (sint inferencePort)"

definition inference_syncStatus :: "'w inference_client \<Rightarrow> InferenceService \<Rightarrow> ('w, unit) eff" where
  "inference_syncStatus C svc = do {
     r \<leftarrow> ic_get_dep C (om_Namespace (is_Meta svc)) (om_Name (is_Meta svc));
     (case r of
        Inl e \<Rightarrow> ret (if IsNotFound e then Inr () else Inl e)
      | Inr dep \<Rightarrow>
          (let phase = (if 0 < sint (dep_ReadyReplicas dep) then InferenceServiceReady else InferenceServicePending);
               endpoint = inference_endpoint svc
           in if is_Phase svc = phase \<and> is_Endpoint svc = endpoint \<and> is_ReadyReplicas svc = dep_ReadyReplicas dep
              then ret (Inr ())
              else ic_update_status C (svc\<lparr>is_Phase := phase, is_Endpoint := endpoint,
                     is_ReadyReplicas := dep_ReadyReplicas dep\<rparr>)))
   }"

definition inference_Reconcile :: "'w inference_client \<Rightarrow> string \<Rightarrow> string \<Rightarrow> ('w, ctrl_Result) eff" where
  "inference_Reconcile C ns n = do {
     g \<leftarrow> ic_get_svc C ns n;
     (case g of
        Inl e \<Rightarrow> ret (if IsNotFound e then Inr ctrl_done else Inl e)
      | Inr svc \<Rightarrow>
          if \<not> time_is_zero (om_DeletionTimestamp (is_Meta svc)) then ret (Inr ctrl_done)
          else do {
            d \<leftarrow> ensureDeployment C svc;
            (case d of
               Inl e \<Rightarrow> ret (Inl (errorf ''ensuring deployment'' e))
             | Inr _ \<Rightarrow> do {
                 s \<leftarrow> ensureService C svc;
                 (case s of
                    Inl e \<Rightarrow> ret (Inl (errorf ''ensuring service'' e))
                  | Inr _ \<Rightarrow> do {
                      r \<leftarrow> inference_syncStatus C svc;
                      ret (done_or r)
                    })
               })
          })
   }"

section \<open>The specification\<close>

record inference_view =
  iv_svcs :: "string \<times> string \<rightharpoonup> InferenceService"
  iv_deps :: "string \<times> string \<rightharpoonup> deployment"
  iv_ksvcs :: "string \<times> string \<rightharpoonup> k8s_service"

text \<open>What an InferenceService asks for, given what is there already.\<close>

definition owner_of :: "InferenceService \<Rightarrow> (string \<times> string) option" where
  "owner_of svc = Some (''InferenceService'', om_Name (is_Meta svc))"

definition desired_deployment :: "InferenceService \<Rightarrow> deployment option \<Rightarrow> deployment" where
  "desired_deployment svc old = \<lparr>dep_Name = om_Name (is_Meta svc), dep_Namespace = om_Namespace (is_Meta svc),
     dep_Controller = owner_of svc,
     dep_Replicas = Some (if sint (is_Replicas svc) < 1 then 1 else is_Replicas svc),
     dep_Selector = Some (inferenceLabels svc), dep_TemplateLabels = inferenceLabels svc,
     dep_Containers = [inference_container svc (if is_Image svc = '''' then defaultInferenceImage else is_Image svc)],
     dep_ReadyReplicas = (case old of None \<Rightarrow> 0 | Some d \<Rightarrow> dep_ReadyReplicas d)\<rparr>"

definition desired_service :: "InferenceService \<Rightarrow> k8s_service" where
  "desired_service svc = \<lparr>ksvc_Name = om_Name (is_Meta svc), ksvc_Namespace = om_Namespace (is_Meta svc),
     ksvc_Controller = owner_of svc, ksvc_Selector = inferenceLabels svc,
     ksvc_Ports = [\<lparr>sp_Port = inferencePort, sp_TargetPort = inferencePort\<rparr>]\<rparr>"

definition observed_status :: "InferenceService \<Rightarrow> deployment \<Rightarrow> InferenceService" where
  "observed_status svc dep = svc\<lparr>
     is_Phase := (if 0 < sint (dep_ReadyReplicas dep) then InferenceServiceReady else InferenceServicePending),
     is_Endpoint := inference_endpoint svc, is_ReadyReplicas := dep_ReadyReplicas dep\<rparr>"

text \<open>The three writes as stages, and the specification that applies them all.\<close>

definition stage_dep :: "InferenceService \<Rightarrow> inference_view \<Rightarrow> inference_view" where
  "stage_dep svc v = v\<lparr>iv_deps := (iv_deps v)(svc_key svc \<mapsto> desired_deployment svc (iv_deps v (svc_key svc)))\<rparr>"

definition stage_ksvc :: "InferenceService \<Rightarrow> inference_view \<Rightarrow> inference_view" where
  "stage_ksvc svc v = v\<lparr>iv_ksvcs := (iv_ksvcs v)(svc_key svc \<mapsto> desired_service svc)\<rparr>"

definition stage_status :: "InferenceService \<Rightarrow> inference_view \<Rightarrow> inference_view" where
  "stage_status svc v = v\<lparr>iv_svcs := (iv_svcs v)(svc_key svc \<mapsto>
     observed_status svc (desired_deployment svc (iv_deps v (svc_key svc))))\<rparr>"

definition inference_spec :: "string \<Rightarrow> string \<Rightarrow> inference_view \<Rightarrow> inference_view" where
  "inference_spec ns n v =
     (case iv_svcs v (ns, n) of
        None \<Rightarrow> v
      | Some svc \<Rightarrow>
          if \<not> time_is_zero (om_DeletionTimestamp (is_Meta svc)) then v
          else stage_status svc (stage_ksvc svc (stage_dep svc v)))"


section \<open>What the reconciler relies on\<close>

text \<open>
  Reads return what is stored and change nothing (an uncached client; with a cache, a stale read
  is corrected by the reconcile the watch triggers). \<^verbatim>\<open>CreateOrUpdate\<close> applies the mutate function to the
  stored object, or to the given one when there is none, and stores the result; a failure stores
  nothing. \<^verbatim>\<open>Status().Update\<close> writes the status fields only. \<^verbatim>\<open>SetControllerReference\<close> records the owner
  or refuses.
\<close>

definition with_status :: "InferenceService \<Rightarrow> InferenceService \<Rightarrow> InferenceService" where
  "with_status s old = old\<lparr>is_Phase := is_Phase s, is_Endpoint := is_Endpoint s, is_ReadyReplicas := is_ReadyReplicas s\<rparr>"

lemma observed_status_fixed:
  "observed_status svc dep = svc \<longleftrightarrow>
     is_Phase svc = (if 0 < sint (dep_ReadyReplicas dep) then InferenceServiceReady else InferenceServicePending) \<and>
     is_Endpoint svc = inference_endpoint svc \<and> is_ReadyReplicas svc = dep_ReadyReplicas dep"
  by (cases svc) (auto simp: observed_status_def)

locale inference_contract =
  fixes C :: "'w inference_client"
    and view :: "'w \<Rightarrow> inference_view"
  assumes get_svc_view: "view (snd (run_state (ic_get_svc C ns n) w)) = view w"
    and get_svc_stored: "fst (run_state (ic_get_svc C ns n) w) = Inr s \<Longrightarrow> iv_svcs (view w) (ns, n) = Some s"
    and get_svc_missing:
      "fst (run_state (ic_get_svc C ns n) w) = Inl e \<Longrightarrow> IsNotFound e \<Longrightarrow> iv_svcs (view w) (ns, n) = None"
    and svcs_keyed: "iv_svcs (view w) key = Some s \<Longrightarrow> svc_key s = key"
    and deps_keyed: "iv_deps (view w) key = Some d \<Longrightarrow> dep_key d = key"
    and ksvcs_keyed: "iv_ksvcs (view w) key = Some k \<Longrightarrow> ksvc_key k = key"
    and get_dep_view: "view (snd (run_state (ic_get_dep C ns n) w)) = view w"
    and get_dep_stored: "fst (run_state (ic_get_dep C ns n) w) = Inr d \<Longrightarrow> iv_deps (view w) (ns, n) = Some d"
    and get_dep_missing:
      "fst (run_state (ic_get_dep C ns n) w) = Inl e \<Longrightarrow> IsNotFound e \<Longrightarrow> iv_deps (view w) (ns, n) = None"
    and cou_dep_fails:
      "fst (run_state (ic_create_or_update_dep C d f) w) = Inl e \<Longrightarrow>
         view (snd (run_state (ic_create_or_update_dep C d f) w)) = view w"
    and cou_dep_ok:
      "fst (run_state (ic_create_or_update_dep C d f) w) = Inr u \<Longrightarrow>
         \<exists>d'. f (case iv_deps (view w) (dep_key d) of None \<Rightarrow> d | Some old \<Rightarrow> old) = Inr d' \<and>
              view (snd (run_state (ic_create_or_update_dep C d f) w)) =
                (view w)\<lparr>iv_deps := (iv_deps (view w))(dep_key d \<mapsto> d')\<rparr>"
    and cou_ksvc_fails:
      "fst (run_state (ic_create_or_update_ksvc C k g) w) = Inl e \<Longrightarrow>
         view (snd (run_state (ic_create_or_update_ksvc C k g) w)) = view w"
    and cou_ksvc_ok:
      "fst (run_state (ic_create_or_update_ksvc C k g) w) = Inr u \<Longrightarrow>
         \<exists>k'. g (case iv_ksvcs (view w) (ksvc_key k) of None \<Rightarrow> k | Some old \<Rightarrow> old) = Inr k' \<and>
              view (snd (run_state (ic_create_or_update_ksvc C k g) w)) =
                (view w)\<lparr>iv_ksvcs := (iv_ksvcs (view w))(ksvc_key k \<mapsto> k')\<rparr>"
    and set_controller: "ic_set_controller C s c = Inr c' \<Longrightarrow> c' = owner_of s"
    and status_fails:
      "fst (run_state (ic_update_status C s) w) = Inl e \<Longrightarrow>
         view (snd (run_state (ic_update_status C s) w)) = view w"
    and status_ok_view:
      "fst (run_state (ic_update_status C s) w) = Inr u \<Longrightarrow>
         \<exists>old. iv_svcs (view w) (svc_key s) = Some old \<and>
           view (snd (run_state (ic_update_status C s) w)) =
             (view w)\<lparr>iv_svcs := (iv_svcs (view w))(svc_key s \<mapsto> with_status s old)\<rparr>"
begin

lemma ensureDeployment_stage:
  "view (snd (run_state (ensureDeployment C svc) w)) =
     (case fst (run_state (ensureDeployment C svc) w) of Inl e \<Rightarrow> view w | Inr _ \<Rightarrow> stage_dep svc (view w))"
proof (cases "fst (run_state (ensureDeployment C svc) w)")
  case (Inl e)
  then show ?thesis by (simp add: ensureDeployment_def Let_def cou_dep_fails)
next
  case (Inr u)
  let ?old = "case iv_deps (view w) (svc_key svc) of None \<Rightarrow> bare_deployment svc | Some old \<Rightarrow> old"
  have keyed: "dep_key ?old = svc_key svc"
    using deps_keyed by (auto simp: bare_deployment_def split: option.split)
  from Inr cou_dep_ok [of "bare_deployment svc" _ w u] obtain d' where
    "mutate_deployment C svc (if sint (is_Replicas svc) < 1 then 1 else is_Replicas svc)
       (if is_Image svc = '''' then defaultInferenceImage else is_Image svc) ?old = Inr d'"
    and "view (snd (run_state (ensureDeployment C svc) w)) = (view w)\<lparr>iv_deps := (iv_deps (view w))(svc_key svc \<mapsto> d')\<rparr>"
    by (force simp: ensureDeployment_def Let_def bare_deployment_def)
  moreover from this(1) keyed have "d' = desired_deployment svc (iv_deps (view w) (svc_key svc))"
    by (auto simp: mutate_deployment_def Let_def desired_deployment_def bare_deployment_def
        dest!: set_controller split: sum.splits option.splits)
  ultimately show ?thesis using Inr by (simp add: stage_dep_def)
qed

lemma ensureService_stage:
  "view (snd (run_state (ensureService C svc) w)) =
     (case fst (run_state (ensureService C svc) w) of Inl e \<Rightarrow> view w | Inr _ \<Rightarrow> stage_ksvc svc (view w))"
proof (cases "fst (run_state (ensureService C svc) w)")
  case (Inl e)
  then show ?thesis by (simp add: ensureService_def cou_ksvc_fails)
next
  case (Inr u)
  let ?old = "case iv_ksvcs (view w) (svc_key svc) of None \<Rightarrow> bare_service svc | Some old \<Rightarrow> old"
  have keyed: "ksvc_key ?old = svc_key svc"
    using ksvcs_keyed by (auto simp: bare_service_def split: option.split)
  from Inr cou_ksvc_ok [of "bare_service svc" _ w u] obtain k' where
    "mutate_service C svc ?old = Inr k'"
    and "view (snd (run_state (ensureService C svc) w)) = (view w)\<lparr>iv_ksvcs := (iv_ksvcs (view w))(svc_key svc \<mapsto> k')\<rparr>"
    by (force simp: ensureService_def bare_service_def)
  moreover from this(1) keyed have "k' = desired_service svc"
    by (auto simp: mutate_service_def Let_def desired_service_def bare_service_def
        dest!: set_controller split: sum.splits option.splits)
  ultimately show ?thesis using Inr by (simp add: stage_ksvc_def)
qed

lemma syncStatus_stage:
  assumes svc: "iv_svcs (view w) (svc_key svc) = Some svc"
    and dep: "iv_deps (view w) (svc_key svc) = Some (desired_deployment svc old)"
  shows "view (snd (run_state (inference_syncStatus C svc) w)) =
     (case fst (run_state (inference_syncStatus C svc) w) of
        Inl e \<Rightarrow> view w | Inr _ \<Rightarrow> stage_status svc (view w))"
proof (cases "fst (run_state (ic_get_dep C (om_Namespace (is_Meta svc)) (om_Name (is_Meta svc))) w)")
  case (Inl e)
  with dep get_dep_missing have "\<not> IsNotFound e" by fastforce
  with Inl show ?thesis by (simp add: inference_syncStatus_def split_beta get_dep_view)
next
  case (Inr d)
  let ?w = "snd (run_state (ic_get_dep C (om_Namespace (is_Meta svc)) (om_Name (is_Meta svc))) w)"
  let ?s = "observed_status svc d"
  from Inr get_dep_stored dep have d: "d = desired_deployment svc old" by fastforce
  then have goal: "stage_status svc (view w) = (view w)\<lparr>iv_svcs := (iv_svcs (view w))(svc_key svc \<mapsto> ?s)\<rparr>"
    by (simp add: stage_status_def dep observed_status_def desired_deployment_def)
  have key: "svc_key ?s = svc_key svc" and keep: "with_status ?s svc = ?s"
    by (simp_all add: observed_status_def with_status_def)
  have run: "run_state (inference_syncStatus C svc) w =
      (if ?s = svc then (Inr (), ?w) else run_state (ic_update_status C ?s) ?w)"
    using Inr by (auto simp: inference_syncStatus_def split_beta Let_def observed_status_fixed)
      (simp_all add: observed_status_def)
  show ?thesis
  proof (cases "?s = svc")
    case True
    with svc have "(iv_svcs (view w))(svc_key svc \<mapsto> ?s) = iv_svcs (view w)" by auto
    with True run goal show ?thesis by (simp add: get_dep_view)
  next
    case False
    show ?thesis
      using status_fails [of ?s ?w] status_ok_view [of ?s ?w] svc False key keep
      by (auto simp: run goal get_dep_view split: sum.split)
  qed
qed

end

section \<open>Refinement\<close>

text \<open>Where a failed reconcile can leave the cluster.\<close>

definition inference_partial :: "string \<Rightarrow> string \<Rightarrow> inference_view \<Rightarrow> inference_view list" where
  "inference_partial ns n v =
     (case iv_svcs v (ns, n) of
        None \<Rightarrow> [v]
      | Some svc \<Rightarrow>
          if \<not> time_is_zero (om_DeletionTimestamp (is_Meta svc)) then [v]
          else [v, stage_dep svc v, stage_ksvc svc (stage_dep svc v)])"

definition svcs_keyed_view :: "inference_view \<Rightarrow> bool" where
  "svcs_keyed_view v \<longleftrightarrow> (\<forall>key s. iv_svcs v key = Some s \<longrightarrow> svc_key s = key)"

lemmas stage_defs = stage_dep_def stage_ksvc_def stage_status_def desired_deployment_def desired_service_def
  owner_of_def observed_status_def inferenceLabels_def inference_container_def inference_endpoint_def

text \<open>The desired objects do not depend on the status.\<close>

lemma observed_meta [simp]:
  "is_Meta (observed_status svc d) = is_Meta svc"
  "desired_deployment (observed_status svc d) = desired_deployment svc"
  "desired_service (observed_status svc d) = desired_service svc"
  "observed_status (observed_status svc d) d' = observed_status svc d'"
  by (auto simp: stage_defs intro!: ext)

lemma desired_deployment_again [simp]:
  "desired_deployment svc (Some (desired_deployment svc old)) = desired_deployment svc old"
  by (simp add: desired_deployment_def)

lemma stages_again:
  "iv_svcs (stage_dep svc v) = iv_svcs v" "iv_svcs (stage_ksvc svc v) = iv_svcs v"
  "iv_deps (stage_ksvc svc v) = iv_deps v" "iv_deps (stage_status svc v) = iv_deps v"
  "iv_deps (stage_dep svc v) (svc_key svc) = Some (desired_deployment svc (iv_deps v (svc_key svc)))"
  by (simp_all add: stage_dep_def stage_ksvc_def stage_status_def)

lemma spec_of_partial:
  assumes "v' \<in> set (inference_partial ns n v)" and "svcs_keyed_view v"
  shows "inference_spec ns n v' = inference_spec ns n v"
proof (cases "iv_svcs v (ns, n)")
  case None
  with assms show ?thesis by (simp add: inference_partial_def)
next
  case (Some svc)
  with assms(2) have "svc_key svc = (ns, n)" by (simp add: svcs_keyed_view_def)
  with assms Some show ?thesis
    by (auto simp: inference_partial_def inference_spec_def stages_again split: if_splits)
      (simp_all add: stage_dep_def stage_ksvc_def stage_status_def)
qed

text \<open>The specified state is stable: no stage changes it any more.\<close>

lemma partial_of_spec:
  assumes "v' \<in> set (inference_partial ns n (inference_spec ns n v))" and "svcs_keyed_view v"
  shows "v' = inference_spec ns n v"
proof (cases "iv_svcs v (ns, n)")
  case None
  with assms show ?thesis by (simp add: inference_partial_def inference_spec_def)
next
  case (Some svc)
  with assms(2) have key: "svc_key svc = (ns, n)" by (simp add: svcs_keyed_view_def)
  show ?thesis
  proof (cases "time_is_zero (om_DeletionTimestamp (is_Meta svc))")
    case True
    with assms Some key show ?thesis
      by (auto simp: inference_partial_def inference_spec_def stage_dep_def stage_ksvc_def stage_status_def)
  next
    case False
    with assms Some key show ?thesis by (simp add: inference_partial_def inference_spec_def)
  qed
qed

lemma spec_keyed: "svcs_keyed_view v \<Longrightarrow> svcs_keyed_view (inference_spec ns n v)"
  by (auto simp: svcs_keyed_view_def inference_spec_def stages_again stage_status_def split: option.split)

lemma spec_idem: "svcs_keyed_view v \<Longrightarrow> inference_spec ns n (inference_spec ns n v) = inference_spec ns n v"
  by (auto simp: svcs_keyed_view_def inference_spec_def stage_dep_def stage_ksvc_def stage_status_def
      split: option.split)

context inference_contract
begin

lemma view_keyed: "svcs_keyed_view (view w)"
  using svcs_keyed by (auto simp: svcs_keyed_view_def)

lemma Reconcile_refines:
  assumes "run_state (inference_Reconcile C ns n) w = (r, w')"
  shows "case r of Inl e \<Rightarrow> view w' \<in> set (inference_partial ns n (view w))
     | Inr u \<Rightarrow> view w' = inference_spec ns n (view w)"
proof (cases "fst (run_state (ic_get_svc C ns n) w)")
  case (Inl e)
  with assms get_svc_missing [OF Inl] show ?thesis
    by (auto simp: inference_Reconcile_def split_beta get_svc_view inference_spec_def inference_partial_def
        split: if_splits option.split)
next
  case (Inr svc)
  let ?w1 = "snd (run_state (ic_get_svc C ns n) w)"
  let ?w2 = "snd (run_state (ensureDeployment C svc) ?w1)"
  let ?w3 = "snd (run_state (ensureService C svc) ?w2)"
  note stored = get_svc_stored [OF Inr]
  note key = svcs_keyed [OF stored]
  have ksvc: "view ?w3 = stage_ksvc svc (stage_dep svc (view w))"
    if "fst (run_state (ensureDeployment C svc) ?w1) = Inr a" "fst (run_state (ensureService C svc) ?w2) = Inr b" for a b
    using that by (simp add: ensureDeployment_stage ensureService_stage get_svc_view)
  show ?thesis
  proof (cases "time_is_zero (om_DeletionTimestamp (is_Meta svc)) \<and>
      fst (run_state (ensureDeployment C svc) ?w1) = Inr () \<and> fst (run_state (ensureService C svc) ?w2) = Inr ()")
    case True
    then have v3: "view ?w3 = stage_ksvc svc (stage_dep svc (view w))" using ksvc by simp
    then have "view (snd (run_state (inference_syncStatus C svc) ?w3)) =
        (case fst (run_state (inference_syncStatus C svc) ?w3) of Inl e \<Rightarrow> view ?w3 | Inr _ \<Rightarrow> stage_status svc (view ?w3))"
      using stored key by (intro syncStatus_stage) (auto simp: stages_again)
    with True Inr stored assms v3 show ?thesis
      by (auto simp: inference_Reconcile_def split_beta inference_spec_def inference_partial_def done_or_def
          split: sum.splits)
  next
    case False
    with Inr stored assms show ?thesis
      by (auto simp: inference_Reconcile_def split_beta inference_spec_def inference_partial_def get_svc_view
          ensureDeployment_stage ensureService_stage split: sum.splits if_splits)
  qed
qed

lemma Reconcile_again:
  assumes "view w = inference_spec ns n v" and "svcs_keyed_view v"
  shows "view (snd (run_state (inference_Reconcile C ns n) w)) = view w"
  using Reconcile_refines [of ns n w] partial_of_spec [of _ ns n v] spec_idem [of v ns n] assms
  by (cases "run_state (inference_Reconcile C ns n) w") (auto split: sum.splits)

end

section \<open>Retrying\<close>

text \<open>
  controller-runtime runs a failed reconcile again. \<open>requeue k\<close> makes at most \<open>k\<close> attempts and tells
  whether one succeeded.
\<close>

fun requeue :: "nat \<Rightarrow> 'w inference_client \<Rightarrow> string \<Rightarrow> string \<Rightarrow> ('w, bool) state" where
  "requeue 0 C ns n = ret False"
| "requeue (Suc k) C ns n = do {
     r \<leftarrow> inference_Reconcile C ns n;
     (case r of Inr _ \<Rightarrow> ret True | Inl e \<Rightarrow> requeue k C ns n)
   }"

text \<open>The objects under the name are free or owned by the InferenceService already.\<close>

definition adoptable :: "string \<Rightarrow> string \<Rightarrow> inference_view \<Rightarrow> bool" where
  "adoptable ns n v \<longleftrightarrow> (\<forall>svc. iv_svcs v (ns, n) = Some svc \<longrightarrow>
     (\<forall>d. iv_deps v (ns, n) = Some d \<longrightarrow> dep_Controller d = None \<or> dep_Controller d = owner_of svc) \<and>
     (\<forall>k. iv_ksvcs v (ns, n) = Some k \<longrightarrow> ksvc_Controller k = None \<or> ksvc_Controller k = owner_of svc))"

lemma adoptable_partial:
  assumes "v' \<in> set (inference_partial ns n v)" and "svcs_keyed_view v" and "adoptable ns n v"
  shows "adoptable ns n v'"
  using assms
  by (auto simp: inference_partial_def adoptable_def svcs_keyed_view_def stage_dep_def stage_ksvc_def
      desired_deployment_def desired_service_def split: option.splits if_splits)

text \<open>
  A client with a finite budget of transient faults: a call that fails for no reason of its own
  uses some of it up.
\<close>

locale inference_live = inference_contract C view for C :: "'w inference_client" and view +
  fixes budget :: "'w \<Rightarrow> nat"
  assumes set_controller_ok: "c = None \<or> c = owner_of s \<Longrightarrow> \<exists>c'. ic_set_controller C s c = Inr c'"
    and get_svc_mono: "budget (snd (run_state (ic_get_svc C ns n) w)) \<le> budget w"
    and get_svc_cost:
      "fst (run_state (ic_get_svc C ns n) w) = Inl e \<Longrightarrow> \<not> IsNotFound e \<Longrightarrow>
         budget (snd (run_state (ic_get_svc C ns n) w)) < budget w"
    and get_dep_mono: "budget (snd (run_state (ic_get_dep C ns n) w)) \<le> budget w"
    and get_dep_cost:
      "fst (run_state (ic_get_dep C ns n) w) = Inl e \<Longrightarrow> \<not> IsNotFound e \<Longrightarrow>
         budget (snd (run_state (ic_get_dep C ns n) w)) < budget w"
    and cou_dep_mono: "budget (snd (run_state (ic_create_or_update_dep C d f) w)) \<le> budget w"
    and cou_dep_cost:
      "fst (run_state (ic_create_or_update_dep C d f) w) = Inl e \<Longrightarrow>
       f (case iv_deps (view w) (dep_key d) of None \<Rightarrow> d | Some old \<Rightarrow> old) = Inr d' \<Longrightarrow> dep_key d' = dep_key d \<Longrightarrow>
         budget (snd (run_state (ic_create_or_update_dep C d f) w)) < budget w"
    and cou_ksvc_mono: "budget (snd (run_state (ic_create_or_update_ksvc C k g) w)) \<le> budget w"
    and cou_ksvc_cost:
      "fst (run_state (ic_create_or_update_ksvc C k g) w) = Inl e \<Longrightarrow>
       g (case iv_ksvcs (view w) (ksvc_key k) of None \<Rightarrow> k | Some old \<Rightarrow> old) = Inr k' \<Longrightarrow> ksvc_key k' = ksvc_key k \<Longrightarrow>
         budget (snd (run_state (ic_create_or_update_ksvc C k g) w)) < budget w"
    and status_cost:
      "fst (run_state (ic_update_status C s) w) = Inl e \<Longrightarrow> iv_svcs (view w) (svc_key s) \<noteq> None \<Longrightarrow>
         budget (snd (run_state (ic_update_status C s) w)) < budget w"
begin

lemma ensureDeployment_cost:
  assumes "iv_svcs (view w) (svc_key svc) = Some svc" and "adoptable (om_Namespace (is_Meta svc)) (om_Name (is_Meta svc)) (view w)"
    and "fst (run_state (ensureDeployment C svc) w) = Inl e"
  shows "budget (snd (run_state (ensureDeployment C svc) w)) < budget w"
proof -
  let ?old = "case iv_deps (view w) (svc_key svc) of None \<Rightarrow> bare_deployment svc | Some old \<Rightarrow> old"
  have "dep_key ?old = svc_key svc" "dep_Controller ?old = None \<or> dep_Controller ?old = owner_of svc"
    using deps_keyed assms(1,2) by (auto simp: bare_deployment_def adoptable_def split: option.split)
  moreover from this(2) set_controller_ok obtain c where "ic_set_controller C svc (dep_Controller ?old) = Inr c" by blast
  ultimately obtain d' where "mutate_deployment C svc (if sint (is_Replicas svc) < 1 then 1 else is_Replicas svc)
      (if is_Image svc = '''' then defaultInferenceImage else is_Image svc) ?old = Inr d'" "dep_key d' = svc_key svc"
    by (simp add: mutate_deployment_def Let_def)
  with assms(3) cou_dep_cost [of "bare_deployment svc" _ w e d'] show ?thesis
    by (simp add: ensureDeployment_def Let_def bare_deployment_def)
qed

lemma ensureService_cost:
  assumes "iv_svcs (view w) (svc_key svc) = Some svc" and "adoptable (om_Namespace (is_Meta svc)) (om_Name (is_Meta svc)) (view w)"
    and "fst (run_state (ensureService C svc) w) = Inl e"
  shows "budget (snd (run_state (ensureService C svc) w)) < budget w"
proof -
  let ?old = "case iv_ksvcs (view w) (svc_key svc) of None \<Rightarrow> bare_service svc | Some old \<Rightarrow> old"
  have "ksvc_key ?old = svc_key svc" "ksvc_Controller ?old = None \<or> ksvc_Controller ?old = owner_of svc"
    using ksvcs_keyed assms(1,2) by (auto simp: bare_service_def adoptable_def split: option.split)
  moreover from this(2) set_controller_ok obtain c where "ic_set_controller C svc (ksvc_Controller ?old) = Inr c" by blast
  ultimately obtain k' where "mutate_service C svc ?old = Inr k'" "ksvc_key k' = svc_key svc"
    by (simp add: mutate_service_def Let_def)
  with assms(3) cou_ksvc_cost [of "bare_service svc" _ w e k'] show ?thesis
    by (simp add: ensureService_def bare_service_def)
qed

lemma syncStatus_cost:
  assumes "iv_svcs (view w) (svc_key svc) = Some svc" and "fst (run_state (inference_syncStatus C svc) w) = Inl e"
  shows "budget (snd (run_state (inference_syncStatus C svc) w)) < budget w"
proof (cases "fst (run_state (ic_get_dep C (om_Namespace (is_Meta svc)) (om_Name (is_Meta svc))) w)")
  case (Inl e')
  with assms(2) get_dep_cost [OF Inl] show ?thesis
    by (simp add: inference_syncStatus_def split_beta split: if_splits)
next
  case (Inr d)
  let ?w = "snd (run_state (ic_get_dep C (om_Namespace (is_Meta svc)) (om_Name (is_Meta svc))) w)"
  have "budget (snd (run_state (ic_update_status C s) ?w)) < budget w"
    if "fst (run_state (ic_update_status C s) ?w) = Inl e" "svc_key s = svc_key svc" for s
    using status_cost [OF that(1)] that(2) assms(1) get_dep_view get_dep_mono
    by (metis (no_types, lifting) option.distinct(1) order_less_le_trans)
  with Inr assms(2) show ?thesis
    by (auto simp: inference_syncStatus_def split_beta Let_def split: if_splits)
qed

lemma Reconcile_cost:
  assumes "adoptable ns n (view w)" and "fst (run_state (inference_Reconcile C ns n) w) = Inl e"
  shows "budget (snd (run_state (inference_Reconcile C ns n) w)) < budget w"
proof (cases "fst (run_state (ic_get_svc C ns n) w)")
  case (Inl e')
  with assms(2) get_svc_cost [OF Inl] show ?thesis
    by (simp add: inference_Reconcile_def split_beta split: if_splits)
next
  case (Inr svc)
  let ?w1 = "snd (run_state (ic_get_svc C ns n) w)"
  let ?w2 = "snd (run_state (ensureDeployment C svc) ?w1)"
  let ?w3 = "snd (run_state (ensureService C svc) ?w2)"
  note stored = get_svc_stored [OF Inr] and key = svcs_keyed [OF get_svc_stored [OF Inr]]
  have svcs: "iv_svcs (view ?w1) (svc_key svc) = Some svc" "iv_svcs (view ?w2) (svc_key svc) = Some svc"
    "iv_svcs (view ?w3) (svc_key svc) = Some svc"
    using stored key by (auto simp: get_svc_view ensureDeployment_stage ensureService_stage stages_again split: sum.split)
  have ad: "adoptable (om_Namespace (is_Meta svc)) (om_Name (is_Meta svc)) (view ?w1)"
    "adoptable (om_Namespace (is_Meta svc)) (om_Name (is_Meta svc)) (view ?w2)"
    using assms(1) key stored
    by (auto simp: get_svc_view ensureDeployment_stage adoptable_def stage_dep_def desired_deployment_def split: sum.split)
  have mono: "budget ?w1 \<le> budget w" "budget ?w2 \<le> budget ?w1" "budget ?w3 \<le> budget ?w2"
    by (simp_all add: get_svc_mono ensureDeployment_def ensureService_def Let_def cou_dep_mono cou_ksvc_mono)
  from ensureDeployment_cost [OF svcs(1) ad(1)] ensureService_cost [OF svcs(2) ad(2)] syncStatus_cost [OF svcs(3)]
    mono Inr assms(2) show ?thesis
    by (fastforce simp: inference_Reconcile_def split_beta done_or_def split: sum.splits if_splits)
qed

lemma requeue_converges:
  assumes "adoptable ns n (view w)" and "budget w < k"
  shows "fst (run_state (requeue k C ns n) w) \<and>
     view (snd (run_state (requeue k C ns n) w)) = inference_spec ns n (view w)"
  using assms
proof (induction k arbitrary: w)
  case (Suc k)
  obtain r w' where run: "run_state (inference_Reconcile C ns n) w = (r, w')" by fastforce
  note refines = Reconcile_refines [OF run]
  show ?case
  proof (cases r)
    case (Inl e)
    with refines have part: "view w' \<in> set (inference_partial ns n (view w))" by simp
    have "budget w' < k" using Reconcile_cost [OF Suc.prems(1)] run Inl Suc.prems(2) by fastforce
    with Suc.IH [OF adoptable_partial [OF part view_keyed Suc.prems(1)]] run Inl
      spec_of_partial [OF part view_keyed] show ?thesis by simp
  next
    case (Inr u)
    with run refines show ?thesis by simp
  qed
qed simp

end

section \<open>A reference server\<close>

record imem =
  im_svcs :: "InferenceService list"
  im_deps :: "deployment list"
  im_ksvcs :: "k8s_service list"
  im_faults :: "bool list"

definition iattempt :: "(imem \<Rightarrow> (go_error + 'a) \<times> imem) \<Rightarrow> (imem, 'a) eff" where
  "iattempt f = State (\<lambda>w. case im_faults w of
     [] \<Rightarrow> f w
   | b # bs \<Rightarrow> (if b then (Inl (Opaque ''injected''), w\<lparr>im_faults := bs\<rparr>) else f (w\<lparr>im_faults := bs\<rparr>)))"

definition put_by :: "('a \<Rightarrow> 'k) \<Rightarrow> 'a \<Rightarrow> 'a list \<Rightarrow> 'a list" where
  "put_by kf x xs = remove_by kf (kf x) xs @ [x]"

lemma lookup_put_by: "lookup_by kf k (put_by kf x xs) = (if k = kf x then Some x else lookup_by kf k xs)"
  by (auto simp: put_by_def lookup_by_append lookup_by_remove split: option.split)

text \<open>
  \<^verbatim>\<open>CreateOrUpdate\<close> on a table, refusing a mutate function that renames the object, as the library
  documents.
\<close>

definition upsert_by :: "('a \<Rightarrow> 'k) \<Rightarrow> 'a \<Rightarrow> ('a \<Rightarrow> go_error + 'a) \<Rightarrow> 'a list \<Rightarrow> go_error + 'a list" where
  "upsert_by kf x f xs =
     (case f (case lookup_by kf (kf x) xs of None \<Rightarrow> x | Some old \<Rightarrow> old) of
        Inl e \<Rightarrow> Inl e
      | Inr y \<Rightarrow> if kf y = kf x then Inr (put_by kf y xs)
                 else Inl (Opaque ''MutateFn cannot mutate object name and/or object namespace''))"

definition imem_client :: "imem inference_client" where
  "imem_client = \<lparr>
     ic_get_svc = (\<lambda>ns n. iattempt (\<lambda>w. (found (lookup_by svc_key (ns, n) (im_svcs w)), w))),
     ic_update_status = (\<lambda>s. iattempt (\<lambda>w. case lookup_by svc_key (svc_key s) (im_svcs w) of
        None \<Rightarrow> (Inl (ApiNotFound ''not found''), w)
      | Some old \<Rightarrow> (Inr (), w\<lparr>im_svcs := put_by svc_key (with_status s old) (im_svcs w)\<rparr>))),
     ic_get_dep = (\<lambda>ns n. iattempt (\<lambda>w. (found (lookup_by dep_key (ns, n) (im_deps w)), w))),
     ic_create_or_update_dep = (\<lambda>d f. iattempt (\<lambda>w. case upsert_by dep_key d f (im_deps w) of
        Inl e \<Rightarrow> (Inl e, w) | Inr ds \<Rightarrow> (Inr (), w\<lparr>im_deps := ds\<rparr>))),
     ic_create_or_update_ksvc = (\<lambda>k f. iattempt (\<lambda>w. case upsert_by ksvc_key k f (im_ksvcs w) of
        Inl e \<Rightarrow> (Inl e, w) | Inr ks \<Rightarrow> (Inr (), w\<lparr>im_ksvcs := ks\<rparr>))),
     ic_set_controller = (\<lambda>s c. if c = None \<or> c = owner_of s then Inr (owner_of s)
        else Inl (Opaque ''Object is already owned by another controller''))\<rparr>"

definition imem_view :: "imem \<Rightarrow> inference_view" where
  "imem_view w = \<lparr>iv_svcs = (\<lambda>k. lookup_by svc_key k (im_svcs w)), iv_deps = (\<lambda>k. lookup_by dep_key k (im_deps w)),
     iv_ksvcs = (\<lambda>k. lookup_by ksvc_key k (im_ksvcs w))\<rparr>"

definition imem_budget :: "imem \<Rightarrow> nat" where
  "imem_budget w = length (im_faults w)"

lemma run_iattempt:
  "run_state (iattempt f) w =
     (if im_faults w \<noteq> [] \<and> hd (im_faults w) then (Inl (Opaque ''injected''), w\<lparr>im_faults := tl (im_faults w)\<rparr>)
      else f (w\<lparr>im_faults := tl (im_faults w)\<rparr>))"
  by (cases w; cases "im_faults w") (auto simp: iattempt_def)

lemma with_status_key [simp]: "is_Meta (with_status s old) = is_Meta old"
  by (simp add: with_status_def)

lemma imem_view_faults [simp]: "imem_view (w\<lparr>im_faults := fs\<rparr>) = imem_view w"
  by (simp add: imem_view_def)

lemma found_cases [simp]:
  "found x = Inr y \<longleftrightarrow> x = Some y"
  "found x = Inl e \<longleftrightarrow> x = None \<and> e = ApiNotFound ''not found''"
  by (auto simp: found_def split: option.split)

lemma lookup_put_fun: "(\<lambda>k. lookup_by kf k (put_by kf x xs)) = (\<lambda>k. lookup_by kf k xs)(kf x \<mapsto> x)"
  by (auto simp: lookup_put_by)

lemma upsert_by_Inr:
  "upsert_by kf x f xs = Inr ys \<longleftrightarrow>
     (\<exists>y. f (case lookup_by kf (kf x) xs of None \<Rightarrow> x | Some old \<Rightarrow> old) = Inr y \<and> kf y = kf x \<and> ys = put_by kf y xs)"
  by (auto simp: upsert_by_def split: sum.split)

interpretation imem: inference_contract imem_client imem_view
proof (unfold_locales, goal_cases)
  case (11 d f w u)
  then obtain ds where ds: "upsert_by dep_key d f (im_deps w) = Inr ds"
    by (auto simp: imem_client_def run_iattempt split: if_splits sum.splits)
  with 11 show ?case
    by (auto simp: imem_client_def run_iattempt imem_view_def split: if_splits)
      (auto simp: upsert_by_Inr lookup_put_fun)
next
  case (13 k g w u)
  then obtain ks where ks: "upsert_by ksvc_key k g (im_ksvcs w) = Inr ks"
    by (auto simp: imem_client_def run_iattempt split: if_splits sum.splits)
  with 13 show ?case
    by (auto simp: imem_client_def run_iattempt imem_view_def split: if_splits)
      (auto simp: upsert_by_Inr lookup_put_fun)
next
  case (16 s w u)
  then obtain old where old: "lookup_by svc_key (svc_key s) (im_svcs w) = Some old"
    by (auto simp: imem_client_def run_iattempt split: if_splits option.splits)
  moreover from lookup_by_key [OF old] have "svc_key (with_status s old) = svc_key s" by simp
  ultimately show ?case using 16
    by (auto simp: imem_client_def run_iattempt imem_view_def lookup_put_fun split: if_splits)
qed (auto simp: imem_client_def run_iattempt imem_view_def split: if_splits sum.splits option.splits
    dest: lookup_by_key)


interpretation imem: inference_live imem_client imem_view imem_budget
  by unfold_locales
    (auto simp: imem_client_def run_iattempt imem_view_def imem_budget_def upsert_by_def
      split: if_splits sum.splits option.splits)

definition example_inference :: InferenceService where
  "example_inference = \<lparr>is_Meta = meta_of ''default'' ''llm'', is_Model = ''llama'', is_Image = '''', is_Replicas = 0,
     is_Team = ''platform'', is_Phase = '''', is_Endpoint = '''', is_ReadyReplicas = 0\<rparr>"

definition example_imem :: imem where
  "example_imem = \<lparr>im_svcs = [example_inference], im_deps = [], im_ksvcs = [], im_faults = [False, False, True]\<rparr>"

lemma example_spec_phase:
  "map_option is_Phase (iv_svcs (inference_spec ''default'' ''llm'' (imem_view example_imem)) (''default'', ''llm'')) = Some ''Pending''"
  "map_option dep_Replicas (iv_deps (inference_spec ''default'' ''llm'' (imem_view example_imem)) (''default'', ''llm'')) = Some (Some 1)"
  by (simp_all add: imem_view_def example_imem_def example_inference_def lookup_by_def meta_of_def inference_spec_def
      time_is_zero_def stage_status_def stage_ksvc_def stage_dep_def observed_status_def desired_deployment_def
      InferenceServicePending_def)

lemma example_inference_run:
  "\<exists>w'. run_state (inference_Reconcile imem_client ''default'' ''llm'') (example_imem\<lparr>im_faults := []\<rparr>) = (Inr ctrl_done, w')"
  by (simp add: inference_Reconcile_def imem_client_def run_iattempt example_imem_def example_inference_def found_def
        lookup_by_def meta_of_def time_is_zero_def ensureDeployment_def ensureService_def Let_def upsert_by_def put_by_def
        remove_by_def bare_deployment_def bare_service_def mutate_deployment_def mutate_service_def
        inference_syncStatus_def with_status_def done_or_def InferenceServicePending_def)

section \<open>Properties\<close>

text \<open>Property C12. The reconciler refines its specification: over any client that keeps the contract, a reconcile that
  succeeds takes the cluster exactly to the state \<open>inference_spec\<close> asks for (the Deployment with at least
  one replica and the default image where none is given, the Service on the same labels, and the status
  observed on the Deployment), and one that fails leaves it at one of the earlier stages.\<close>

theorem inference_reconcile_refines:
  assumes "inference_contract C view" and "run_state (inference_Reconcile C ns n) w = (r, w')"
  shows "case r of Inl e \<Rightarrow> view w' \<in> set (inference_partial ns n (view w))
     | Inr u \<Rightarrow> view w' = inference_spec ns n (view w)"
  using inference_contract.Reconcile_refines [OF assms] .

theorem inference_reconcile_refines_witness:
  "map_option is_Phase (iv_svcs (imem_view (snd (run_state (inference_Reconcile imem_client ''default'' ''llm'')
     (example_imem\<lparr>im_faults := []\<rparr>)))) (''default'', ''llm'')) = Some ''Pending''"
proof -
  obtain w' where run: "run_state (inference_Reconcile imem_client ''default'' ''llm'') (example_imem\<lparr>im_faults := []\<rparr>) = (Inr ctrl_done, w')"
    using example_inference_run by blast
  from inference_reconcile_refines [OF imem.inference_contract_axioms run] run show ?thesis
    by (simp add: example_spec_phase)
qed

text \<open>Property C27. The specified state is stable: after a reconcile that succeeded, another reconcile, successful
  or not, leaves the InferenceService, its Deployment, its Service and everything else as they are.\<close>

theorem inference_reconcile_stable:
  assumes "inference_contract C view" and "run_state (inference_Reconcile C ns n) w = (Inr u, w1)"
  shows "view (snd (run_state (inference_Reconcile C ns n) w1)) = view w1"
  using inference_contract.Reconcile_again [OF assms(1) _ inference_contract.view_keyed [OF assms(1), of w]]
    inference_contract.Reconcile_refines [OF assms] by simp

theorem inference_reconcile_stable_witness:
  "\<exists>w1. run_state (inference_Reconcile imem_client ''default'' ''llm'') (example_imem\<lparr>im_faults := []\<rparr>) = (Inr ctrl_done, w1) \<and>
     imem_view (snd (run_state (inference_Reconcile imem_client ''default'' ''llm'') w1)) = imem_view w1"
  using example_inference_run inference_reconcile_stable [OF imem.inference_contract_axioms] by blast

text \<open>Property C13. The reconciler converges: when transient faults are finite in number and no other controller owns
  the objects of that name, running the reconcile again after each failure succeeds after at most as many
  failures as there are faults, and the cluster is then in the specified state.\<close>

theorem inference_requeue_converges:
  assumes "inference_live C view budget" and "adoptable ns n (view w)"
  shows "fst (run_state (requeue (Suc (budget w)) C ns n) w) \<and>
     view (snd (run_state (requeue (Suc (budget w)) C ns n) w)) = inference_spec ns n (view w)"
  by (rule inference_live.requeue_converges [OF assms lessI])

theorem inference_requeue_converges_witness:
  "map_option dep_Replicas (iv_deps (imem_view (snd (run_state (requeue 4 imem_client ''default'' ''llm'') example_imem)))
     (''default'', ''llm'')) = Some (Some 1)"
proof -
  have "adoptable ''default'' ''llm'' (imem_view example_imem)"
    by (simp add: adoptable_def imem_view_def example_imem_def lookup_by_def)
  moreover have "Suc (imem_budget example_imem) = 4" by (simp add: imem_budget_def example_imem_def)
  ultimately show ?thesis
    using inference_requeue_converges [OF imem.inference_live_axioms, of "''default''" "''llm''" example_imem]
    by (metis example_spec_phase(2))
qed

end
