(* ===== verification/Mock_Inference.thy ===== *)
theory Mock_Inference
  imports Inference_Controller
begin

text \<open>
  The stand-in model server, \<^verbatim>\<open>src/cmd/mockinference/main.go\<close>, which the default image of an
  InferenceService runs, and how it meets the Deployment the controller creates.
\<close>

section \<open>The server\<close>

text \<open>\<open>env\<close> is \<^verbatim>\<open>os.Getenv\<close>: \<open>''''\<close> for a variable that is not set.\<close>

definition envOr :: "(string \<Rightarrow> string) \<Rightarrow> string \<Rightarrow> string \<Rightarrow> string" where
  "envOr env key fallback = (if env key \<noteq> '''' then env key else fallback)"

record completionResponse =
  comp_Model :: string
  comp_Choices :: "string list"

text \<open>A request body that does not decode leaves the prompt empty.\<close>

definition completions :: "string \<Rightarrow> string option \<Rightarrow> completionResponse http_reply" where
  "completions model body =
     (let prompt = (case body of None \<Rightarrow> '''' | Some p \<Rightarrow> p)
      in JsonReply 200 \<lparr>comp_Model = model,
           comp_Choices = [''[mock-inference/'' @ model @ ''] echo: '' @ prompt]\<rparr>)"

definition inference_mux :: "string \<Rightarrow> string \<Rightarrow> string list \<Rightarrow> string option \<Rightarrow> completionResponse http_reply" where
  "inference_mux model verb path body =
     (if path = [''healthz''] then
        (if verb = ''GET'' \<or> verb = ''HEAD'' then EmptyReply 200 else ErrorReply 405 ''Method Not Allowed'')
      else if path = [''v1'', ''completions''] then
        (if verb = ''POST'' then completions model body else ErrorReply 405 ''Method Not Allowed'')
      else ErrorReply 404 ''404 page not found'')"

text \<open>The listen address and the handler of a process started with \<open>env\<close>.\<close>

definition mockinference_main ::
  "(string \<Rightarrow> string) \<Rightarrow> string \<times> (string \<Rightarrow> string list \<Rightarrow> string option \<Rightarrow> completionResponse http_reply)" where
  "mockinference_main env =
     (let model = envOr env ''MODEL'' ''mock-model''; addr = envOr env ''LISTEN_ADDR'' '':8000''
      in (addr, inference_mux model))"

section \<open>Inside the Deployment\<close>

definition container_env :: "container \<Rightarrow> string \<Rightarrow> string" where
  "container_env c key = (case map_of (c_Env c) key of None \<Rightarrow> '''' | Some v \<Rightarrow> v)"

text \<open>
  In the container the controller asks for, the server listens on the port the Service forwards to
  and answers in the name of the model of the InferenceService.
\<close>

lemma deployed_server_answers:
  assumes "is_Model svc \<noteq> ''''"
  shows "\<exists>h. mockinference_main (container_env (inference_container svc img)) = ('':'' @ show_int (sint inferencePort), h) \<and>
     h ''POST'' [''v1'', ''completions''] (Some p) = JsonReply 200 \<lparr>comp_Model = is_Model svc,
       comp_Choices = [''[mock-inference/'' @ is_Model svc @ ''] echo: '' @ p]\<rparr>"
  using assms
  by (simp add: mockinference_main_def envOr_def container_env_def inference_container_def inference_mux_def
      completions_def inferencePort_def go_eval)

end
