(* ===== verification/Device_Plugin.thy ===== *)
theory Device_Plugin
  imports Job_Controller
begin

text \<open>
  The mock device plugin, \<^verbatim>\<open>src/cmd/devplugin/main.go\<close>: the fake devices of a node, how they are
  advertised and allocated, and how the plugin registers with the kubelet. The operating system, the
  gRPC library and the kubelet are the parameter \<open>H\<close>.
\<close>

section \<open>Paths\<close>

text \<open>\<^verbatim>\<open>filepath.Join\<close> cleans its result: empty and dot segments go away, dot-dot removes the segment before.\<close>

fun path_segments :: "string \<Rightarrow> string list" where
  "path_segments [] = [[]]"
| "path_segments (c # cs) =
     (if c = CHR ''/'' then [] # path_segments cs
      else case path_segments cs of [] \<Rightarrow> [[c]] | s # ss \<Rightarrow> (c # s) # ss)"

definition clean_step :: "bool \<Rightarrow> string \<Rightarrow> string list \<Rightarrow> string list" where
  "clean_step rooted s out =
     (if s = '''' \<or> s = ''.'' then out
      else if s = ''..'' then
        (if out \<noteq> [] \<and> last out \<noteq> ''..'' then butlast out
         else if rooted then out else out @ [s])
      else out @ [s])"

fun join_with :: "string \<Rightarrow> string list \<Rightarrow> string" where
  "join_with sep [] = ''''"
| "join_with sep [s] = s"
| "join_with sep (s # ss) = s @ sep @ join_with sep ss"

definition path_clean :: "string \<Rightarrow> string" where
  "path_clean p =
     (let rooted = (p \<noteq> [] \<and> hd p = CHR ''/'');
          out = fold (clean_step rooted) (path_segments p) []
      in if rooted then ''/'' @ join_with ''/'' out
         else if out = [] then ''.'' else join_with ''/'' out)"

definition path_join :: "string \<Rightarrow> string \<Rightarrow> string" where
  "path_join dir name =
     (if dir = '''' \<and> name = '''' then '''' else if dir = '''' then path_clean name
      else if name = '''' then path_clean dir else path_clean (dir @ ''/'' @ name))"

text \<open>\<^verbatim>\<open>filepath.Base\<close>: the last segment after trailing slashes are stripped.\<close>

definition path_base :: "string \<Rightarrow> string" where
  "path_base p =
     (if p = '''' then ''.''
      else let q = rev (dropWhile (\<lambda>c. c = CHR ''/'') (rev p)); b = last (path_segments q)
           in if q = '''' then ''/'' else b)"

section \<open>Devices\<close>

definition resourceName :: string where
  "resourceName = ''metalgrid.dev/accelerator''"

definition pluginSock :: string where
  "pluginSock = ''metalgrid-mock.sock''"

definition kubeletSock :: string where
  "kubeletSock = ''kubelet.sock''"

record device =
  dev_ID :: string
  dev_Health :: string

text \<open>
  \<^verbatim>\<open>make\<close> panics for a negative length, and for one whose pointers exceed the address space of
  \<open>2 ^ 48\<close> bytes.
\<close>

definition mockDevices :: "goint \<Rightarrow> go_error + device list" where
  "mockDevices n =
     (if sint n < 0 \<or> 2 ^ 48 < 8 * sint n then Inl (Panic ''runtime error: makeslice: len out of range'')
      else Inr (map (\<lambda>i. \<lparr>dev_ID = ''mock-'' @ show_nat i, dev_Health = ''Healthy''\<rparr>) [0..<nat (sint n)]))"

text \<open>The number of devices from \<^verbatim>\<open>NUM_DEVICES\<close>; \<open>None\<close> when the process exits.\<close>

definition numDevices :: "string \<Rightarrow> goint option" where
  "numDevices v =
     (if v = '''' then Some 4
      else case atoi v of (n, ok) \<Rightarrow> if ok then Some n else None)"

section \<open>Registration and serving\<close>

record register_request =
  rgr_Version :: string
  rgr_Endpoint :: string
  rgr_ResourceName :: string

record 'w host =
  h_remove :: "string \<Rightarrow> ('w, unit) eff"
  h_listen :: "string \<Rightarrow> ('w, unit) eff"
  h_serve :: "device list \<Rightarrow> ('w, unit) state"
  h_stop :: "('w, unit) state"
  h_dial :: "string \<Rightarrow> ('w, unit) eff"
  h_register :: "register_request \<Rightarrow> ('w, unit) eff"
  h_close :: "('w, unit) state"
  h_send :: "device list \<Rightarrow> ('w, unit) eff"
  h_wait_done :: "('w, go_error) state"
  h_version :: string

definition plugin_register :: "'w host \<Rightarrow> string \<Rightarrow> string \<Rightarrow> ('w, unit) eff" where
  "plugin_register H socketDir sockName = do {
     c \<leftarrow> h_dial H (''unix://'' @ path_join socketDir kubeletSock);
     (case c of
        Inl e \<Rightarrow> ret (Inl e)
      | Inr _ \<Rightarrow> do {
          r \<leftarrow> h_register H \<lparr>rgr_Version = h_version H, rgr_Endpoint = sockName, rgr_ResourceName = resourceName\<rparr>;
          _ \<leftarrow> h_close H;
          ret r
        })
   }"

text \<open>\<^verbatim>\<open>run\<close> returns an error or serves forever, which is \<open>Inr ()\<close>.\<close>

definition plugin_run :: "'w host \<Rightarrow> device list \<Rightarrow> string \<Rightarrow> ('w, unit) eff" where
  "plugin_run H devices socketDir =
     (let sockPath = path_join socketDir pluginSock
      in do {
        _ \<leftarrow> h_remove H sockPath;
        l \<leftarrow> h_listen H sockPath;
        (case l of
           Inl e \<Rightarrow> ret (Inl (errorf (''listening on '' @ sockPath) e))
         | Inr _ \<Rightarrow> do {
             _ \<leftarrow> h_serve H devices;
             r \<leftarrow> plugin_register H socketDir (path_base sockPath);
             (case r of
                Inl e \<Rightarrow> do { _ \<leftarrow> h_stop H; ret (Inl (errorf ''registering with kubelet'' e)) }
              | Inr _ \<Rightarrow> ret (Inr ()))
           })
      })"

definition devplugin_main :: "'w host \<Rightarrow> (string \<Rightarrow> string) \<Rightarrow> ('w, unit) eff" where
  "devplugin_main H env =
     (case numDevices (env ''NUM_DEVICES'') of
        None \<Rightarrow> ret (Inl (Opaque ''invalid NUM_DEVICES''))
      | Some n \<Rightarrow>
          (let socketDir = (if env ''DEVICE_PLUGIN_DIR'' \<noteq> '''' then env ''DEVICE_PLUGIN_DIR''
                            else ''/var/lib/kubelet/device-plugins'')
           in case mockDevices n of
                Inl e \<Rightarrow> ret (Inl e)
              | Inr devices \<Rightarrow> plugin_run H devices socketDir))"

definition ListAndWatch :: "'w host \<Rightarrow> device list \<Rightarrow> ('w, go_error) state" where
  "ListAndWatch H devices = do {
     s \<leftarrow> h_send H devices;
     (case s of Inl e \<Rightarrow> ret e | Inr _ \<Rightarrow> h_wait_done H)
   }"

text \<open>\<^verbatim>\<open>fmt.Sprint\<close> of a slice of strings.\<close>

definition sprint_strings :: "string list \<Rightarrow> string" where
  "sprint_strings xs = ''['' @ join_with '' '' xs @ '']''"

text \<open>The environment of each container of an allocation request.\<close>

fun Allocate :: "string list list \<Rightarrow> (string \<times> string) list list" where
  "Allocate [] = []"
| "Allocate (ids # rs) = [(''METALGRID_ACCELERATOR_IDS'', sprint_strings ids)] # Allocate rs"


section \<open>Facts about paths\<close>

lemma path_segments_nonempty [simp]: "path_segments p \<noteq> []"
  by (induction p) (auto split: list.split)

lemma path_segments_slash: "path_segments (a @ CHR ''/'' # b) = path_segments a @ path_segments b"
  by (induction a) (auto split: list.split)

lemma path_segments_plain: "CHR ''/'' \<notin> set b \<Longrightarrow> path_segments b = [b]"
  by (induction b) auto

definition plain_name :: "string \<Rightarrow> bool" where
  "plain_name b \<longleftrightarrow> CHR ''/'' \<notin> set b \<and> b \<noteq> '''' \<and> b \<noteq> ''.'' \<and> b \<noteq> ''..''"

lemma join_with_snoc: "join_with sep (ss @ [b]) = (if ss = [] then b else join_with sep ss @ sep @ b)"
  by (induction sep ss rule: join_with.induct) auto

lemma path_join_plain:
  assumes "plain_name b"
  shows "path_join dir b = b \<or> (\<exists>x. path_join dir b = x @ CHR ''/'' # b)"
proof (cases "dir = ''''")
  case True
  with assms show ?thesis
    by (cases b) (auto simp: plain_name_def path_join_def path_clean_def path_segments_plain clean_step_def Let_def)
next
  case False
  let ?p = "dir @ ''/'' @ b"
  let ?r = "?p \<noteq> [] \<and> hd ?p = CHR ''/''"
  have out: "fold (clean_step r) (path_segments ?p) [] = fold (clean_step r) (path_segments dir) [] @ [b]" for r
    using assms by (simp add: path_segments_slash path_segments_plain clean_step_def plain_name_def)
  have "path_clean ?p = (if ?r then ''/'' else '''') @ join_with ''/'' (fold (clean_step ?r) (path_segments dir) [] @ [b])"
    unfolding path_clean_def Let_def out by simp
  with False assms show ?thesis by (auto simp: path_join_def join_with_snoc plain_name_def)
qed

lemma path_base_plain:
  assumes "plain_name b"
  shows "path_base (x @ CHR ''/'' # b) = b" "path_base b = b"
proof -
  have last: "b \<noteq> []" "last b \<noteq> CHR ''/''" using assms last_in_set by (fastforce simp: plain_name_def)+
  have strip: "rev (dropWhile (\<lambda>c. c = CHR ''/'') (rev p)) = p" if "p \<noteq> []" "last p \<noteq> CHR ''/''" for p
    using that by (cases p rule: rev_cases) auto
  show "path_base (x @ CHR ''/'' # b) = b"
    using strip [of "x @ CHR ''/'' # b"] last assms
    by (simp add: path_base_def Let_def path_segments_slash path_segments_plain plain_name_def)
  show "path_base b = b"
    using strip [of b] last assms by (simp add: path_base_def Let_def path_segments_plain plain_name_def)
qed

text \<open>The socket is registered by the name it is created with, in whatever directory.\<close>

lemma path_base_join: "plain_name b \<Longrightarrow> path_base (path_join dir b) = b"
  using path_join_plain [of b dir] path_base_plain by auto

lemma mockDevices_ok:
  assumes "mockDevices n = Inr ds"
  shows "length ds = nat (sint n) \<and> distinct (map dev_ID ds) \<and> list_all (\<lambda>d. dev_Health d = ''Healthy'') ds"
  using assms by (auto simp: mockDevices_def list_all_iff distinct_map inj_on_def dest: show_nat_inj split: if_splits)

section \<open>What the plugin does to its host\<close>

datatype host_event =
    Removed string
  | Listening string
  | Serving "device list"
  | Stopped
  | Dialled string
  | Registered register_request
  | Closed

definition noting :: "('w, 'a) state \<Rightarrow> ('a \<Rightarrow> host_event list) \<Rightarrow> ('w \<times> host_event list, 'a) state" where
  "noting m ev = State (\<lambda>(w, l). case run_state m w of (r, w') \<Rightarrow> (r, (w', l @ ev r)))"

definition if_ok :: "host_event \<Rightarrow> go_error + 'a \<Rightarrow> host_event list" where
  "if_ok e r = (case r of Inl _ \<Rightarrow> [] | Inr _ \<Rightarrow> [e])"

definition host_spy :: "'w host \<Rightarrow> ('w \<times> host_event list) host" where
  "host_spy H = \<lparr>
     h_remove = (\<lambda>p. noting (h_remove H p) (\<lambda>r. [Removed p])),
     h_listen = (\<lambda>p. noting (h_listen H p) (if_ok (Listening p))),
     h_serve = (\<lambda>ds. noting (h_serve H ds) (\<lambda>r. [Serving ds])),
     h_stop = noting (h_stop H) (\<lambda>r. [Stopped]),
     h_dial = (\<lambda>p. noting (h_dial H p) (if_ok (Dialled p))),
     h_register = (\<lambda>rq. noting (h_register H rq) (if_ok (Registered rq))),
     h_close = noting (h_close H) (\<lambda>r. [Closed]),
     h_send = (\<lambda>ds. noting (h_send H ds) (\<lambda>r. [])),
     h_wait_done = noting (h_wait_done H) (\<lambda>r. []),
     h_version = h_version H\<rparr>"

lemma run_noting [simp]:
  "run_state (noting m ev) (w, l) = (fst (run_state m w), (snd (run_state m w), l @ ev (fst (run_state m w))))"
  by (simp add: noting_def split: prod.split)

lemma plugin_run_events:
  assumes "fst (run_state (plugin_run (host_spy H) ds dir) (w, l)) = Inr ()"
  shows "snd (snd (run_state (plugin_run (host_spy H) ds dir) (w, l))) = l @
     [Removed (path_join dir pluginSock), Listening (path_join dir pluginSock), Serving ds,
      Dialled (''unix://'' @ path_join dir kubeletSock),
      Registered \<lparr>rgr_Version = h_version H, rgr_Endpoint = pluginSock, rgr_ResourceName = AcceleratorResourceName\<rparr>, Closed]"
proof -
  have "path_base (path_join dir pluginSock) = pluginSock"
    by (intro path_base_join) (simp add: plain_name_def pluginSock_def)
  then show ?thesis using assms
    by (auto simp: plugin_run_def plugin_register_def host_spy_def split_beta Let_def if_ok_def resourceName_def
        AcceleratorResourceName_def split: sum.splits)
qed

section \<open>Properties\<close>

text \<open>Property C33. A plugin that starts up advertises what the scheduler counts on: it serves as many healthy devices
  as configured, with pairwise different ids, on a socket in the kubelet's directory, before it
  registers that very socket for the resource name the job pods ask for; nothing else happens.\<close>

theorem plugin_advertises_devices:
  assumes "fst (run_state (devplugin_main (host_spy H) env) (w, [])) = Inr ()"
  shows "\<exists>n ds dir. numDevices (env ''NUM_DEVICES'') = Some n \<and> length ds = nat (sint n) \<and> 0 \<le> sint n \<and>
     distinct (map dev_ID ds) \<and> list_all (\<lambda>d. dev_Health d = ''Healthy'') ds \<and>
     snd (snd (run_state (devplugin_main (host_spy H) env) (w, []))) =
       [Removed (path_join dir pluginSock), Listening (path_join dir pluginSock), Serving ds,
        Dialled (''unix://'' @ path_join dir kubeletSock),
        Registered \<lparr>rgr_Version = h_version H, rgr_Endpoint = pluginSock, rgr_ResourceName = AcceleratorResourceName\<rparr>, Closed]"
proof -
  let ?dir = "if env ''DEVICE_PLUGIN_DIR'' \<noteq> '''' then env ''DEVICE_PLUGIN_DIR'' else ''/var/lib/kubelet/device-plugins''"
  from assms obtain n ds where n: "numDevices (env ''NUM_DEVICES'') = Some n" and ds: "mockDevices n = Inr ds"
    and run: "devplugin_main (host_spy H) env = plugin_run (host_spy H) ds ?dir"
    by (auto simp: devplugin_main_def Let_def split: option.splits sum.splits)
  from ds have "0 \<le> sint n" by (simp add: mockDevices_def split: if_splits)
  with n mockDevices_ok [OF ds] plugin_run_events [of H ds ?dir w "[]"] assms show ?thesis
    unfolding run by (intro exI [of _ n] exI [of _ ds] exI [of _ ?dir]) auto
qed

definition example_host :: "unit host" where
  "example_host = \<lparr>h_remove = (\<lambda>p. ret (Inl (Opaque ''no such file''))), h_listen = (\<lambda>p. ret (Inr ())),
     h_serve = (\<lambda>ds. ret ()), h_stop = ret (), h_dial = (\<lambda>p. ret (Inr ())), h_register = (\<lambda>r. ret (Inr ())),
     h_close = ret (), h_send = (\<lambda>ds. ret (Inr ())), h_wait_done = ret (Opaque ''context canceled''), h_version = ''v1beta1''\<rparr>"

theorem plugin_advertises_devices_witness:
  "\<exists>ds. length ds = 4 \<and> Serving ds \<in> set (snd (snd (run_state (devplugin_main (host_spy example_host) (\<lambda>v. '''')) ((), []))))"
proof -
  have "fst (run_state (devplugin_main (host_spy example_host) (\<lambda>v. '''')) ((), [])) = Inr ()"
    by (simp add: devplugin_main_def numDevices_def mockDevices_def plugin_run_def plugin_register_def host_spy_def
        example_host_def Let_def)
  from plugin_advertises_devices [OF this] show ?thesis by (fastforce simp: numDevices_def)
qed

end
