(* ===== verification/Runtime.thy ===== *)
theory Runtime
  imports Service Mock_Inference
begin

text \<open>
  What the processes set up before they serve: the queue connection (\<^verbatim>\<open>Connect\<close> in
  \<^verbatim>\<open>src/internal/queue/queue.go\<close>), the database pool (\<^verbatim>\<open>New\<close> in \<^verbatim>\<open>src/internal/store/store.go\<close>), tracing
  (\<^verbatim>\<open>src/internal/tracing/tracing.go\<close>) and the collectors of \<^verbatim>\<open>src/internal/metrics/metrics.go\<close>. The
  libraries behind them are parameters; handles of connections, pools, exporters and listeners are
  numbers.
\<close>

section \<open>The queue connection\<close>

record StreamConfig =
  sc_Name :: string
  sc_Subjects :: "string list"
  sc_Duplicates :: duration
  sc_MaxAge :: duration

definition StreamName :: string where
  "StreamName = ''JOBS''"

definition ConsumerName :: string where
  "ConsumerName = ''operator-jobs''"

record 'w nats_lib =
  nats_DefaultURL :: string
  nats_Connect :: "string \<Rightarrow> ('w, nat) eff"
  nats_Close :: "nat \<Rightarrow> ('w, unit) state"
  nats_IsConnected :: "nat \<Rightarrow> ('w, bool) state"
  jetstream_New :: "nat \<Rightarrow> ('w, 'w jetstream) eff"
  js_CreateOrUpdateStream :: "nat \<Rightarrow> StreamConfig \<Rightarrow> ('w, unit) eff"

record 'w Queue =
  q_nc :: nat
  q_js :: "'w jetstream"

definition jobs_stream :: StreamConfig where
  "jobs_stream = \<lparr>sc_Name = StreamName, sc_Subjects = [SubmitSubj, DLQSubj],
     sc_Duplicates = 2 * (60 * second), sc_MaxAge = 24 * (3600 * second)\<rparr>"

definition queue_Connect :: "'w nats_lib \<Rightarrow> string \<Rightarrow> ('w, 'w Queue) eff" where
  "queue_Connect N url = do {
     c \<leftarrow> nats_Connect N url;
     (case c of
        Inl e \<Rightarrow> ret (Inl (errorf ''connecting to nats'' e))
      | Inr nc \<Rightarrow> do {
          j \<leftarrow> jetstream_New N nc;
          (case j of
             Inl e \<Rightarrow> do {
               _ \<leftarrow> nats_Close N nc;
               ret (Inl (errorf ''creating jetstream context'' e))
             }
           | Inr js \<Rightarrow> do {
               s \<leftarrow> js_CreateOrUpdateStream N nc jobs_stream;
               (case s of
                  Inl e \<Rightarrow> do {
                    _ \<leftarrow> nats_Close N nc;
                    ret (Inl (errorf ''ensuring stream'' e))
                  }
                | Inr _ \<Rightarrow> ret (Inr \<lparr>q_nc = nc, q_js = js\<rparr>))
             })
        })
   }"

definition queue_Close :: "'w nats_lib \<Rightarrow> 'w Queue \<Rightarrow> ('w, unit) state" where
  "queue_Close N q = nats_Close N (q_nc q)"

definition IsConnected :: "'w nats_lib \<Rightarrow> 'w Queue \<Rightarrow> ('w, bool) state" where
  "IsConnected N q = nats_IsConnected N (q_nc q)"

section \<open>The database pool\<close>

text \<open>\<open>pool_pg\<close> is the connection the statements of a pool run on.\<close>

record 'w pgx_lib =
  pgxpool_New :: "string \<Rightarrow> ('w, nat) eff"
  pool_pg :: "nat \<Rightarrow> 'w pg"
  pool_Close :: "nat \<Rightarrow> ('w, unit) state"

definition store_New :: "'w pgx_lib \<Rightarrow> string \<Rightarrow> ('w, nat) eff" where
  "store_New X dsn = do {
     p \<leftarrow> pgxpool_New X dsn;
     (case p of
        Inl e \<Rightarrow> ret (Inl (errorf ''connecting to postgres'' e))
      | Inr pool \<Rightarrow> do {
          g \<leftarrow> Ping (pool_pg X pool);
          ret (case g of Inl e \<Rightarrow> Inl (errorf ''pinging postgres'' e) | Inr _ \<Rightarrow> Inr pool)
        })
   }"

definition store_Close :: "'w pgx_lib \<Rightarrow> nat \<Rightarrow> ('w, unit) state" where
  "store_Close X pool = pool_Close X pool"

section \<open>Tracing\<close>

text \<open>
  The global tracer provider and propagator and the span of the current context are part of the world:
  \<open>otel_Inject\<close> writes the span's headers into a carrier, \<open>otel_Extract\<close> makes the span described by a
  carrier the current one.
\<close>

record 'w otel =
  otel_SetNoopProvider :: "('w, unit) state"
  otlp_Exporter :: "string \<Rightarrow> ('w, nat) eff"
  otel_Resource :: "string \<Rightarrow> ('w, nat) eff"
  otel_NewTracerProvider :: "nat \<Rightarrow> nat \<Rightarrow> ('w, nat) state"
  otel_SetTracerProvider :: "nat \<Rightarrow> ('w, unit) state"
  otel_SetTraceContextPropagator :: "('w, unit) state"
  otel_Shutdown :: "nat \<Rightarrow> ('w, unit) eff"
  otel_Inject :: "(string \<rightharpoonup> string) \<Rightarrow> ('w, string \<rightharpoonup> string) state"
  otel_Extract :: "(string \<rightharpoonup> string) \<Rightarrow> ('w, unit) state"

text \<open>The result is the function that flushes the spans on exit.\<close>

definition tracing_Init :: "'w otel \<Rightarrow> string \<Rightarrow> string \<Rightarrow> ('w, ('w, unit) eff) eff" where
  "tracing_Init T serviceName otlpEndpoint =
     (if otlpEndpoint = '''' then do {
        _ \<leftarrow> otel_SetNoopProvider T;
        ret (Inr (ret (Inr ())))
      }
      else do {
        x \<leftarrow> otlp_Exporter T otlpEndpoint;
        (case x of
           Inl e \<Rightarrow> ret (Inl (errorf ''creating otlp exporter'' e))
         | Inr exporter \<Rightarrow> do {
             r \<leftarrow> otel_Resource T serviceName;
             (case r of
                Inl e \<Rightarrow> ret (Inl (errorf ''building resource'' e))
              | Inr res \<Rightarrow> do {
                  tp \<leftarrow> otel_NewTracerProvider T exporter res;
                  _ \<leftarrow> otel_SetTracerProvider T tp;
                  _ \<leftarrow> otel_SetTraceContextPropagator T;
                  ret (Inr (otel_Shutdown T tp))
                })
           })
      })"

definition InjectTraceParent :: "'w otel \<Rightarrow> ('w, string) state" where
  "InjectTraceParent T = do {
     carrier \<leftarrow> otel_Inject T Map.empty;
     ret (case carrier ''traceparent'' of None \<Rightarrow> '''' | Some v \<Rightarrow> v)
   }"

definition ExtractTraceParent :: "'w otel \<Rightarrow> string \<Rightarrow> ('w, unit) state" where
  "ExtractTraceParent T traceParent =
     (if traceParent = '''' then ret () else otel_Extract T [''traceparent'' \<mapsto> traceParent])"

section \<open>Collectors\<close>

datatype metric_kind = CounterVec | HistogramVec | Gauge | GaugeVec | Histogram

text \<open>The upper bounds of a histogram's buckets, in thousandths of its unit.\<close>

datatype buckets = NoBuckets | DefBuckets | Buckets "nat list"

record metric =
  mt_Kind :: metric_kind
  mt_Name :: string
  mt_Help :: string
  mt_Buckets :: buckets
  mt_Labels :: "string list"

definition JobsCreatedTotal :: metric where
  "JobsCreatedTotal = \<lparr>mt_Kind = CounterVec, mt_Name = ''metalgrid_jobs_created_total'',
     mt_Help = ''Total AcceleratorJob submissions accepted, by team.'', mt_Buckets = NoBuckets, mt_Labels = [''team'']\<rparr>"

definition APIRequestDuration :: metric where
  "APIRequestDuration = \<lparr>mt_Kind = HistogramVec, mt_Name = ''metalgrid_api_request_duration_seconds'',
     mt_Help = ''REST API request latency.'', mt_Buckets = DefBuckets, mt_Labels = [''method'', ''path'', ''status'']\<rparr>"

definition QueueDepth :: metric where
  "QueueDepth = \<lparr>mt_Kind = Gauge, mt_Name = ''metalgrid_queue_depth'',
     mt_Help = ''Pending (unconsumed) job submissions in the NATS JetStream queue.'', mt_Buckets = NoBuckets, mt_Labels = []\<rparr>"

definition JobPhaseCount :: metric where
  "JobPhaseCount = \<lparr>mt_Kind = GaugeVec, mt_Name = ''metalgrid_jobs_by_phase'',
     mt_Help = ''Current AcceleratorJob count by phase.'', mt_Buckets = NoBuckets, mt_Labels = [''phase'']\<rparr>"

definition SchedulingLatencySeconds :: metric where
  "SchedulingLatencySeconds = \<lparr>mt_Kind = Histogram, mt_Name = ''metalgrid_job_scheduling_latency_seconds'',
     mt_Help = ''Time from AcceleratorJob creation to its first pod reaching Running.'',
     mt_Buckets = Buckets [100, 500, 1000, 2500, 5000, 10000, 30000, 60000, 120000], mt_Labels = []\<rparr>"

definition AcceleratorUtilization :: metric where
  "AcceleratorUtilization = \<lparr>mt_Kind = Gauge, mt_Name = ''metalgrid_accelerator_utilization_ratio'',
     mt_Help = ''Fraction of cluster-wide accelerator capacity currently allocated (0-1).'', mt_Buckets = NoBuckets, mt_Labels = []\<rparr>"

text \<open>\<open>must\<close> is \<^verbatim>\<open>MustRegister\<close> of the registry, which panics on a collector it cannot take.\<close>

definition RegisterAPI :: "(metric list \<Rightarrow> ('w, unit) eff) \<Rightarrow> ('w, unit) eff" where
  "RegisterAPI must = must [JobsCreatedTotal, APIRequestDuration]"

definition RegisterOperator :: "(metric list \<Rightarrow> ('w, unit) eff) \<Rightarrow> ('w, unit) eff" where
  "RegisterOperator must = must [QueueDepth, JobPhaseCount, SchedulingLatencySeconds, AcceleratorUtilization]"

section \<open>What is open\<close>

record resources =
  rs_conns :: "nat set"
  rs_pools :: "nat set"
  rs_listeners :: "nat set"
  rs_stream :: "StreamConfig option"

text \<open>
  A successful open yields a handle that was not open and opens nothing else, a failed one opens
  nothing, a close closes its handle, and the calls on an open handle leave the rest alone.
\<close>

locale nats_resources =
  fixes N :: "'w nats_lib" and res :: "'w \<Rightarrow> resources"
  assumes connect_ok: "fst (run_state (nats_Connect N url) w) = Inr nc \<Longrightarrow> nc \<notin> rs_conns (res w) \<and>
      res (snd (run_state (nats_Connect N url) w)) = (res w)\<lparr>rs_conns := insert nc (rs_conns (res w))\<rparr>"
    and connect_fails: "fst (run_state (nats_Connect N url) w) = Inl e \<Longrightarrow>
      res (snd (run_state (nats_Connect N url) w)) = res w"
    and close_conn: "res (snd (run_state (nats_Close N nc) w)) = (res w)\<lparr>rs_conns := rs_conns (res w) - {nc}\<rparr>"
    and jetstream_res: "res (snd (run_state (jetstream_New N nc) w)) = res w"
    and stream_ok: "fst (run_state (js_CreateOrUpdateStream N nc cfg) w) = Inr u \<Longrightarrow>
      res (snd (run_state (js_CreateOrUpdateStream N nc cfg) w)) = (res w)\<lparr>rs_stream := Some cfg\<rparr>"
    and stream_fails: "fst (run_state (js_CreateOrUpdateStream N nc cfg) w) = Inl e \<Longrightarrow>
      res (snd (run_state (js_CreateOrUpdateStream N nc cfg) w)) = res w"
begin

lemma Connect_ok:
  assumes "run_state (queue_Connect N url) w = (Inr q, w')"
  shows "q_nc q \<notin> rs_conns (res w) \<and>
     res w' = (res w)\<lparr>rs_conns := insert (q_nc q) (rs_conns (res w)), rs_stream := Some jobs_stream\<rparr>"
proof -
  from assms obtain nc u where nc: "fst (run_state (nats_Connect N url) w) = Inr nc" and q: "q_nc q = nc"
    and u: "fst (run_state (js_CreateOrUpdateStream N nc jobs_stream)
        (snd (run_state (jetstream_New N nc) (snd (run_state (nats_Connect N url) w))))) = Inr u"
    and w': "w' = snd (run_state (js_CreateOrUpdateStream N nc jobs_stream)
        (snd (run_state (jetstream_New N nc) (snd (run_state (nats_Connect N url) w)))))"
    by (auto simp: queue_Connect_def split_beta split: sum.splits)
  from connect_ok [OF nc] stream_ok [OF u] show ?thesis by (simp add: q w' jetstream_res)
qed

text \<open>Every error path closes the connection it opened.\<close>

lemma Connect_fails:
  assumes "run_state (queue_Connect N url) w = (Inl e, w')"
  shows "res w' = res w"
proof (cases "fst (run_state (nats_Connect N url) w)")
  case (Inl e)
  with assms connect_fails [OF Inl] show ?thesis by (auto simp: queue_Connect_def split_beta)
next
  case (Inr nc)
  let ?w1 = "snd (run_state (nats_Connect N url) w)"
  have open1: "nc \<notin> rs_conns (res w)" "res ?w1 = (res w)\<lparr>rs_conns := insert nc (rs_conns (res w))\<rparr>"
    using connect_ok [OF Inr] by simp_all
  from assms Inr obtain w2 where "w' = snd (run_state (nats_Close N nc) w2)" and "res w2 = res ?w1"
    by (auto simp: queue_Connect_def split_beta jetstream_res stream_fails split: sum.splits)
  with open1 show ?thesis by (simp add: close_conn)
qed

end

end
