(* ===== verification/Operator_Main.thy ===== *)
theory Operator_Main
  imports Runtime "HOL-Library.Sublist"
begin

text \<open>
  The operator process, \<^verbatim>\<open>src/cmd/operator/main.go\<close>: its flags, the registration of the controllers, the
  webhook and the runnables with the manager, and the metrics poller's loop. controller-runtime's manager
  and the command line are the parameters \<open>H\<close> and \<open>F\<close>.
\<close>

section \<open>Configuration\<close>

text \<open>What \<^verbatim>\<open>flag.Parse\<close> found on the command line, by flag name.\<close>

record command_line =
  flag_String :: "string \<Rightarrow> string option"
  flag_Bool :: "string \<Rightarrow> bool option"

definition string_var :: "command_line \<Rightarrow> string \<Rightarrow> string \<Rightarrow> string" where
  "string_var F name dflt = (case flag_String F name of None \<Rightarrow> dflt | Some v \<Rightarrow> v)"

definition bool_var :: "command_line \<Rightarrow> string \<Rightarrow> bool \<Rightarrow> bool" where
  "bool_var F name dflt = (case flag_Bool F name of None \<Rightarrow> dflt | Some v \<Rightarrow> v)"

record operator_config =
  oc_metricsAddr :: string
  oc_probeAddr :: string
  oc_enableLeaderElection :: bool
  oc_leaderElectionNamespace :: string
  oc_natsURL :: string
  oc_namespace :: string
  oc_enableWebhook :: bool
  oc_otlpEndpoint :: string

definition operator_flags :: "string \<Rightarrow> command_line \<Rightarrow> (string \<Rightarrow> string) \<Rightarrow> operator_config" where
  "operator_flags DefaultURL F env = \<lparr>
     oc_metricsAddr = string_var F ''metrics-bind-address'' '':8080'',
     oc_probeAddr = string_var F ''health-probe-bind-address'' '':8081'',
     oc_enableLeaderElection = bool_var F ''leader-elect'' False,
     oc_leaderElectionNamespace = string_var F ''leader-election-namespace'' (envOr env ''JOB_NAMESPACE'' ''default''),
     oc_natsURL = string_var F ''nats-url'' (envOr env ''NATS_URL'' DefaultURL),
     oc_namespace = string_var F ''namespace'' (envOr env ''JOB_NAMESPACE'' ''default''),
     oc_enableWebhook = bool_var F ''enable-webhook'' False,
     oc_otlpEndpoint = envOr env ''OTLP_ENDPOINT'' ''''\<rparr>"

section \<open>The manager\<close>

record manager_options =
  mo_MetricsBindAddress :: string
  mo_LeaderElection :: bool
  mo_LeaderElectionID :: string
  mo_LeaderElectionNamespace :: string
  mo_HealthProbeBindAddress :: string

text \<open>The kind a controller is for and the kinds it owns.\<close>

record controller_builder =
  cb_For :: string
  cb_Owns :: "string list"

text \<open>What \<^verbatim>\<open>mgr.Add\<close> is given: the runnable, the connection of its queue, and its namespace.\<close>

datatype runnable = SubmissionConsumer nat string | MetricsPoller nat string

fun NeedLeaderElection :: "runnable \<Rightarrow> bool" where
  "NeedLeaderElection (SubmissionConsumer q ns) = True"
| "NeedLeaderElection (MetricsPoller q ns) = True"

record 'w op_host =
  oh_MustRegister :: "metric list \<Rightarrow> ('w, unit) eff"
  oh_otel :: "'w otel"
  oh_NewManager :: "manager_options \<Rightarrow> ('w, unit) eff"
  oh_Complete :: "controller_builder \<Rightarrow> ('w, unit) eff"
  oh_CompleteWebhook :: "string \<Rightarrow> ('w, unit) eff"
  oh_nats :: "'w nats_lib"
  oh_Add :: "runnable \<Rightarrow> ('w, unit) eff"
  oh_AddHealthzCheck :: "string \<Rightarrow> ('w, unit) eff"
  oh_AddReadyzCheck :: "string \<Rightarrow> ('w, unit) eff"
  oh_Start :: "('w, unit) eff"

definition AcceleratorJob_SetupWithManager :: "'w op_host \<Rightarrow> ('w, unit) eff" where
  "AcceleratorJob_SetupWithManager H = oh_Complete H \<lparr>cb_For = ''AcceleratorJob'', cb_Owns = [''Pod'']\<rparr>"

definition InferenceService_SetupWithManager :: "'w op_host \<Rightarrow> ('w, unit) eff" where
  "InferenceService_SetupWithManager H =
     oh_Complete H \<lparr>cb_For = ''InferenceService'', cb_Owns = [''Deployment'', ''Service'']\<rparr>"

definition Validator_SetupWithManager :: "'w op_host \<Rightarrow> ('w, unit) eff" where
  "Validator_SetupWithManager H = oh_CompleteWebhook H ''AcceleratorJob''"

section \<open>The process\<close>

text \<open>\<^verbatim>\<open>if err != nil { os.Exit(1) }\<close>: go on with the result or stop, without running the deferred calls.\<close>

definition or_exit :: "('w, 'a) eff \<Rightarrow> ('a \<Rightarrow> ('w, 'b) eff) \<Rightarrow> ('w, 'b) eff" where
  "or_exit m k = do { r \<leftarrow> m; (case r of Inl e \<Rightarrow> ret (Inl e) | Inr x \<Rightarrow> k x) }"

definition operator_run :: "'w op_host \<Rightarrow> operator_config \<Rightarrow> ('w, ('w, unit) eff \<times> 'w Queue) eff" where
  "operator_run H c =
     or_exit (RegisterOperator (oh_MustRegister H)) (\<lambda>_.
     or_exit (tracing_Init (oh_otel H) ''metalgrid-operator'' (oc_otlpEndpoint c)) (\<lambda>shutdownTracing.
     or_exit (oh_NewManager H \<lparr>mo_MetricsBindAddress = oc_metricsAddr c, mo_LeaderElection = oc_enableLeaderElection c,
         mo_LeaderElectionID = ''metalgrid-operator-leader'', mo_LeaderElectionNamespace = oc_leaderElectionNamespace c,
         mo_HealthProbeBindAddress = oc_probeAddr c\<rparr>) (\<lambda>_.
     or_exit (AcceleratorJob_SetupWithManager H) (\<lambda>_.
     or_exit (InferenceService_SetupWithManager H) (\<lambda>_.
     or_exit (if oc_enableWebhook c then Validator_SetupWithManager H else ret (Inr ())) (\<lambda>_.
     or_exit (queue_Connect (oh_nats H) (oc_natsURL c)) (\<lambda>q.
     or_exit (oh_Add H (SubmissionConsumer (q_nc q) (oc_namespace c))) (\<lambda>_.
     or_exit (oh_Add H (MetricsPoller (q_nc q) (oc_namespace c))) (\<lambda>_.
     or_exit (oh_AddHealthzCheck H ''healthz'') (\<lambda>_.
     or_exit (oh_AddReadyzCheck H ''readyz'') (\<lambda>_.
     or_exit (oh_Start H) (\<lambda>_.
     ret (Inr (shutdownTracing, q))))))))))))))"

definition operator_main :: "'w op_host \<Rightarrow> command_line \<Rightarrow> (string \<Rightarrow> string) \<Rightarrow> ('w, unit) eff" where
  "operator_main H F env =
     or_exit (operator_run H (operator_flags (nats_DefaultURL (oh_nats H)) F env)) (\<lambda>(shutdownTracing, q). do {
       _ \<leftarrow> queue_Close (oh_nats H) q;
       _ \<leftarrow> shutdownTracing;
       ret (Inr ())
     })"

text \<open>
  The poller's loop, run for a number of iterations: it polls at once and then on every tick. \<open>tick\<close> waits
  and tells whether a tick came; otherwise the context is done and \<^verbatim>\<open>Start\<close> returns nil.
\<close>

fun metricsPoller_Start ::
  "nat \<Rightarrow> 'w kube \<Rightarrow> 'w jetstream \<Rightarrow> 'w gauges \<Rightarrow> string \<Rightarrow> ('w, bool) state \<Rightarrow> ('w, bool) state" where
  "metricsPoller_Start 0 K J G ns tick = ret False"
| "metricsPoller_Start (Suc n) K J G ns tick = do {
     _ \<leftarrow> poll K J G ns;
     more \<leftarrow> tick;
     (if more then metricsPoller_Start n K J G ns tick else ret True)
   }"

section \<open>A record of the start-up\<close>

datatype op_event =
    Registered "metric list"
  | ManagerCreated manager_options
  | ControllerAdded controller_builder
  | WebhookAdded string
  | QueueReady
  | RunnableAdded bool string
  | CheckAdded string
  | Started

fun runnable_event :: "runnable \<Rightarrow> op_event" where
  "runnable_event (SubmissionConsumer q ns) = RunnableAdded True ns"
| "runnable_event (MetricsPoller q ns) = RunnableAdded False ns"

text \<open>A call that is recorded when it succeeds.\<close>

definition noted :: "op_event list \<Rightarrow> ('w, 'a) eff \<Rightarrow> ('w \<times> op_event list, 'a) eff" where
  "noted es m = logged (\<lambda>r. if isl r then [] else es) m"

definition unlogged_js :: "'w jetstream \<Rightarrow> ('w \<times> 'l) jetstream" where
  "unlogged_js J = \<lparr>js_publish = (\<lambda>s p i. unlogged (js_publish J s p i)), js_consumer = unlogged (js_consumer J),
     js_info_pending = unlogged (js_info_pending J), js_create_consumer = (\<lambda>n. unlogged (js_create_consumer J n)),
     js_fetch = (\<lambda>n. unlogged (js_fetch J n)), js_peek_consumer = unlogged (js_peek_consumer J),
     js_peek_fetch = (\<lambda>n. unlogged (js_peek_fetch J n)), js_ack = (\<lambda>m. unlogged (js_ack J m)),
     js_nak = (\<lambda>m. unlogged (js_nak J m)), js_term = (\<lambda>m. unlogged (js_term J m)), js_ctx_err = unlogged (js_ctx_err J)\<rparr>"

definition op_spy :: "'w op_host \<Rightarrow> ('w \<times> op_event list) op_host" where
  "op_spy H = \<lparr>
     oh_MustRegister = (\<lambda>ms. noted [Registered ms] (oh_MustRegister H ms)),
     oh_otel = \<lparr>otel_SetNoopProvider = unlogged (otel_SetNoopProvider (oh_otel H)),
       otlp_Exporter = (\<lambda>ep. unlogged (otlp_Exporter (oh_otel H) ep)),
       otel_Resource = (\<lambda>nm. unlogged (otel_Resource (oh_otel H) nm)),
       otel_NewTracerProvider = (\<lambda>x r. unlogged (otel_NewTracerProvider (oh_otel H) x r)),
       otel_SetTracerProvider = (\<lambda>x. unlogged (otel_SetTracerProvider (oh_otel H) x)),
       otel_SetTraceContextPropagator = unlogged (otel_SetTraceContextPropagator (oh_otel H)),
       otel_Shutdown = (\<lambda>x. unlogged (otel_Shutdown (oh_otel H) x)),
       otel_Inject = (\<lambda>c. unlogged (otel_Inject (oh_otel H) c)), otel_Extract = (\<lambda>c. unlogged (otel_Extract (oh_otel H) c))\<rparr>,
     oh_NewManager = (\<lambda>o'. noted [ManagerCreated o'] (oh_NewManager H o')),
     oh_Complete = (\<lambda>b. noted [ControllerAdded b] (oh_Complete H b)),
     oh_CompleteWebhook = (\<lambda>k. noted [WebhookAdded k] (oh_CompleteWebhook H k)),
     oh_nats = \<lparr>nats_DefaultURL = nats_DefaultURL (oh_nats H), nats_Connect = (\<lambda>url. unlogged (nats_Connect (oh_nats H) url)),
       nats_Close = (\<lambda>nc. unlogged (nats_Close (oh_nats H) nc)),
       nats_IsConnected = (\<lambda>nc. unlogged (nats_IsConnected (oh_nats H) nc)),
       jetstream_New = (\<lambda>nc. do { j \<leftarrow> unlogged (jetstream_New (oh_nats H) nc); ret (map_sum id unlogged_js j) }),
       js_CreateOrUpdateStream = (\<lambda>nc cfg. noted [QueueReady] (js_CreateOrUpdateStream (oh_nats H) nc cfg))\<rparr>,
     oh_Add = (\<lambda>r. noted [runnable_event r] (oh_Add H r)),
     oh_AddHealthzCheck = (\<lambda>n. noted [CheckAdded n] (oh_AddHealthzCheck H n)),
     oh_AddReadyzCheck = (\<lambda>n. noted [CheckAdded n] (oh_AddReadyzCheck H n)),
     oh_Start = noted [Started] (oh_Start H)\<rparr>"

text \<open>What a complete start-up does, in order.\<close>

definition start_plan :: "operator_config \<Rightarrow> op_event list" where
  "start_plan c =
     [Registered [QueueDepth, JobPhaseCount, SchedulingLatencySeconds, AcceleratorUtilization],
      ManagerCreated \<lparr>mo_MetricsBindAddress = oc_metricsAddr c, mo_LeaderElection = oc_enableLeaderElection c,
         mo_LeaderElectionID = ''metalgrid-operator-leader'', mo_LeaderElectionNamespace = oc_leaderElectionNamespace c,
         mo_HealthProbeBindAddress = oc_probeAddr c\<rparr>,
      ControllerAdded \<lparr>cb_For = ''AcceleratorJob'', cb_Owns = [''Pod'']\<rparr>,
      ControllerAdded \<lparr>cb_For = ''InferenceService'', cb_Owns = [''Deployment'', ''Service'']\<rparr>] @
     (if oc_enableWebhook c then [WebhookAdded ''AcceleratorJob''] else []) @
     [QueueReady, RunnableAdded True (oc_namespace c), RunnableAdded False (oc_namespace c),
      CheckAdded ''healthz'', CheckAdded ''readyz'', Started]"

text \<open>A part of the start-up follows a plan when what it records is a prefix of it, all of it on success.\<close>

definition follows :: "op_event list \<Rightarrow> ('w \<times> op_event list, 'a) eff \<Rightarrow> bool" where
  "follows plan m \<longleftrightarrow> (\<forall>w l. \<exists>es. snd (snd (run_state m (w, l))) = l @ es \<and> prefix es plan \<and>
     (\<not> isl (fst (run_state m (w, l))) \<longrightarrow> es = plan))"

lemma follows_noted: "follows es (noted es m)"
  by (simp add: follows_def noted_def)

lemma follows_ret: "follows [] (ret (Inr x))"
  by (simp add: follows_def)

lemma follows_quiet: "(\<And>w l. snd (snd (run_state m (w, l))) = l) \<Longrightarrow> follows [] m"
  by (simp add: follows_def)

lemma follows_or_exit:
  assumes "follows p m" and "\<And>x. follows q (k x)"
  shows "follows (p @ q) (or_exit m k)"
  unfolding follows_def
proof (intro allI)
  fix w l
  obtain r w1 l1 where r: "run_state m (w, l) = (r, w1, l1)" by (metis prod_cases3)
  with assms(1) obtain es where es: "l1 = l @ es" "prefix es p" "\<not> isl r \<longrightarrow> es = p"
    unfolding follows_def by (metis fst_conv snd_conv)
  show "\<exists>es. snd (snd (run_state (or_exit m k) (w, l))) = l @ es \<and> prefix es (p @ q) \<and>
     (\<not> isl (fst (run_state (or_exit m k) (w, l))) \<longrightarrow> es = p @ q)"
  proof (cases r)
    case (Inl e)
    with r es show ?thesis by (auto simp: or_exit_def)
  next
    case (Inr x)
    with es have "l1 = l @ p" by simp
    moreover from assms(2) obtain fs where "snd (snd (run_state (k x) (w1, l1))) = l1 @ fs" "prefix fs q"
      "\<not> isl (fst (run_state (k x) (w1, l1))) \<longrightarrow> fs = q" unfolding follows_def by metis
    ultimately show ?thesis using r Inr by (intro exI [of _ "p @ fs"]) (auto simp: or_exit_def)
  qed
qed

lemma tracing_quiet: "follows [] (tracing_Init (oh_otel (op_spy H)) nm ep)"
  by (rule follows_quiet) (simp add: tracing_Init_def op_spy_def split_beta split: sum.split)

lemma connect_follows: "follows [QueueReady] (queue_Connect (oh_nats (op_spy H)) url)"
  by (auto simp: follows_def queue_Connect_def op_spy_def noted_def split_beta split: sum.split)

lemma spy_follows:
  "follows [Registered ms] (oh_MustRegister (op_spy H) ms)" "follows [ManagerCreated opts] (oh_NewManager (op_spy H) opts)"
  "follows [ControllerAdded b] (oh_Complete (op_spy H) b)" "follows [WebhookAdded n] (oh_CompleteWebhook (op_spy H) n)"
  "follows [runnable_event r] (oh_Add (op_spy H) r)" "follows [CheckAdded n] (oh_AddHealthzCheck (op_spy H) n)"
  "follows [CheckAdded n] (oh_AddReadyzCheck (op_spy H) n)" "follows [Started] (oh_Start (op_spy H))"
  by (simp_all add: op_spy_def follows_noted)

lemma follows_next: "follows [e] m \<Longrightarrow> (\<And>x. follows q (k x)) \<Longrightarrow> follows (e # q) (or_exit m k)"
  using follows_or_exit [of "[e]" m q k] by simp

lemma follows_skip: "follows [] m \<Longrightarrow> (\<And>x. follows q (k x)) \<Longrightarrow> follows q (or_exit m k)"
  using follows_or_exit [of "[]" m q k] by simp

lemma operator_run_follows: "follows (start_plan c) (operator_run (op_spy H) c)"
  unfolding operator_run_def start_plan_def RegisterOperator_def AcceleratorJob_SetupWithManager_def
    InferenceService_SetupWithManager_def Validator_SetupWithManager_def append_Cons append_Nil
  by (intro follows_next follows_or_exit follows_skip [OF tracing_quiet] follows_skip [OF follows_ret] spy_follows connect_follows
      spy_follows(5) [of "SubmissionConsumer _ _", unfolded runnable_event.simps]
      spy_follows(5) [of "MetricsPoller _ _", unfolded runnable_event.simps] follows_ret)
    (simp_all add: spy_follows follows_ret)

lemma close_quiet: "snd (snd (run_state (queue_Close (oh_nats (op_spy H)) q) (w, l))) = l"
  by (simp add: queue_Close_def op_spy_def)

text \<open>The function that flushes the spans is one of the spied library or does nothing.\<close>

lemma flush_quiet:
  assumes "fst (run_state (tracing_Init (oh_otel (op_spy H)) nm ep) wl) = Inr flush"
  shows "snd (snd (run_state flush (w, l))) = l"
  using assms by (cases wl) (auto simp: tracing_Init_def op_spy_def split_beta split: if_splits sum.splits)

lemma or_exit_ok:
  "fst (run_state (or_exit m k) s) = Inr y \<Longrightarrow> \<exists>x s'. run_state m s = (Inr x, s') \<and> fst (run_state (k x) s') = Inr y"
  by (cases "run_state m s"; cases "fst (run_state m s)") (simp_all add: or_exit_def)

lemma operator_run_flush:
  assumes "fst (run_state (operator_run (op_spy H) c) wl) = Inr (flush, q)"
  shows "\<exists>wl'. fst (run_state (tracing_Init (oh_otel (op_spy H)) ''metalgrid-operator'' (oc_otlpEndpoint c)) wl') = Inr flush"
  using assms unfolding operator_run_def by (auto dest!: or_exit_ok) (metis fst_conv)

lemma operator_main_follows:
  "follows (start_plan (operator_flags (nats_DefaultURL (oh_nats H)) F env)) (operator_main (op_spy H) F env)"
  unfolding follows_def
proof (intro allI)
  fix w l
  let ?c = "operator_flags (nats_DefaultURL (oh_nats H)) F env"
  let ?run = "run_state (operator_run (op_spy H) ?c) (w, l)"
  have url: "nats_DefaultURL (oh_nats (op_spy H)) = nats_DefaultURL (oh_nats H)" by (simp add: op_spy_def)
  obtain es where es: "snd (snd ?run) = l @ es" "prefix es (start_plan ?c)" "\<not> isl (fst ?run) \<longrightarrow> es = start_plan ?c"
    using operator_run_follows unfolding follows_def by metis
  have "snd (snd (run_state (operator_main (op_spy H) F env) (w, l))) = l @ es \<and>
      (isl (fst (run_state (operator_main (op_spy H) F env) (w, l))) \<longleftrightarrow> isl (fst ?run))"
  proof (cases "fst ?run")
    case (Inl e)
    with es(1) show ?thesis by (simp add: operator_main_def or_exit_def url split_beta)
  next
    case (Inr x)
    obtain flush q where x: "x = (flush, q)" by (cases x)
    obtain w1 where w1: "snd ?run = (w1, l @ es)" using es(1) by (cases "snd ?run") simp
    from Inr x operator_run_flush obtain wl' where
      "fst (run_state (tracing_Init (oh_otel (op_spy H)) ''metalgrid-operator'' (oc_otlpEndpoint ?c)) wl') = Inr flush" by blast
    note quiet = flush_quiet [OF this]
    obtain u w2 where w2: "run_state (queue_Close (oh_nats (op_spy H)) q) (w1, l @ es) = (u, w2, l @ es)"
      using close_quiet [of H q w1 "l @ es"] by (metis prod.collapse snd_conv)
    show ?thesis using Inr x w1 w2 quiet [of w2 "l @ es"]
      by (simp add: operator_main_def or_exit_def url split_beta)
  qed
  with es show "\<exists>es. snd (snd (run_state (operator_main (op_spy H) F env) (w, l))) = l @ es \<and> prefix es (start_plan ?c) \<and>
     (\<not> isl (fst (run_state (operator_main (op_spy H) F env) (w, l))) \<longrightarrow> es = start_plan ?c)" by auto
qed

lemma started_last: "prefix es (start_plan c) \<Longrightarrow> Started \<in> set es \<Longrightarrow> es = start_plan c"
proof -
  assume "prefix es (start_plan c)" and st: "Started \<in> set es"
  then obtain zs where zs: "start_plan c = es @ zs" by (auto simp: prefix_def)
  obtain pre where pre: "start_plan c = pre @ [Started]" "Started \<notin> set pre" by (simp add: start_plan_def)
  show "es = start_plan c"
  proof (cases zs rule: rev_cases)
    case (snoc ys y)
    with zs pre(1) have "pre = es @ ys" by simp
    with pre(2) st show ?thesis by simp
  qed (simp add: zs)
qed

section \<open>The property\<close>

text \<open>Property C35. The operator starts its manager complete or not at all: whatever call fails, the calls that
  succeeded are the first ones of the plan, in its order; and when the manager was started, the metrics, both
  controllers with the kinds they own, the webhook (exactly when the flag asks for it), the queue, the
  consumer and the poller in the configured namespace and both probes had been registered before.\<close>

theorem operator_starts_complete:
  assumes "run_state (operator_main (op_spy H) F env) (w, []) = (r, w', events)"
  shows "prefix events (start_plan (operator_flags (nats_DefaultURL (oh_nats H)) F env)) \<and>
     (r = Inr () \<or> Started \<in> set events \<longrightarrow> events = start_plan (operator_flags (nats_DefaultURL (oh_nats H)) F env))"
  using operator_main_follows [of H F env] assms started_last unfolding follows_def
  by (metis append_Nil fst_conv snd_conv sum.disc(2))

definition example_op_host :: "unit op_host" where
  "example_op_host = \<lparr>oh_MustRegister = (\<lambda>ms. ret (Inr ())),
     oh_otel = \<lparr>otel_SetNoopProvider = ret (), otlp_Exporter = (\<lambda>ep. ret (Inr 0)), otel_Resource = (\<lambda>nm. ret (Inr 0)),
       otel_NewTracerProvider = (\<lambda>x r. ret 0), otel_SetTracerProvider = (\<lambda>x. ret ()),
       otel_SetTraceContextPropagator = ret (), otel_Shutdown = (\<lambda>x. ret (Inr ())), otel_Inject = (\<lambda>c. ret c),
       otel_Extract = (\<lambda>c. ret ())\<rparr>,
     oh_NewManager = (\<lambda>opts. ret (Inr ())), oh_Complete = (\<lambda>b. ret (Inr ())), oh_CompleteWebhook = (\<lambda>n. ret (Inr ())),
     oh_nats = \<lparr>nats_DefaultURL = ''nats://127.0.0.1:4222'', nats_Connect = (\<lambda>url. ret (Inr 1)), nats_Close = (\<lambda>nc. ret ()),
       nats_IsConnected = (\<lambda>nc. ret True), jetstream_New = (\<lambda>nc. ret (Inr quiet_jetstream)),
       js_CreateOrUpdateStream = (\<lambda>nc cfg. ret (Inr ()))\<rparr>,
     oh_Add = (\<lambda>r. ret (Inr ())), oh_AddHealthzCheck = (\<lambda>n. ret (Inr ())), oh_AddReadyzCheck = (\<lambda>n. ret (Inr ())),
     oh_Start = ret (Inr ())\<rparr>"

definition example_flags :: command_line where
  "example_flags = \<lparr>flag_String = Map.empty, flag_Bool = [''enable-webhook'' \<mapsto> True]\<rparr>"

theorem operator_starts_complete_witness:
  "WebhookAdded ''AcceleratorJob'' \<in>
     set (snd (snd (run_state (operator_main (op_spy example_op_host) example_flags (\<lambda>k. '''')) ((), []))))"
proof -
  let ?run = "run_state (operator_main (op_spy example_op_host) example_flags (\<lambda>k. '''')) ((), [])"
  have "fst ?run = Inr ()"
    by (simp add: operator_main_def operator_run_def or_exit_def RegisterOperator_def tracing_Init_def queue_Connect_def
        queue_Close_def AcceleratorJob_SetupWithManager_def InferenceService_SetupWithManager_def
        Validator_SetupWithManager_def op_spy_def noted_def example_op_host_def operator_flags_def example_flags_def
        string_var_def bool_var_def envOr_def)
  moreover obtain r w' es where run: "?run = (r, w', es)" by (metis prod_cases3)
  ultimately have "es = start_plan (operator_flags (nats_DefaultURL (oh_nats example_op_host)) example_flags (\<lambda>k. ''''))"
    using operator_starts_complete [OF run] by simp
  then show ?thesis unfolding run snd_conv by (simp add: start_plan_def operator_flags_def example_flags_def bool_var_def)
qed

end
