(* ===== verification/Cmd_Tools.thy ===== *)
theory Cmd_Tools
  imports Scheduler Rest_Api Mock_Inference
begin

text \<open>
  The two small binaries: the scheduler extender's process (\<^verbatim>\<open>src/cmd/scheduler/main.go\<close>) and the generator of
  development tokens (\<^verbatim>\<open>src/hack/gen-token/main.go\<close>), whose tokens the REST server accepts as their team.
\<close>

section \<open>The extender's process\<close>

text \<open>\<open>new_clientset\<close> covers the cluster configuration and \<^verbatim>\<open>kubernetes.NewForConfig\<close>; \<open>serve\<close> is \<^verbatim>\<open>ListenAndServe\<close>.\<close>

definition scheduler_main ::
  "('w, 'w clientset) eff
   \<Rightarrow> (string \<Rightarrow> (string \<Rightarrow> string list \<Rightarrow> ExtenderArgs option \<Rightarrow> ('w, extender_reply) state) \<Rightarrow> ('w, go_error) state)
   \<Rightarrow> (string \<Rightarrow> string) \<Rightarrow> ('w, unit) eff" where
  "scheduler_main new_clientset serve env = do {
     c \<leftarrow> new_clientset;
     (case c of
        Inl e \<Rightarrow> ret (Inl e)
      | Inr cs \<Rightarrow> do {
          err \<leftarrow> serve (envOr env ''LISTEN_ADDR'' '':8888'') (extender_Routes cs);
          ret (if err \<noteq> Opaque ''http: Server closed'' then Inl err else Inr ())
        })
   }"

section \<open>Tokens\<close>

text \<open>
  The flags of the generator and the token it prints: \<open>sign secret team expiry\<close> is the HS256 signature over
  the claims, and a failing one panics.
\<close>

record token_flags =
  tf_team :: "string option"
  tf_secret :: "string option"
  tf_ttl :: "duration option"

definition gen_token ::
  "(string \<Rightarrow> string \<Rightarrow> instant \<Rightarrow> go_error + string) \<Rightarrow> instant \<Rightarrow> token_flags \<Rightarrow> go_error + string" where
  "gen_token sign now F =
     (let team = (case tf_team F of None \<Rightarrow> ''platform'' | Some t \<Rightarrow> t);
          secret = (case tf_secret F of None \<Rightarrow> ''dev-secret'' | Some s \<Rightarrow> s);
          ttl = (case tf_ttl F of None \<Rightarrow> 3600 * second | Some d \<Rightarrow> d)
      in case sign secret team (time_add now ttl) of Inl e \<Rightarrow> Inl (Panic (error_text e)) | Inr tok \<Rightarrow> Inr tok)"

text \<open>The verifying side of the JWT library: a signed token is accepted with its secret until it expires.\<close>

locale jwt_library =
  fixes sv :: "('w, 'l) rest_server" and sign :: "string \<Rightarrow> string \<Rightarrow> instant \<Rightarrow> go_error + string"
    and clock :: "'w \<Rightarrow> instant"
  assumes verified: "sign secret team expiry = Inr tok \<Longrightarrow> clock w < expiry \<Longrightarrow>
      fst (run_state (sv_parse_jwt sv secret tok) w) = Inr team"
    and token_text: "sign secret team expiry = Inr tok \<Longrightarrow> team \<noteq> '''' \<Longrightarrow> tok \<noteq> ''''"
begin

lemma minted_token_authenticates:
  assumes "gen_token sign now \<lparr>tf_team = Some team, tf_secret = Some (sv_JWTSecret sv), tf_ttl = Some ttl\<rparr> = Inr tok"
    and "team \<noteq> ''''" and "clock w < time_add now ttl" and "rq_Authorization rq = ''Bearer '' @ tok"
  shows "fst (run_state (authenticate sv rq) w) = Inr team"
proof -
  from assms(1) have sg: "sign (sv_JWTSecret sv) team (time_add now ttl) = Inr tok"
    by (simp add: gen_token_def split: sum.splits)
  from verified [OF sg assms(3)] token_text [OF sg assms(2)] assms(2,4) show ?thesis
    by (simp add: authenticate_def cut_prefix_def split_beta)
qed

end

interpretation example_jwt: jwt_library example_server "\<lambda>secret team expiry. Inr team" "\<lambda>w. 0"
  by unfold_locales (simp_all add: example_server_def)

end
