(* ===== verification/Go_Heap.thy ===== *)
theory Go_Heap
  imports Prelude "HOL-Library.DAList"
begin

text \<open>
  Go's memory as far as aliasing can be told: a store of cells with an allocation limit, pointers, slices
  and maps, and what it means that an operation is a deep copy. The locale \<open>deep_copy\<close> is that contract; the
  lemmas after it build deep copies of pointers, slices, maps and structs from those of their parts.
\<close>

section \<open>Memory\<close>

type_synonym addr = nat

record 'c heap =
  hp_cells :: "addr \<Rightarrow> 'c"
  hp_next :: addr

text \<open>\<^verbatim>\<open>new\<close> and \<^verbatim>\<open>make\<close> allocate a cell; \<open>load\<close> and \<open>store\<close> go through a pointer.\<close>

definition new_cell :: "'c \<Rightarrow> ('c heap, addr) state" where
  "new_cell c = State (\<lambda>h. (hp_next h, h\<lparr>hp_cells := (hp_cells h)(hp_next h := c), hp_next := Suc (hp_next h)\<rparr>))"

definition load :: "addr \<Rightarrow> ('c heap, 'c) state" where
  "load p = State (\<lambda>h. (hp_cells h p, h))"

definition store :: "addr \<Rightarrow> 'c \<Rightarrow> ('c heap, unit) state" where
  "store p c = State (\<lambda>h. ((), h\<lparr>hp_cells := (hp_cells h)(p := c)\<rparr>))"

lemma run_memory [simp]:
  "run_state (new_cell c) h = (hp_next h, h\<lparr>hp_cells := (hp_cells h)(hp_next h := c), hp_next := Suc (hp_next h)\<rparr>)"
  "run_state (load p) h = (hp_cells h p, h)"
  "run_state (store p c) h = ((), h\<lparr>hp_cells := (hp_cells h)(p := c)\<rparr>)"
  by (simp_all add: new_cell_def load_def store_def)

text \<open>A slice header: the backing array, where the slice starts in it, and its length.\<close>

datatype slice = NilSlice | Slice addr nat nat

section \<open>Agreement and growth\<close>

definition same_on :: "addr set \<Rightarrow> 'c heap \<Rightarrow> 'c heap \<Rightarrow> bool" where
  "same_on A h h' \<longleftrightarrow> (\<forall>a\<in>A. hp_cells h' a = hp_cells h a)"

text \<open>Memory only grew: what was allocated is as it was.\<close>

definition grows :: "'c heap \<Rightarrow> 'c heap \<Rightarrow> bool" where
  "grows h h' \<longleftrightarrow> hp_next h \<le> hp_next h' \<and> same_on {..<hp_next h} h h'"

lemma same_on_refl [simp]: "same_on A h h"
  by (simp add: same_on_def)

lemma same_on_trans: "same_on A h h' \<Longrightarrow> same_on A h' h'' \<Longrightarrow> same_on A h h''"
  by (simp add: same_on_def)

lemma same_on_subset: "same_on A h h' \<Longrightarrow> B \<subseteq> A \<Longrightarrow> same_on B h h'"
  by (auto simp: same_on_def)

lemma same_on_Un [simp]: "same_on (A \<union> B) h h' \<longleftrightarrow> same_on A h h' \<and> same_on B h h'"
  by (auto simp: same_on_def)

lemma same_on_insert [simp]: "same_on (insert a A) h h' \<longleftrightarrow> hp_cells h' a = hp_cells h a \<and> same_on A h h'"
  by (simp add: same_on_def)

lemma grows_refl [simp]: "grows h h"
  by (simp add: grows_def)

lemma grows_trans: "grows h h' \<Longrightarrow> grows h' h'' \<Longrightarrow> grows h h''"
  by (auto simp: grows_def same_on_def)

lemma grows_next: "grows h h' \<Longrightarrow> hp_next h \<le> hp_next h'"
  by (simp add: grows_def)

lemma grows_same: "grows h h' \<Longrightarrow> A \<subseteq> {..<hp_next h} \<Longrightarrow> same_on A h h'"
  by (auto simp: grows_def same_on_def)

lemma grows_alloc: "grows h (snd (run_state (new_cell c) h))"
  by (simp add: grows_def same_on_def)

lemma grows_store: "grows h h' \<Longrightarrow> hp_next h \<le> p \<Longrightarrow> grows h (snd (run_state (store p c) h'))"
  by (auto simp: grows_def same_on_def)

section \<open>Deep copies\<close>

text \<open>
  How an \<open>'a\<close> is to be read in memory: \<open>vw_foot h a\<close> are the cells reachable from \<open>a\<close>, \<open>vw_val h a\<close> is the value
  spelled out in them, and \<open>vw_ok h a\<close> says that \<open>a\<close> is a well-typed reference into allocated memory.
\<close>

record ('c, 'a, 'v) view =
  vw_ok :: "'c heap \<Rightarrow> 'a \<Rightarrow> bool"
  vw_foot :: "'c heap \<Rightarrow> 'a \<Rightarrow> addr set"
  vw_val :: "'c heap \<Rightarrow> 'a \<Rightarrow> 'v"

text \<open>
  \<open>cp\<close> is a deep copy of what is read by \<open>w\<close>. The first laws say that the cells of the footprint determine the
  reading; the others that the copy is made of new cells only, has the value of the original and leaves all
  old cells alone.
\<close>

locale deep_copy =
  fixes cp :: "'a \<Rightarrow> ('c heap, 'a) state" and w :: "('c, 'a, 'v) view"
  assumes ok_alloc: "vw_ok w h a \<Longrightarrow> vw_foot w h a \<subseteq> {..<hp_next h}"
    and ok_local: "vw_ok w h a \<Longrightarrow> same_on (vw_foot w h a) h h' \<Longrightarrow> hp_next h \<le> hp_next h' \<Longrightarrow> vw_ok w h' a"
    and foot_local: "vw_ok w h a \<Longrightarrow> same_on (vw_foot w h a) h h' \<Longrightarrow> vw_foot w h' a = vw_foot w h a"
    and val_local: "vw_ok w h a \<Longrightarrow> same_on (vw_foot w h a) h h' \<Longrightarrow> vw_val w h' a = vw_val w h a"
    and cp_grows: "vw_ok w h a \<Longrightarrow> run_state (cp a) h = (b, h') \<Longrightarrow> grows h h'"
    and cp_ok: "vw_ok w h a \<Longrightarrow> run_state (cp a) h = (b, h') \<Longrightarrow> vw_ok w h' b"
    and cp_fresh: "vw_ok w h a \<Longrightarrow> run_state (cp a) h = (b, h') \<Longrightarrow> vw_foot w h' b \<subseteq> {hp_next h..}"
    and cp_value: "vw_ok w h a \<Longrightarrow> run_state (cp a) h = (b, h') \<Longrightarrow> vw_val w h' b = vw_val w h a"
begin

abbreviation ok :: "'c heap \<Rightarrow> 'a \<Rightarrow> bool" where "ok \<equiv> vw_ok w"
abbreviation foot :: "'c heap \<Rightarrow> 'a \<Rightarrow> addr set" where "foot \<equiv> vw_foot w"
abbreviation val :: "'c heap \<Rightarrow> 'a \<Rightarrow> 'v" where "val \<equiv> vw_val w"

text \<open>Growth keeps everything about what was there.\<close>

lemma kept:
  assumes "ok h a" and "grows h h'"
  shows "ok h' a" "foot h' a = foot h a" "val h' a = val h a"
proof -
  have "same_on (foot h a) h h'" using grows_same [OF assms(2) ok_alloc [OF assms(1)]] .
  with assms show "ok h' a" "foot h' a = foot h a" "val h' a = val h a"
    using ok_local foot_local val_local grows_next by blast+
qed

lemma copy_apart:
  assumes "ok h a" and "run_state (cp a) h = (b, h')"
  shows "foot h' b \<inter> foot h' a = {}"
proof -
  have "foot h' a \<subseteq> {..<hp_next h}" using kept(2) [OF assms(1) cp_grows [OF assms]] ok_alloc [OF assms(1)] by simp
  with cp_fresh [OF assms] show ?thesis by force
qed

text \<open>Whatever is done to the cells of one of the two afterwards, the other keeps its value.\<close>

lemma copy_independent:
  assumes "ok h a" and "run_state (cp a) h = (b, h')"
  shows "same_on (- foot h' b) h' h'' \<Longrightarrow> val h'' a = val h a"
    and "same_on (- foot h' a) h' h'' \<Longrightarrow> val h'' b = val h a"
proof -
  note apart = copy_apart [OF assms] and grown = cp_grows [OF assms]
  { assume "same_on (- foot h' b) h' h''"
    then have "same_on (foot h' a) h' h''" using apart by (blast intro: same_on_subset)
    then show "val h'' a = val h a"
      using val_local [OF kept(1) [OF assms(1) grown]] kept(3) [OF assms(1) grown] by simp }
  { assume "same_on (- foot h' a) h' h''"
    then have "same_on (foot h' b) h' h''" using apart by (blast intro: same_on_subset)
    then show "val h'' b = val h a"
      using val_local [OF cp_ok [OF assms]] cp_value [OF assms] by simp }
qed

end

section \<open>Values without pointers\<close>

definition flat_copy :: "'a \<Rightarrow> ('c heap, 'a) state" where
  "flat_copy a = ret a"

definition flat_view :: "('c, 'a, 'a) view" where
  "flat_view = \<lparr>vw_ok = \<lambda>h a. True, vw_foot = \<lambda>h a. {}, vw_val = \<lambda>h a. a\<rparr>"

lemma flat_view_simps [simp]: "vw_ok flat_view h a" "vw_foot flat_view h a = {}" "vw_val flat_view h a = a"
  by (simp_all add: flat_view_def)

interpretation flat: deep_copy flat_copy flat_view
  by unfold_locales (auto simp: flat_copy_def)

section \<open>Fields of a struct\<close>

definition pair_copy :: "('a \<Rightarrow> ('c heap, 'a) state) \<Rightarrow> ('b \<Rightarrow> ('c heap, 'b) state) \<Rightarrow> 'a \<times> 'b \<Rightarrow> ('c heap, 'a \<times> 'b) state" where
  "pair_copy cpa cpb ab = do { a \<leftarrow> cpa (fst ab); b \<leftarrow> cpb (snd ab); ret (a, b) }"

definition pair_view :: "('c, 'a, 'v) view \<Rightarrow> ('c, 'b, 'w) view \<Rightarrow> ('c, 'a \<times> 'b, 'v \<times> 'w) view" where
  "pair_view wa wb = \<lparr>vw_ok = \<lambda>h ab. vw_ok wa h (fst ab) \<and> vw_ok wb h (snd ab),
     vw_foot = \<lambda>h ab. vw_foot wa h (fst ab) \<union> vw_foot wb h (snd ab),
     vw_val = \<lambda>h ab. (vw_val wa h (fst ab), vw_val wb h (snd ab))\<rparr>"

lemma pair_view_simps [simp]:
  "vw_ok (pair_view wa wb) h ab \<longleftrightarrow> vw_ok wa h (fst ab) \<and> vw_ok wb h (snd ab)"
  "vw_foot (pair_view wa wb) h ab = vw_foot wa h (fst ab) \<union> vw_foot wb h (snd ab)"
  "vw_val (pair_view wa wb) h ab = (vw_val wa h (fst ab), vw_val wb h (snd ab))"
  by (simp_all add: pair_view_def)

locale copy_pair = a: deep_copy cpa wa + b: deep_copy cpb wb
  for cpa :: "'a \<Rightarrow> ('c heap, 'a) state" and wa :: "('c, 'a, 'v) view"
    and cpb :: "'b \<Rightarrow> ('c heap, 'b) state" and wb :: "('c, 'b, 'w) view"
begin

lemma pair_run:
  assumes "vw_ok (pair_view wa wb) h ab" and "run_state (pair_copy cpa cpb ab) h = (c, h')"
  shows "grows h h' \<and> vw_ok (pair_view wa wb) h' c \<and> vw_foot (pair_view wa wb) h' c \<subseteq> {hp_next h..} \<and>
     vw_val (pair_view wa wb) h' c = vw_val (pair_view wa wb) h ab"
proof -
  have ok: "a.ok h (fst ab)" "b.ok h (snd ab)" using assms(1) by simp_all
  obtain x h1 y where x: "run_state (cpa (fst ab)) h = (x, h1)" and y: "run_state (cpb (snd ab)) h1 = (y, h')"
    and c: "c = (x, y)"
    using assms(2) by (auto simp: pair_copy_def split: prod.splits)
  note g1 = a.cp_grows [OF ok(1) x]
  note kb = b.kept [OF ok(2) g1]
  note g2 = b.cp_grows [OF kb(1) y]
  note ka = a.kept [OF a.cp_ok [OF ok(1) x] g2]
  have "b.foot h' y \<subseteq> {hp_next h..}" using b.cp_fresh [OF kb(1) y] grows_next [OF g1] by force
  with ka a.cp_fresh [OF ok(1) x] a.cp_value [OF ok(1) x] b.cp_ok [OF kb(1) y] b.cp_value [OF kb(1) y] kb(3)
    grows_trans [OF g1 g2]
  show ?thesis by (simp add: c)
qed

end

sublocale copy_pair \<subseteq> pair: deep_copy "pair_copy cpa cpb" "pair_view wa wb"
proof (unfold_locales, goal_cases)
  case (1 h a)
  then show ?case using a.ok_alloc b.ok_alloc by auto
next
  case (2 h a h')
  then show ?case using a.ok_local b.ok_local by auto
next
  case (3 h a h')
  then show ?case using a.foot_local b.foot_local by (metis (no_types, lifting) pair_view_simps same_on_Un)
next
  case (4 h a h')
  then show ?case using a.val_local b.val_local by (metis (no_types, lifting) pair_view_simps same_on_Un)
qed (use pair_run in blast)+

text \<open>
  A struct whose fields with pointers are \<open>get s\<close>: the copy starts as the struct itself and gets copies of
  these fields.
\<close>

definition struct_copy :: "('s \<Rightarrow> 'a) \<Rightarrow> ('a \<Rightarrow> 's \<Rightarrow> 's) \<Rightarrow> ('a \<Rightarrow> ('c heap, 'a) state) \<Rightarrow> 's \<Rightarrow> ('c heap, 's) state" where
  "struct_copy get put cp s = do { a \<leftarrow> cp (get s); ret (put a s) }"

definition struct_view :: "('s \<Rightarrow> 'a) \<Rightarrow> ('s \<Rightarrow> 'b) \<Rightarrow> ('c, 'a, 'v) view \<Rightarrow> ('c, 's, 'b \<times> 'v) view" where
  "struct_view get rest w = \<lparr>vw_ok = \<lambda>h s. vw_ok w h (get s), vw_foot = \<lambda>h s. vw_foot w h (get s),
     vw_val = \<lambda>h s. (rest s, vw_val w h (get s))\<rparr>"

lemma struct_view_simps [simp]:
  "vw_ok (struct_view get rest w) h s = vw_ok w h (get s)"
  "vw_foot (struct_view get rest w) h s = vw_foot w h (get s)"
  "vw_val (struct_view get rest w) h s = (rest s, vw_val w h (get s))"
  by (simp_all add: struct_view_def)

locale copy_struct = deep_copy cp w
  for cp :: "'a \<Rightarrow> ('c heap, 'a) state" and w :: "('c, 'a, 'v) view" +
  fixes get :: "'s \<Rightarrow> 'a" and put :: "'a \<Rightarrow> 's \<Rightarrow> 's" and rest :: "'s \<Rightarrow> 'b"
  assumes get_put: "get (put a s) = a" and rest_put: "rest (put a s) = rest s"

sublocale copy_struct \<subseteq> struct: deep_copy "struct_copy get put cp" "struct_view get rest w"
proof (unfold_locales, goal_cases)
  case (1 h a)
  then show ?case by simp (rule ok_alloc)
next
  case (2 h a h')
  then show ?case by simp (rule ok_local)
next
  case (3 h a h')
  then show ?case by simp (rule foot_local)
next
  case (4 h a h')
  then show ?case by simp (rule val_local)
qed (auto simp: struct_copy_def get_put rest_put split: prod.splits
    dest: cp_grows cp_ok cp_value subsetD [OF cp_fresh])

section \<open>Pointers\<close>

text \<open>\<^verbatim>\<open>if in != nil { *out = f(*in) }\<close> on a field that is a pointer copied by \<open>cp\<close>.\<close>

definition option_copy :: "('a \<Rightarrow> ('c heap, 'a) state) \<Rightarrow> 'a option \<Rightarrow> ('c heap, 'a option) state" where
  "option_copy cp x = (case x of None \<Rightarrow> ret None | Some a \<Rightarrow> do { b \<leftarrow> cp a; ret (Some b) })"

definition option_view :: "('c, 'a, 'v) view \<Rightarrow> ('c, 'a option, 'v option) view" where
  "option_view w = \<lparr>vw_ok = \<lambda>h x. case x of None \<Rightarrow> True | Some a \<Rightarrow> vw_ok w h a,
     vw_foot = \<lambda>h x. case x of None \<Rightarrow> {} | Some a \<Rightarrow> vw_foot w h a, vw_val = \<lambda>h x. map_option (vw_val w h) x\<rparr>"

lemma option_view_simps [simp]:
  "vw_ok (option_view w) h None" "vw_ok (option_view w) h (Some a) = vw_ok w h a"
  "vw_foot (option_view w) h None = {}" "vw_foot (option_view w) h (Some a) = vw_foot w h a"
  "vw_val (option_view w) h x = map_option (vw_val w h) x"
  by (simp_all add: option_view_def)

context deep_copy
begin

lemma option_deep_copy:
  "deep_copy (option_copy cp) (option_view w)"
proof (unfold_locales, goal_cases)
  case (1 h a)
  then show ?case using ok_alloc by (cases a) auto
next
  case (2 h a h')
  then show ?case using ok_local by (cases a) auto
next
  case (3 h a h')
  then show ?case by (cases a) (simp_all, rule foot_local)
next
  case (4 h a h')
  then show ?case by (cases a) (simp_all, rule val_local)
qed (auto simp: option_copy_def split: option.splits prod.splits
    dest: cp_grows cp_ok cp_value subsetD [OF cp_fresh])

end

text \<open>
  \<^verbatim>\<open>new(T)\<close> and then a copy into it. \<open>mk\<close> makes a cell of a \<open>'s\<close> and \<open>un\<close> takes it out again.
\<close>

definition box_copy :: "('s \<Rightarrow> 'c) \<Rightarrow> ('c \<Rightarrow> 's) \<Rightarrow> 's \<Rightarrow> ('s \<Rightarrow> ('c heap, 's) state) \<Rightarrow> addr \<Rightarrow> ('c heap, addr) state" where
  "box_copy mk un zero into p = do {
     q \<leftarrow> new_cell (mk zero);
     c \<leftarrow> load p;
     s \<leftarrow> into (un c);
     _ \<leftarrow> store q (mk s);
     ret q
   }"

definition box_view :: "('s \<Rightarrow> 'c) \<Rightarrow> ('c \<Rightarrow> 's) \<Rightarrow> ('c, 's, 'v) view \<Rightarrow> ('c, addr, 'v) view" where
  "box_view mk un w = \<lparr>
     vw_ok = \<lambda>h p. p < hp_next h \<and> hp_cells h p = mk (un (hp_cells h p)) \<and> vw_ok w h (un (hp_cells h p)),
     vw_foot = \<lambda>h p. insert p (vw_foot w h (un (hp_cells h p))), vw_val = \<lambda>h p. vw_val w h (un (hp_cells h p))\<rparr>"

lemma box_view_simps [simp]:
  "vw_ok (box_view mk un w) h p \<longleftrightarrow>
     p < hp_next h \<and> hp_cells h p = mk (un (hp_cells h p)) \<and> vw_ok w h (un (hp_cells h p))"
  "vw_foot (box_view mk un w) h p = insert p (vw_foot w h (un (hp_cells h p)))"
  "vw_val (box_view mk un w) h p = vw_val w h (un (hp_cells h p))"
  by (simp_all add: box_view_def)

locale copy_cell = deep_copy cp w
  for cp :: "'s \<Rightarrow> ('c heap, 's) state" and w :: "('c, 's, 'v) view" +
  fixes mk :: "'s \<Rightarrow> 'c" and un :: "'c \<Rightarrow> 's"
  assumes un_mk: "un (mk s) = s"
begin

abbreviation box_ok :: "'c heap \<Rightarrow> addr \<Rightarrow> bool" where "box_ok \<equiv> vw_ok (box_view mk un w)"
abbreviation box_foot :: "'c heap \<Rightarrow> addr \<Rightarrow> addr set" where "box_foot \<equiv> vw_foot (box_view mk un w)"
abbreviation box_val :: "'c heap \<Rightarrow> addr \<Rightarrow> 'v" where "box_val \<equiv> vw_val (box_view mk un w)"

text \<open>A store outside the footprint is not noticed.\<close>

lemma store_kept:
  assumes "ok h a" and "p \<notin> foot h a"
  shows "ok (snd (run_state (store p c) h)) a" "foot (snd (run_state (store p c) h)) a = foot h a"
    "val (snd (run_state (store p c) h)) a = val h a"
proof -
  have same: "same_on (foot h a) h (snd (run_state (store p c) h))" using assms(2) by (auto simp: same_on_def)
  show "ok (snd (run_state (store p c) h)) a" by (rule ok_local [OF assms(1) same]) simp
  show "foot (snd (run_state (store p c) h)) a = foot h a" by (rule foot_local [OF assms(1) same])
  show "val (snd (run_state (store p c) h)) a = val h a" by (rule val_local [OF assms(1) same])
qed

lemma box_run:
  assumes "box_ok h p" and "run_state (box_copy mk un zero cp p) h = (q, h')"
  shows "grows h h' \<and> box_ok h' q \<and> box_foot h' q \<subseteq> {hp_next h..} \<and> box_val h' q = box_val h p"
proof -
  let ?s = "un (hp_cells h p)"
  let ?h1 = "snd (run_state (new_cell (mk zero)) h)"
  have p: "p < hp_next h" "ok h ?s" using assms(1) by simp_all
  have g1: "grows h ?h1" by (rule grows_alloc)
  note k1 = kept [OF p(2) g1]
  obtain s h2 where s: "run_state (cp ?s) ?h1 = (s, h2)" by (cases "run_state (cp ?s) ?h1")
  have q: "q = hp_next h" and h': "h' = snd (run_state (store q (mk s)) h2)"
    using assms(2) s p(1) by (auto simp: box_copy_def split: prod.splits)
  have fresh: "foot h2 s \<subseteq> {Suc q..}" using cp_fresh [OF k1(1) s] by (simp add: q)
  note k2 = store_kept [OF cp_ok [OF k1(1) s], of q "mk s", folded h']
  have "q \<notin> foot h2 s" using fresh by auto
  note k2 = k2 [OF this]
  have cell: "hp_cells h' q = mk s" by (simp add: h')
  have "grows h h2" using grows_trans [OF g1 cp_grows [OF k1(1) s]] .
  then have "grows h h'" unfolding h' by (rule grows_store) (simp add: q)
  moreover have "q < hp_next h'" using grows_next [OF cp_grows [OF k1(1) s]] by (simp add: q h')
  ultimately show ?thesis
    using k2 fresh cell cp_value [OF k1(1) s] k1(3)
    by (auto simp: un_mk q)
qed

end

sublocale copy_cell \<subseteq> box: deep_copy "box_copy mk un zero cp" "box_view mk un w" for zero
proof (unfold_locales, goal_cases)
  case (1 h p)
  then show ?case using ok_alloc by auto
next
  case (2 h p h')
  then show ?case using ok_local by auto
next
  case (3 h p h')
  then show ?case using foot_local [of h "un (hp_cells h p)" h'] by simp
next
  case (4 h p h')
  then show ?case using val_local [of h "un (hp_cells h p)" h'] by simp
qed (use box_run in blast)+

section \<open>Slices\<close>

text \<open>
  \<^verbatim>\<open>*out = make([]T, len(*in))\<close> and then a copy into each element in turn, through the pointers to both
  backing arrays.
\<close>

primrec copy_loop ::
  "('s list \<Rightarrow> 'c) \<Rightarrow> ('c \<Rightarrow> 's list) \<Rightarrow> ('s \<Rightarrow> ('c heap, 's) state) \<Rightarrow> addr \<Rightarrow> nat \<Rightarrow> addr \<Rightarrow> nat list \<Rightarrow> ('c heap, unit) state" where
  "copy_loop mk un into p off q [] = ret ()"
| "copy_loop mk un into p off q (i # is) = do {
     c \<leftarrow> load p;
     s \<leftarrow> into (un c ! (off + i));
     d \<leftarrow> load q;
     _ \<leftarrow> store q (mk ((un d)[i := s]));
     copy_loop mk un into p off q is
   }"

definition slice_copy ::
  "('s list \<Rightarrow> 'c) \<Rightarrow> ('c \<Rightarrow> 's list) \<Rightarrow> 's \<Rightarrow> ('s \<Rightarrow> ('c heap, 's) state) \<Rightarrow> slice \<Rightarrow> ('c heap, slice) state" where
  "slice_copy mk un zero into s =
     (case s of
        NilSlice \<Rightarrow> ret NilSlice
      | Slice p off n \<Rightarrow> do {
          q \<leftarrow> new_cell (mk (replicate n zero));
          _ \<leftarrow> copy_loop mk un into p off q [0..<n];
          ret (Slice q 0 n)
        })"

text \<open>The built-in \<^verbatim>\<open>copy(dst, src)\<close>, and \<^verbatim>\<open>make\<close> followed by it.\<close>

definition go_copy :: "'s list \<Rightarrow> 's list \<Rightarrow> 's list" where
  "go_copy dst src = take (length dst) src @ drop (length src) dst"

definition array_copy :: "('s list \<Rightarrow> 'c) \<Rightarrow> ('c \<Rightarrow> 's list) \<Rightarrow> 's \<Rightarrow> slice \<Rightarrow> ('c heap, slice) state" where
  "array_copy mk un zero s =
     (case s of
        NilSlice \<Rightarrow> ret NilSlice
      | Slice p off n \<Rightarrow> do {
          q \<leftarrow> new_cell (mk (replicate n zero));
          c \<leftarrow> load p;
          d \<leftarrow> load q;
          _ \<leftarrow> store q (mk (go_copy (un d) (take n (drop off (un c)))));
          ret (Slice q 0 n)
        })"

definition elem_at :: "('c \<Rightarrow> 's list) \<Rightarrow> 'c heap \<Rightarrow> addr \<Rightarrow> nat \<Rightarrow> 's" where
  "elem_at un h p i = un (hp_cells h p) ! i"

definition slice_view :: "('s list \<Rightarrow> 'c) \<Rightarrow> ('c \<Rightarrow> 's list) \<Rightarrow> ('c, 's, 'v) view \<Rightarrow> ('c, slice, 'v list option) view" where
  "slice_view mk un w = \<lparr>
     vw_ok = \<lambda>h s. case s of NilSlice \<Rightarrow> True | Slice p off n \<Rightarrow> p < hp_next h \<and> hp_cells h p = mk (un (hp_cells h p)) \<and>
       off + n \<le> length (un (hp_cells h p)) \<and> (\<forall>i<n. vw_ok w h (elem_at un h p (off + i))),
     vw_foot = \<lambda>h s. case s of NilSlice \<Rightarrow> {} | Slice p off n \<Rightarrow> insert p (\<Union>i<n. vw_foot w h (elem_at un h p (off + i))),
     vw_val = \<lambda>h s. case s of NilSlice \<Rightarrow> None
       | Slice p off n \<Rightarrow> Some (map (\<lambda>i. vw_val w h (elem_at un h p (off + i))) [0..<n])\<rparr>"

lemma slice_view_simps [simp]:
  "vw_ok (slice_view mk un w) h NilSlice"
  "vw_ok (slice_view mk un w) h (Slice p off n) \<longleftrightarrow> p < hp_next h \<and> hp_cells h p = mk (un (hp_cells h p)) \<and>
     off + n \<le> length (un (hp_cells h p)) \<and> (\<forall>i<n. vw_ok w h (elem_at un h p (off + i)))"
  "vw_foot (slice_view mk un w) h NilSlice = {}"
  "vw_foot (slice_view mk un w) h (Slice p off n) = insert p (\<Union>i<n. vw_foot w h (elem_at un h p (off + i)))"
  "vw_val (slice_view mk un w) h NilSlice = None"
  "vw_val (slice_view mk un w) h (Slice p off n) = Some (map (\<lambda>i. vw_val w h (elem_at un h p (off + i))) [0..<n])"
  by (simp_all add: slice_view_def)

locale copy_slice = deep_copy cp w
  for cp :: "'s \<Rightarrow> ('c heap, 's) state" and w :: "('c, 's, 'v) view" +
  fixes mk :: "'s list \<Rightarrow> 'c" and un :: "'c \<Rightarrow> 's list"
  assumes un_mk: "un (mk xs) = xs"
begin

abbreviation elem :: "'c heap \<Rightarrow> addr \<Rightarrow> nat \<Rightarrow> 's" where "elem \<equiv> elem_at un"
abbreviation slice_ok :: "'c heap \<Rightarrow> slice \<Rightarrow> bool" where "slice_ok \<equiv> vw_ok (slice_view mk un w)"
abbreviation slice_foot :: "'c heap \<Rightarrow> slice \<Rightarrow> addr set" where "slice_foot \<equiv> vw_foot (slice_view mk un w)"
abbreviation slice_val :: "'c heap \<Rightarrow> slice \<Rightarrow> 'v list option" where "slice_val \<equiv> vw_val (slice_view mk un w)"

text \<open>The first \<open>i\<close> elements of the new array \<open>q\<close> are good copies of those of \<open>p\<close> in \<open>h\<close>.\<close>

definition copied :: "'c heap \<Rightarrow> addr \<Rightarrow> nat \<Rightarrow> addr \<Rightarrow> nat \<Rightarrow> nat \<Rightarrow> 'c heap \<Rightarrow> bool" where
  "copied h p off q n i h1 \<longleftrightarrow> grows h h1 \<and> hp_next h \<le> q \<and> q < hp_next h1 \<and>
     (\<exists>ds. hp_cells h1 q = mk ds \<and> length ds = n \<and>
       (\<forall>j<i. ok h1 (ds ! j) \<and> foot h1 (ds ! j) \<subseteq> {Suc q..} \<and> val h1 (ds ! j) = val h (elem h p (off + j))))"

lemma copied_step:
  assumes src: "slice_ok h (Slice p off n)" and inv: "copied h p off q n i h1" and "i < n"
    and s: "run_state (cp (elem h1 p (off + i))) h1 = (s, h2)"
  shows "copied h p off q n (Suc i) (snd (run_state (store q (mk ((un (hp_cells h2 q))[i := s]))) h2))"
    (is "copied h p off q n (Suc i) ?h3")
proof -
  from inv obtain ds where g: "grows h h1" and q: "hp_next h \<le> q" "q < hp_next h1" and ds: "hp_cells h1 q = mk ds" "length ds = n"
    and old: "\<And>j. j < i \<Longrightarrow> ok h1 (ds ! j) \<and> foot h1 (ds ! j) \<subseteq> {Suc q..} \<and> val h1 (ds ! j) = val h (elem h p (off + j))"
    unfolding copied_def by blast
  have el: "elem h1 p (off + i) = elem h p (off + i)" using g src by (simp add: elem_at_def grows_def same_on_def)
  have okh: "ok h (elem h p (off + i))" using src assms(3) by simp
  note k1 = kept [OF okh g] and s = s [unfolded el]
  note g2 = cp_grows [OF k1(1) s]
  have cell: "un (hp_cells h2 q) = ds" using g2 q(2) ds by (simp add: grows_def same_on_def un_mk)
  let ?h3 = "snd (run_state (store q (mk (ds[i := s]))) h2)"
  have stored: "ok ?h3 x \<and> foot ?h3 x \<subseteq> {Suc q..} \<and> val ?h3 x = val h2 x" if "ok h2 x" "foot h2 x \<subseteq> {Suc q..}" for x
  proof -
    have same: "same_on (foot h2 x) h2 ?h3" using that(2) by (auto simp: same_on_def)
    show ?thesis
      using ok_local [OF that(1) same] foot_local [OF that(1) same] val_local [OF that(1) same] that(2) by simp
  qed
  have fresh: "foot h2 s \<subseteq> {Suc q..}" using cp_fresh [OF k1(1) s] q(2) by force
  have good: "ok ?h3 (ds[i := s] ! j) \<and> foot ?h3 (ds[i := s] ! j) \<subseteq> {Suc q..} \<and>
      val ?h3 (ds[i := s] ! j) = val h (elem h p (off + j))" if "j < Suc i" for j
  proof (cases "j = i")
    case True
    with stored [OF cp_ok [OF k1(1) s] fresh] cp_value [OF k1(1) s] k1(3) assms(3) ds(2) show ?thesis by simp
  next
    case False
    then have j: "j < i" using that by simp
    with kept [of h1 "ds ! j" h2] old [OF j] g2 stored [of "ds ! j"] False show ?thesis by simp
  qed
  have "grows h ?h3" using grows_store [OF grows_trans [OF g g2] q(1)] .
  moreover have "q < hp_next ?h3" using grows_next [OF g2] q(2) by simp
  moreover have "hp_cells ?h3 q = mk (ds[i := s])" by simp
  ultimately show ?thesis unfolding copied_def cell using q(1) good ds(2) by (metis length_list_update)
qed

lemma copied_loop:
  assumes src: "slice_ok h (Slice p off n)" and "copied h p off q n i h1" and "i \<le> n"
    and "run_state (copy_loop mk un cp p off q [i..<n]) h1 = (u, h')"
  shows "copied h p off q n n h'"
  using assms(2-4)
proof (induction "n - i" arbitrary: i h1)
  case 0
  then show ?case by simp
next
  case (Suc k)
  then have "i < n" by simp
  obtain s h2 where s: "run_state (cp (elem h1 p (off + i))) h1 = (s, h2)" by (cases "run_state (cp (elem h1 p (off + i))) h1")
  let ?h3 = "snd (run_state (store q (mk ((un (hp_cells h2 q))[i := s]))) h2)"
  have "copied h p off q n (Suc i) ?h3" by (rule copied_step [OF src Suc.prems(1) \<open>i < n\<close> s])
  moreover have "run_state (copy_loop mk un cp p off q [Suc i..<n]) ?h3 = (u, h')"
    using Suc.prems(3) s \<open>i < n\<close> by (simp add: upt_conv_Cons elem_at_def)
  ultimately show ?case using Suc.hyps(1) [of "Suc i" ?h3] Suc.hyps(2) \<open>i < n\<close> by simp
qed

lemma slice_run:
  assumes "slice_ok h s" and "run_state (slice_copy mk un zero cp s) h = (t, h')"
  shows "grows h h' \<and> slice_ok h' t \<and> slice_foot h' t \<subseteq> {hp_next h..} \<and> slice_val h' t = slice_val h s"
proof (cases s)
  case NilSlice
  with assms(2) show ?thesis by (auto simp: slice_copy_def)
next
  case (Slice p off n)
  let ?q = "hp_next h"
  let ?h1 = "snd (run_state (new_cell (mk (replicate n zero))) h)"
  from assms(2) Slice have t: "t = Slice ?q 0 n"
    and loop: "run_state (copy_loop mk un cp p off ?q [0..<n]) ?h1 = ((), h')"
    by (auto simp: slice_copy_def split: prod.splits)
  have "copied h p off ?q n 0 ?h1" 
    using grows_alloc [of h "mk (replicate n zero)"] by (auto simp: copied_def intro!: exI [of _ "replicate n zero"])
  from copied_loop [OF _ this _ loop] assms(1) Slice have "copied h p off ?q n n h'" by simp
  then show ?thesis
    unfolding copied_def t Slice
    by (auto simp: elem_at_def un_mk) (metis Suc_leD atLeast_iff subsetD)
qed

lemma slice_local:
  assumes "slice_ok h s" and "same_on (slice_foot h s) h h'"
  shows "hp_next h \<le> hp_next h' \<Longrightarrow> slice_ok h' s" "slice_foot h' s = slice_foot h s" "slice_val h' s = slice_val h s"
proof -
  have all: "(hp_next h \<le> hp_next h' \<longrightarrow> slice_ok h' s) \<and> slice_foot h' s = slice_foot h s \<and> slice_val h' s = slice_val h s"
  proof (cases s)
    case (Slice p off n)
    then have el: "elem h' p i = elem h p i" for i using assms by (simp add: elem_at_def)
    have each: "ok h (elem h p (off + i)) \<and> same_on (foot h (elem h p (off + i))) h h'" if "i < n" for i
      using that assms Slice by (auto simp: same_on_def)
    have "foot h' (elem h p (off + i)) = foot h (elem h p (off + i))" "val h' (elem h p (off + i)) = val h (elem h p (off + i))"
      "hp_next h \<le> hp_next h' \<Longrightarrow> ok h' (elem h p (off + i))" if "i < n" for i
      using each [OF that] foot_local val_local ok_local by blast+
    with assms Slice el show ?thesis by auto
  qed simp
  then show "hp_next h \<le> hp_next h' \<Longrightarrow> slice_ok h' s" "slice_foot h' s = slice_foot h s" "slice_val h' s = slice_val h s"
    by blast+
qed

end

sublocale copy_slice \<subseteq> slices: deep_copy "slice_copy mk un zero cp" "slice_view mk un w" for zero
proof (unfold_locales, goal_cases)
  case (1 h s)
  then show ?case using ok_alloc by (cases s) auto
next
  case (2 h s h')
  then show ?case using slice_local(1) by blast
next
  case (3 h s h')
  then show ?case using slice_local(2) by blast
next
  case (4 h s h')
  then show ?case using slice_local(3) by blast
qed (use slice_run in blast)+

text \<open>Arrays of values without pointers, copied as a whole, have the contract of the element-wise copy.\<close>

locale copy_array =
  fixes mk :: "'s list \<Rightarrow> 'c" and un :: "'c \<Rightarrow> 's list"
  assumes mk_un: "un (mk xs) = xs"

sublocale copy_array \<subseteq> elems: copy_slice flat_copy flat_view mk un
  by unfold_locales (rule mk_un)

lemma go_copy_fits: "length src = length dst \<Longrightarrow> go_copy dst src = src"
  by (simp add: go_copy_def)

context copy_array
begin

lemma array_run:
  assumes "elems.slice_ok h s" and "run_state (array_copy mk un zero s) h = (t, h')"
  shows "grows h h' \<and> elems.slice_ok h' t \<and> elems.slice_foot h' t \<subseteq> {hp_next h..} \<and> elems.slice_val h' t = elems.slice_val h s"
proof (cases s)
  case NilSlice
  with assms(2) show ?thesis by (auto simp: array_copy_def)
next
  case (Slice p off n)
  let ?xs = "take n (drop off (un (hp_cells h p)))"
  let ?h1 = "snd (run_state (new_cell (mk (replicate n zero))) h)"
  have p: "p < hp_next h" "off + n \<le> length (un (hp_cells h p))" using assms(1) Slice by simp_all
  have t: "t = Slice (hp_next h) 0 n" and h': "h' = snd (run_state (store (hp_next h) (mk ?xs)) ?h1)"
    using assms(2) p by (auto simp: Slice array_copy_def mk_un go_copy_fits)
  have "grows h h'" unfolding h' using grows_alloc by (rule grows_store) simp
  moreover have "hp_cells h' (hp_next h) = mk ?xs" "hp_next h < hp_next h'" by (simp_all add: h')
  ultimately show ?thesis using p by (auto simp: t Slice elem_at_def mk_un)
qed

end

sublocale copy_array \<subseteq> arrays: deep_copy "array_copy mk un zero" "slice_view mk un flat_view" for zero
proof (unfold_locales, goal_cases)
  case (1 h s)
  then show ?case by (rule elems.slices.ok_alloc)
next
  case (2 h s h')
  then show ?case by (rule elems.slices.ok_local)
next
  case (3 h s h')
  then show ?case by (rule elems.slices.foot_local)
next
  case (4 h s h')
  then show ?case by (rule elems.slices.val_local)
qed (use array_run in blast)+

section \<open>Maps\<close>

text \<open>
  \<^verbatim>\<open>*out = make(map[K]V, len(*in))\<close> and an assignment per entry. The cell lists the entries of the map; a
  \<^verbatim>\<open>range\<close> over it visits them in the order \<open>visit\<close> puts them in, which Go leaves open.
\<close>

primrec map_loop :: "(('k, 'v) alist \<Rightarrow> 'c) \<Rightarrow> ('c \<Rightarrow> ('k, 'v) alist) \<Rightarrow> addr \<Rightarrow> ('k \<times> 'v) list \<Rightarrow> ('c heap, unit) state" where
  "map_loop mk un q [] = ret ()"
| "map_loop mk un q (e # es) = do {
     d \<leftarrow> load q;
     _ \<leftarrow> store q (mk (DAList.update (fst e) (snd e) (un d)));
     map_loop mk un q es
   }"

definition map_copy ::
  "(('k, 'v) alist \<Rightarrow> 'c) \<Rightarrow> ('c \<Rightarrow> ('k, 'v) alist) \<Rightarrow> (('k \<times> 'v) list \<Rightarrow> ('k \<times> 'v) list) \<Rightarrow> addr \<Rightarrow> ('c heap, addr) state" where
  "map_copy mk un visit p = do {
     q \<leftarrow> new_cell (mk DAList.empty);
     c \<leftarrow> load p;
     _ \<leftarrow> map_loop mk un q (visit (DAList.impl_of (un c)));
     ret q
   }"

lemma lookup_entry: "(k, v) \<in> set (DAList.impl_of m) \<longleftrightarrow> DAList.lookup m k = Some v"
  by (simp add: DAList.lookup.rep_eq impl_of_distinct)

lemma lookup_assigns:
  assumes "\<forall>(k, v)\<in>set es. m k = Some v"
  shows "DAList.lookup (fold (\<lambda>e. DAList.update (fst e) (snd e)) es d) k = (if k \<in> fst ` set es then m k else DAList.lookup d k)"
  using assms
proof (induction es arbitrary: d)
  case (Cons e es)
  then show ?case by (auto simp: lookup_update)
qed simp

lemma lookup_rebuilt:
  assumes "set es = set (DAList.impl_of m)"
  shows "DAList.lookup (fold (\<lambda>e. DAList.update (fst e) (snd e)) es DAList.empty) = DAList.lookup m"
proof
  fix k
  have "\<forall>(k, v)\<in>set es. DAList.lookup m k = Some v" using assms by (auto simp: lookup_entry)
  note this [THEN lookup_assigns, of DAList.empty k]
  moreover have "k \<in> fst ` set es" if "DAList.lookup m k = Some v" for v
    using that assms lookup_entry [of k v m] by force
  ultimately show "DAList.lookup (fold (\<lambda>e. DAList.update (fst e) (snd e)) es DAList.empty) k = DAList.lookup m k"
    by (cases "DAList.lookup m k") (auto simp: lookup_empty)
qed

definition map_view :: "(('k, 'v) alist \<Rightarrow> 'c) \<Rightarrow> ('c \<Rightarrow> ('k, 'v) alist) \<Rightarrow> ('c, addr, 'k \<rightharpoonup> 'v) view" where
  "map_view mk un = \<lparr>vw_ok = \<lambda>h p. p < hp_next h \<and> hp_cells h p = mk (un (hp_cells h p)),
     vw_foot = \<lambda>h p. {p}, vw_val = \<lambda>h p. DAList.lookup (un (hp_cells h p))\<rparr>"

lemma map_view_simps [simp]:
  "vw_ok (map_view mk un) h p \<longleftrightarrow> p < hp_next h \<and> hp_cells h p = mk (un (hp_cells h p))"
  "vw_foot (map_view mk un) h p = {p}" "vw_val (map_view mk un) h p = DAList.lookup (un (hp_cells h p))"
  by (simp_all add: map_view_def)

locale copy_map =
  fixes mk :: "('k, 'v) alist \<Rightarrow> 'c" and un :: "'c \<Rightarrow> ('k, 'v) alist" and visit :: "('k \<times> 'v) list \<Rightarrow> ('k \<times> 'v) list"
  assumes mk_un: "un (mk m) = m" and visit_all: "set (visit es) = set es"
begin

abbreviation map_ok :: "'c heap \<Rightarrow> addr \<Rightarrow> bool" where "map_ok \<equiv> vw_ok (map_view mk un)"
abbreviation map_foot :: "'c heap \<Rightarrow> addr \<Rightarrow> addr set" where "map_foot \<equiv> vw_foot (map_view mk un)"
abbreviation map_val :: "'c heap \<Rightarrow> addr \<Rightarrow> 'k \<rightharpoonup> 'v" where "map_val \<equiv> vw_val (map_view mk un)"

lemma map_loop_run:
  "hp_cells h q = mk d \<Longrightarrow> run_state (map_loop mk un q es) h =
     run_state (store q (mk (fold (\<lambda>e. DAList.update (fst e) (snd e)) es d))) h"
proof (induction es arbitrary: h d)
  case Nil
  then have "(hp_cells h)(q := mk d) = hp_cells h" by (metis fun_upd_triv)
  then show ?case by simp
next
  case (Cons e es)
  let ?d = "DAList.update (fst e) (snd e) d"
  have "run_state (map_loop mk un q (e # es)) h = run_state (map_loop mk un q es) (snd (run_state (store q (mk ?d)) h))"
    using Cons.prems by (simp add: mk_un)
  also have "\<dots> = run_state (store q (mk (fold (\<lambda>e. DAList.update (fst e) (snd e)) es ?d))) h"
    by (subst Cons.IH [where d = ?d]) simp_all
  finally show ?case by (simp only: fold_simps)
qed

lemma map_run:
  assumes "map_ok h p" and "run_state (map_copy mk un visit p) h = (q, h')"
  shows "grows h h' \<and> map_ok h' q \<and> map_foot h' q \<subseteq> {hp_next h..} \<and> map_val h' q = map_val h p"
proof -
  let ?m = "un (hp_cells h p)"
  let ?h1 = "snd (run_state (new_cell (mk DAList.empty)) h)"
  let ?d = "fold (\<lambda>e. DAList.update (fst e) (snd e)) (visit (DAList.impl_of ?m)) DAList.empty"
  have p: "p < hp_next h" using assms(1) by simp
  have q: "q = hp_next h" and h': "h' = snd (run_state (store q (mk ?d)) ?h1)"
    using assms(2) p by (auto simp: map_copy_def map_loop_run [where d = DAList.empty])
  have "grows h h'" unfolding h' using grows_alloc by (rule grows_store) (simp add: q)
  then show ?thesis using lookup_rebuilt [OF visit_all] by (simp add: mk_un q h')
qed

end

sublocale copy_map \<subseteq> maps: deep_copy "map_copy mk un visit" "map_view mk un"
proof (unfold_locales, goal_cases)
  case (1 h p)
  then show ?case by simp
next
  case (2 h p h')
  then show ?case by simp
next
  case (3 h p h')
  then show ?case by simp
next
  case (4 h p h')
  then show ?case by simp
qed (use map_run in blast)+

text \<open>A value read less closely is copied all the same.\<close>

definition val_view :: "('v \<Rightarrow> 'w) \<Rightarrow> ('c, 'a, 'v) view \<Rightarrow> ('c, 'a, 'w) view" where
  "val_view f w = \<lparr>vw_ok = vw_ok w, vw_foot = vw_foot w, vw_val = \<lambda>h a. f (vw_val w h a)\<rparr>"

lemma val_view_simps [simp]:
  "vw_ok (val_view f w) = vw_ok w" "vw_foot (val_view f w) = vw_foot w" "vw_val (val_view f w) h a = f (vw_val w h a)"
  by (simp_all add: val_view_def)

section \<open>The rules for building deep copies\<close>

named_theorems deep_copies

context copy_pair
begin

lemma pair_deep_copy: "deep_copy (pair_copy cpa cpb) (pair_view wa wb)"
  by unfold_locales

end

context copy_struct
begin

lemma struct_deep_copy: "deep_copy (struct_copy get put cp) (struct_view get rest w)"
  by unfold_locales

end

context copy_cell
begin

lemma box_deep_copy: "deep_copy (box_copy mk un zero cp) (box_view mk un w)"
  by unfold_locales

end

context copy_slice
begin

lemma slices_deep_copy: "deep_copy (slice_copy mk un zero cp) (slice_view mk un w)"
  by unfold_locales

end

context copy_array
begin

lemma arrays_deep_copy: "deep_copy (array_copy mk un zero) (slice_view mk un flat_view)"
  by unfold_locales

end

context copy_map
begin

lemma maps_deep_copy: "deep_copy (map_copy mk un visit) (map_view mk un)"
  by unfold_locales

end

declare flat.deep_copy_axioms [deep_copies]

lemma deep_copy_pair [deep_copies]:
  "deep_copy cpa wa \<Longrightarrow> deep_copy cpb wb \<Longrightarrow> deep_copy (pair_copy cpa cpb) (pair_view wa wb)"
  by (rule copy_pair.pair_deep_copy) (rule copy_pair.intro)

lemma deep_copy_option [deep_copies]: "deep_copy cp w \<Longrightarrow> deep_copy (option_copy cp) (option_view w)"
  by (rule deep_copy.option_deep_copy)

lemma deep_copy_struct:
  "deep_copy cp w \<Longrightarrow> (\<And>a s. get (put a s) = a) \<Longrightarrow> (\<And>a s. rest (put a s) = rest s) \<Longrightarrow>
     deep_copy (struct_copy get put cp) (struct_view get rest w)"
  by (rule copy_struct.struct_deep_copy) (simp add: copy_struct_def copy_struct_axioms_def)

lemma deep_copy_box:
  "deep_copy cp w \<Longrightarrow> (\<And>s. un (mk s) = s) \<Longrightarrow> deep_copy (box_copy mk un zero cp) (box_view mk un w)"
  by (rule copy_cell.box_deep_copy) (simp add: copy_cell_def copy_cell_axioms_def)

lemma deep_copy_slice:
  "deep_copy cp w \<Longrightarrow> (\<And>xs. un (mk xs) = xs) \<Longrightarrow> deep_copy (slice_copy mk un zero cp) (slice_view mk un w)"
  by (rule copy_slice.slices_deep_copy) (simp add: copy_slice_def copy_slice_axioms_def)

lemma deep_copy_array:
  "(\<And>xs. un (mk xs) = xs) \<Longrightarrow> deep_copy (array_copy mk un zero) (slice_view mk un flat_view)"
  by (rule copy_array.arrays_deep_copy) (simp add: copy_array_def)

lemma deep_copy_map:
  "(\<And>m. un (mk m) = m) \<Longrightarrow> (\<And>es. set (visit es) = set es) \<Longrightarrow> deep_copy (map_copy mk un visit) (map_view mk un)"
  by (rule copy_map.maps_deep_copy) (simp add: copy_map_def)

lemma deep_copy_val:
  assumes "deep_copy cp w"
  shows "deep_copy cp (val_view f w)"
proof -
  note laws = assms [unfolded deep_copy_def]
  show ?thesis unfolding deep_copy_def val_view_simps using laws by (intro conjI) (blast | metis)+
qed

section \<open>What a copy gives\<close>

text \<open>
  \<open>b\<close> in \<open>h'\<close> is a copy of \<open>a\<close> in \<open>h\<close> that shares nothing with it: memory only grew, the copy is well formed,
  reads the same and lies in new cells, and whatever is later done to the cells of one of the two cannot be
  seen through the other.
\<close>

definition separate_copy :: "('c, 'a, 'v) view \<Rightarrow> 'c heap \<Rightarrow> 'a \<Rightarrow> 'a \<Rightarrow> 'c heap \<Rightarrow> bool" where
  "separate_copy w h a b h' \<longleftrightarrow> grows h h' \<and> vw_ok w h' b \<and> vw_val w h' b = vw_val w h a \<and> vw_foot w h' b \<subseteq> {hp_next h..} \<and>
     (\<forall>h''. same_on (- vw_foot w h' b) h' h'' \<longrightarrow> vw_val w h'' a = vw_val w h a) \<and>
     (\<forall>h''. same_on (- vw_foot w h' a) h' h'' \<longrightarrow> vw_val w h'' b = vw_val w h a)"

context deep_copy
begin

lemma copy_separate:
  assumes "ok h a" and "run_state (cp a) h = (b, h')"
  shows "separate_copy w h a b h'"
  unfolding separate_copy_def
  using cp_grows [OF assms] cp_ok [OF assms] cp_value [OF assms] cp_fresh [OF assms] copy_independent [OF assms] by blast

end

end
