(* ===== verification/Deep_Copy.thy ===== *)
theory Deep_Copy
  imports Go_Heap Api_Types
begin

text \<open>
  The deep copies of \<^verbatim>\<open>src/api/v1alpha1/zz_generated.deepcopy.go\<close>, on the structs as they lie in memory:
  with their pointers, slices and maps. The controllers and the caches they read from exchange objects
  through these functions; that a copy reads as the original and shares no cell with it is what entitles the
  other theories to treat objects as values.

  A \<^verbatim>\<open>DeepCopyInto\<close> maps the struct \<^verbatim>\<open>*in\<close> to the struct it leaves in \<^verbatim>\<open>*out\<close>: it starts from \<^verbatim>\<open>*out = *in\<close> and
  replaces fields. The copies of the Kubernetes structs (\<^verbatim>\<open>ObjectMeta\<close>, \<^verbatim>\<open>ListMeta\<close>, \<^verbatim>\<open>ResourceRequirements\<close>,
  \<^verbatim>\<open>Toleration\<close>, \<^verbatim>\<open>Time\<close>) are library code: a parameter, with the contract that they are deep copies.
\<close>

section \<open>The structs in memory\<close>

record go_TypeMeta =
  tm_Kind :: string
  tm_APIVersion :: string

record 'r go_JobSpec =
  js_Image :: string
  js_Command :: slice
  js_Args :: slice
  js_AcceleratorType :: string
  js_AcceleratorCount :: int32
  js_Priority :: int32
  js_Team :: string
  js_Pool :: string
  js_GangSize :: int32
  js_Resources :: 'r
  js_MaxRetries :: int32
  js_Checkpoint :: bool
  js_TimeoutSeconds :: "addr option"

record go_JobStatus =
  jt_Phase :: AcceleratorJobPhase
  jt_PodName :: string
  jt_Message :: string
  jt_StartTime :: "addr option"
  jt_CompletionTime :: "addr option"
  jt_RetryCount :: int32
  jt_NextRetryTime :: "addr option"

record ('m, 'r) go_Job =
  gj_TypeMeta :: go_TypeMeta
  gj_ObjectMeta :: 'm
  gj_Spec :: "'r go_JobSpec"
  gj_Status :: go_JobStatus

record go_PoolSpec =
  pl_AcceleratorType :: string
  pl_NodeSelector :: "addr option"
  pl_Tolerations :: slice
  pl_PlacementStrategy :: string

record 'm go_Pool =
  gp_TypeMeta :: go_TypeMeta
  gp_ObjectMeta :: 'm
  gp_Spec :: go_PoolSpec

record go_ServiceSpec =
  ss_Model :: string
  ss_Image :: string
  ss_Replicas :: int32
  ss_Team :: string

record go_ServiceStatus =
  sv_Phase :: string
  sv_Endpoint :: string
  sv_ReadyReplicas :: int32

record 'm go_Service =
  gs_TypeMeta :: go_TypeMeta
  gs_ObjectMeta :: 'm
  gs_Spec :: go_ServiceSpec
  gs_Status :: go_ServiceStatus

record go_QuotaSpec =
  qs_Team :: string
  qs_MaxAccelerators :: int32

record 'm go_Quota =
  gq_TypeMeta :: go_TypeMeta
  gq_ObjectMeta :: 'm
  gq_Spec :: go_QuotaSpec

text \<open>The four list types differ in the element type of the backing array \<open>li_Items\<close> points to.\<close>

record 'l go_List =
  li_TypeMeta :: go_TypeMeta
  li_ListMeta :: 'l
  li_Items :: slice

text \<open>What a cell can hold: a variable of one of these types, a backing array, a map, or data of the library.\<close>

datatype ('m, 'l, 'r, 't, 'x) cell =
    CInt64 (the_int64: int64)
  | CStrings (the_strings: "string list")
  | CMap (the_map: "(string, string) alist")
  | CTolerations (the_tolerations: "'t list")
  | CJob (the_job: "('m, 'r) go_Job")
  | CJobs (the_jobs: "('m, 'r) go_Job list")
  | CJobList (the_job_list: "'l go_List")
  | CJobSpec (the_job_spec: "'r go_JobSpec")
  | CJobStatus (the_job_status: go_JobStatus)
  | CPool (the_pool: "'m go_Pool")
  | CPools (the_pools: "'m go_Pool list")
  | CPoolList (the_pool_list: "'l go_List")
  | CPoolSpec (the_pool_spec: go_PoolSpec)
  | CService (the_service: "'m go_Service")
  | CServices (the_services: "'m go_Service list")
  | CServiceList (the_service_list: "'l go_List")
  | CServiceSpec (the_service_spec: go_ServiceSpec)
  | CServiceStatus (the_service_status: go_ServiceStatus)
  | CQuota (the_quota: "'m go_Quota")
  | CQuotas (the_quotas: "'m go_Quota list")
  | CQuotaList (the_quota_list: "'l go_List")
  | CQuotaSpec (the_quota_spec: go_QuotaSpec)
  | CLib (the_lib: 'x)

type_synonym ('m, 'l, 'r, 't, 'x) memory = "('m, 'l, 'r, 't, 'x) cell heap"

text \<open>
  What the generated code takes from elsewhere: the copy functions of the library types, their zero values,
  and the order in which a \<^verbatim>\<open>range\<close> visits the entries of a map.
\<close>

record ('m, 'l, 'r, 't, 'x) apimachinery =
  ObjectMeta_DeepCopyInto :: "'m \<Rightarrow> (('m, 'l, 'r, 't, 'x) memory, 'm) state"
  ListMeta_DeepCopyInto :: "'l \<Rightarrow> (('m, 'l, 'r, 't, 'x) memory, 'l) state"
  ResourceRequirements_DeepCopyInto :: "'r \<Rightarrow> (('m, 'l, 'r, 't, 'x) memory, 'r) state"
  Toleration_DeepCopyInto :: "'t \<Rightarrow> (('m, 'l, 'r, 't, 'x) memory, 't) state"
  Time_DeepCopy :: "addr \<Rightarrow> (('m, 'l, 'r, 't, 'x) memory, addr) state"
  zero_ObjectMeta :: 'm
  zero_ListMeta :: 'l
  zero_ResourceRequirements :: 'r
  zero_Toleration :: 't
  range_visit :: "(string \<times> string) list \<Rightarrow> (string \<times> string) list"

section \<open>Zero values\<close>

definition zero_TypeMeta :: go_TypeMeta where
  "zero_TypeMeta = \<lparr>tm_Kind = [], tm_APIVersion = []\<rparr>"

definition zero_JobSpec :: "'r \<Rightarrow> 'r go_JobSpec" where
  "zero_JobSpec r = \<lparr>js_Image = [], js_Command = NilSlice, js_Args = NilSlice, js_AcceleratorType = [],
     js_AcceleratorCount = 0, js_Priority = 0, js_Team = [], js_Pool = [], js_GangSize = 0, js_Resources = r,
     js_MaxRetries = 0, js_Checkpoint = False, js_TimeoutSeconds = None\<rparr>"

definition zero_JobStatus :: go_JobStatus where
  "zero_JobStatus = \<lparr>jt_Phase = PhaseUnset, jt_PodName = [], jt_Message = [], jt_StartTime = None, jt_CompletionTime = None,
     jt_RetryCount = 0, jt_NextRetryTime = None\<rparr>"

definition zero_Job :: "'m \<Rightarrow> 'r \<Rightarrow> ('m, 'r) go_Job" where
  "zero_Job m r = \<lparr>gj_TypeMeta = zero_TypeMeta, gj_ObjectMeta = m, gj_Spec = zero_JobSpec r, gj_Status = zero_JobStatus\<rparr>"

definition zero_PoolSpec :: go_PoolSpec where
  "zero_PoolSpec = \<lparr>pl_AcceleratorType = [], pl_NodeSelector = None, pl_Tolerations = NilSlice, pl_PlacementStrategy = []\<rparr>"

definition zero_Pool :: "'m \<Rightarrow> 'm go_Pool" where
  "zero_Pool m = \<lparr>gp_TypeMeta = zero_TypeMeta, gp_ObjectMeta = m, gp_Spec = zero_PoolSpec\<rparr>"

definition zero_ServiceSpec :: go_ServiceSpec where
  "zero_ServiceSpec = \<lparr>ss_Model = [], ss_Image = [], ss_Replicas = 0, ss_Team = []\<rparr>"

definition zero_ServiceStatus :: go_ServiceStatus where
  "zero_ServiceStatus = \<lparr>sv_Phase = [], sv_Endpoint = [], sv_ReadyReplicas = 0\<rparr>"

definition zero_Service :: "'m \<Rightarrow> 'm go_Service" where
  "zero_Service m = \<lparr>gs_TypeMeta = zero_TypeMeta, gs_ObjectMeta = m, gs_Spec = zero_ServiceSpec, gs_Status = zero_ServiceStatus\<rparr>"

definition zero_QuotaSpec :: go_QuotaSpec where
  "zero_QuotaSpec = \<lparr>qs_Team = [], qs_MaxAccelerators = 0\<rparr>"

definition zero_Quota :: "'m \<Rightarrow> 'm go_Quota" where
  "zero_Quota m = \<lparr>gq_TypeMeta = zero_TypeMeta, gq_ObjectMeta = m, gq_Spec = zero_QuotaSpec\<rparr>"

definition zero_List :: "'l \<Rightarrow> 'l go_List" where
  "zero_List l = \<lparr>li_TypeMeta = zero_TypeMeta, li_ListMeta = l, li_Items = NilSlice\<rparr>"

section \<open>DeepCopyInto\<close>

text \<open>\<^verbatim>\<open>make\<close> and \<^verbatim>\<open>copy\<close> for the two slices, \<^verbatim>\<open>new(int64)\<close> and an assignment for the timeout.\<close>

definition AcceleratorJobSpec_DeepCopyInto :: "('m, 'l, 'r, 't, 'x) apimachinery \<Rightarrow> 'r go_JobSpec \<Rightarrow> (('m, 'l, 'r, 't, 'x) memory, 'r go_JobSpec) state" where
  "AcceleratorJobSpec_DeepCopyInto L s = do {
     command \<leftarrow> array_copy CStrings the_strings [] (js_Command s);
     args \<leftarrow> array_copy CStrings the_strings [] (js_Args s);
     resources \<leftarrow> ResourceRequirements_DeepCopyInto L (js_Resources s);
     timeout \<leftarrow> option_copy (box_copy CInt64 the_int64 0 flat_copy) (js_TimeoutSeconds s);
     ret (s\<lparr>js_Command := command, js_Args := args, js_Resources := resources, js_TimeoutSeconds := timeout\<rparr>)
   }"

definition AcceleratorJobStatus_DeepCopyInto :: "('m, 'l, 'r, 't, 'x) apimachinery \<Rightarrow> go_JobStatus \<Rightarrow> (('m, 'l, 'r, 't, 'x) memory, go_JobStatus) state" where
  "AcceleratorJobStatus_DeepCopyInto L s = do {
     start \<leftarrow> option_copy (Time_DeepCopy L) (jt_StartTime s);
     completion \<leftarrow> option_copy (Time_DeepCopy L) (jt_CompletionTime s);
     retry \<leftarrow> option_copy (Time_DeepCopy L) (jt_NextRetryTime s);
     ret (s\<lparr>jt_StartTime := start, jt_CompletionTime := completion, jt_NextRetryTime := retry\<rparr>)
   }"

definition AcceleratorJob_DeepCopyInto :: "('m, 'l, 'r, 't, 'x) apimachinery \<Rightarrow> ('m, 'r) go_Job \<Rightarrow> (('m, 'l, 'r, 't, 'x) memory, ('m, 'r) go_Job) state" where
  "AcceleratorJob_DeepCopyInto L j = do {
     meta \<leftarrow> ObjectMeta_DeepCopyInto L (gj_ObjectMeta j);
     spec \<leftarrow> AcceleratorJobSpec_DeepCopyInto L (gj_Spec j);
     status \<leftarrow> AcceleratorJobStatus_DeepCopyInto L (gj_Status j);
     ret (j\<lparr>gj_TypeMeta := gj_TypeMeta j, gj_ObjectMeta := meta, gj_Spec := spec, gj_Status := status\<rparr>)
   }"

definition AcceleratorJobList_DeepCopyInto :: "('m, 'l, 'r, 't, 'x) apimachinery \<Rightarrow> 'l go_List \<Rightarrow> (('m, 'l, 'r, 't, 'x) memory, 'l go_List) state" where
  "AcceleratorJobList_DeepCopyInto L l = do {
     meta \<leftarrow> ListMeta_DeepCopyInto L (li_ListMeta l);
     items \<leftarrow> slice_copy CJobs the_jobs (zero_Job (zero_ObjectMeta L) (zero_ResourceRequirements L)) (AcceleratorJob_DeepCopyInto L) (li_Items l);
     ret (l\<lparr>li_TypeMeta := li_TypeMeta l, li_ListMeta := meta, li_Items := items\<rparr>)
   }"

definition AcceleratorPoolSpec_DeepCopyInto :: "('m, 'l, 'r, 't, 'x) apimachinery \<Rightarrow> go_PoolSpec \<Rightarrow> (('m, 'l, 'r, 't, 'x) memory, go_PoolSpec) state" where
  "AcceleratorPoolSpec_DeepCopyInto L s = do {
     selector \<leftarrow> option_copy (map_copy CMap the_map (range_visit L)) (pl_NodeSelector s);
     tolerations \<leftarrow> slice_copy CTolerations the_tolerations (zero_Toleration L) (Toleration_DeepCopyInto L) (pl_Tolerations s);
     ret (s\<lparr>pl_NodeSelector := selector, pl_Tolerations := tolerations\<rparr>)
   }"

definition AcceleratorPool_DeepCopyInto :: "('m, 'l, 'r, 't, 'x) apimachinery \<Rightarrow> 'm go_Pool \<Rightarrow> (('m, 'l, 'r, 't, 'x) memory, 'm go_Pool) state" where
  "AcceleratorPool_DeepCopyInto L p = do {
     meta \<leftarrow> ObjectMeta_DeepCopyInto L (gp_ObjectMeta p);
     spec \<leftarrow> AcceleratorPoolSpec_DeepCopyInto L (gp_Spec p);
     ret (p\<lparr>gp_TypeMeta := gp_TypeMeta p, gp_ObjectMeta := meta, gp_Spec := spec\<rparr>)
   }"

definition AcceleratorPoolList_DeepCopyInto :: "('m, 'l, 'r, 't, 'x) apimachinery \<Rightarrow> 'l go_List \<Rightarrow> (('m, 'l, 'r, 't, 'x) memory, 'l go_List) state" where
  "AcceleratorPoolList_DeepCopyInto L l = do {
     meta \<leftarrow> ListMeta_DeepCopyInto L (li_ListMeta l);
     items \<leftarrow> slice_copy CPools the_pools (zero_Pool (zero_ObjectMeta L)) (AcceleratorPool_DeepCopyInto L) (li_Items l);
     ret (l\<lparr>li_TypeMeta := li_TypeMeta l, li_ListMeta := meta, li_Items := items\<rparr>)
   }"

text \<open>Structs without pointers are copied by the assignment \<^verbatim>\<open>*out = *in\<close>.\<close>

definition InferenceServiceSpec_DeepCopyInto :: "('m, 'l, 'r, 't, 'x) apimachinery \<Rightarrow> go_ServiceSpec \<Rightarrow> (('m, 'l, 'r, 't, 'x) memory, go_ServiceSpec) state" where
  "InferenceServiceSpec_DeepCopyInto L s = ret s"

definition InferenceServiceStatus_DeepCopyInto :: "('m, 'l, 'r, 't, 'x) apimachinery \<Rightarrow> go_ServiceStatus \<Rightarrow> (('m, 'l, 'r, 't, 'x) memory, go_ServiceStatus) state" where
  "InferenceServiceStatus_DeepCopyInto L s = ret s"

definition InferenceService_DeepCopyInto :: "('m, 'l, 'r, 't, 'x) apimachinery \<Rightarrow> 'm go_Service \<Rightarrow> (('m, 'l, 'r, 't, 'x) memory, 'm go_Service) state" where
  "InferenceService_DeepCopyInto L v = do {
     meta \<leftarrow> ObjectMeta_DeepCopyInto L (gs_ObjectMeta v);
     ret (v\<lparr>gs_TypeMeta := gs_TypeMeta v, gs_ObjectMeta := meta, gs_Spec := gs_Spec v, gs_Status := gs_Status v\<rparr>)
   }"

definition InferenceServiceList_DeepCopyInto :: "('m, 'l, 'r, 't, 'x) apimachinery \<Rightarrow> 'l go_List \<Rightarrow> (('m, 'l, 'r, 't, 'x) memory, 'l go_List) state" where
  "InferenceServiceList_DeepCopyInto L l = do {
     meta \<leftarrow> ListMeta_DeepCopyInto L (li_ListMeta l);
     items \<leftarrow> slice_copy CServices the_services (zero_Service (zero_ObjectMeta L)) (InferenceService_DeepCopyInto L) (li_Items l);
     ret (l\<lparr>li_TypeMeta := li_TypeMeta l, li_ListMeta := meta, li_Items := items\<rparr>)
   }"

definition QuotaPolicySpec_DeepCopyInto :: "('m, 'l, 'r, 't, 'x) apimachinery \<Rightarrow> go_QuotaSpec \<Rightarrow> (('m, 'l, 'r, 't, 'x) memory, go_QuotaSpec) state" where
  "QuotaPolicySpec_DeepCopyInto L s = ret s"

definition QuotaPolicy_DeepCopyInto :: "('m, 'l, 'r, 't, 'x) apimachinery \<Rightarrow> 'm go_Quota \<Rightarrow> (('m, 'l, 'r, 't, 'x) memory, 'm go_Quota) state" where
  "QuotaPolicy_DeepCopyInto L q = do {
     meta \<leftarrow> ObjectMeta_DeepCopyInto L (gq_ObjectMeta q);
     ret (q\<lparr>gq_TypeMeta := gq_TypeMeta q, gq_ObjectMeta := meta, gq_Spec := gq_Spec q\<rparr>)
   }"

definition QuotaPolicyList_DeepCopyInto :: "('m, 'l, 'r, 't, 'x) apimachinery \<Rightarrow> 'l go_List \<Rightarrow> (('m, 'l, 'r, 't, 'x) memory, 'l go_List) state" where
  "QuotaPolicyList_DeepCopyInto L l = do {
     meta \<leftarrow> ListMeta_DeepCopyInto L (li_ListMeta l);
     items \<leftarrow> slice_copy CQuotas the_quotas (zero_Quota (zero_ObjectMeta L)) (QuotaPolicy_DeepCopyInto L) (li_Items l);
     ret (l\<lparr>li_TypeMeta := li_TypeMeta l, li_ListMeta := meta, li_Items := items\<rparr>)
   }"

section \<open>DeepCopy\<close>

text \<open>\<^verbatim>\<open>nil\<close> for \<^verbatim>\<open>nil\<close>; otherwise \<^verbatim>\<open>new(T)\<close>, a \<^verbatim>\<open>DeepCopyInto\<close> it, and its address.\<close>

definition AcceleratorJob_DeepCopy :: "('m, 'l, 'r, 't, 'x) apimachinery \<Rightarrow> addr option \<Rightarrow> (('m, 'l, 'r, 't, 'x) memory, addr option) state" where
  "AcceleratorJob_DeepCopy L p = (case p of
       None \<Rightarrow> ret None
     | Some a \<Rightarrow> do { out \<leftarrow> box_copy CJob the_job (zero_Job (zero_ObjectMeta L) (zero_ResourceRequirements L)) (AcceleratorJob_DeepCopyInto L) a; ret (Some out) })"

definition AcceleratorJobList_DeepCopy :: "('m, 'l, 'r, 't, 'x) apimachinery \<Rightarrow> addr option \<Rightarrow> (('m, 'l, 'r, 't, 'x) memory, addr option) state" where
  "AcceleratorJobList_DeepCopy L p = (case p of
       None \<Rightarrow> ret None
     | Some a \<Rightarrow> do { out \<leftarrow> box_copy CJobList the_job_list (zero_List (zero_ListMeta L)) (AcceleratorJobList_DeepCopyInto L) a; ret (Some out) })"

definition AcceleratorJobSpec_DeepCopy :: "('m, 'l, 'r, 't, 'x) apimachinery \<Rightarrow> addr option \<Rightarrow> (('m, 'l, 'r, 't, 'x) memory, addr option) state" where
  "AcceleratorJobSpec_DeepCopy L p = (case p of
       None \<Rightarrow> ret None
     | Some a \<Rightarrow> do { out \<leftarrow> box_copy CJobSpec the_job_spec (zero_JobSpec (zero_ResourceRequirements L)) (AcceleratorJobSpec_DeepCopyInto L) a; ret (Some out) })"

definition AcceleratorJobStatus_DeepCopy :: "('m, 'l, 'r, 't, 'x) apimachinery \<Rightarrow> addr option \<Rightarrow> (('m, 'l, 'r, 't, 'x) memory, addr option) state" where
  "AcceleratorJobStatus_DeepCopy L p = (case p of
       None \<Rightarrow> ret None
     | Some a \<Rightarrow> do { out \<leftarrow> box_copy CJobStatus the_job_status zero_JobStatus (AcceleratorJobStatus_DeepCopyInto L) a; ret (Some out) })"

definition AcceleratorPool_DeepCopy :: "('m, 'l, 'r, 't, 'x) apimachinery \<Rightarrow> addr option \<Rightarrow> (('m, 'l, 'r, 't, 'x) memory, addr option) state" where
  "AcceleratorPool_DeepCopy L p = (case p of
       None \<Rightarrow> ret None
     | Some a \<Rightarrow> do { out \<leftarrow> box_copy CPool the_pool (zero_Pool (zero_ObjectMeta L)) (AcceleratorPool_DeepCopyInto L) a; ret (Some out) })"

definition AcceleratorPoolList_DeepCopy :: "('m, 'l, 'r, 't, 'x) apimachinery \<Rightarrow> addr option \<Rightarrow> (('m, 'l, 'r, 't, 'x) memory, addr option) state" where
  "AcceleratorPoolList_DeepCopy L p = (case p of
       None \<Rightarrow> ret None
     | Some a \<Rightarrow> do { out \<leftarrow> box_copy CPoolList the_pool_list (zero_List (zero_ListMeta L)) (AcceleratorPoolList_DeepCopyInto L) a; ret (Some out) })"

definition AcceleratorPoolSpec_DeepCopy :: "('m, 'l, 'r, 't, 'x) apimachinery \<Rightarrow> addr option \<Rightarrow> (('m, 'l, 'r, 't, 'x) memory, addr option) state" where
  "AcceleratorPoolSpec_DeepCopy L p = (case p of
       None \<Rightarrow> ret None
     | Some a \<Rightarrow> do { out \<leftarrow> box_copy CPoolSpec the_pool_spec zero_PoolSpec (AcceleratorPoolSpec_DeepCopyInto L) a; ret (Some out) })"

definition InferenceService_DeepCopy :: "('m, 'l, 'r, 't, 'x) apimachinery \<Rightarrow> addr option \<Rightarrow> (('m, 'l, 'r, 't, 'x) memory, addr option) state" where
  "InferenceService_DeepCopy L p = (case p of
       None \<Rightarrow> ret None
     | Some a \<Rightarrow> do { out \<leftarrow> box_copy CService the_service (zero_Service (zero_ObjectMeta L)) (InferenceService_DeepCopyInto L) a; ret (Some out) })"

definition InferenceServiceList_DeepCopy :: "('m, 'l, 'r, 't, 'x) apimachinery \<Rightarrow> addr option \<Rightarrow> (('m, 'l, 'r, 't, 'x) memory, addr option) state" where
  "InferenceServiceList_DeepCopy L p = (case p of
       None \<Rightarrow> ret None
     | Some a \<Rightarrow> do { out \<leftarrow> box_copy CServiceList the_service_list (zero_List (zero_ListMeta L)) (InferenceServiceList_DeepCopyInto L) a; ret (Some out) })"

definition InferenceServiceSpec_DeepCopy :: "('m, 'l, 'r, 't, 'x) apimachinery \<Rightarrow> addr option \<Rightarrow> (('m, 'l, 'r, 't, 'x) memory, addr option) state" where
  "InferenceServiceSpec_DeepCopy L p = (case p of
       None \<Rightarrow> ret None
     | Some a \<Rightarrow> do { out \<leftarrow> box_copy CServiceSpec the_service_spec zero_ServiceSpec (InferenceServiceSpec_DeepCopyInto L) a; ret (Some out) })"

definition InferenceServiceStatus_DeepCopy :: "('m, 'l, 'r, 't, 'x) apimachinery \<Rightarrow> addr option \<Rightarrow> (('m, 'l, 'r, 't, 'x) memory, addr option) state" where
  "InferenceServiceStatus_DeepCopy L p = (case p of
       None \<Rightarrow> ret None
     | Some a \<Rightarrow> do { out \<leftarrow> box_copy CServiceStatus the_service_status zero_ServiceStatus (InferenceServiceStatus_DeepCopyInto L) a; ret (Some out) })"

definition QuotaPolicy_DeepCopy :: "('m, 'l, 'r, 't, 'x) apimachinery \<Rightarrow> addr option \<Rightarrow> (('m, 'l, 'r, 't, 'x) memory, addr option) state" where
  "QuotaPolicy_DeepCopy L p = (case p of
       None \<Rightarrow> ret None
     | Some a \<Rightarrow> do { out \<leftarrow> box_copy CQuota the_quota (zero_Quota (zero_ObjectMeta L)) (QuotaPolicy_DeepCopyInto L) a; ret (Some out) })"

definition QuotaPolicyList_DeepCopy :: "('m, 'l, 'r, 't, 'x) apimachinery \<Rightarrow> addr option \<Rightarrow> (('m, 'l, 'r, 't, 'x) memory, addr option) state" where
  "QuotaPolicyList_DeepCopy L p = (case p of
       None \<Rightarrow> ret None
     | Some a \<Rightarrow> do { out \<leftarrow> box_copy CQuotaList the_quota_list (zero_List (zero_ListMeta L)) (QuotaPolicyList_DeepCopyInto L) a; ret (Some out) })"

definition QuotaPolicySpec_DeepCopy :: "('m, 'l, 'r, 't, 'x) apimachinery \<Rightarrow> addr option \<Rightarrow> (('m, 'l, 'r, 't, 'x) memory, addr option) state" where
  "QuotaPolicySpec_DeepCopy L p = (case p of
       None \<Rightarrow> ret None
     | Some a \<Rightarrow> do { out \<leftarrow> box_copy CQuotaSpec the_quota_spec zero_QuotaSpec (QuotaPolicySpec_DeepCopyInto L) a; ret (Some out) })"

section \<open>DeepCopyObject\<close>

text \<open>
  A \<^verbatim>\<open>runtime.Object\<close> is an interface: a pointer with its dynamic type. \<open>None\<close> is the nil interface, which is not
  the same as an interface that holds a nil pointer, \<open>Some (ObjJob None)\<close>.
\<close>

datatype runtime_object =
    ObjJob "addr option"
  | ObjJobList "addr option"
  | ObjPool "addr option"
  | ObjPoolList "addr option"
  | ObjService "addr option"
  | ObjServiceList "addr option"
  | ObjQuota "addr option"
  | ObjQuotaList "addr option"

fun object_pointer :: "runtime_object \<Rightarrow> addr option" where
  "object_pointer (ObjJob p) = p"
| "object_pointer (ObjJobList p) = p"
| "object_pointer (ObjPool p) = p"
| "object_pointer (ObjPoolList p) = p"
| "object_pointer (ObjService p) = p"
| "object_pointer (ObjServiceList p) = p"
| "object_pointer (ObjQuota p) = p"
| "object_pointer (ObjQuotaList p) = p"

definition AcceleratorJob_DeepCopyObject :: "('m, 'l, 'r, 't, 'x) apimachinery \<Rightarrow> addr option \<Rightarrow> (('m, 'l, 'r, 't, 'x) memory, runtime_object option) state" where
  "AcceleratorJob_DeepCopyObject L p = do {
     c \<leftarrow> AcceleratorJob_DeepCopy L p;
     ret (if c \<noteq> None then Some (ObjJob c) else None)
   }"

definition AcceleratorJobList_DeepCopyObject :: "('m, 'l, 'r, 't, 'x) apimachinery \<Rightarrow> addr option \<Rightarrow> (('m, 'l, 'r, 't, 'x) memory, runtime_object option) state" where
  "AcceleratorJobList_DeepCopyObject L p = do {
     c \<leftarrow> AcceleratorJobList_DeepCopy L p;
     ret (if c \<noteq> None then Some (ObjJobList c) else None)
   }"

definition AcceleratorPool_DeepCopyObject :: "('m, 'l, 'r, 't, 'x) apimachinery \<Rightarrow> addr option \<Rightarrow> (('m, 'l, 'r, 't, 'x) memory, runtime_object option) state" where
  "AcceleratorPool_DeepCopyObject L p = do {
     c \<leftarrow> AcceleratorPool_DeepCopy L p;
     ret (if c \<noteq> None then Some (ObjPool c) else None)
   }"

definition AcceleratorPoolList_DeepCopyObject :: "('m, 'l, 'r, 't, 'x) apimachinery \<Rightarrow> addr option \<Rightarrow> (('m, 'l, 'r, 't, 'x) memory, runtime_object option) state" where
  "AcceleratorPoolList_DeepCopyObject L p = do {
     c \<leftarrow> AcceleratorPoolList_DeepCopy L p;
     ret (if c \<noteq> None then Some (ObjPoolList c) else None)
   }"

definition InferenceService_DeepCopyObject :: "('m, 'l, 'r, 't, 'x) apimachinery \<Rightarrow> addr option \<Rightarrow> (('m, 'l, 'r, 't, 'x) memory, runtime_object option) state" where
  "InferenceService_DeepCopyObject L p = do {
     c \<leftarrow> InferenceService_DeepCopy L p;
     ret (if c \<noteq> None then Some (ObjService c) else None)
   }"

definition InferenceServiceList_DeepCopyObject :: "('m, 'l, 'r, 't, 'x) apimachinery \<Rightarrow> addr option \<Rightarrow> (('m, 'l, 'r, 't, 'x) memory, runtime_object option) state" where
  "InferenceServiceList_DeepCopyObject L p = do {
     c \<leftarrow> InferenceServiceList_DeepCopy L p;
     ret (if c \<noteq> None then Some (ObjServiceList c) else None)
   }"

definition QuotaPolicy_DeepCopyObject :: "('m, 'l, 'r, 't, 'x) apimachinery \<Rightarrow> addr option \<Rightarrow> (('m, 'l, 'r, 't, 'x) memory, runtime_object option) state" where
  "QuotaPolicy_DeepCopyObject L p = do {
     c \<leftarrow> QuotaPolicy_DeepCopy L p;
     ret (if c \<noteq> None then Some (ObjQuota c) else None)
   }"

definition QuotaPolicyList_DeepCopyObject :: "('m, 'l, 'r, 't, 'x) apimachinery \<Rightarrow> addr option \<Rightarrow> (('m, 'l, 'r, 't, 'x) memory, runtime_object option) state" where
  "QuotaPolicyList_DeepCopyObject L p = do {
     c \<leftarrow> QuotaPolicyList_DeepCopy L p;
     ret (if c \<noteq> None then Some (ObjQuotaList c) else None)
   }"

text \<open>A call through the interface, dispatched on the dynamic type.
\<close>

fun DeepCopyObject :: "('m, 'l, 'r, 't, 'x) apimachinery \<Rightarrow> runtime_object \<Rightarrow> (('m, 'l, 'r, 't, 'x) memory, runtime_object option) state" where
  "DeepCopyObject L (ObjJob p) = AcceleratorJob_DeepCopyObject L p"
| "DeepCopyObject L (ObjJobList p) = AcceleratorJobList_DeepCopyObject L p"
| "DeepCopyObject L (ObjPool p) = AcceleratorPool_DeepCopyObject L p"
| "DeepCopyObject L (ObjPoolList p) = AcceleratorPoolList_DeepCopyObject L p"
| "DeepCopyObject L (ObjService p) = InferenceService_DeepCopyObject L p"
| "DeepCopyObject L (ObjServiceList p) = InferenceServiceList_DeepCopyObject L p"
| "DeepCopyObject L (ObjQuota p) = QuotaPolicy_DeepCopyObject L p"
| "DeepCopyObject L (ObjQuotaList p) = QuotaPolicyList_DeepCopyObject L p"
end
