(* ===== verification/Deep_Copy_Laws.thy ===== *)
theory Deep_Copy_Laws
  imports Deep_Copy
begin

text \<open>
  The generated copy functions satisfy the contract \<open>deep_copy\<close>: how each struct is read in memory, the contract
  assumed of the library types (locale \<open>api_machinery\<close>), the deep copies that follow for the types of this
  project, and an instance of the contract with the documented layout of the library structs.
\<close>

section \<open>How the structs are read\<close>

text \<open>
  The readings of the library types, down to the records the other theories use for them. For the
  project's own types the reading of a struct is its plain fields and the readings of the others.
\<close>

record ('m, 'l, 'r, 't, 'x, 'v) lib_views =
  ObjectMeta_view :: "(('m, 'l, 'r, 't, 'x) cell, 'm, object_meta) view"
  ListMeta_view :: "(('m, 'l, 'r, 't, 'x) cell, 'l, 'v) view"
  ResourceRequirements_view :: "(('m, 'l, 'r, 't, 'x) cell, 'r, resource_requirements) view"
  Toleration_view :: "(('m, 'l, 'r, 't, 'x) cell, 't, toleration) view"
  Time_view :: "(('m, 'l, 'r, 't, 'x) cell, addr, instant) view"

type_synonym spec_plain = "string \<times> string \<times> int32 \<times> int32 \<times> string \<times> string \<times> int32 \<times> int32 \<times> bool"
type_synonym spec_value = "spec_plain \<times> string list option \<times> string list option \<times> resource_requirements \<times> int64 option"
type_synonym status_plain = "AcceleratorJobPhase \<times> string \<times> string \<times> int32"
type_synonym status_value = "status_plain \<times> instant option \<times> instant option \<times> instant option"
type_synonym job_value = "go_TypeMeta \<times> object_meta \<times> spec_value \<times> status_value"
type_synonym pool_spec_value = "(string \<times> string) \<times> labels option \<times> toleration list option"
type_synonym pool_value = "go_TypeMeta \<times> object_meta \<times> pool_spec_value"
type_synonym service_value = "(go_TypeMeta \<times> go_ServiceSpec \<times> go_ServiceStatus) \<times> object_meta"
type_synonym quota_value = "(go_TypeMeta \<times> go_QuotaSpec) \<times> object_meta"
type_synonym ('v, 'a) list_value = "go_TypeMeta \<times> 'v \<times> 'a list option"

definition spec_plain :: "'r go_JobSpec \<Rightarrow> spec_plain" where
  "spec_plain s = (js_Image s, js_AcceleratorType s, js_AcceleratorCount s, js_Priority s, js_Team s, js_Pool s,
     js_GangSize s, js_MaxRetries s, js_Checkpoint s)"

definition spec_view :: "('m, 'l, 'r, 't, 'x, 'v) lib_views \<Rightarrow> (('m, 'l, 'r, 't, 'x) cell, 'r go_JobSpec, spec_value) view" where
  "spec_view V = struct_view (\<lambda>s. (js_Command s, js_Args s, js_Resources s, js_TimeoutSeconds s)) spec_plain
     (pair_view (slice_view CStrings the_strings flat_view) (pair_view (slice_view CStrings the_strings flat_view)
       (pair_view (ResourceRequirements_view V) (option_view (box_view CInt64 the_int64 flat_view)))))"

definition status_view :: "('m, 'l, 'r, 't, 'x, 'v) lib_views \<Rightarrow> (('m, 'l, 'r, 't, 'x) cell, go_JobStatus, status_value) view" where
  "status_view V = struct_view (\<lambda>s. (jt_StartTime s, jt_CompletionTime s, jt_NextRetryTime s))
     (\<lambda>s. (jt_Phase s, jt_PodName s, jt_Message s, jt_RetryCount s))
     (pair_view (option_view (Time_view V)) (pair_view (option_view (Time_view V)) (option_view (Time_view V))))"

definition job_view :: "('m, 'l, 'r, 't, 'x, 'v) lib_views \<Rightarrow> (('m, 'l, 'r, 't, 'x) cell, ('m, 'r) go_Job, job_value) view" where
  "job_view V = struct_view (\<lambda>j. (gj_ObjectMeta j, gj_Spec j, gj_Status j)) gj_TypeMeta
     (pair_view (ObjectMeta_view V) (pair_view (spec_view V) (status_view V)))"

definition pool_spec_view :: "('m, 'l, 'r, 't, 'x, 'v) lib_views \<Rightarrow> (('m, 'l, 'r, 't, 'x) cell, go_PoolSpec, pool_spec_value) view" where
  "pool_spec_view V = struct_view (\<lambda>s. (pl_NodeSelector s, pl_Tolerations s)) (\<lambda>s. (pl_AcceleratorType s, pl_PlacementStrategy s))
     (pair_view (option_view (map_view CMap the_map)) (slice_view CTolerations the_tolerations (Toleration_view V)))"

definition pool_view :: "('m, 'l, 'r, 't, 'x, 'v) lib_views \<Rightarrow> (('m, 'l, 'r, 't, 'x) cell, 'm go_Pool, pool_value) view" where
  "pool_view V = struct_view (\<lambda>p. (gp_ObjectMeta p, gp_Spec p)) gp_TypeMeta (pair_view (ObjectMeta_view V) (pool_spec_view V))"

definition service_view :: "('m, 'l, 'r, 't, 'x, 'v) lib_views \<Rightarrow> (('m, 'l, 'r, 't, 'x) cell, 'm go_Service, service_value) view" where
  "service_view V = struct_view gs_ObjectMeta (\<lambda>v. (gs_TypeMeta v, gs_Spec v, gs_Status v)) (ObjectMeta_view V)"

definition quota_view :: "('m, 'l, 'r, 't, 'x, 'v) lib_views \<Rightarrow> (('m, 'l, 'r, 't, 'x) cell, 'm go_Quota, quota_value) view" where
  "quota_view V = struct_view gq_ObjectMeta (\<lambda>q. (gq_TypeMeta q, gq_Spec q)) (ObjectMeta_view V)"

definition list_view ::
  "('s list \<Rightarrow> ('m, 'l, 'r, 't, 'x) cell) \<Rightarrow> (('m, 'l, 'r, 't, 'x) cell \<Rightarrow> 's list) \<Rightarrow> (('m, 'l, 'r, 't, 'x) cell, 's, 'a) view \<Rightarrow>
   ('m, 'l, 'r, 't, 'x, 'v) lib_views \<Rightarrow> (('m, 'l, 'r, 't, 'x) cell, 'l go_List, ('v, 'a) list_value) view" where
  "list_view mk un w V = struct_view (\<lambda>l. (li_ListMeta l, li_Items l)) li_TypeMeta (pair_view (ListMeta_view V) (slice_view mk un w))"

section \<open>The generated functions are deep copies\<close>

lemma AcceleratorJobSpec_DeepCopyInto_eq:
  "AcceleratorJobSpec_DeepCopyInto L = struct_copy (\<lambda>s. (js_Command s, js_Args s, js_Resources s, js_TimeoutSeconds s))
     (\<lambda>(c, a, r, t) s. s\<lparr>js_Command := c, js_Args := a, js_Resources := r, js_TimeoutSeconds := t\<rparr>)
     (pair_copy (array_copy CStrings the_strings []) (pair_copy (array_copy CStrings the_strings [])
       (pair_copy (ResourceRequirements_DeepCopyInto L) (option_copy (box_copy CInt64 the_int64 0 flat_copy)))))"
  by (rule ext) (simp add: AcceleratorJobSpec_DeepCopyInto_def struct_copy_def pair_copy_def bind_assoc)

lemma AcceleratorJobStatus_DeepCopyInto_eq:
  "AcceleratorJobStatus_DeepCopyInto L = struct_copy (\<lambda>s. (jt_StartTime s, jt_CompletionTime s, jt_NextRetryTime s))
     (\<lambda>(a, b, c) s. s\<lparr>jt_StartTime := a, jt_CompletionTime := b, jt_NextRetryTime := c\<rparr>)
     (pair_copy (option_copy (Time_DeepCopy L)) (pair_copy (option_copy (Time_DeepCopy L)) (option_copy (Time_DeepCopy L))))"
  by (rule ext) (simp add: AcceleratorJobStatus_DeepCopyInto_def struct_copy_def pair_copy_def bind_assoc)

lemma AcceleratorJob_DeepCopyInto_eq:
  "AcceleratorJob_DeepCopyInto L = struct_copy (\<lambda>j. (gj_ObjectMeta j, gj_Spec j, gj_Status j))
     (\<lambda>(m, s, t) j. j\<lparr>gj_ObjectMeta := m, gj_Spec := s, gj_Status := t\<rparr>)
     (pair_copy (ObjectMeta_DeepCopyInto L) (pair_copy (AcceleratorJobSpec_DeepCopyInto L) (AcceleratorJobStatus_DeepCopyInto L)))"
  by (rule ext) (simp add: AcceleratorJob_DeepCopyInto_def struct_copy_def pair_copy_def bind_assoc)

lemma AcceleratorPoolSpec_DeepCopyInto_eq:
  "AcceleratorPoolSpec_DeepCopyInto L = struct_copy (\<lambda>s. (pl_NodeSelector s, pl_Tolerations s))
     (\<lambda>(m, t) s. s\<lparr>pl_NodeSelector := m, pl_Tolerations := t\<rparr>)
     (pair_copy (option_copy (map_copy CMap the_map (range_visit L)))
       (slice_copy CTolerations the_tolerations (zero_Toleration L) (Toleration_DeepCopyInto L)))"
  by (rule ext) (simp add: AcceleratorPoolSpec_DeepCopyInto_def struct_copy_def pair_copy_def bind_assoc)

lemma AcceleratorPool_DeepCopyInto_eq:
  "AcceleratorPool_DeepCopyInto L = struct_copy (\<lambda>p. (gp_ObjectMeta p, gp_Spec p))
     (\<lambda>(m, s) p. p\<lparr>gp_ObjectMeta := m, gp_Spec := s\<rparr>)
     (pair_copy (ObjectMeta_DeepCopyInto L) (AcceleratorPoolSpec_DeepCopyInto L))"
  by (rule ext) (simp add: AcceleratorPool_DeepCopyInto_def struct_copy_def pair_copy_def bind_assoc)

lemma InferenceService_DeepCopyInto_eq:
  "InferenceService_DeepCopyInto L = struct_copy gs_ObjectMeta (\<lambda>m v. v\<lparr>gs_ObjectMeta := m\<rparr>) (ObjectMeta_DeepCopyInto L)"
  by (rule ext) (simp add: InferenceService_DeepCopyInto_def struct_copy_def)

lemma QuotaPolicy_DeepCopyInto_eq:
  "QuotaPolicy_DeepCopyInto L = struct_copy gq_ObjectMeta (\<lambda>m q. q\<lparr>gq_ObjectMeta := m\<rparr>) (ObjectMeta_DeepCopyInto L)"
  by (rule ext) (simp add: QuotaPolicy_DeepCopyInto_def struct_copy_def)

text \<open>The four lists are copied alike.\<close>

definition list_copy ::
  "('s list \<Rightarrow> ('m, 'l, 'r, 't, 'x) cell) \<Rightarrow> (('m, 'l, 'r, 't, 'x) cell \<Rightarrow> 's list) \<Rightarrow> 's \<Rightarrow> ('s \<Rightarrow> (('m, 'l, 'r, 't, 'x) memory, 's) state) \<Rightarrow>
   ('m, 'l, 'r, 't, 'x) apimachinery \<Rightarrow> 'l go_List \<Rightarrow> (('m, 'l, 'r, 't, 'x) memory, 'l go_List) state" where
  "list_copy mk un zero into L = struct_copy (\<lambda>l. (li_ListMeta l, li_Items l)) (\<lambda>(m, i) l. l\<lparr>li_ListMeta := m, li_Items := i\<rparr>)
     (pair_copy (ListMeta_DeepCopyInto L) (slice_copy mk un zero into))"

lemma list_DeepCopyInto_eq:
  "AcceleratorJobList_DeepCopyInto L =
     list_copy CJobs the_jobs (zero_Job (zero_ObjectMeta L) (zero_ResourceRequirements L)) (AcceleratorJob_DeepCopyInto L) L"
  "AcceleratorPoolList_DeepCopyInto L = list_copy CPools the_pools (zero_Pool (zero_ObjectMeta L)) (AcceleratorPool_DeepCopyInto L) L"
  "InferenceServiceList_DeepCopyInto L =
     list_copy CServices the_services (zero_Service (zero_ObjectMeta L)) (InferenceService_DeepCopyInto L) L"
  "QuotaPolicyList_DeepCopyInto L = list_copy CQuotas the_quotas (zero_Quota (zero_ObjectMeta L)) (QuotaPolicy_DeepCopyInto L) L"
  by (rule ext, simp add: AcceleratorJobList_DeepCopyInto_def AcceleratorPoolList_DeepCopyInto_def
      InferenceServiceList_DeepCopyInto_def QuotaPolicyList_DeepCopyInto_def
      list_copy_def struct_copy_def pair_copy_def bind_assoc)+

text \<open>The contract of the library: its copy functions are deep copies, and a \<^verbatim>\<open>range\<close> visits every entry.\<close>

locale api_machinery =
  object_meta: deep_copy "ObjectMeta_DeepCopyInto L" "ObjectMeta_view V" +
  list_meta: deep_copy "ListMeta_DeepCopyInto L" "ListMeta_view V" +
  resources: deep_copy "ResourceRequirements_DeepCopyInto L" "ResourceRequirements_view V" +
  toleration: deep_copy "Toleration_DeepCopyInto L" "Toleration_view V" +
  time: deep_copy "Time_DeepCopy L" "Time_view V"
  for L :: "('m, 'l, 'r, 't, 'x) apimachinery" and V :: "('m, 'l, 'r, 't, 'x, 'v) lib_views" +
  assumes range_all: "set (range_visit L es) = set es"

interpretation strings: copy_array CStrings the_strings
  by unfold_locales simp

interpretation timeout: copy_cell flat_copy flat_view CInt64 the_int64
  by unfold_locales simp

sublocale api_machinery \<subseteq> selector: copy_map CMap the_map "range_visit L"
  by unfold_locales (simp_all add: range_all)

sublocale api_machinery \<subseteq> tolerations: copy_slice "Toleration_DeepCopyInto L" "Toleration_view V" CTolerations the_tolerations
  by unfold_locales simp

sublocale api_machinery \<subseteq> job_spec: deep_copy "AcceleratorJobSpec_DeepCopyInto L" "spec_view V"
  unfolding AcceleratorJobSpec_DeepCopyInto_eq spec_view_def
  by (intro deep_copy_struct deep_copies strings.arrays_deep_copy timeout.box_deep_copy resources.deep_copy_axioms)
    (auto simp: spec_plain_def)

sublocale api_machinery \<subseteq> job_status: deep_copy "AcceleratorJobStatus_DeepCopyInto L" "status_view V"
  unfolding AcceleratorJobStatus_DeepCopyInto_eq status_view_def
  by (intro deep_copy_struct deep_copies time.deep_copy_axioms) auto

sublocale api_machinery \<subseteq> job: deep_copy "AcceleratorJob_DeepCopyInto L" "job_view V"
  unfolding AcceleratorJob_DeepCopyInto_eq job_view_def
  by (intro deep_copy_struct deep_copies object_meta.deep_copy_axioms job_spec.deep_copy_axioms job_status.deep_copy_axioms) auto

sublocale api_machinery \<subseteq> pool_spec: deep_copy "AcceleratorPoolSpec_DeepCopyInto L" "pool_spec_view V"
  unfolding AcceleratorPoolSpec_DeepCopyInto_eq pool_spec_view_def
  by (intro deep_copy_struct deep_copies selector.maps_deep_copy tolerations.slices_deep_copy) auto

sublocale api_machinery \<subseteq> pool_parts: copy_pair "ObjectMeta_DeepCopyInto L" "ObjectMeta_view V"
  "AcceleratorPoolSpec_DeepCopyInto L" "pool_spec_view V"
  by unfold_locales

sublocale api_machinery \<subseteq> pool: deep_copy "AcceleratorPool_DeepCopyInto L" "pool_view V"
  unfolding AcceleratorPool_DeepCopyInto_eq pool_view_def
  by (intro deep_copy_struct pool_parts.pair_deep_copy) auto

sublocale api_machinery \<subseteq> service_parts: copy_struct "ObjectMeta_DeepCopyInto L" "ObjectMeta_view V"
  gs_ObjectMeta "\<lambda>m v. v\<lparr>gs_ObjectMeta := m\<rparr>" "\<lambda>v. (gs_TypeMeta v, gs_Spec v, gs_Status v)"
  by unfold_locales simp_all

sublocale api_machinery \<subseteq> service: deep_copy "InferenceService_DeepCopyInto L" "service_view V"
  unfolding InferenceService_DeepCopyInto_eq service_view_def by (rule service_parts.struct_deep_copy)

sublocale api_machinery \<subseteq> quota_parts: copy_struct "ObjectMeta_DeepCopyInto L" "ObjectMeta_view V"
  gq_ObjectMeta "\<lambda>m q. q\<lparr>gq_ObjectMeta := m\<rparr>" "\<lambda>q. (gq_TypeMeta q, gq_Spec q)"
  by unfold_locales simp_all

sublocale api_machinery \<subseteq> quota: deep_copy "QuotaPolicy_DeepCopyInto L" "quota_view V"
  unfolding QuotaPolicy_DeepCopyInto_eq quota_view_def by (rule quota_parts.struct_deep_copy)

lemma deep_copy_list:
  assumes "deep_copy (ListMeta_DeepCopyInto L) (ListMeta_view V)" and "deep_copy into w" and "\<And>xs. un (mk xs) = xs"
  shows "deep_copy (list_copy mk un zero into L) (list_view mk un w V)"
  unfolding list_copy_def list_view_def by (intro deep_copy_struct deep_copies deep_copy_slice assms) auto

sublocale api_machinery \<subseteq> job_list: deep_copy "AcceleratorJobList_DeepCopyInto L" "list_view CJobs the_jobs (job_view V) V"
  unfolding list_DeepCopyInto_eq by (intro deep_copy_list list_meta.deep_copy_axioms job.deep_copy_axioms) simp

sublocale api_machinery \<subseteq> pool_list: deep_copy "AcceleratorPoolList_DeepCopyInto L" "list_view CPools the_pools (pool_view V) V"
  unfolding list_DeepCopyInto_eq by (intro deep_copy_list list_meta.deep_copy_axioms pool.deep_copy_axioms) simp

sublocale api_machinery \<subseteq> service_list: deep_copy "InferenceServiceList_DeepCopyInto L" "list_view CServices the_services (service_view V) V"
  unfolding list_DeepCopyInto_eq by (intro deep_copy_list list_meta.deep_copy_axioms service.deep_copy_axioms) simp

sublocale api_machinery \<subseteq> quota_list: deep_copy "QuotaPolicyList_DeepCopyInto L" "list_view CQuotas the_quotas (quota_view V) V"
  unfolding list_DeepCopyInto_eq by (intro deep_copy_list list_meta.deep_copy_axioms quota.deep_copy_axioms) simp

text \<open>A \<^verbatim>\<open>DeepCopy\<close> is the deep copy of a pointer that may be nil.\<close>

definition pointer_view :: "('s \<Rightarrow> 'c) \<Rightarrow> ('c \<Rightarrow> 's) \<Rightarrow> ('c, 's, 'v) view \<Rightarrow> ('c, addr option, 'v option) view" where
  "pointer_view mk un w = option_view (box_view mk un w)"

lemma deep_copy_pointer:
  assumes "deep_copy into w" and "\<And>s. un (mk s) = s"
  shows "deep_copy (\<lambda>p. case p of None \<Rightarrow> ret None | Some a \<Rightarrow> do { out \<leftarrow> box_copy mk un zero into a; ret (Some out) })
     (pointer_view mk un w)"
  using deep_copy_option [OF deep_copy_box [OF assms]] by (simp add: option_copy_def [abs_def] pointer_view_def)

lemma flat_DeepCopyInto:
  "InferenceServiceSpec_DeepCopyInto L = flat_copy" "InferenceServiceStatus_DeepCopyInto L = flat_copy"
  "QuotaPolicySpec_DeepCopyInto L = flat_copy"
  by (rule ext, simp add: InferenceServiceSpec_DeepCopyInto_def InferenceServiceStatus_DeepCopyInto_def
      QuotaPolicySpec_DeepCopyInto_def flat_copy_def)+

context api_machinery
begin

lemma pointer_deep_copies:
  "deep_copy (AcceleratorJob_DeepCopy L) (pointer_view CJob the_job (job_view V))"
  "deep_copy (AcceleratorJobList_DeepCopy L) (pointer_view CJobList the_job_list (list_view CJobs the_jobs (job_view V) V))"
  "deep_copy (AcceleratorJobSpec_DeepCopy L) (pointer_view CJobSpec the_job_spec (spec_view V))"
  "deep_copy (AcceleratorJobStatus_DeepCopy L) (pointer_view CJobStatus the_job_status (status_view V))"
  "deep_copy (AcceleratorPool_DeepCopy L) (pointer_view CPool the_pool (pool_view V))"
  "deep_copy (AcceleratorPoolList_DeepCopy L) (pointer_view CPoolList the_pool_list (list_view CPools the_pools (pool_view V) V))"
  "deep_copy (AcceleratorPoolSpec_DeepCopy L) (pointer_view CPoolSpec the_pool_spec (pool_spec_view V))"
  "deep_copy (InferenceService_DeepCopy L) (pointer_view CService the_service (service_view V))"
  "deep_copy (InferenceServiceList_DeepCopy L) (pointer_view CServiceList the_service_list (list_view CServices the_services (service_view V) V))"
  "deep_copy (InferenceServiceSpec_DeepCopy L) (pointer_view CServiceSpec the_service_spec flat_view)"
  "deep_copy (InferenceServiceStatus_DeepCopy L) (pointer_view CServiceStatus the_service_status flat_view)"
  "deep_copy (QuotaPolicy_DeepCopy L) (pointer_view CQuota the_quota (quota_view V))"
  "deep_copy (QuotaPolicyList_DeepCopy L) (pointer_view CQuotaList the_quota_list (list_view CQuotas the_quotas (quota_view V) V))"
  "deep_copy (QuotaPolicySpec_DeepCopy L) (pointer_view CQuotaSpec the_quota_spec flat_view)"
  unfolding AcceleratorJob_DeepCopy_def [abs_def]
    AcceleratorJobList_DeepCopy_def [abs_def]
    AcceleratorJobSpec_DeepCopy_def [abs_def]
    AcceleratorJobStatus_DeepCopy_def [abs_def]
    AcceleratorPool_DeepCopy_def [abs_def]
    AcceleratorPoolList_DeepCopy_def [abs_def]
    AcceleratorPoolSpec_DeepCopy_def [abs_def]
    InferenceService_DeepCopy_def [abs_def]
    InferenceServiceList_DeepCopy_def [abs_def]
    InferenceServiceSpec_DeepCopy_def [abs_def]
    InferenceServiceStatus_DeepCopy_def [abs_def]
    QuotaPolicy_DeepCopy_def [abs_def]
    QuotaPolicyList_DeepCopy_def [abs_def]
    QuotaPolicySpec_DeepCopy_def [abs_def]
    flat_DeepCopyInto
  by (intro deep_copy_pointer flat.deep_copy_axioms job.deep_copy_axioms job_list.deep_copy_axioms job_spec.deep_copy_axioms job_status.deep_copy_axioms pool.deep_copy_axioms pool_list.deep_copy_axioms pool_spec.deep_copy_axioms service.deep_copy_axioms service_list.deep_copy_axioms quota.deep_copy_axioms quota_list.deep_copy_axioms; simp)+

end

section \<open>Objects behind the interface\<close>

datatype 'v object_value =
    JobValue "job_value option"
  | JobListValue "('v, job_value) list_value option"
  | PoolValue "pool_value option"
  | PoolListValue "('v, pool_value) list_value option"
  | ServiceValue "service_value option"
  | ServiceListValue "('v, service_value) list_value option"
  | QuotaValue "quota_value option"
  | QuotaListValue "('v, quota_value) list_value option"

definition object_view ::
  "('m, 'l, 'r, 't, 'x, 'v) lib_views \<Rightarrow> (('m, 'l, 'r, 't, 'x) cell, runtime_object, 'v object_value) view" where
  "object_view V = \<lparr>
     vw_ok = \<lambda>h ob. case ob of
         ObjJob p \<Rightarrow> vw_ok (pointer_view CJob the_job (job_view V)) h p
       | ObjJobList p \<Rightarrow> vw_ok (pointer_view CJobList the_job_list (list_view CJobs the_jobs (job_view V) V)) h p
       | ObjPool p \<Rightarrow> vw_ok (pointer_view CPool the_pool (pool_view V)) h p
       | ObjPoolList p \<Rightarrow> vw_ok (pointer_view CPoolList the_pool_list (list_view CPools the_pools (pool_view V) V)) h p
       | ObjService p \<Rightarrow> vw_ok (pointer_view CService the_service (service_view V)) h p
       | ObjServiceList p \<Rightarrow> vw_ok (pointer_view CServiceList the_service_list (list_view CServices the_services (service_view V) V)) h p
       | ObjQuota p \<Rightarrow> vw_ok (pointer_view CQuota the_quota (quota_view V)) h p
       | ObjQuotaList p \<Rightarrow> vw_ok (pointer_view CQuotaList the_quota_list (list_view CQuotas the_quotas (quota_view V) V)) h p,
     vw_foot = \<lambda>h ob. case ob of
         ObjJob p \<Rightarrow> vw_foot (pointer_view CJob the_job (job_view V)) h p
       | ObjJobList p \<Rightarrow> vw_foot (pointer_view CJobList the_job_list (list_view CJobs the_jobs (job_view V) V)) h p
       | ObjPool p \<Rightarrow> vw_foot (pointer_view CPool the_pool (pool_view V)) h p
       | ObjPoolList p \<Rightarrow> vw_foot (pointer_view CPoolList the_pool_list (list_view CPools the_pools (pool_view V) V)) h p
       | ObjService p \<Rightarrow> vw_foot (pointer_view CService the_service (service_view V)) h p
       | ObjServiceList p \<Rightarrow> vw_foot (pointer_view CServiceList the_service_list (list_view CServices the_services (service_view V) V)) h p
       | ObjQuota p \<Rightarrow> vw_foot (pointer_view CQuota the_quota (quota_view V)) h p
       | ObjQuotaList p \<Rightarrow> vw_foot (pointer_view CQuotaList the_quota_list (list_view CQuotas the_quotas (quota_view V) V)) h p,
     vw_val = \<lambda>h ob. case ob of
         ObjJob p \<Rightarrow> JobValue (vw_val (pointer_view CJob the_job (job_view V)) h p)
       | ObjJobList p \<Rightarrow> JobListValue (vw_val (pointer_view CJobList the_job_list (list_view CJobs the_jobs (job_view V) V)) h p)
       | ObjPool p \<Rightarrow> PoolValue (vw_val (pointer_view CPool the_pool (pool_view V)) h p)
       | ObjPoolList p \<Rightarrow> PoolListValue (vw_val (pointer_view CPoolList the_pool_list (list_view CPools the_pools (pool_view V) V)) h p)
       | ObjService p \<Rightarrow> ServiceValue (vw_val (pointer_view CService the_service (service_view V)) h p)
       | ObjServiceList p \<Rightarrow> ServiceListValue (vw_val (pointer_view CServiceList the_service_list (list_view CServices the_services (service_view V) V)) h p)
       | ObjQuota p \<Rightarrow> QuotaValue (vw_val (pointer_view CQuota the_quota (quota_view V)) h p)
       | ObjQuotaList p \<Rightarrow> QuotaListValue (vw_val (pointer_view CQuotaList the_quota_list (list_view CQuotas the_quotas (quota_view V) V)) h p)\<rparr>"

text \<open>What a \<^verbatim>\<open>DeepCopyObject\<close> gives, once for all types.\<close>

definition object_copied :: "('m, 'l, 'r, 't, 'x, 'v) lib_views \<Rightarrow> ('m, 'l, 'r, 't, 'x) memory \<Rightarrow> runtime_object \<Rightarrow>
    runtime_object option \<times> ('m, 'l, 'r, 't, 'x) memory \<Rightarrow> bool" where
  "object_copied V h ob res = (case fst res of
       None \<Rightarrow> object_pointer ob = None \<and> snd res = h
     | Some ob' \<Rightarrow> object_pointer ob \<noteq> None \<and> object_pointer ob' \<noteq> None \<and> separate_copy (object_view V) h ob ob' (snd res))"

lemma object_copy_step:
  assumes "deep_copy (DC) w" and "DC None = ret None"
    and "\<And>a. DC (Some a) = do { out \<leftarrow> F a; ret (Some out) }"
    and "\<And>h p. vw_ok (object_view V) h (Ob p) = vw_ok w h p" and "\<And>h p. vw_foot (object_view V) h (Ob p) = vw_foot w h p"
    and "\<And>h p. vw_val (object_view V) h (Ob p) = vl (vw_val w h p)" and "\<And>p. object_pointer (Ob p) = p"
    and "vw_ok (object_view V) h (Ob p)"
  shows "object_copied V h (Ob p) (run_state (do { c \<leftarrow> DC p; ret (if c \<noteq> None then Some (Ob c) else None) }) h)"
proof (cases p)
  case None
  then show ?thesis by (simp add: object_copied_def assms(2,7))
next
  case (Some a)
  obtain q h' where q: "run_state (DC p) h = (Some q, h')"
    by (cases "run_state (F a) h") (simp add: Some assms(3))
  have "separate_copy w h p (Some q) h'"
    by (rule deep_copy.copy_separate [OF assms(1) _ q]) (use assms(8) in \<open>simp add: assms(4)\<close>)
  then have "separate_copy (object_view V) h (Ob p) (Ob (Some q)) h'"
    unfolding separate_copy_def assms(4-6) by simp
  then show ?thesis using q by (simp add: object_copied_def assms(7) Some)
qed
section \<open>The objects of the other theories\<close>

text \<open>The \<^verbatim>\<open>AcceleratorJob\<close> of the other theories is what a job in memory reads as; a nil slice reads as no strings.\<close>

fun job_of :: "job_value \<Rightarrow> AcceleratorJob" where
  "job_of (tm, meta, ((img, atype, cnt, prio, team, pool, gang, retries, chk), command, args, resources, timeout),
     ((phase, pod, msg, rc), start, completion, retry)) =
     \<lparr>job_Meta = meta,
      job_Spec = \<lparr>spec_Image = img, spec_Command = (case command of None \<Rightarrow> [] | Some xs \<Rightarrow> xs),
        spec_Args = (case args of None \<Rightarrow> [] | Some xs \<Rightarrow> xs), spec_AcceleratorType = atype,
        spec_AcceleratorCount = cnt, spec_Priority = prio, spec_Team = team, spec_Pool = pool, spec_GangSize = gang,
        spec_Resources = resources, spec_MaxRetries = retries, spec_Checkpoint = chk, spec_TimeoutSeconds = timeout\<rparr>,
      job_Status = \<lparr>st_Phase = phase, st_PodName = pod, st_Message = msg, st_StartTime = start,
        st_CompletionTime = completion, st_RetryCount = rc, st_NextRetryTime = retry\<rparr>\<rparr>"

definition job_at :: "('m, 'l, 'r, 't, 'x, 'v) lib_views \<Rightarrow> ('m, 'l, 'r, 't, 'x) memory \<Rightarrow> addr option \<Rightarrow> AcceleratorJob option" where
  "job_at V h p = map_option job_of (vw_val (pointer_view CJob the_job (job_view V)) h p)"

section \<open>A library with the documented layout\<close>

text \<open>
  The library structs as their documentation lays them out, as far as the other theories read them:
  \<^verbatim>\<open>ObjectMeta\<close> with two maps, a slice and a pointer to a time, \<^verbatim>\<open>ListMeta\<close> with a continue token and a pointer to
  a count, \<^verbatim>\<open>ResourceRequirements\<close> with two maps of quantities, a \<^verbatim>\<open>Toleration\<close> with a pointer to its seconds.
\<close>

datatype lib_cell = LTime (the_time: instant) | LQuantities (the_quantities: "(string, quantity) alist")

record lib_meta =
  lm_Plain :: "string \<times> string \<times> instant \<times> (string \<times> string) option"
  lm_Labels :: "addr option"
  lm_Annotations :: "addr option"
  lm_Finalizers :: slice
  lm_DeletionTimestamp :: "addr option"

type_synonym kube_cell = "(lib_meta, string \<times> addr option, addr option \<times> addr option, toleration \<times> addr option, lib_cell) cell"

definition time_copy :: "addr \<Rightarrow> (kube_cell heap, addr) state" where
  "time_copy = box_copy (\<lambda>t. CLib (LTime t)) (\<lambda>c. the_time (the_lib c)) 0 flat_copy"

definition time_view :: "(kube_cell, addr, instant) view" where
  "time_view = box_view (\<lambda>t. CLib (LTime t)) (\<lambda>c. the_time (the_lib c)) flat_view"

definition int64_copy :: "addr option \<Rightarrow> (kube_cell heap, addr option) state" where
  "int64_copy = option_copy (box_copy CInt64 the_int64 0 flat_copy)"

definition int64_view :: "(kube_cell, addr option, int64 option) view" where
  "int64_view = option_view (box_view CInt64 the_int64 flat_view)"

definition quantities_copy :: "addr option \<Rightarrow> (kube_cell heap, addr option) state" where
  "quantities_copy = option_copy (map_copy (\<lambda>m. CLib (LQuantities m)) (\<lambda>c. the_quantities (the_lib c)) id)"

definition quantities_view :: "(kube_cell, addr option, resource_list option) view" where
  "quantities_view = option_view (map_view (\<lambda>m. CLib (LQuantities m)) (\<lambda>c. the_quantities (the_lib c)))"

definition no_entries :: "('k \<rightharpoonup> 'v) option \<Rightarrow> 'k \<rightharpoonup> 'v" where
  "no_entries m = (case m of None \<Rightarrow> Map.empty | Some f \<Rightarrow> f)"

definition lib_meta_copy :: "lib_meta \<Rightarrow> (kube_cell heap, lib_meta) state" where
  "lib_meta_copy = struct_copy (\<lambda>m. (lm_Labels m, lm_Annotations m, lm_Finalizers m, lm_DeletionTimestamp m))
     (\<lambda>(l, a, f, d) m. m\<lparr>lm_Labels := l, lm_Annotations := a, lm_Finalizers := f, lm_DeletionTimestamp := d\<rparr>)
     (pair_copy (option_copy (map_copy CMap the_map id)) (pair_copy (option_copy (map_copy CMap the_map id))
       (pair_copy (array_copy CStrings the_strings []) (option_copy time_copy))))"

definition lib_meta_view :: "(kube_cell, lib_meta, object_meta) view" where
  "lib_meta_view = val_view (\<lambda>((n, ns, created, ctrl), labels, annotations, finalizers, deleted).
       \<lparr>om_Name = n, om_Namespace = ns, om_Labels = no_entries labels, om_Annotations = no_entries annotations,
        om_Finalizers = (case finalizers of None \<Rightarrow> [] | Some fs \<Rightarrow> fs), om_DeletionTimestamp = deleted,
        om_CreationTimestamp = created, om_Controller = ctrl\<rparr>)
     (struct_view (\<lambda>m. (lm_Labels m, lm_Annotations m, lm_Finalizers m, lm_DeletionTimestamp m)) lm_Plain
       (pair_view (option_view (map_view CMap the_map)) (pair_view (option_view (map_view CMap the_map))
         (pair_view (slice_view CStrings the_strings flat_view) (option_view time_view)))))"

definition kube_lib ::
  "(lib_meta, string \<times> addr option, addr option \<times> addr option, toleration \<times> addr option, lib_cell) apimachinery" where
  "kube_lib = \<lparr>ObjectMeta_DeepCopyInto = lib_meta_copy, ListMeta_DeepCopyInto = pair_copy flat_copy int64_copy,
     ResourceRequirements_DeepCopyInto = pair_copy quantities_copy quantities_copy,
     Toleration_DeepCopyInto = pair_copy flat_copy int64_copy, Time_DeepCopy = time_copy,
     zero_ObjectMeta = \<lparr>lm_Plain = ([], [], 0, None), lm_Labels = None, lm_Annotations = None, lm_Finalizers = NilSlice,
       lm_DeletionTimestamp = None\<rparr>,
     zero_ListMeta = ([], None), zero_ResourceRequirements = (None, None),
     zero_Toleration = (\<lparr>tol_Key = [], tol_Operator = [], tol_Value = [], tol_Effect = []\<rparr>, None), range_visit = rev\<rparr>"

definition kube_views :: "(lib_meta, string \<times> addr option, addr option \<times> addr option, toleration \<times> addr option, lib_cell,
    string \<times> int64 option) lib_views" where
  "kube_views = \<lparr>ObjectMeta_view = lib_meta_view, ListMeta_view = pair_view flat_view int64_view,
     ResourceRequirements_view = val_view (\<lambda>(r, l). \<lparr>rr_Requests = no_entries r, rr_Limits = no_entries l\<rparr>)
       (pair_view quantities_view quantities_view),
     Toleration_view = val_view fst (pair_view flat_view int64_view), Time_view = time_view\<rparr>"

lemma time_deep_copy [deep_copies]: "deep_copy time_copy time_view"
  unfolding time_copy_def time_view_def by (intro deep_copy_box deep_copies) simp

lemma int64_deep_copy [deep_copies]: "deep_copy int64_copy int64_view"
  unfolding int64_copy_def int64_view_def by (intro deep_copy_box deep_copies) simp

lemma quantities_deep_copy [deep_copies]: "deep_copy quantities_copy quantities_view"
  unfolding quantities_copy_def quantities_view_def by (intro deep_copy_map deep_copies) simp_all

lemma lib_meta_deep_copy: "deep_copy lib_meta_copy lib_meta_view"
  unfolding lib_meta_copy_def lib_meta_view_def
  by (intro deep_copy_val deep_copy_struct deep_copies deep_copy_map deep_copy_array) auto

interpretation kube: api_machinery kube_lib kube_views
  unfolding api_machinery_def api_machinery_axioms_def kube_lib_def kube_views_def
  by (simp add: lib_meta_deep_copy deep_copies deep_copy_val)

section \<open>Properties\<close>

text \<open>
  Property C20. A \<^verbatim>\<open>DeepCopyObject\<close> call on any of the eight registered types returns the nil interface for a
  nil pointer, and then does nothing; otherwise it returns a non-nil pointer of the same type. The copy reads
  as the original down to the nil-ness of its slices and maps, lies in newly allocated cells only, leaves all
  old memory as it was, and is independent: writing to the cells of the copy cannot be seen through the
  original, and the other way round. The copy functions of the library types are assumed to be deep copies.
\<close>

theorem DeepCopyObject_separate:
  assumes "api_machinery L V" and "vw_ok (object_view V) h ob"
  shows "case run_state (DeepCopyObject L ob) h of
      (None, h') \<Rightarrow> object_pointer ob = None \<and> h' = h
    | (Some ob', h') \<Rightarrow> object_pointer ob \<noteq> None \<and> object_pointer ob' \<noteq> None \<and> separate_copy (object_view V) h ob ob' h'"
proof -
  note copies = api_machinery.pointer_deep_copies [OF assms(1)]
  have "object_copied V h ob (run_state (DeepCopyObject L ob) h)"
  proof (cases ob)
    case (ObjJob p)
    show ?thesis unfolding ObjJob DeepCopyObject.simps AcceleratorJob_DeepCopyObject_def
      by (rule object_copy_step [OF copies(1), where Ob = ObjJob and vl = JobValue])
        (use assms(2) in \<open>auto simp: AcceleratorJob_DeepCopy_def object_view_def ObjJob\<close>)
  next
    case (ObjJobList p)
    show ?thesis unfolding ObjJobList DeepCopyObject.simps AcceleratorJobList_DeepCopyObject_def
      by (rule object_copy_step [OF copies(2), where Ob = ObjJobList and vl = JobListValue])
        (use assms(2) in \<open>auto simp: AcceleratorJobList_DeepCopy_def object_view_def ObjJobList\<close>)
  next
    case (ObjPool p)
    show ?thesis unfolding ObjPool DeepCopyObject.simps AcceleratorPool_DeepCopyObject_def
      by (rule object_copy_step [OF copies(5), where Ob = ObjPool and vl = PoolValue])
        (use assms(2) in \<open>auto simp: AcceleratorPool_DeepCopy_def object_view_def ObjPool\<close>)
  next
    case (ObjPoolList p)
    show ?thesis unfolding ObjPoolList DeepCopyObject.simps AcceleratorPoolList_DeepCopyObject_def
      by (rule object_copy_step [OF copies(6), where Ob = ObjPoolList and vl = PoolListValue])
        (use assms(2) in \<open>auto simp: AcceleratorPoolList_DeepCopy_def object_view_def ObjPoolList\<close>)
  next
    case (ObjService p)
    show ?thesis unfolding ObjService DeepCopyObject.simps InferenceService_DeepCopyObject_def
      by (rule object_copy_step [OF copies(8), where Ob = ObjService and vl = ServiceValue])
        (use assms(2) in \<open>auto simp: InferenceService_DeepCopy_def object_view_def ObjService\<close>)
  next
    case (ObjServiceList p)
    show ?thesis unfolding ObjServiceList DeepCopyObject.simps InferenceServiceList_DeepCopyObject_def
      by (rule object_copy_step [OF copies(9), where Ob = ObjServiceList and vl = ServiceListValue])
        (use assms(2) in \<open>auto simp: InferenceServiceList_DeepCopy_def object_view_def ObjServiceList\<close>)
  next
    case (ObjQuota p)
    show ?thesis unfolding ObjQuota DeepCopyObject.simps QuotaPolicy_DeepCopyObject_def
      by (rule object_copy_step [OF copies(12), where Ob = ObjQuota and vl = QuotaValue])
        (use assms(2) in \<open>auto simp: QuotaPolicy_DeepCopy_def object_view_def ObjQuota\<close>)
  next
    case (ObjQuotaList p)
    show ?thesis unfolding ObjQuotaList DeepCopyObject.simps QuotaPolicyList_DeepCopyObject_def
      by (rule object_copy_step [OF copies(13), where Ob = ObjQuotaList and vl = QuotaListValue])
        (use assms(2) in \<open>auto simp: QuotaPolicyList_DeepCopy_def object_view_def ObjQuotaList\<close>)
  qed
  then show ?thesis by (simp add: object_copied_def case_prod_unfold split: option.splits)
qed
text \<open>A list with one job that uses every kind of reference.\<close>

definition sample_job :: "(lib_meta, addr option \<times> addr option) go_Job" where
  "sample_job = \<lparr>gj_TypeMeta = \<lparr>tm_Kind = ''AcceleratorJob'', tm_APIVersion = ''metalgrid.dev/v1alpha1''\<rparr>,
     gj_ObjectMeta = \<lparr>lm_Plain = (''train'', ''team-a'', 7, None), lm_Labels = Some 3, lm_Annotations = None,
       lm_Finalizers = Slice 0 0 1, lm_DeletionTimestamp = None\<rparr>,
     gj_Spec = (zero_JobSpec (None, Some 5))\<lparr>js_Image := ''mock:1'', js_Command := Slice 1 0 1, js_Args := Slice 1 1 2,
       js_TimeoutSeconds := Some 2\<rparr>,
     gj_Status = zero_JobStatus\<lparr>jt_Phase := AcceleratorJobRunning, jt_StartTime := Some 4\<rparr>\<rparr>"

definition sample_memory :: "kube_cell heap" where
  "sample_memory = \<lparr>hp_cells = (\<lambda>_. CInt64 0)(
       0 := CStrings [AcceleratorFinalizer], 1 := CStrings [''python'', ''train.py'', ''--fast''], 2 := CInt64 600,
       3 := CMap (DAList.update ''app'' ''trainer'' DAList.empty), 4 := CLib (LTime 9),
       5 := CLib (LQuantities (DAList.update ''cpu'' (Quantity 2) DAList.empty)),
       6 := CJobs [sample_job], 7 := CJobList \<lparr>li_TypeMeta = zero_TypeMeta, li_ListMeta = ([], None), li_Items = Slice 6 0 1\<rparr>),
     hp_next = 8\<rparr>"

lemma sample_ok: "vw_ok (object_view kube_views) sample_memory (ObjJobList (Some 7))"
  by (simp add: object_view_def pointer_view_def list_view_def job_view_def spec_view_def status_view_def kube_views_def
      lib_meta_view_def int64_view_def time_view_def quantities_view_def elem_at_def
      sample_memory_def sample_job_def zero_JobSpec_def zero_JobStatus_def)

theorem DeepCopyObject_separate_witness:
  "vw_ok (object_view kube_views) sample_memory (ObjJobList (Some 7)) \<and>
   (case run_state (DeepCopyObject kube_lib (ObjJobList (Some 7))) sample_memory of
      (None, h') \<Rightarrow> False
    | (Some ob', h') \<Rightarrow> object_pointer ob' \<noteq> None \<and>
        separate_copy (object_view kube_views) sample_memory (ObjJobList (Some 7)) ob' h')"
  using DeepCopyObject_separate [OF kube.api_machinery_axioms sample_ok] sample_ok by (auto split: prod.splits option.splits)

text \<open>For the other theories: the copy of a job is the same \<^verbatim>\<open>AcceleratorJob\<close>, and stays so.\<close>

lemma AcceleratorJob_DeepCopy_reads:
  assumes "api_machinery L V" and "vw_ok (pointer_view CJob the_job (job_view V)) h p"
    and "run_state (AcceleratorJob_DeepCopy L p) h = (q, h')"
  shows "job_at V h' q = job_at V h p"
    and "same_on (- vw_foot (pointer_view CJob the_job (job_view V)) h' q) h' h'' \<Longrightarrow> job_at V h'' p = job_at V h p"
    and "same_on (- vw_foot (pointer_view CJob the_job (job_view V)) h' p) h' h'' \<Longrightarrow> job_at V h'' q = job_at V h p"
proof -
  have "separate_copy (pointer_view CJob the_job (job_view V)) h p q h'"
    using deep_copy.copy_separate [OF api_machinery.pointer_deep_copies(1) [OF assms(1)] assms(2,3)] .
  then show "job_at V h' q = job_at V h p"
    and "same_on (- vw_foot (pointer_view CJob the_job (job_view V)) h' q) h' h'' \<Longrightarrow> job_at V h'' p = job_at V h p"
    and "same_on (- vw_foot (pointer_view CJob the_job (job_view V)) h' p) h' h'' \<Longrightarrow> job_at V h'' q = job_at V h p"
    unfolding separate_copy_def job_at_def by metis+
qed

end
