(* ===== verification/Api_Scheme.thy ===== *)
theory Api_Scheme
  imports Deep_Copy
begin

text \<open>
  Which types the API package and the operator register: \<^verbatim>\<open>groupversion_info.go\<close>, the \<^verbatim>\<open>init\<close> functions beside the
  types, and that of \<^verbatim>\<open>cmd/operator\<close>. The builder and the scheme are library code, a record of operations here.
\<close>

section \<open>Registration\<close>

type_synonym group_version = "string \<times> string"

record ('b, 's) scheme_lib =
  new_Builder :: "group_version \<Rightarrow> 'b"
  builder_Register :: "'b \<Rightarrow> string list \<Rightarrow> 'b"
  builder_AddToScheme :: "'b \<Rightarrow> 's \<Rightarrow> go_error option \<times> 's"
  new_Scheme :: 's
  clientgo_AddToScheme :: "'s \<Rightarrow> go_error option \<times> 's"

definition GroupVersion :: group_version where
  "GroupVersion = (''metalgrid.dev'', ''v1alpha1'')"

definition SchemeBuilder :: "('b, 's) scheme_lib \<Rightarrow> 'b" where
  "SchemeBuilder B = new_Builder B GroupVersion"

text \<open>A type is registered under its Go name.\<close>

definition acceleratorjob_init :: "('b, 's) scheme_lib \<Rightarrow> 'b \<Rightarrow> 'b" where
  "acceleratorjob_init B b = builder_Register B b [''AcceleratorJob'', ''AcceleratorJobList'']"

definition acceleratorpool_init :: "('b, 's) scheme_lib \<Rightarrow> 'b \<Rightarrow> 'b" where
  "acceleratorpool_init B b = builder_Register B b [''AcceleratorPool'', ''AcceleratorPoolList'']"

definition inferenceservice_init :: "('b, 's) scheme_lib \<Rightarrow> 'b \<Rightarrow> 'b" where
  "inferenceservice_init B b = builder_Register B b [''InferenceService'', ''InferenceServiceList'']"

definition quotapolicy_init :: "('b, 's) scheme_lib \<Rightarrow> 'b \<Rightarrow> 'b" where
  "quotapolicy_init B b = builder_Register B b [''QuotaPolicy'', ''QuotaPolicyList'']"

text \<open>
  What is left in \<^verbatim>\<open>SchemeBuilder\<close> when the package is initialised: the variable first, then the \<^verbatim>\<open>init\<close> functions in
  the order of the file names. The method value \<^verbatim>\<open>AddToScheme\<close> is bound to the pointer, so it sees all of them.
\<close>

definition v1alpha1_builder :: "('b, 's) scheme_lib \<Rightarrow> 'b" where
  "v1alpha1_builder B =
     quotapolicy_init B (inferenceservice_init B (acceleratorpool_init B (acceleratorjob_init B (SchemeBuilder B))))"

definition v1alpha1_AddToScheme :: "('b, 's) scheme_lib \<Rightarrow> 's \<Rightarrow> go_error option \<times> 's" where
  "v1alpha1_AddToScheme B = builder_AddToScheme B (v1alpha1_builder B)"

text \<open>\<^verbatim>\<open>utilruntime.Must\<close> panics on an error.\<close>

definition must :: "go_error option \<times> 's \<Rightarrow> go_error + 's" where
  "must r = (case fst r of Some e \<Rightarrow> Inl (Panic (error_text e)) | None \<Rightarrow> Inr (snd r))"

definition operator_init :: "('b, 's) scheme_lib \<Rightarrow> go_error + 's" where
  "operator_init B = (case must (clientgo_AddToScheme B (new_Scheme B)) of
       Inl e \<Rightarrow> Inl e
     | Inr s \<Rightarrow> must (v1alpha1_AddToScheme B s))"

section \<open>What the operator's scheme knows\<close>

text \<open>
  The contract of the library: a builder keeps what was registered with it, and adding it to a scheme makes
  exactly these types known under the group and version of the builder, or fails.
\<close>

locale scheme_library =
  fixes B :: "('b, 's) scheme_lib" and version :: "'b \<Rightarrow> group_version" and registered :: "'b \<Rightarrow> string set"
    and known :: "'s \<Rightarrow> (group_version \<times> string) set"
  assumes new_version: "version (new_Builder B gv) = gv"
    and new_registered: "registered (new_Builder B gv) = {}"
    and register_version: "version (builder_Register B b ts) = version b"
    and register_registered: "registered (builder_Register B b ts) = registered b \<union> set ts"
    and add_known: "builder_AddToScheme B b s = (None, s') \<Longrightarrow> known s' = known s \<union> {version b} \<times> registered b"
begin

lemma builder_complete:
  "version (v1alpha1_builder B) = GroupVersion"
  "registered (v1alpha1_builder B) = {''AcceleratorJob'', ''AcceleratorJobList'', ''AcceleratorPool'', ''AcceleratorPoolList'',
     ''InferenceService'', ''InferenceServiceList'', ''QuotaPolicy'', ''QuotaPolicyList''}"
  by (auto simp: v1alpha1_builder_def quotapolicy_init_def inferenceservice_init_def acceleratorpool_init_def
      acceleratorjob_init_def SchemeBuilder_def new_version new_registered register_version register_registered)

end

text \<open>The Go type behind a \<^verbatim>\<open>runtime.Object\<close> of this package.\<close>

fun object_type :: "runtime_object \<Rightarrow> string" where
  "object_type (ObjJob p) = ''AcceleratorJob''"
| "object_type (ObjJobList p) = ''AcceleratorJobList''"
| "object_type (ObjPool p) = ''AcceleratorPool''"
| "object_type (ObjPoolList p) = ''AcceleratorPoolList''"
| "object_type (ObjService p) = ''InferenceService''"
| "object_type (ObjServiceList p) = ''InferenceServiceList''"
| "object_type (ObjQuota p) = ''QuotaPolicy''"
| "object_type (ObjQuotaList p) = ''QuotaPolicyList''"

text \<open>
  An operator that gets past its initialisation knows every type that can be copied through the interface,
  and what client-go brought along.
\<close>

context scheme_library
begin

lemma operator_scheme_complete:
  assumes "operator_init B = Inr s"
  shows "(GroupVersion, object_type ob) \<in> known s"
    and "\<exists>s0. clientgo_AddToScheme B (new_Scheme B) = (None, s0) \<and> known s0 \<subseteq> known s"
proof -
  obtain s0 where s0: "clientgo_AddToScheme B (new_Scheme B) = (None, s0)"
    and s: "builder_AddToScheme B (v1alpha1_builder B) s0 = (None, s)"
    using assms
    by (cases "clientgo_AddToScheme B (new_Scheme B)", cases "v1alpha1_AddToScheme B (snd (clientgo_AddToScheme B (new_Scheme B)))")
      (auto simp: operator_init_def must_def v1alpha1_AddToScheme_def split: option.splits sum.splits)
  from add_known [OF s] show "(GroupVersion, object_type ob) \<in> known s"
    by (cases ob) (simp_all add: builder_complete)
  from add_known [OF s] s0 show "\<exists>s0. clientgo_AddToScheme B (new_Scheme B) = (None, s0) \<and> known s0 \<subseteq> known s" by blast
qed

end

text \<open>Builders and schemes as lists.\<close>

definition list_scheme_lib :: "(group_version \<times> string list, (group_version \<times> string) list) scheme_lib" where
  "list_scheme_lib = \<lparr>new_Builder = \<lambda>gv. (gv, []), builder_Register = \<lambda>b ts. (fst b, snd b @ ts),
     builder_AddToScheme = \<lambda>b s. (None, s @ map (Pair (fst b)) (snd b)), new_Scheme = [],
     clientgo_AddToScheme = \<lambda>s. (None, s @ [(('''', ''v1''), ''Pod'')])\<rparr>"

interpretation list_scheme: scheme_library list_scheme_lib fst "set \<circ> snd" set
  by unfold_locales (auto simp: list_scheme_lib_def)

lemma list_scheme_starts: "\<exists>s. operator_init list_scheme_lib = Inr s \<and> (GroupVersion, ''QuotaPolicy'') \<in> set s"
  using list_scheme.operator_scheme_complete(1) [of _ "ObjQuota None"]
  by (simp add: operator_init_def must_def list_scheme_lib_def v1alpha1_AddToScheme_def)

end
