(* ===== verification/Spec2Isabelle.thy ===== *)
theory Spec2Isabelle
  imports Job_Liveness Scheduler Fair_Queue Admission Submission Grpc_Api Dead_Letters Mock_Inference Device_Plugin
    Api_Main Operator_Main Cmd_Tools Deep_Copy_Laws Api_Scheme
begin

text \<open>
  MetalGrid schedules accelerator jobs on Kubernetes. This development models its Go code under
  \<^verbatim>\<open>src/\<close> and proves what makes each part correct, alone and together.

  \<^bold>\<open>The program.\<close> Clients submit jobs over REST (\<^verbatim>\<open>internal/api\<close>) or gRPC (\<^verbatim>\<open>internal/grpcapi\<close>); both call
  the job service (\<^verbatim>\<open>internal/service\<close>), which records a job in Postgres (\<^verbatim>\<open>internal/store\<close>) and
  publishes a message to a NATS stream (\<^verbatim>\<open>internal/queue\<close>). The operator (\<^verbatim>\<open>cmd/operator\<close>) consumes the
  stream fairly across teams and turns each message into an AcceleratorJob
  (\<^verbatim>\<open>internal/controller/submission.go\<close>), subject to the quota webhook (\<^verbatim>\<open>internal/webhook\<close>). The
  AcceleratorJob reconciler creates the pods of the gang, follows their phases and retries failures;
  the InferenceService reconciler keeps a Deployment and a Service per model
  (\<^verbatim>\<open>internal/controller\<close>). The scheduler extender (\<^verbatim>\<open>internal/scheduler\<close>) scores nodes and holds gangs
  back until they fit; the device plugin (\<^verbatim>\<open>cmd/devplugin\<close>) advertises mock devices and
  \<^verbatim>\<open>cmd/mockinference\<close> stands in for a model server.

  \<^bold>\<open>Conventions.\<close> A Go function that talks to the outside is an \<open>('w, 'a) eff\<close>: a state transformer on a
  world \<open>'w\<close> with an error or a value as result, so every early return is a branch of the definition.
  Structs are records with one field per Go field, integers keep their width (\<open>int32\<close>, \<open>int64\<close>,
  \<open>goint\<close>), instants are nanoseconds. What is not under \<^verbatim>\<open>src/\<close> (the Kubernetes client, Postgres, NATS,
  the JWT library, the token bucket, the kubelet) is a record of operations handed to the definitions;
  what a theorem needs of it is a law of a locale, and each locale is interpreted on a reference
  implementation on which the witnesses run. Log lines and trace spans are left out.

  \<^bold>\<open>Theories.\<close>
  \<^item> \<open>Prelude\<close>: machine integers, errors, effects, decimal texts, HTTP replies. \<open>Api_Types\<close>: the custom
    resources of \<^verbatim>\<open>api/v1alpha1\<close> and the Kubernetes types in use. \<open>Kube_Client\<close>: the API client and its
    contract \<open>kube_contract\<close>; \<open>Mem_Cluster\<close>: a server in memory with injected faults that keeps it.
  \<^item> \<open>Job_Controller\<close>: \<^verbatim>\<open>acceleratorjob_controller.go\<close>, from pod construction to \<open>Reconcile\<close>.
    \<open>Job_Lifecycle\<close> and \<open>Job_Properties\<close>: every status write is a step of the state machine
    \<open>status_step\<close>, its invariant, the gang as a whole, retries and their end. \<open>Job_Liveness\<close>: with finitely
    many faults, reconciling again and again seats the gang.
  \<^item> \<open>Scheduler\<close>: \<^verbatim>\<open>score.go\<close> and \<^verbatim>\<open>extender.go\<close>; exact accounting of nodes and gangs, score bounds.
  \<^item> \<open>Fair_Queue\<close>: \<^verbatim>\<open>queue.go\<close>; the interleaving is a fair permutation and equals a round robin; every
    delivery is settled exactly once. \<open>Submission\<close>: the handler and the operator's runnables.
  \<^item> \<open>Admission\<close>: the webhook; the quota invariant over histories, and the wrap-around it misses.
  \<^item> \<open>Go_Time\<close>, \<open>Cursor\<close>, \<open>Store\<close>: the calendar and the time formats, the page tokens, the SQL statements
    over tables; table invariant, idempotent insert, token round trip.
  \<^item> \<open>Service\<close>: \<^verbatim>\<open>job_service.go\<close>; idempotent creation, well-formed rows, complete paging.
  \<^item> \<open>Rate_Limit\<close>, \<open>Rest_Api\<close>: \<^verbatim>\<open>internal/api\<close>; tenant isolation of reads and deletions, authentication,
    independence of the teams' buckets. \<open>Grpc_Api\<close>: the gRPC methods and their agreement with REST.
    \<open>Dead_Letters\<close>: what the consumer gives up on is what the dead-letter listing shows.
  \<^item> \<open>Inference_Controller\<close>: the reconciler as a refinement of \<open>inference_spec\<close>, stability of its result
    and convergence under finitely many faults. \<open>Mock_Inference\<close>: the default model server.
  \<^item> \<open>Device_Plugin\<close>: \<^verbatim>\<open>cmd/devplugin\<close>; what a plugin that starts up advertises.
  \<^item> \<open>Runtime\<close>: the queue connection, the database pool, tracing (\<^verbatim>\<open>internal/tracing\<close>) and the collectors
    (\<^verbatim>\<open>internal/metrics\<close>). \<open>Api_Main\<close>, \<open>Operator_Main\<close>, \<open>Cmd_Tools\<close>: the \<^verbatim>\<open>main\<close> functions; the API server
    comes up whole and guarded or not at all, its shutdown cuts requests off, the operator starts its
    manager only when everything is registered, minted tokens authenticate.
  \<^item> \<open>Go_Heap\<close>: memory with pointers, slices and maps, what a deep copy is, and how deep copies are put
    together. \<open>Deep_Copy\<close>: the functions of \<^verbatim>\<open>zz_generated.deepcopy.go\<close> over it; \<open>Deep_Copy_Laws\<close>: they are deep
    copies, for whatever deep copies the library makes of its own structs. This is what lets the other
    theories treat the objects they read and write as values. \<open>Api_Scheme\<close>: the registration of the types; an
    operator that gets past its initialisation knows every type that can be behind the interface.
  \<^item> This theory: from a creation at the API to the AcceleratorJob in the cluster, and from the queued
    submission to the pod.

  \<^bold>\<open>Locales.\<close> \<open>kube_contract\<close> and \<open>job_creation\<close> (API server), \<open>inference_contract\<close> and \<open>inference_live\<close>
  (the same for the inference reconciler, with a budget of faults), \<open>kube_live\<close> (\<open>kube_contract\<close> with such
  a budget), \<open>operator_cluster\<close> (both contracts, for the operator as a whole), \<open>pod_lister\<close> (the extender's client), \<open>dead_letters\<close> (the dead-letter subject),
  \<open>nats_resources\<close> and \<open>api_resources\<close> (what a process holds open), \<open>jwt_library\<close> (tokens), \<open>grouped\<close> (messages by team), \<open>strict_total\<close> and \<open>collation\<close> (row orders), \<open>pg_laws\<close> and
  \<open>steady_pg\<close> (Postgres), \<open>service_env\<close> and \<open>publishing\<close> (the service's surroundings),
  \<open>deep_copy\<close> with \<open>copy_pair\<close>, \<open>copy_struct\<close>, \<open>copy_cell\<close>, \<open>copy_slice\<close>, \<open>copy_array\<close> and \<open>copy_map\<close> (copies of parts
  and of the whole), \<open>api_machinery\<close> (the library's copies), \<open>scheme_library\<close> (the registry of types).

  \<^bold>\<open>Loops.\<close> Recursion is structural or has a measure, with these exceptions. The consumer of the queue and
  the metrics poller run until they are cancelled: \<open>ConsumeFairShare\<close> and \<open>metricsPoller_Start\<close> take a
  number of iterations, and the consumer's theorems are about one batch, which is what an iteration
  handles. \<open>walk_jobs\<close> (a client following page tokens), \<open>requeue\<close> and \<open>settle\<close> (the framework's retries of
  the two reconcilers) take a number of requests, and their theorems give a number that is enough: one
  more than there are jobs, one more than there are faults, two more than there are faults. The API
  server's goroutines are the step relation \<open>api_step\<close>.

  \<^bold>\<open>Bounds.\<close> \<open>scoreNode\<close> and the extender's totals are stated for capacities whose tenfold fits 64 bits,
  \<open>checkQuota_decides\<close> for sums that fit 32 bits; \<open>checkQuota_admits_overflow\<close> shows what happens beyond.
  Page tokens round-trip for instants between year 1 and year 9999, which is what the time format can
  express.

  \<^bold>\<open>Not modelled.\<close> The generated protobuf bindings, the parsing of command lines and of
  floats (their results are parameters), log lines and trace spans (only the trace parent is carried), the
  texts of JSON documents (bodies and payloads are taken as decoded or undecodable), and the concurrent
  interleaving of requests inside one handler: each operation runs to its end, while calls to the outside
  may change the world arbitrarily.
\<close>

section \<open>From the API to the cluster\<close>

text \<open>
  The queue as the service sees it: a successful publish appends the message, and nothing else the
  service calls touches it.
\<close>

locale publishing = service_env S q for S :: "'w JobService" and q :: "'w \<Rightarrow> (string \<times> payload) list" +
  assumes publish_q: "fst (run_state (js_publish (svc_Queue S) s p i) w) = Inr u \<Longrightarrow>
      q (snd (run_state (js_publish (svc_Queue S) s p i) w)) = q w @ [(s, p)]"
    and trace_q: "q (snd (run_state (svc_traceparent S) w)) = q w"
    and count_q: "q (snd (run_state (svc_JobsCreatedTotal S t) w)) = q w"
begin

lemma audit_q: "q (snd (run_state (RecordAudit (svc_Store S) j t a) w)) = q w"
  by (simp add: RecordAudit_def split_beta statement_q)

lemma enqueue_publishes:
  assumes "run_state (enqueue_new S inp key rec) w = (Inr job, w')"
  shows "\<exists>tp. q w' = q w @ [(SubmitSubj, json_Marshal \<lparr>sub_ID = jr_ID rec, sub_Team = jr_Team rec, sub_Image = jr_Image rec,
     sub_Command = in_Command inp, sub_Args = in_Args inp, sub_AcceleratorType = jr_AcceleratorType rec,
     sub_AcceleratorCount = jr_AcceleratorCount rec, sub_Priority = jr_Priority rec, sub_TraceParent = tp\<rparr>)]"
  using assms publish_q
  by (fastforce simp: enqueue_new_def Publish_def split_beta Let_def audit_q count_q trace_q split: sum.splits)

text \<open>A row that comes back under the new id is the one just inserted.\<close>

lemma create_new_row:
  assumes "run_state (store_CreateJob (svc_Store S) rec) w = (Inr r, w')" and "jr_ID r = jr_ID rec"
    and "jr_ID rec \<notin> jr_ID ` set (db_jobs (pg_db (svc_Store S) w))"
  shows "\<exists>now. r = rec\<lparr>jr_Status := ''Pending'', jr_CreatedAt := now, jr_UpdatedAt := now\<rparr>"
proof -
  from create_leaves_row [OF assms(1)] have "r \<in> set (db_jobs (pg_db (svc_Store S) w'))" by simp
  moreover have "pg_db (svc_Store S) w' = pg_db (svc_Store S) (snd (run_state (statement (svc_Store S) (insert_job_sql rec)) w))"
    using store_CreateJob_db [of rec w] assms(1) by simp
  ultimately have "\<exists>now. r \<in> set (db_jobs (pg_db (svc_Store S) w)) \<or>
      r \<in> set (db_jobs (snd (insert_job_sql rec now (pg_db (svc_Store S) w))))"
    using statement_db [of "insert_job_sql rec" w] by metis
  moreover have "r \<notin> set (db_jobs (pg_db (svc_Store S) w))" using assms(2,3) by (metis imageI)
  ultimately show ?thesis by (auto simp: insert_job_sql_def Let_def split: if_splits)
qed

lemma CreateJob_publishes:
  assumes "run_state (CreateJob S inp) w = (Inr job, w')"
  shows "q w' = q w \<or>
     (\<exists>tp. q w' = q w @ [(SubmitSubj, json_Marshal \<lparr>sub_ID = sj_ID job, sub_Team = in_Team inp, sub_Image = in_Image inp,
        sub_Command = in_Command inp, sub_Args = in_Args inp, sub_AcceleratorType = in_AcceleratorType inp,
        sub_AcceleratorCount = in_AcceleratorCount inp, sub_Priority = in_Priority inp, sub_TraceParent = tp\<rparr>)])"
proof -
  let ?k = "run_state (if in_IdempotencyKey inp = '''' then svc_uuid S else ret (in_IdempotencyKey inp)) w"
  let ?u = "run_state (svc_uuid S) (snd ?k)"
  let ?i = "''job-'' @ fst ?u"
  let ?rec = "\<lparr>jr_ID = ?i, jr_IdempotencyKey = fst ?k, jr_Team = in_Team inp, jr_Image = in_Image inp,
      jr_AcceleratorType = in_AcceleratorType inp, jr_AcceleratorCount = in_AcceleratorCount inp,
      jr_Priority = in_Priority inp, jr_Status = '''', jr_CreatedAt = 0, jr_UpdatedAt = 0\<rparr> :: JobRecord"
  let ?c = "run_state (store_CreateJob (svc_Store S) ?rec) (snd ?u)"
  have qc: "q (snd ?c) = q w" by (simp add: store_create_q uuid_q)
  from assms obtain r where r: "fst ?c = Inr r"
    and rest: "run_state (if jr_ID r = ?i then enqueue_new S inp (fst ?k) r else ret (Inr (jobFromRecord r))) (snd ?c) = (Inr job, w')"
    by (cases "fst ?c") (auto simp: CreateJob_def split_beta Let_def split: sum.splits)
  show ?thesis
  proof (cases "jr_ID r = ?i")
    case True
    have "?c = (Inr r, snd ?c)" using r by (metis prod.collapse)
    moreover have "?i \<notin> jr_ID ` set (db_jobs (pg_db (svc_Store S) (snd ?u)))"
      using uuid_new [of "snd ?k"] by (simp add: uuid_db)
    ultimately obtain now where "r = ?rec\<lparr>jr_Status := ''Pending'', jr_CreatedAt := now, jr_UpdatedAt := now\<rparr>"
      using create_new_row [of ?rec "snd ?u" r "snd ?c"] True by auto
    then have row: "jr_Team r = in_Team inp" "jr_Image r = in_Image inp" "jr_AcceleratorType r = in_AcceleratorType inp"
      "jr_AcceleratorCount r = in_AcceleratorCount inp" "jr_Priority r = in_Priority inp"
      by simp_all
    have run: "run_state (enqueue_new S inp (fst ?k) r) (snd ?c) = (Inr job, w')" using rest True by simp
    have "sj_ID job = jr_ID r" using enqueue_result [OF run] by (simp add: jobFromRecord_def)
    with enqueue_publishes [OF run] show ?thesis by (auto simp only: qc row)
  next
    case False
    with rest qc show ?thesis by simp
  qed
qed

end

interpretation sys: publishing sys_service sys_stream
  by unfold_locales
    (auto simp: sys_service_def sys_jetstream_def sys_publish_def split: list.splits bool.splits)



section \<open>From the queue to the pod\<close>

text \<open>
  What the operator relies on of the API server: both contracts, and that a created job starts out fresh. The
  status subresource drops a status on creation, a new object is not being deleted, a pool is not
  invented, and a gang size that was left out defaults to one.
\<close>

locale operator_cluster = kube_live K view budget + job_creation K view
  for K :: "'w kube" and view :: "'w \<Rightarrow> cluster" and budget :: "'w \<Rightarrow> nat" +
  assumes create_job_fresh: "fst (run_state (k_create_job K j) w) = Inr u \<Longrightarrow> job_Status j = zero_status \<Longrightarrow>
      om_DeletionTimestamp (job_Meta j) = None \<Longrightarrow> spec_GangSize (job_Spec j) = 0 \<Longrightarrow>
      cl_jobs (view (snd (run_state (k_create_job K j) w))) (job_key j) = Some q \<Longrightarrow>
        job_Status q = zero_status \<and> om_DeletionTimestamp (job_Meta q) = None \<and>
        spec_Pool (job_Spec q) = spec_Pool (job_Spec j) \<and> sint (spec_GangSize (job_Spec q)) \<le> 1"
begin

lemma submission_seatable:
  assumes run: "run_state (SubmissionHandler K ns (Encoded sub)) w = (Inr u, w')"
    and new: "cl_jobs (view w) (ns, sub_ID sub) = None" and free: "cl_pods (view w) (ns, sub_ID sub) = None"
  obtains q where "seatable q (view w')" "job_key q = (ns, sub_ID sub)" "sint (spec_GangSize (job_Spec q)) \<le> 1"
proof -
  let ?j = "submission_job ns sub"
  let ?c = "run_state (k_create_job K ?j) w"
  have key: "job_key ?j = (ns, sub_ID sub)" by (simp add: submission_job_def meta_of_def)
  from submission_creates [OF run] new obtain q where q: "same_request ?j q"
    and w': "view w' = (view w)\<lparr>cl_jobs := (cl_jobs (view w))((ns, sub_ID sub) \<mapsto> q)\<rparr>" by blast
  have snd_c: "w' = snd ?c" using run by (auto simp: SubmissionHandler_def split_beta)
  obtain v where "fst ?c = Inr v"
  proof (cases "fst ?c")
    case (Inl e)
    with create_job_fails [OF Inl] w' new show ?thesis by (auto simp: snd_c fun_upd_idem_iff dest: arg_cong [of _ _ "\<lambda>v. cl_jobs v (ns, sub_ID sub)"])
  qed
  moreover have "cl_jobs (view (snd ?c)) (job_key ?j) = Some q" using w' snd_c key by simp
  ultimately have fresh: "job_Status q = zero_status" "om_DeletionTimestamp (job_Meta q) = None"
    "spec_Pool (job_Spec q) = ''''" "sint (spec_GangSize (job_Spec q)) \<le> 1"
    using create_job_fresh [of ?j w v q] by (simp_all add: submission_job_def zero_spec_def meta_of_def)
  have qkey: "job_key q = (ns, sub_ID sub)" using q key by (simp add: same_request_def)
  then have "seatable q (view w')"
    using fresh free w' by (simp add: seatable_def zero_status_def is_terminal_def podName_def)
  with qkey fresh(4) show thesis using that by blast
qed

end

interpretation memo: operator_cluster mem_kube mem_view "\<lambda>w. length (mem_faults w)"
proof (unfold_locales, goal_cases)
  case (1 j w u q)
  then show ?case
    by (auto simp: mem_ops mem_create_job_def mem_view_def lookup_by_append split: list.splits if_splits option.splits)
qed

text \<open>Property C5. A queued submission gets its pod: once the operator has handled a new submission, a
  redelivery of the message changes nothing, and reconciling its job settles within two more attempts than
  the API server still has faults, with the pod of the job in the cluster.\<close>

theorem submitted_job_is_seated:
  assumes "operator_cluster K view budget"
    and "run_state (SubmissionHandler K ns (json_Marshal sub)) w = (Inr u, w1)"
    and "cl_jobs (view w) (ns, sub_ID sub) = None" and "cl_pods (view w) (ns, sub_ID sub) = None"
    and "run_state (settle (budget w1 + 2) K ns (sub_ID sub)) w1 = (quiet, w2)"
  shows "view (snd (run_state (SubmissionHandler K ns (json_Marshal sub)) w1)) = view w1 \<and>
     quiet \<and> (ns, sub_ID sub) \<in> dom (cl_pods (view w2))"
proof -
  have creation: "job_creation K view" and live: "kube_live K view budget"
    using assms(1) by (simp_all add: operator_cluster_def)
  obtain q where q: "seatable q (view w1)" "job_key q = (ns, sub_ID sub)" "sint (spec_GangSize (job_Spec q)) \<le> 1"
    using operator_cluster.submission_seatable [OF assms(1)] assms(2-4) by (metis json_Marshal_def)
  then have "cl_jobs (view w1) (ns, sub_ID sub) \<noteq> None" by (simp add: seatable_def)
  have names: "job_Namespace q = ns" "job_Name q = sub_ID sub" using q(2) by simp_all
  have run: "run_state (settle (budget w1 + 2) K (job_Namespace q) (job_Name q)) w1 = (quiet, w2)"
    unfolding names by (rule assms(5))
  have "view (snd (run_state (SubmissionHandler K ns (json_Marshal sub)) w1)) = view w1"
    unfolding json_Marshal_def by (rule job_creation.submission_again [OF creation \<open>cl_jobs (view w1) (ns, sub_ID sub) \<noteq> None\<close>])
  moreover have "quiet \<and> (\<lambda>i. (job_Namespace q, podName q (word_of_nat i))) ` set (gang_indices q) \<subseteq> dom (cl_pods (view w2))"
    using kube_live.settle_seats [OF live q(1) _ run] by simp
  moreover have "0 \<in> set (gang_indices q)" by (simp add: gang_indices_set)
  moreover have "(job_Namespace q, podName q (word_of_nat 0)) = (ns, sub_ID sub)" using q(3) by (simp add: podName_def names)
  ultimately show ?thesis by (metis image_subset_iff)
qed

theorem submitted_job_is_seated_witness:
  "(''default'', ''j'') \<in> dom (cl_pods (mem_view (snd (run_state (settle 2 mem_kube ''default'' ''j'')
     (mem_empty\<lparr>mem_jobs := [submission_job ''default'' example_submission]\<rparr>)))))"
proof -
  let ?w1 = "mem_empty\<lparr>mem_jobs := [submission_job ''default'' example_submission]\<rparr>"
  let ?run = "run_state (settle 2 mem_kube ''default'' ''j'') ?w1"
  have empty: "cl_jobs (mem_view mem_empty) k = None" "cl_pods (mem_view mem_empty) k = None" for k
    by (simp_all add: mem_view_def mem_empty_def lookup_by_def)
  have "run_state (settle (length (mem_faults ?w1) + 2) mem_kube ''default'' (sub_ID example_submission)) ?w1 = (fst ?run, snd ?run)"
    by (simp add: example_submission_def mem_empty_def numeral_2_eq_2 del: settle.simps)
  from submitted_job_is_seated [OF memo.operator_cluster_axioms example_submission_runs empty(1) empty(2) this]
  show ?thesis by (simp add: example_submission_def del: settle.simps)
qed

end
